(* ===== verification/Go_Prelude.thy ===== *)
theory Go_Prelude
  imports Main "HOL-Library.Word" "HOL-Library.List_Lexorder" "HOL-Library.Char_ord"
    "HOL-Library.Sublist"
begin

text \<open>
  The fragment of the Go language and of its standard library that DISTORT relies on:
  \<open>int64\<close> arithmetic with its wrap-around, truncating division, byte strings
  with the functions of packages \<^verbatim>\<open>strings\<close>, \<^verbatim>\<open>strconv\<close> and \<^verbatim>\<open>path/filepath\<close>.

  A Go string is a byte sequence; here it is a \<^typ>\<open>string\<close>, a list of 8-bit characters.
  Case mapping and white space are those of ASCII: names, serial numbers, PCI addresses,
  NQNs and file systems of the program are ASCII texts. A Go call that returns
  \<^verbatim>\<open>(value, error)\<close> is a function into a sum: \<open>Inl\<close> is the error.

  The collection \<open>int64_simps\<close> removes the wrap-around of operations whose exact
  result is in range; \<open>go_string_simps\<close> evaluates string functions.
\<close>

named_theorems int64_simps
named_theorems go_string_simps

section \<open>64-bit integers\<close>

text \<open>An \<^verbatim>\<open>int64\<close> is kept as an integer; every operation wraps to 64 bits in two's
  complement, and division truncates towards zero.\<close>

definition MaxInt64 :: int where
  "MaxInt64 = 9223372036854775807"

definition MinInt64 :: int where
  "MinInt64 = - 9223372036854775808"

definition is_int64 :: "int \<Rightarrow> bool" where
  "is_int64 x \<longleftrightarrow> MinInt64 \<le> x \<and> x \<le> MaxInt64"

definition to_int64 :: "int \<Rightarrow> int" where
  "to_int64 x = (x + 9223372036854775808) mod 18446744073709551616 - 9223372036854775808"

definition quot :: "int \<Rightarrow> int \<Rightarrow> int" where
  "quot a b = sgn a * sgn b * (\<bar>a\<bar> div \<bar>b\<bar>)"

definition add64 :: "int \<Rightarrow> int \<Rightarrow> int" where
  "add64 a b = to_int64 (a + b)"

definition sub64 :: "int \<Rightarrow> int \<Rightarrow> int" where
  "sub64 a b = to_int64 (a - b)"

definition mul64 :: "int \<Rightarrow> int \<Rightarrow> int" where
  "mul64 a b = to_int64 (a * b)"

definition div64 :: "int \<Rightarrow> int \<Rightarrow> int" where
  "div64 a b = to_int64 (quot a b)"

definition rem64 :: "int \<Rightarrow> int \<Rightarrow> int" where
  "rem64 a b = to_int64 (a - quot a b * b)"

lemma to_int64_id [int64_simps]: "is_int64 x \<Longrightarrow> to_int64 x = x"
  by (simp add: is_int64_def to_int64_def MinInt64_def MaxInt64_def)

lemma is_int64_to_int64 [simp]: "is_int64 (to_int64 x)"
proof -
  have "0 \<le> (x + 9223372036854775808) mod 18446744073709551616"
    and "(x + 9223372036854775808) mod 18446744073709551616 < 18446744073709551616"
    by simp_all
  then show ?thesis
    by (simp add: is_int64_def to_int64_def MinInt64_def MaxInt64_def)
qed

lemma to_int64_signed_take_bit: "to_int64 x = signed_take_bit 63 x"
  by (simp add: to_int64_def signed_take_bit_eq_take_bit_shift take_bit_eq_mod)

text \<open>The same operation read through the 64-bit machine word of \<^verbatim>\<open>HOL-Library\<close>.\<close>

lemma to_int64_word: "to_int64 x = sint (word_of_int x :: 64 word)"
  by (simp add: to_int64_signed_take_bit sint_sbintrunc')

lemma quot_nonneg [int64_simps]: "0 \<le> a \<Longrightarrow> 0 < b \<Longrightarrow> quot a b = a div b"
  by (cases "a = 0") (simp_all add: quot_def)

lemma add64_exact [int64_simps]: "is_int64 (a + b) \<Longrightarrow> add64 a b = a + b"
  by (simp add: add64_def to_int64_id)

lemma sub64_exact [int64_simps]: "is_int64 (a - b) \<Longrightarrow> sub64 a b = a - b"
  by (simp add: sub64_def to_int64_id)

lemma mul64_exact [int64_simps]: "is_int64 (a * b) \<Longrightarrow> mul64 a b = a * b"
  by (simp add: mul64_def to_int64_id)

lemma is_int64_between:
  "is_int64 a \<Longrightarrow> is_int64 b \<Longrightarrow> a \<le> x \<Longrightarrow> x \<le> b \<Longrightarrow> is_int64 x"
  by (simp add: is_int64_def)

lemma is_int64_0 [simp]: "is_int64 0"
  by (simp add: is_int64_def MinInt64_def MaxInt64_def)

lemma div64_exact [int64_simps]:
  assumes "0 \<le> a" and "0 < b" and "is_int64 a"
  shows "div64 a b = a div b"
proof -
  have "0 \<le> a div b" and "a div b \<le> a"
    using assms by (simp_all add: pos_imp_zdiv_nonneg_iff zdiv_mono2 [of a 1 b, simplified])
  then have "is_int64 (a div b)"
    using assms(3) by (rule_tac is_int64_between [of 0 a]) auto
  with assms show ?thesis by (simp add: div64_def quot_nonneg to_int64_id)
qed

lemma rem64_exact [int64_simps]:
  assumes "0 \<le> a" and "0 < b" and "is_int64 a"
  shows "rem64 a b = a mod b"
proof -
  have eq: "a - a div b * b = a mod b"
    by (simp add: minus_div_mult_eq_mod)
  have "0 \<le> a mod b" and "a mod b \<le> a"
    using assms by (simp_all add: zmod_le_nonneg_dividend)
  then have "is_int64 (a mod b)"
    using assms(3) by (rule_tac is_int64_between [of 0 a]) auto
  with assms show ?thesis by (simp add: rem64_def quot_nonneg eq to_int64_id)
qed

end
