(* ===== verification/Go_Strings.thy ===== *)
theory Go_Strings
  imports Go_Prelude
begin

text \<open>
  The functions of the Go packages \<^verbatim>\<open>strings\<close>, \<^verbatim>\<open>strconv\<close> and \<^verbatim>\<open>path/filepath\<close> that the
  program calls, on byte strings, with the lemmas the components share: splitting
  undoes joining, decimal parsing undoes printing, a cleaned path is canonical.
\<close>

section \<open>Package strings\<close>

definition is_space :: "char \<Rightarrow> bool" where
  "is_space c \<longleftrightarrow> (let n = of_char c :: nat in (9 \<le> n \<and> n \<le> 13) \<or> n = 32)"

definition TrimSpace :: "string \<Rightarrow> string" where
  "TrimSpace s = rev (dropWhile is_space (rev (dropWhile is_space s)))"

definition Trim_char :: "char \<Rightarrow> string \<Rightarrow> string" where
  "Trim_char c s = rev (dropWhile (\<lambda>x. x = c) (rev (dropWhile (\<lambda>x. x = c) s)))"

definition to_lower :: "char \<Rightarrow> char" where
  "to_lower c = (let n = of_char c :: nat in if 65 \<le> n \<and> n \<le> 90 then char_of (n + 32) else c)"

definition ToLower :: "string \<Rightarrow> string" where
  "ToLower s = map to_lower s"

definition EqualFold :: "string \<Rightarrow> string \<Rightarrow> bool" where
  "EqualFold s t \<longleftrightarrow> ToLower s = ToLower t"

definition HasPrefix :: "string \<Rightarrow> string \<Rightarrow> bool" where
  "HasPrefix s p \<longleftrightarrow> take (length p) s = p"

definition HasSuffix :: "string \<Rightarrow> string \<Rightarrow> bool" where
  "HasSuffix s p \<longleftrightarrow> HasPrefix (rev s) (rev p)"

definition TrimPrefix :: "string \<Rightarrow> string \<Rightarrow> string" where
  "TrimPrefix s p = (if HasPrefix s p then drop (length p) s else s)"

definition TrimSuffix :: "string \<Rightarrow> string \<Rightarrow> string" where
  "TrimSuffix s p = (if HasSuffix s p then take (length s - length p) s else s)"

definition CutPrefix :: "string \<Rightarrow> string \<Rightarrow> string \<times> bool" where
  "CutPrefix s p = (if HasPrefix s p then (drop (length p) s, True) else (s, False))"

text \<open>Separators are single bytes wherever the program splits a string.\<close>

definition newline :: char where
  "newline = char_of (10 :: nat)"

fun Split :: "string \<Rightarrow> char \<Rightarrow> string list" where
  "Split [] c = [[]]"
| "Split (x # xs) c =
     (if x = c then [] # Split xs c
      else (case Split xs c of [] \<Rightarrow> [[x]] | f # fs \<Rightarrow> (x # f) # fs))"

fun Join :: "string list \<Rightarrow> string \<Rightarrow> string" where
  "Join [] sep = []"
| "Join [x] sep = x"
| "Join (x # y # xs) sep = x @ sep @ Join (y # xs) sep"

fun Fields_aux :: "string \<Rightarrow> string \<Rightarrow> string list" where
  "Fields_aux [] acc = (if acc = [] then [] else [rev acc])"
| "Fields_aux (x # xs) acc =
     (if is_space x then (if acc = [] then Fields_aux xs [] else rev acc # Fields_aux xs [])
      else Fields_aux xs (x # acc))"

definition Fields :: "string \<Rightarrow> string list" where
  "Fields s = Fields_aux s []"

fun Contains :: "string \<Rightarrow> string \<Rightarrow> bool" where
  "Contains [] t = (t = [])"
| "Contains (x # xs) t = (HasPrefix (x # xs) t \<or> Contains xs t)"

definition Cut_char :: "string \<Rightarrow> char \<Rightarrow> string \<times> string \<times> bool" where
  "Cut_char s c =
     (if c \<in> set s then (takeWhile (\<lambda>x. x \<noteq> c) s, tl (dropWhile (\<lambda>x. x \<noteq> c) s), True)
      else (s, [], False))"

lemma HasPrefix_iff: "HasPrefix s p \<longleftrightarrow> prefix p s"
  by (metis HasPrefix_def append_take_drop_id append_eq_conv_conj prefix_def)

lemma HasPrefix_append [simp]: "HasPrefix (p @ s) p"
  by (simp add: HasPrefix_def)

lemma CutPrefix_append [simp]: "CutPrefix (p @ s) p = (s, True)"
  by (simp add: CutPrefix_def)

lemma CutPrefix_True: "CutPrefix s p = (r, True) \<Longrightarrow> s = p @ r"
  by (auto simp: CutPrefix_def HasPrefix_def split: if_splits)
    (metis append_take_drop_id)

lemma TrimPrefix_append [simp]: "TrimPrefix (p @ s) p = s"
  by (simp add: TrimPrefix_def)

lemma EqualFold_refl [simp]: "EqualFold s s"
  by (simp add: EqualFold_def)

lemma EqualFold_sym: "EqualFold s t \<longleftrightarrow> EqualFold t s"
  by (auto simp: EqualFold_def)

lemma EqualFold_trans: "EqualFold s t \<Longrightarrow> EqualFold t u \<Longrightarrow> EqualFold s u"
  by (simp add: EqualFold_def)

lemma to_lower_idem [simp]: "to_lower (to_lower c) = to_lower c"
proof -
  consider "65 \<le> (of_char c :: nat) \<and> (of_char c :: nat) \<le> 90" | "\<not> (65 \<le> (of_char c :: nat) \<and> (of_char c :: nat) \<le> 90)"
    by blast
  then show ?thesis
  proof cases
    case 1
    then have "of_char (char_of ((of_char c :: nat) + 32)) = (of_char c :: nat) + 32"
      by simp
    with 1 show ?thesis by (simp add: to_lower_def Let_def)
  next
    case 2
    then have "to_lower c = c" by (auto simp: to_lower_def Let_def)
    then show ?thesis by simp
  qed
qed

lemma ToLower_idem [simp]: "ToLower (ToLower s) = ToLower s"
  by (simp add: ToLower_def)

lemma length_ToLower [simp]: "length (ToLower s) = length s"
  by (simp add: ToLower_def)

lemma EqualFold_ToLower [simp]: "EqualFold (ToLower s) s"
  by (simp add: EqualFold_def)

text \<open>Trimming is idempotent and leaves no white space at either end.\<close>

lemma dropWhile_fixed: "xs = [] \<or> \<not> P (hd xs) \<Longrightarrow> dropWhile P xs = xs"
  by (cases xs) auto

lemma TrimSpace_hd: "TrimSpace s = [] \<or> \<not> is_space (hd (TrimSpace s))"
proof -
  let ?t = "dropWhile is_space s"
  have "rev ?t = takeWhile is_space (rev ?t) @ rev (TrimSpace s)"
    by (simp add: TrimSpace_def)
  then have "?t = TrimSpace s @ rev (takeWhile is_space (rev ?t))"
    by (metis rev_append rev_rev_ident)
  moreover have "?t = [] \<or> \<not> is_space (hd ?t)"
    using hd_dropWhile [of is_space s] by blast
  ultimately show ?thesis
    by (metis append_is_Nil_conv hd_append2)
qed

lemma TrimSpace_rev_hd: "rev (TrimSpace s) = [] \<or> \<not> is_space (hd (rev (TrimSpace s)))"
  using hd_dropWhile [of is_space "rev (dropWhile is_space s)"] by (auto simp: TrimSpace_def)

lemma TrimSpace_idem [simp]: "TrimSpace (TrimSpace s) = TrimSpace s"
  using TrimSpace_hd [of s] TrimSpace_rev_hd [of s]
  by (simp only: TrimSpace_def [of "TrimSpace s"] dropWhile_fixed rev_rev_ident)

text \<open>Splitting at a separator undoes joining with it.\<close>

lemma Split_ne [simp]: "Split s c \<noteq> []"
  by (induction s) (auto split: list.splits)

lemma Split_no_sep: "c \<notin> set s \<Longrightarrow> Split s c = [s]"
  by (induction s) auto

lemma Split_append_sep: "c \<notin> set s \<Longrightarrow> Split (s @ c # t) c = s # Split t c"
  by (induction s) auto

lemma Split_Join:
  assumes "xs \<noteq> []" and "\<And>x. x \<in> set xs \<Longrightarrow> c \<notin> set x"
  shows "Split (Join xs [c]) c = xs"
  using assms
proof (induction xs "[c]" rule: Join.induct)
  case 1
  then show ?case by simp
next
  case (2 x)
  then show ?case by (simp add: Split_no_sep)
next
  case (3 x y xs)
  then show ?case by (simp add: Split_append_sep)
qed

lemma Split_no_sep_in: "f \<in> set (Split s c) \<Longrightarrow> c \<notin> set f"
  by (induction s arbitrary: f) (auto split: list.splits if_splits)

lemma Join_Cons: "xs \<noteq> [] \<Longrightarrow> Join (x # xs) sep = x @ sep @ Join xs sep"
  by (cases xs) auto

lemma Join_Split: "Join (Split s c) [c] = s"
proof (induction s)
  case Nil
  then show ?case by simp
next
  case (Cons x xs)
  obtain f fs where ff: "Split xs c = f # fs" by (metis Split_ne list.exhaust)
  show ?case
  proof (cases "x = c")
    case True
    with Cons ff show ?thesis by (simp add: Join_Cons)
  next
    case False
    with Cons ff show ?thesis by (cases fs) auto
  qed
qed

section \<open>Package strconv\<close>

definition digit_char :: "nat \<Rightarrow> char" where
  "digit_char d = char_of (48 + d)"

definition is_digit :: "char \<Rightarrow> bool" where
  "is_digit c \<longleftrightarrow> 48 \<le> (of_char c :: nat) \<and> (of_char c :: nat) \<le> 57"

definition digit_val :: "char \<Rightarrow> nat" where
  "digit_val c = of_char c - 48"

fun nat_decimal :: "nat \<Rightarrow> string" where
  "nat_decimal n =
     (if n < 10 then [digit_char n] else nat_decimal (n div 10) @ [digit_char (n mod 10)])"

declare nat_decimal.simps [simp del]

definition Itoa :: "int \<Rightarrow> string" where
  "Itoa i = (if i < 0 then CHR ''-'' # nat_decimal (nat (- i)) else nat_decimal (nat i))"

definition parse_decimal :: "string \<Rightarrow> nat option" where
  "parse_decimal s =
     (if s \<noteq> [] \<and> list_all is_digit s then Some (foldl (\<lambda>n c. 10 * n + digit_val c) 0 s) else None)"

text \<open>\<^verbatim>\<open>strconv.ParseInt(s, 10, 64)\<close> and \<^verbatim>\<open>strconv.Atoi\<close> on a 64-bit platform: an
  optional sign, at least one digit, and a value in range.\<close>

definition ParseInt :: "string \<Rightarrow> int option" where
  "ParseInt s =
     (let (neg, ds) = (case s of [] \<Rightarrow> (False, [])
                       | c # r \<Rightarrow> if c = CHR ''-'' then (True, r)
                                  else if c = CHR ''+'' then (False, r) else (False, s))
      in case parse_decimal ds of
           None \<Rightarrow> None
         | Some n \<Rightarrow> (let v = (if neg then - int n else int n) in if is_int64 v then Some v else None))"

text \<open>\<^verbatim>\<open>strconv.ParseUint(s, 10, bits)\<close>: no sign is accepted.\<close>

definition ParseUint :: "string \<Rightarrow> nat \<Rightarrow> nat option" where
  "ParseUint s bits =
     (case parse_decimal s of None \<Rightarrow> None | Some n \<Rightarrow> if n < 2 ^ bits then Some n else None)"

lemma is_digit_digit_char [simp]: "d < 10 \<Longrightarrow> is_digit (digit_char d)"
  by (simp add: is_digit_def digit_char_def)

lemma digit_val_digit_char [simp]: "d < 10 \<Longrightarrow> digit_val (digit_char d) = d"
  by (simp add: digit_val_def digit_char_def)

lemma nat_decimal_digits: "nat_decimal n \<noteq> [] \<and> list_all is_digit (nat_decimal n)"
proof (induction n rule: nat_decimal.induct)
  case (1 n)
  then show ?case by (cases "n < 10") (simp_all add: nat_decimal.simps [of n])
qed

lemma nat_decimal_value: "foldl (\<lambda>n c. 10 * n + digit_val c) 0 (nat_decimal n) = n"
proof (induction n rule: nat_decimal.induct)
  case (1 n)
  then show ?case by (cases "n < 10") (simp_all add: nat_decimal.simps [of n])
qed

lemma parse_decimal_nat_decimal [simp]: "parse_decimal (nat_decimal n) = Some n"
  by (simp add: parse_decimal_def nat_decimal_digits nat_decimal_value)

lemma nat_decimal_inj: "nat_decimal m = nat_decimal n \<Longrightarrow> m = n"
  by (metis nat_decimal_value)

lemma nat_decimal_first: "\<exists>c r. nat_decimal n = c # r \<and> is_digit c"
  using nat_decimal_digits [of n] by (cases "nat_decimal n") auto

lemma ParseInt_Itoa: "is_int64 i \<Longrightarrow> ParseInt (Itoa i) = Some i"
proof (cases "i < 0")
  case True
  assume "is_int64 i"
  with True show ?thesis by (simp add: ParseInt_def Itoa_def)
next
  case False
  assume i: "is_int64 i"
  obtain c r where cr: "nat_decimal (nat i) = c # r" and c: "is_digit c"
    using nat_decimal_first by blast
  from c have "c \<noteq> CHR ''-''" and "c \<noteq> CHR ''+''"
    by (auto simp: is_digit_def)
  then have "(case nat_decimal (nat i) of [] \<Rightarrow> (False, [])
      | c # r \<Rightarrow> if c = CHR ''-'' then (True, r)
                  else if c = CHR ''+'' then (False, r) else (False, nat_decimal (nat i)))
    = (False, nat_decimal (nat i))"
    by (simp add: cr)
  with False i show ?thesis
    by (simp add: ParseInt_def Itoa_def)
qed

section \<open>Package path/filepath\<close>

text \<open>\<^verbatim>\<open>filepath.Clean\<close> on Unix: the shortest path name equivalent by purely lexical
  processing. Empty and \<^verbatim>\<open>.\<close> elements go; \<^verbatim>\<open>..\<close> removes the element before it, is kept
  at the front of a relative path, and vanishes at the root.\<close>

fun clean_elems :: "bool \<Rightarrow> string list \<Rightarrow> string list \<Rightarrow> string list" where
  "clean_elems rooted out [] = rev out"
| "clean_elems rooted out (e # es) =
     (if e = [] \<or> e = ''.'' then clean_elems rooted out es
      else if e = ''..'' then
        (case out of
           [] \<Rightarrow> if rooted then clean_elems rooted [] es else clean_elems rooted [''..''] es
         | o1 # os \<Rightarrow> if o1 = ''..'' then clean_elems rooted (''..'' # out) es
                     else clean_elems rooted os es)
      else clean_elems rooted (e # out) es)"

definition IsAbs :: "string \<Rightarrow> bool" where
  "IsAbs p \<longleftrightarrow> HasPrefix p ''/''"

definition Clean :: "string \<Rightarrow> string" where
  "Clean p =
     (if p = [] then ''.''
      else let rooted = IsAbs p; elems = clean_elems rooted [] (Split p CHR ''/'')
           in if rooted then ''/'' @ Join elems ''/''
              else if elems = [] then ''.'' else Join elems ''/'')"

text \<open>A path element that \<^const>\<open>Clean\<close> leaves alone.\<close>

definition plain_elem :: "string \<Rightarrow> bool" where
  "plain_elem e \<longleftrightarrow> e \<noteq> [] \<and> e \<noteq> ''.'' \<and> e \<noteq> ''..'' \<and> CHR ''/'' \<notin> set e"

lemma clean_elems_rooted_plain:
  assumes "\<forall>e \<in> set out. plain_elem e" and "\<forall>e \<in> set es. CHR ''/'' \<notin> set e"
  shows "\<forall>e \<in> set (clean_elems True out es). plain_elem e"
  using assms
proof (induction es arbitrary: out)
  case Nil
  then show ?case by simp
next
  case (Cons e es)
  have tail: "\<forall>e \<in> set (clean_elems True o' es). plain_elem e"
    if "\<forall>e \<in> set o'. plain_elem e" for o'
    using Cons.prems(2) by (intro Cons.IH that) simp
  have tl_out: "\<forall>e \<in> set (tl out). plain_elem e"
    using Cons.prems(1) by (cases out) simp_all
  consider "e = [] \<or> e = ''.''" | "e = ''..''" | "plain_elem e"
    using Cons.prems(2) by (auto simp: plain_elem_def)
  then show ?case
  proof cases
    case 1
    then have "clean_elems True out (e # es) = clean_elems True out es" by auto
    with tail Cons.prems(1) show ?thesis by metis
  next
    case 2
    have "out = [] \<or> hd out \<noteq> ''..''"
      using Cons.prems(1) by (cases out) (auto simp: plain_elem_def)
    with 2 have "clean_elems True out (e # es) = clean_elems True (tl out) es"
      by (cases out) simp_all
    with tail tl_out show ?thesis by metis
  next
    case 3
    then have "clean_elems True out (e # es) = clean_elems True (e # out) es"
      by (simp add: plain_elem_def)
    with tail [of "e # out"] 3 Cons.prems(1) show ?thesis by simp
  qed
qed

lemma clean_elems_plain:
  assumes "\<forall>e \<in> set es. plain_elem e"
  shows "clean_elems r out es = rev out @ es"
  using assms by (induction es arbitrary: out) (auto simp: plain_elem_def)

lemma Clean_abs_elems:
  assumes "IsAbs p"
  obtains es where "Clean p = ''/'' @ Join es ''/''" and "\<forall>e \<in> set es. plain_elem e"
proof -
  from assms have "p \<noteq> []" by (auto simp: IsAbs_def HasPrefix_def)
  let ?es = "clean_elems True [] (Split p CHR ''/'')"
  have "Clean p = ''/'' @ Join ?es ''/''"
    using assms \<open>p \<noteq> []\<close> by (simp add: Clean_def)
  moreover have "\<forall>e \<in> set ?es. plain_elem e"
    by (rule clean_elems_rooted_plain) (auto dest: Split_no_sep_in)
  ultimately show ?thesis by (rule that)
qed

lemma Clean_plain:
  assumes "\<forall>e \<in> set es. plain_elem e"
  shows "Clean (''/'' @ Join es ''/'') = ''/'' @ Join es ''/''"
proof (cases "es = []")
  case True
  then show ?thesis by (simp add: Clean_def IsAbs_def HasPrefix_def)
next
  case False
  have "Split (''/'' @ Join es ''/'') CHR ''/'' = [] # es"
    using False assms by (simp add: Split_Join plain_elem_def)
  with assms show ?thesis
    by (simp add: Clean_def IsAbs_def HasPrefix_def clean_elems_plain)
qed

lemma Clean_idem_abs: "IsAbs p \<Longrightarrow> Clean (Clean p) = Clean p"
  by (erule Clean_abs_elems) (simp only: Clean_plain)

end
