(* ===== verification/Go_Errors.thy ===== *)
theory Go_Errors
  imports Go_Strings
begin

text \<open>
  Go's \<^verbatim>\<open>error\<close> interface, Go maps, and times.

  An error keeps the format string and the arguments of the \<^verbatim>\<open>fmt.Errorf\<close> or
  \<^verbatim>\<open>status.Errorf\<close> call that makes it, so that every error return of the source is a
  distinct value; \<open>Wrapf\<close> is a format with \<^verbatim>\<open>%w\<close>, whose wrapped error
  \<^verbatim>\<open>errors.As\<close> can see. The classes of Kubernetes API errors are what
  \<^verbatim>\<open>apierrors.IsNotFound\<close>, \<^verbatim>\<open>IsAlreadyExists\<close> and \<^verbatim>\<open>IsConflict\<close> distinguish.

  A Go map from strings to strings is an association list with distinct keys, whose order
  is one of the iteration orders Go may choose. A time is a number of nanoseconds since
  the Unix epoch; the zero \<^verbatim>\<open>time.Time\<close> is the year 1.
\<close>

section \<open>Errors\<close>

datatype api_error = NotFound | AlreadyExists | Conflict | ApiFailure string

datatype code =
  Canceled | InvalidArgument | DeadlineExceeded | NotFound_code | AlreadyExists_code
| FailedPrecondition | Aborted | Internal | Unavailable

text \<open>The errors of package \<^verbatim>\<open>os\<close> that \<^verbatim>\<open>os.IsNotExist\<close> and \<^verbatim>\<open>os.IsExist\<close> tell apart; \<open>ExitError\<close> is
  \<^verbatim>\<open>exec.ExitError\<close> with the exit code of a command.\<close>

datatype os_error = NotExist | Exist | OSFailure string

datatype error =
  Errorf string "arg list"
| Wrapf string "arg list" error
| Status code string "arg list"
| ApiError api_error
| ContextError code
| Joined "error list"
| ExportObservationError error
| FilesystemMismatch string string string
| MountMismatch error
| PartedCommandError "string list" string error
| NVMeDiscoveryError "error option" "error option"
| OSError os_error
| ExitError int
| ExternalError string
and arg = S string | D int | E error

text \<open>These do not look through \<^verbatim>\<open>%w\<close>, unlike \<^verbatim>\<open>errors.Is\<close>: an error of package \<^verbatim>\<open>os\<close> is told apart only as it
  was returned.\<close>

definition os_IsNotExist :: "error \<Rightarrow> bool" where
  "os_IsNotExist e \<longleftrightarrow> e = OSError NotExist"

definition os_IsExist :: "error \<Rightarrow> bool" where
  "os_IsExist e \<longleftrightarrow> e = OSError Exist"

text \<open>The errors that \<^verbatim>\<open>errors.Is\<close> and \<^verbatim>\<open>errors.As\<close> look at, outermost first.\<close>

fun error_chain :: "error \<Rightarrow> error list" where
  "error_chain (Wrapf f a e) = Wrapf f a e # error_chain e"
| "error_chain (Joined es) = Joined es # concat (map error_chain es)"
| "error_chain (ExportObservationError e) = ExportObservationError e # error_chain e"
| "error_chain (PartedCommandError a s e) = PartedCommandError a s e # error_chain e"
| "error_chain (NVMeDiscoveryError a b) = NVMeDiscoveryError a b #
     (case a of None \<Rightarrow> [] | Some e \<Rightarrow> error_chain e) @ (case b of None \<Rightarrow> [] | Some e \<Rightarrow> error_chain e)"
| "error_chain e = [e]"

text \<open>\<^verbatim>\<open>apierrors.ReasonForError\<close>: the class of the first API error of the chain.\<close>

definition api_reason :: "error \<Rightarrow> api_error option" where
  "api_reason e =
     (case List.find (\<lambda>x. case x of ApiError _ \<Rightarrow> True | _ \<Rightarrow> False) (error_chain e) of
        Some (ApiError reason) \<Rightarrow> Some reason
      | _ \<Rightarrow> None)"

definition IsNotFound :: "error \<Rightarrow> bool" where
  "IsNotFound e \<longleftrightarrow> api_reason e = Some NotFound"

definition IsAlreadyExists :: "error \<Rightarrow> bool" where
  "IsAlreadyExists e \<longleftrightarrow> api_reason e = Some AlreadyExists"

definition IsConflict :: "error \<Rightarrow> bool" where
  "IsConflict e \<longleftrightarrow> api_reason e = Some Conflict"

lemma api_reason_simps [simp]: "api_reason (ApiError reason) = Some reason" "api_reason (ContextError c) = None"
  by (simp_all add: api_reason_def)

text \<open>\<^verbatim>\<open>client.IgnoreNotFound\<close>: nil (\<open>None\<close>) for a NotFound error.\<close>

definition IgnoreNotFound :: "error \<Rightarrow> error option" where
  "IgnoreNotFound e = (if IsNotFound e then None else Some e)"

text \<open>The error of a call whose value is not used; nil is \<open>None\<close>.\<close>

definition err_of :: "error + 'a \<Rightarrow> error option" where
  "err_of r = (case r of Inl e \<Rightarrow> Some e | Inr _ \<Rightarrow> None)"

lemma err_of_simps [simp]: "err_of (Inl e) = Some e" "err_of (Inr x) = None"
  by (simp_all add: err_of_def)

definition errors_Is :: "error \<Rightarrow> error \<Rightarrow> bool" where
  "errors_Is e target \<longleftrightarrow> target \<in> set (error_chain e)"

section \<open>Maps from strings to strings\<close>

type_synonym strmap = "(string \<times> string) list"

text \<open>\<^verbatim>\<open>m[k]\<close> is the empty string for a missing key.\<close>

definition map_index :: "strmap \<Rightarrow> string \<Rightarrow> string" where
  "map_index m k = (case map_of m k of None \<Rightarrow> [] | Some v \<Rightarrow> v)"

definition map_set :: "strmap \<Rightarrow> string \<Rightarrow> string \<Rightarrow> strmap" where
  "map_set m k v = (k, v) # filter (\<lambda>(k', _). k' \<noteq> k) m"

definition maps_Equal :: "strmap \<Rightarrow> strmap \<Rightarrow> bool" where
  "maps_Equal a b \<longleftrightarrow> length a = length b \<and> list_all (\<lambda>(k, v). map_of b k = Some v) a"

text \<open>A loop over a map visits its entries in any order. The order is a list of positions; the entries it
  does not name come last, so that every list is an order and every order has a list.\<close>

definition reorder :: "nat list \<Rightarrow> 'a list \<Rightarrow> 'a list" where
  "reorder ord xs =
     (let first = remdups (filter (\<lambda>i. i < length xs) ord)
      in map ((!) xs) (first @ filter (\<lambda>i. i \<notin> set first) [0..<length xs]))"

lemma reorder_set [simp]: "set (reorder ord xs) = set xs"
proof -
  have "set (reorder ord xs) = (!) xs ` {i. i < length xs}"
    by (auto simp: reorder_def Let_def)
  then show ?thesis by (auto simp: set_conv_nth)
qed

lemma reorder_all [simp]: "list_all P (reorder ord xs) \<longleftrightarrow> list_all P xs"
  by (simp add: list_all_iff)

definition strmap_ok :: "strmap \<Rightarrow> bool" where
  "strmap_ok m \<longleftrightarrow> distinct (map fst m)"

lemma map_of_filter_key:
  "map_of (filter (\<lambda>(k', _). k' \<noteq> k) m) x = (if x = k then None else map_of m x)"
  by (induction m) auto

lemma map_of_map_set [simp]: "map_of (map_set m k v) = (map_of m)(k \<mapsto> v)"
  by (rule ext) (simp add: map_set_def map_of_filter_key)

lemma map_index_map_set [simp]: "map_index (map_set m k v) x = (if x = k then v else map_index m x)"
  by (simp add: map_index_def)

lemma strmap_ok_map_set [simp]: "strmap_ok m \<Longrightarrow> strmap_ok (map_set m k v)"
  by (induction m) (auto simp: strmap_ok_def map_set_def)

lemma card_dom_strmap: "strmap_ok m \<Longrightarrow> card (dom (map_of m)) = length m"
  by (metis dom_map_of_conv_image_fst distinct_card length_map list.set_map strmap_ok_def)

lemma maps_Equal_iff:
  assumes "strmap_ok a" and "strmap_ok b"
  shows "maps_Equal a b \<longleftrightarrow> map_of a = map_of b"
proof
  assume eq: "maps_Equal a b"
  have "map_of a \<subseteq>\<^sub>m map_of b"
    unfolding map_le_def
  proof
    fix k
    assume "k \<in> dom (map_of a)"
    then obtain v where v: "map_of a k = Some v" by blast
    then have "(k, v) \<in> set a" by (rule map_of_SomeD)
    with eq v show "map_of a k = map_of b k"
      by (auto simp: maps_Equal_def list_all_iff)
  qed
  moreover have "dom (map_of a) = dom (map_of b)"
  proof (rule card_subset_eq)
    show "finite (dom (map_of b))" by (rule finite_dom_map_of)
    show "dom (map_of a) \<subseteq> dom (map_of b)"
      using \<open>map_of a \<subseteq>\<^sub>m map_of b\<close> by (rule map_le_implies_dom_le)
    show "card (dom (map_of a)) = card (dom (map_of b))"
      using eq assms by (simp add: card_dom_strmap maps_Equal_def)
  qed
  ultimately show "map_of a = map_of b"
    by (metis map_le_antisym map_le_def)
next
  assume eq: "map_of a = map_of b"
  have "length a = length b"
    using assms eq by (metis card_dom_strmap)
  moreover have "map_of b k = Some v" if "(k, v) \<in> set a" for k v
    using that assms(1) eq by (metis map_of_is_SomeI strmap_ok_def)
  ultimately show "maps_Equal a b"
    by (auto simp: maps_Equal_def list_all_iff)
qed

section \<open>Times and durations\<close>

text \<open>How a wait with a timer ends: the timer fires, or the context of the request ends.\<close>

datatype wake = WakeTimeout | WakeDone code

definition second_ns :: int where
  "second_ns = 1000000000"

definition zero_time :: int where
  "zero_time = - 62135596800000000000"

definition time_IsZero :: "int \<Rightarrow> bool" where
  "time_IsZero t \<longleftrightarrow> t = zero_time"

text \<open>\<^verbatim>\<open>Time.Sub\<close> saturates at the ends of the 64-bit \<^verbatim>\<open>Duration\<close>.\<close>

definition time_Sub :: "int \<Rightarrow> int \<Rightarrow> int" where
  "time_Sub t u = max MinInt64 (min MaxInt64 (t - u))"

end
