(* ===== verification/Capacity.thy ===== *)
theory Capacity
  imports Go_Errors
begin

text \<open>
  The package \<^verbatim>\<open>internal/capacity\<close>: rounding a size up to whole allocation units in 64-bit
  arithmetic. The locale \<open>allocator\<close> is what the controllers, the CSI server and the
  volume managers rely on; \<open>ru\<close> is its interpretation on \<open>RoundUp\<close>.
\<close>

section \<open>The code\<close>

definition AllocationUnitBytes :: int where
  "AllocationUnitBytes = 4 * 1024 * 1024"

definition MaxAllocatableBytes :: int where
  "MaxAllocatableBytes = mul64 (div64 MaxInt64 AllocationUnitBytes) AllocationUnitBytes"

definition RoundUp :: "int \<Rightarrow> error + int" where
  "RoundUp bytes =
     (if bytes \<le> 0 then Inl (Errorf ''capacity must be positive, got %d'' [D bytes])
      else if bytes > MaxAllocatableBytes
      then Inl (Errorf ''capacity %d exceeds maximum allocatable size %d'' [D bytes, D MaxAllocatableBytes])
      else Inr (mul64 (div64 (sub64 (add64 bytes AllocationUnitBytes) 1) AllocationUnitBytes)
                  AllocationUnitBytes))"

section \<open>The contract of an allocator\<close>

locale allocator =
  fixes round_up :: "int \<Rightarrow> error + int" and unit_bytes :: int and max_bytes :: int
  assumes unit_pos: "0 < unit_bytes"
    and max_int64: "max_bytes \<le> MaxInt64"
    and max_dvd: "unit_bytes dvd max_bytes"
    and round_ok: "0 < b \<Longrightarrow> b \<le> max_bytes \<Longrightarrow>
      \<exists>r. round_up b = Inr r \<and> unit_bytes dvd r \<and> b \<le> r \<and> r < b + unit_bytes"
    and round_err: "b \<le> 0 \<or> max_bytes < b \<Longrightarrow> \<exists>e. round_up b = Inl e"
begin

lemma round_InrD:
  assumes "round_up b = Inr r"
  shows "0 < b" and "b \<le> max_bytes" and "unit_bytes dvd r" and "b \<le> r" and "r < b + unit_bytes"
proof -
  show pos: "0 < b" and le: "b \<le> max_bytes"
    using assms round_err [of b] by fastforce+
  from round_ok [OF pos le] assms
  show "unit_bytes dvd r" and "b \<le> r" and "r < b + unit_bytes" by auto
qed

lemma round_least:
  assumes "round_up b = Inr r" and "unit_bytes dvd m" and "b \<le> m"
  shows "r \<le> m"
proof (rule ccontr)
  assume "\<not> r \<le> m"
  have "unit_bytes dvd r - m"
    using round_InrD [OF assms(1)] assms(2) by simp
  moreover have "0 < r - m" using \<open>\<not> r \<le> m\<close> by simp
  ultimately have "unit_bytes \<le> r - m"
    using zdvd_imp_le by blast
  with round_InrD(5) [OF assms(1)] assms(3) show False by simp
qed

lemma round_le_max: "round_up b = Inr r \<Longrightarrow> r \<le> max_bytes"
  using round_least [OF _ max_dvd] round_InrD(2) by blast

lemma round_mono: "round_up a = Inr r \<Longrightarrow> round_up b = Inr s \<Longrightarrow> a \<le> b \<Longrightarrow> r \<le> s"
  by (meson round_InrD round_least order_trans)

lemma round_multiple:
  assumes "unit_bytes dvd b" and "0 < b" and "b \<le> max_bytes"
  shows "round_up b = Inr b"
proof -
  obtain r where r: "round_up b = Inr r" using round_ok assms by blast
  have "r = b"
    using round_least [OF r assms(1)] round_InrD(4) [OF r] by simp
  with r show ?thesis by simp
qed

lemma round_idem: "round_up b = Inr r \<Longrightarrow> round_up r = Inr r"
  by (meson round_InrD round_le_max round_multiple order_less_le_trans)

lemma round_is_int64: "round_up b = Inr r \<Longrightarrow> is_int64 r"
  using round_le_max [of b r] round_InrD [of b r] max_int64
  by (simp add: is_int64_def MinInt64_def)

end

section \<open>RoundUp satisfies the contract\<close>

lemma MaxAllocatableBytes_val: "MaxAllocatableBytes = 9223372036850581504"
  by (simp add: MaxAllocatableBytes_def MaxInt64_def AllocationUnitBytes_def mul64_def div64_def
      quot_def to_int64_def)

lemma RoundUp_no_wrap:
  assumes "0 < b" and "b \<le> MaxAllocatableBytes"
  shows "RoundUp b = Inr ((b + 4194303) div 4194304 * 4194304)"
proof -
  let ?q = "(b + 4194303) div 4194304"
  have bnd: "b \<le> 9223372036850581504" using assms(2) by (simp add: MaxAllocatableBytes_val)
  have q: "0 \<le> ?q" "?q \<le> 2199023255551"
    using assms(1) bnd by auto
  have s: "sub64 (add64 b AllocationUnitBytes) 1 = b + 4194303"
  proof (cases "b = 9223372036850581504")
    case True \<comment> \<open>the sum wraps to the least integer and the subtraction wraps it back\<close>
    then show ?thesis
      by (simp add: sub64_def add64_def AllocationUnitBytes_def to_int64_def)
  next
    case False
    then show ?thesis
      using assms(1) bnd by (simp add: sub64_def add64_def AllocationUnitBytes_def to_int64_id
          is_int64_def MinInt64_def MaxInt64_def)
  qed
  have d: "div64 (b + 4194303) AllocationUnitBytes = ?q"
    using assms(1) q by (simp add: div64_def AllocationUnitBytes_def quot_nonneg to_int64_id is_int64_def
        MinInt64_def MaxInt64_def)
  have m: "mul64 ?q AllocationUnitBytes = ?q * 4194304"
    using q by (simp add: mul64_def AllocationUnitBytes_def to_int64_id is_int64_def MinInt64_def MaxInt64_def)
  show ?thesis
    using assms by (simp add: RoundUp_def s d m)
qed

interpretation ru: allocator RoundUp AllocationUnitBytes MaxAllocatableBytes
proof
  show "0 < AllocationUnitBytes" by (simp add: AllocationUnitBytes_def)
  show "MaxAllocatableBytes \<le> MaxInt64" by (simp add: MaxAllocatableBytes_val MaxInt64_def)
  show "AllocationUnitBytes dvd MaxAllocatableBytes"
    by (simp add: MaxAllocatableBytes_val AllocationUnitBytes_def)
next
  fix b :: int
  assume b: "0 < b" "b \<le> MaxAllocatableBytes"
  let ?r = "(b + 4194303) div 4194304 * 4194304"
  have "?r = b + 4194303 - (b + 4194303) mod 4194304"
    by (simp add: minus_mod_eq_div_mult)
  moreover have "0 \<le> (b + 4194303) mod 4194304" "(b + 4194303) mod 4194304 < 4194304" by simp_all
  ultimately have "b \<le> ?r" "?r < b + 4194304" by linarith+
  then show "\<exists>r. RoundUp b = Inr r \<and> AllocationUnitBytes dvd r \<and> b \<le> r \<and> r < b + AllocationUnitBytes"
    using RoundUp_no_wrap [OF b] by (simp add: AllocationUnitBytes_def)
next
  fix b :: int
  assume "b \<le> 0 \<or> MaxAllocatableBytes < b"
  then show "\<exists>e. RoundUp b = Inl e" by (auto simp: RoundUp_def)
qed

lemma RoundUp_InlD:
  assumes "RoundUp b = Inl e" and "0 < b" and "AllocationUnitBytes dvd m" and "b \<le> m"
  shows "MaxInt64 < m"
proof -
  have "MaxAllocatableBytes < b"
    using ru.round_ok [OF assms(2)] assms(1) by (cases "b \<le> MaxAllocatableBytes") auto
  with assms(4) have "MaxAllocatableBytes < m" by simp
  moreover have "AllocationUnitBytes dvd m - MaxAllocatableBytes"
    using assms(3) ru.max_dvd by simp
  ultimately have "AllocationUnitBytes \<le> m - MaxAllocatableBytes"
    using zdvd_imp_le [of AllocationUnitBytes "m - MaxAllocatableBytes"] by simp
  then show ?thesis
    by (simp add: MaxAllocatableBytes_val AllocationUnitBytes_def MaxInt64_def)
qed

section \<open>Properties\<close>

text \<open>C13: for every 64-bit size, \<^verbatim>\<open>RoundUp\<close> returns the least whole number of allocation
  units that holds it (at the largest size the intermediate sum wraps around and back), and
  it fails exactly for the sizes
  that are not positive or that no 64-bit multiple of the unit can hold.\<close>

theorem RoundUp_least_multiple:
  "case RoundUp bytes of
     Inr r \<Rightarrow> 0 < bytes \<and> bytes \<le> r \<and> r \<le> MaxInt64 \<and> AllocationUnitBytes dvd r \<and>
       {m. AllocationUnitBytes dvd m \<and> bytes \<le> m \<and> m < r} = {}
   | Inl e \<Rightarrow> bytes \<le> 0 \<or> {m. AllocationUnitBytes dvd m \<and> bytes \<le> m \<and> m \<le> MaxInt64} = {}"
proof (cases "RoundUp bytes")
  case (Inl e)
  then show ?thesis using RoundUp_InlD [OF Inl] by force
next
  case (Inr r)
  note f = ru.round_InrD [OF Inr]
  show ?thesis
    using Inr f ru.round_least [OF Inr] ru.round_le_max [OF Inr] ru.max_int64 by force
qed

end
