(* ===== verification/Storage_Options.thy ===== *)
theory Storage_Options
  imports Go_Errors
begin

text \<open>
  The package \<^verbatim>\<open>internal/storageoptions\<close>: validation of backend options. An error result
  is an \<^typ>\<open>error option\<close>, \<open>None\<close> for nil. The order in which the options are tried is the
  order of the association list; whether they are accepted does not depend on it.
\<close>

section \<open>The code\<close>

definition SPDKCoreMaskOption :: string where
  "SPDKCoreMaskOption = ''spdk-core-mask''"

definition MaxSPDKCoreMaskLength :: nat where
  "MaxSPDKCoreMaskLength = 258"

definition is_hex_char :: "char \<Rightarrow> bool" where
  "is_hex_char c \<longleftrightarrow> is_digit c \<or>
     (97 \<le> (of_char c :: nat) \<and> (of_char c :: nat) \<le> 102) \<or>
     (65 \<le> (of_char c :: nat) \<and> (of_char c :: nat) \<le> 70)"

text \<open>The regular expression \<^verbatim>\<open>^0x[0-9A-Fa-f]+$\<close>.\<close>

definition spdkCoreMaskPattern :: "string \<Rightarrow> bool" where
  "spdkCoreMaskPattern s \<longleftrightarrow>
     HasPrefix s ''0x'' \<and> drop 2 s \<noteq> [] \<and> list_all is_hex_char (drop 2 s)"

definition ValidateSPDKCoreMask :: "string \<Rightarrow> error option" where
  "ValidateSPDKCoreMask coreMask =
     (if length coreMask > MaxSPDKCoreMaskLength
      then Some (Errorf ''%s exceeds the maximum length of %d characters''
                   [S SPDKCoreMaskOption, D (int MaxSPDKCoreMaskLength)])
      else if \<not> spdkCoreMaskPattern coreMask
      then Some (Errorf ''%s must match 0x followed by hexadecimal digits, got %q''
                   [S SPDKCoreMaskOption, S coreMask])
      else if Trim_char CHR ''0'' (drop 2 coreMask) = []
      then Some (Errorf ''%s must select at least one CPU, got %q'' [S SPDKCoreMaskOption, S coreMask])
      else None)"

fun validate_options :: "string \<Rightarrow> strmap \<Rightarrow> error option" where
  "validate_options targetBackend [] = None"
| "validate_options targetBackend ((name, value) # options) =
     (if targetBackend = ''spdk'' then
        (if name \<noteq> SPDKCoreMaskOption then Some (Errorf ''unsupported SPDK backend option %q'' [S name])
         else case ValidateSPDKCoreMask value of
                Some e \<Rightarrow> Some e
              | None \<Rightarrow> validate_options targetBackend options)
      else if targetBackend = ''kernel'' then Some (Errorf ''unsupported kernel backend option %q'' [S name])
      else Some (Errorf ''unsupported target backend %q'' [S targetBackend]))"

definition storageoptions_Validate :: "string \<Rightarrow> strmap \<Rightarrow> error option" where
  "storageoptions_Validate targetBackend options =
     validate_options (if targetBackend = [] then ''spdk'' else targetBackend) options"

section \<open>What a core mask means\<close>

definition hex_char_val :: "char \<Rightarrow> nat" where
  "hex_char_val c =
     (let n = of_char c :: nat in if n \<le> 57 then n - 48 else if n \<le> 70 then n - 55 else n - 87)"

text \<open>The CPU bit mask a hexadecimal literal denotes.\<close>

definition core_mask_value :: "string \<Rightarrow> nat" where
  "core_mask_value s = foldl (\<lambda>n c. 16 * n + hex_char_val c) 0 (drop 2 s)"

lemma foldl_hex_zero:
  "foldl (\<lambda>n c. 16 * n + hex_char_val c) k cs = 0 \<longleftrightarrow> k = 0 \<and> (\<forall>c \<in> set cs. hex_char_val c = 0)"
  by (induction cs arbitrary: k) auto

lemma hex_char_val_0:
  assumes "is_hex_char c"
  shows "hex_char_val c = 0 \<longleftrightarrow> c = CHR ''0''"
proof
  assume z: "hex_char_val c = 0"
  define n where "n = (of_char c :: nat)"
  have "(48 \<le> n \<and> n \<le> 57) \<or> (97 \<le> n \<and> n \<le> 102) \<or> (65 \<le> n \<and> n \<le> 70)"
    using assms by (simp only: is_hex_char_def is_digit_def n_def)
  moreover have "(if n \<le> 57 then n - 48 else if n \<le> 70 then n - 55 else n - 87) = 0"
    using z by (simp only: hex_char_val_def n_def Let_def)
  ultimately have "n = 48" by (auto split: if_splits)
  then have "(of_char c :: nat) = 48" by (simp only: n_def)
  moreover have "(of_char CHR ''0'' :: nat) = 48" by simp
  ultimately show "c = CHR ''0''" by (metis of_char_eq_iff)
next
  assume "c = CHR ''0''"
  then show "hex_char_val c = 0" by (simp add: hex_char_val_def)
qed

lemma Trim_char_Nil: "Trim_char c s = [] \<longleftrightarrow> set s \<subseteq> {c}"
proof -
  let ?t = "dropWhile (\<lambda>x. x = c) s"
  have "Trim_char c s = [] \<longleftrightarrow> (\<forall>x \<in> set ?t. x = c)"
    by (simp add: Trim_char_def dropWhile_eq_Nil_conv)
  also have "\<dots> \<longleftrightarrow> ?t = []"
  proof
    assume all: "\<forall>x \<in> set ?t. x = c"
    show "?t = []"
    proof (rule ccontr)
      assume ne: "?t \<noteq> []"
      from hd_dropWhile [OF ne] all hd_in_set [OF ne] show False by blast
    qed
  qed (simp only: list.set(1) ball_simps)
  finally show ?thesis by (auto simp: dropWhile_eq_Nil_conv)
qed

lemma core_mask_selects:
  assumes "list_all is_hex_char (drop 2 s)"
  shows "Trim_char CHR ''0'' (drop 2 s) = [] \<longleftrightarrow> core_mask_value s = 0"
  using assms by (auto simp: Trim_char_Nil core_mask_value_def foldl_hex_zero list_all_iff hex_char_val_0)

lemma validate_options_spdk:
  "validate_options ''spdk'' opts = None \<longleftrightarrow>
     list_all (\<lambda>(name, value). name = SPDKCoreMaskOption \<and> ValidateSPDKCoreMask value = None) opts"
  by (induction opts) (simp_all split: option.split prod.split)

section \<open>Properties\<close>

text \<open>A core mask is accepted exactly when it is \<^verbatim>\<open>0x\<close> followed by hexadecimal digits,
  fits in 258 bytes (1024 CPUs), and the number it denotes selects at least one CPU.\<close>

lemma ValidateSPDKCoreMask_iff:
  "ValidateSPDKCoreMask m = None \<longleftrightarrow>
     (\<exists>ds. m = ''0x'' @ ds \<and> list_all is_hex_char ds \<and> length ds \<le> 256 \<and> 0 < core_mask_value m)"
proof -
  have "core_mask_value ''0x'' = 0" by (simp add: core_mask_value_def)
  then have pat: "spdkCoreMaskPattern m \<and> 0 < core_mask_value m \<longleftrightarrow>
      (\<exists>ds. m = ''0x'' @ ds \<and> list_all is_hex_char ds) \<and> 0 < core_mask_value m"
    by (auto simp: spdkCoreMaskPattern_def HasPrefix_iff prefix_def)
  have "ValidateSPDKCoreMask m = None \<longleftrightarrow>
      length m \<le> 258 \<and> spdkCoreMaskPattern m \<and> Trim_char CHR ''0'' (drop 2 m) \<noteq> []"
    by (simp add: ValidateSPDKCoreMask_def MaxSPDKCoreMaskLength_def not_less)
  also have "\<dots> \<longleftrightarrow> length m \<le> 258 \<and> spdkCoreMaskPattern m \<and> 0 < core_mask_value m"
    using core_mask_selects [of m] by (simp add: spdkCoreMaskPattern_def cong: conj_cong)
  finally show ?thesis using pat by auto
qed

text \<open>Options are accepted exactly when each of them is a valid core mask for the SPDK
  backend, the default; the kernel backend and unknown backends accept no option at all.\<close>

lemma storageoptions_Validate_iff:
  "storageoptions_Validate b opts = None \<longleftrightarrow>
     list_all (\<lambda>(name, value). b \<in> {[], ''spdk''} \<and> name = SPDKCoreMaskOption \<and>
        ValidateSPDKCoreMask value = None) opts"
proof -
  have spdk: "validate_options ''spdk'' opts = None \<longleftrightarrow>
      list_all (\<lambda>(name, value). name = SPDKCoreMaskOption \<and> ValidateSPDKCoreMask value = None) opts"
    by (rule validate_options_spdk)
  show ?thesis
  proof (cases "b = [] \<or> b = ''spdk''")
    case True
    then have "storageoptions_Validate b opts = validate_options ''spdk'' opts"
      by (auto simp: storageoptions_Validate_def)
    with spdk True show ?thesis by simp
  next
    case False
    then show ?thesis
      by (cases opts; cases "hd opts") (simp_all add: storageoptions_Validate_def)
  qed
qed

end
