(* ===== verification/Go_Encoding.thy ===== *)
theory Go_Encoding
  imports Go_Strings
begin

text \<open>
  Binary encodings of the Go standard library that DISTORT's identities are built from:
  \<^verbatim>\<open>encoding/hex\<close>, \<^verbatim>\<open>encoding/base64\<close> (\<^verbatim>\<open>RawURLEncoding\<close>), \<^verbatim>\<open>encoding/binary\<close> and
  \<^verbatim>\<open>crypto/sha256\<close>. Byte strings are \<^typ>\<open>string\<close>s. SHA-256 is written out after FIPS 180-4
  on 32-bit words and evaluates in the kernel.

  The locale \<open>codec\<close> is the contract of an encoding: decoding undoes encoding.
  The base64 codec is its first instance, and the volume handles of
  \<^verbatim>\<open>internal/volumeidentity\<close> are another.
\<close>

section \<open>Codecs\<close>

locale codec =
  fixes enc :: "'a \<Rightarrow> 'b" and dec :: "'b \<Rightarrow> 'e + 'a" and dom_ok :: "'a \<Rightarrow> bool"
  assumes dec_enc: "dom_ok x \<Longrightarrow> dec (enc x) = Inr x"
begin

lemma enc_inj: "dom_ok x \<Longrightarrow> dom_ok y \<Longrightarrow> enc x = enc y \<Longrightarrow> x = y"
  by (metis dec_enc sum.inject(2))

lemma enc_eq_iff: "dom_ok x \<Longrightarrow> dom_ok y \<Longrightarrow> enc x = enc y \<longleftrightarrow> x = y"
  using enc_inj by blast

end

section \<open>Package encoding/hex\<close>

definition hex_digit :: "nat \<Rightarrow> char" where
  "hex_digit d = (if d < 10 then char_of (48 + d) else char_of (87 + d))"

definition hex_byte :: "char \<Rightarrow> string" where
  "hex_byte c = [hex_digit (of_char c div 16), hex_digit (of_char c mod 16)]"

definition hex_EncodeToString :: "string \<Rightarrow> string" where
  "hex_EncodeToString bs = concat (map hex_byte bs)"

definition is_hex_lower :: "char \<Rightarrow> bool" where
  "is_hex_lower c \<longleftrightarrow> (let n = of_char c :: nat in (48 \<le> n \<and> n \<le> 57) \<or> (97 \<le> n \<and> n \<le> 102))"

lemma hex_digit_value:
  "d < 16 \<Longrightarrow> (of_char (hex_digit d) :: nat) = (if d < 10 then 48 + d else 87 + d)"
  by (simp add: hex_digit_def)

lemma hex_digit_inj:
  assumes "a < 16" and "b < 16" and "hex_digit a = hex_digit b"
  shows "a = b"
proof -
  have "(if a < 10 then 48 + a else 87 + a) = (if b < 10 then 48 + b else 87 + b)"
    using assms hex_digit_value by metis
  with assms(1,2) show ?thesis by (simp split: if_splits)
qed

lemma is_hex_lower_hex_digit: "d < 16 \<Longrightarrow> is_hex_lower (hex_digit d)"
  by (auto simp: is_hex_lower_def Let_def hex_digit_value)

lemma of_char_less_256: "(of_char c :: nat) < 256"
  by (rule nat_of_char_less_256)

lemma hex_byte_inj: "hex_byte a = hex_byte b \<Longrightarrow> a = b"
proof -
  assume h: "hex_byte a = hex_byte b"
  have a: "(of_char a :: nat) div 16 < 16" and b: "(of_char b :: nat) div 16 < 16"
    using of_char_less_256 [of a] of_char_less_256 [of b] by linarith+
  from h have "(of_char a :: nat) div 16 = of_char b div 16" and "(of_char a :: nat) mod 16 = of_char b mod 16"
    using hex_digit_inj [OF a b] hex_digit_inj [of "of_char a mod 16" "of_char b mod 16"]
    by (simp_all add: hex_byte_def)
  then have "(of_char a :: nat) = of_char b"
    by (metis div_mult_mod_eq)
  then show "a = b" by simp
qed

lemma length_hex [simp]: "length (hex_EncodeToString bs) = 2 * length bs"
  by (induction bs) (auto simp: hex_EncodeToString_def hex_byte_def)

lemma hex_chars: "c \<in> set (hex_EncodeToString bs) \<Longrightarrow> is_hex_lower c"
  using of_char_less_256
  by (auto simp: hex_EncodeToString_def hex_byte_def intro!: is_hex_lower_hex_digit less_mult_imp_div_less)

lemma hex_inj: "hex_EncodeToString a = hex_EncodeToString b \<Longrightarrow> a = b"
proof (induction a arbitrary: b)
  case Nil
  then show ?case by (cases b) (auto simp: hex_EncodeToString_def hex_byte_def)
next
  case (Cons x xs)
  then obtain y ys where b: "b = y # ys"
    by (cases b) (auto simp: hex_EncodeToString_def hex_byte_def)
  from Cons.prems b have "hex_byte x = hex_byte y" and "hex_EncodeToString xs = hex_EncodeToString ys"
    by (auto simp: hex_EncodeToString_def hex_byte_def)
  with Cons.IH b show ?case by (simp add: hex_byte_inj)
qed

section \<open>Package encoding/binary\<close>

text \<open>\<^verbatim>\<open>binary.BigEndian.PutUint64\<close>: the eight bytes of a 64-bit unsigned number, most
  significant first.\<close>

definition PutUint64_BE :: "64 word \<Rightarrow> string" where
  "PutUint64_BE w = map (\<lambda>i. char_of (unat (take_bit 8 (drop_bit (8 * i) w)))) [7, 6, 5, 4, 3, 2, 1, 0]"

lemma length_PutUint64_BE [simp]: "length (PutUint64_BE w) = 8"
  by (simp add: PutUint64_BE_def)

lemma char_of_unat_byte:
  assumes "char_of (unat (take_bit 8 v)) = (char_of (unat (take_bit 8 w)) :: char)"
  shows "take_bit 8 v = (take_bit 8 w :: 64 word)"
proof -
  have less: "unat (take_bit 8 u) < 256" for u :: "64 word"
    using take_bit_nat_less_exp [of 8 "unat u"] by (simp add: unsigned_take_bit_eq)
  from assms have "(of_char (char_of (unat (take_bit 8 v)) :: char) :: nat) = of_char (char_of (unat (take_bit 8 w)) :: char)"
    by (simp only:)
  then have "unat (take_bit 8 v) mod 256 = unat (take_bit 8 w) mod 256"
    by (simp only: of_char_of)
  then have "unat (take_bit 8 v) = unat (take_bit 8 w)"
    using less by (metis mod_less)
  then show ?thesis by (rule word_unat_eq_iff [THEN iffD2])
qed

lemma PutUint64_BE_inj:
  assumes "PutUint64_BE v = PutUint64_BE w"
  shows "v = w"
proof (rule bit_word_eqI)
  fix n
  assume "n < LENGTH(64)"
  then have n: "n = 8 * (n div 8) + n mod 8" and i: "n div 8 \<in> set [7, 6, 5, 4, 3, 2, 1, 0]"
    by auto
  let ?i = "n div 8"
  from assms i have "char_of (unat (take_bit 8 (drop_bit (8 * ?i) v))) = (char_of (unat (take_bit 8 (drop_bit (8 * ?i) w))) :: char)"
    unfolding PutUint64_BE_def by (simp only: map_eq_conv)
  then have "take_bit 8 (drop_bit (8 * ?i) v) = take_bit 8 (drop_bit (8 * ?i) w)"
    by (rule char_of_unat_byte)
  then have "bit (take_bit 8 (drop_bit (8 * ?i) v)) (n mod 8) = bit (take_bit 8 (drop_bit (8 * ?i) w)) (n mod 8)"
    by simp
  then show "bit v n = bit w n"
    by (simp add: bit_take_bit_iff bit_drop_bit_eq)
qed

section \<open>Package encoding/base64\<close>

definition b64url_alphabet :: string where
  "b64url_alphabet = ''ABCDEFGHIJKLMNOPQRSTUVWXYZabcdefghijklmnopqrstuvwxyz0123456789-_''"

definition b64_char :: "nat \<Rightarrow> char" where
  "b64_char v = b64url_alphabet ! v"

fun b64_index :: "string \<Rightarrow> char \<Rightarrow> nat \<Rightarrow> nat option" where
  "b64_index [] c i = None"
| "b64_index (x # xs) c i = (if x = c then Some i else b64_index xs c (Suc i))"

definition b64_val :: "char \<Rightarrow> nat option" where
  "b64_val c = b64_index b64url_alphabet c 0"

fun b64_sextets :: "nat list \<Rightarrow> nat list" where
  "b64_sextets [] = []"
| "b64_sextets [a] = [a div 4, a mod 4 * 16]"
| "b64_sextets [a, b] = [a div 4, a mod 4 * 16 + b div 16, b mod 16 * 4]"
| "b64_sextets (a # b # c # r) =
     a div 4 # (a mod 4 * 16 + b div 16) # (b mod 16 * 4 + c div 64) # c mod 64 # b64_sextets r"

text \<open>The Go decoder is not strict: left-over bits of the last character are ignored. A single
  left-over character is an error.\<close>

fun b64_bytes :: "nat list \<Rightarrow> nat list option" where
  "b64_bytes [] = Some []"
| "b64_bytes [x] = None"
| "b64_bytes [x, y] = Some [x * 4 + y div 16]"
| "b64_bytes [x, y, z] = Some [x * 4 + y div 16, y mod 16 * 16 + z div 4]"
| "b64_bytes (x # y # z # w # r) =
     (case b64_bytes r of None \<Rightarrow> None
      | Some bs \<Rightarrow> Some ((x * 4 + y div 16) # (y mod 16 * 16 + z div 4) # (z mod 4 * 64 + w) # bs))"

definition RawURLEncoding_EncodeToString :: "string \<Rightarrow> string" where
  "RawURLEncoding_EncodeToString bs = map b64_char (b64_sextets (map of_char bs))"

text \<open>The decoder skips carriage returns and line feeds, and rejects any other byte that is not
  in the alphabet.\<close>

definition RawURLEncoding_DecodeString :: "string \<Rightarrow> string option" where
  "RawURLEncoding_DecodeString s =
     (let vs = map b64_val (filter (\<lambda>c. of_char c \<noteq> (10 :: nat) \<and> of_char c \<noteq> (13 :: nat)) s)
      in if None \<in> set vs then None
         else map_option (map char_of) (b64_bytes (map the vs)))"

lemma b64_char_facts:
  "list_all (\<lambda>v. b64_val (b64_char v) = Some v \<and> of_char (b64_char v) \<noteq> (10 :: nat)
      \<and> of_char (b64_char v) \<noteq> (13 :: nat) \<and> b64_char v \<noteq> CHR ''.'') [0..<64]"
  by code_simp

lemma b64_char_val [simp]: "v < 64 \<Longrightarrow> b64_val (b64_char v) = Some v"
  using b64_char_facts by (simp add: list_all_iff)

lemma b64_char_plain:
  "v < 64 \<Longrightarrow> of_char (b64_char v) \<noteq> (10 :: nat) \<and> of_char (b64_char v) \<noteq> (13 :: nat) \<and> b64_char v \<noteq> CHR ''.''"
  using b64_char_facts by (simp add: list_all_iff)

lemma b64_sextets_less: "\<forall>b \<in> set bs. b < 256 \<Longrightarrow> v \<in> set (b64_sextets bs) \<Longrightarrow> v < 64"
  by (induction bs rule: b64_sextets.induct) auto

lemma b64_arith:
  fixes a b c :: nat
  assumes "a < 256" and "b < 256" and "c < 256"
  shows "a div 4 * 4 + a mod 4 * 16 div 16 = a"
    and "a div 4 * 4 + (a mod 4 * 16 + b div 16) div 16 = a"
    and "(a mod 4 * 16 + b div 16) mod 16 * 16 + b mod 16 * 4 div 4 = b"
    and "(a mod 4 * 16 + b div 16) mod 16 * 16 + (b mod 16 * 4 + c div 64) div 4 = b"
    and "(b mod 16 * 4 + c div 64) mod 4 * 64 + c mod 64 = c"
proof -
  have bd: "b div 16 < 16" and cd: "c div 64 < 4"
    using assms by (simp_all add: less_mult_imp_div_less)
  show "a div 4 * 4 + a mod 4 * 16 div 16 = a" by simp
  show "a div 4 * 4 + (a mod 4 * 16 + b div 16) div 16 = a" using bd by simp
  show "(a mod 4 * 16 + b div 16) mod 16 * 16 + b mod 16 * 4 div 4 = b" using bd by simp
  show "(a mod 4 * 16 + b div 16) mod 16 * 16 + (b mod 16 * 4 + c div 64) div 4 = b" using bd cd by simp
  show "(b mod 16 * 4 + c div 64) mod 4 * 64 + c mod 64 = c" using cd by simp
qed

lemma b64_bytes_sextets: "\<forall>b \<in> set bs. b < 256 \<Longrightarrow> b64_bytes (b64_sextets bs) = Some bs"
proof (induction bs rule: b64_sextets.induct)
  case 1
  then show ?case by simp
next
  case (2 a)
  then show ?case using b64_arith(1) [of a 0 0] by simp
next
  case (3 a b)
  then show ?case using b64_arith(2,3) [of a b 0] by simp
next
  case (4 a b c r)
  then have "a < 256" and "b < 256" and "c < 256" and "b64_bytes (b64_sextets r) = Some r"
    by simp_all
  then show ?case using b64_arith(2,4,5) [of a b c] by simp
qed

lemma RawURL_roundtrip [simp]: "RawURLEncoding_DecodeString (RawURLEncoding_EncodeToString bs) = Some bs"
proof -
  let ?vs = "b64_sextets (map of_char bs)"
  have less: "v < 64" if "v \<in> set ?vs" for v
    using b64_sextets_less [OF _ that] of_char_less_256 by auto
  have flt: "filter (\<lambda>c. of_char c \<noteq> (10 :: nat) \<and> of_char c \<noteq> (13 :: nat)) (map b64_char ?vs) = map b64_char ?vs"
    using less b64_char_plain by (auto simp: filter_id_conv)
  have vals: "map b64_val (map b64_char ?vs) = map Some ?vs"
    using less by simp
  have "b64_bytes ?vs = Some (map of_char bs)"
    by (rule b64_bytes_sextets) (auto simp: of_char_less_256)
  then show ?thesis
    unfolding RawURLEncoding_DecodeString_def RawURLEncoding_EncodeToString_def flt Let_def vals
    by (auto simp: comp_def image_iff)
qed

lemma RawURL_no_dot: "CHR ''.'' \<notin> set (RawURLEncoding_EncodeToString bs)"
proof
  assume "CHR ''.'' \<in> set (RawURLEncoding_EncodeToString bs)"
  then obtain v where "v \<in> set (b64_sextets (map of_char bs))" and eq: "b64_char v = CHR ''.''"
    by (auto simp: RawURLEncoding_EncodeToString_def)
  then have "v < 64"
    using b64_sextets_less [of "map of_char bs" v] of_char_less_256 by auto
  with b64_char_plain eq show False by blast
qed

definition b64_decode_result :: "string \<Rightarrow> unit + string" where
  "b64_decode_result s = (case RawURLEncoding_DecodeString s of None \<Rightarrow> Inl () | Some b \<Rightarrow> Inr b)"

interpretation b64: codec RawURLEncoding_EncodeToString b64_decode_result "\<lambda>_. True"
  by unfold_locales (simp add: b64_decode_result_def)

section \<open>Package crypto/sha256\<close>

unbundle bit_operations_syntax

type_synonym u32 = "32 word"

definition rotr32 :: "nat \<Rightarrow> u32 \<Rightarrow> u32" where
  "rotr32 n x = drop_bit n x OR push_bit (32 - n) x"

definition sha_K :: "u32 list" where
  "sha_K = [
     1116352408, 1899447441, 3049323471, 3921009573,
     961987163, 1508970993, 2453635748, 2870763221,
     3624381080, 310598401, 607225278, 1426881987,
     1925078388, 2162078206, 2614888103, 3248222580,
     3835390401, 4022224774, 264347078, 604807628,
     770255983, 1249150122, 1555081692, 1996064986,
     2554220882, 2821834349, 2952996808, 3210313671,
     3336571891, 3584528711, 113926993, 338241895,
     666307205, 773529912, 1294757372, 1396182291,
     1695183700, 1986661051, 2177026350, 2456956037,
     2730485921, 2820302411, 3259730800, 3345764771,
     3516065817, 3600352804, 4094571909, 275423344,
     430227734, 506948616, 659060556, 883997877,
     958139571, 1322822218, 1537002063, 1747873779,
     1955562222, 2024104815, 2227730452, 2361852424,
     2428436474, 2756734187, 3204031479, 3329325298]"

definition sha_H0 :: "u32 list" where
  "sha_H0 = [
     1779033703, 3144134277, 1013904242, 2773480762,
     1359893119, 2600822924, 528734635, 1541459225]"

definition be32_word :: "string \<Rightarrow> u32" where
  "be32_word bs = foldl (\<lambda>w c. push_bit 8 w OR of_nat (of_char c)) 0 bs"

definition word_be32 :: "u32 \<Rightarrow> string" where
  "word_be32 w = map (\<lambda>i. char_of (unat (drop_bit (8 * i) w AND 255))) [3, 2, 1, 0]"

fun chunks :: "nat \<Rightarrow> nat \<Rightarrow> 'a list \<Rightarrow> 'a list list" where
  "chunks 0 k xs = []"
| "chunks (Suc n) k xs = take k xs # chunks n k (drop k xs)"

text \<open>Padding: a one bit, zeros, and the bit length as a 64-bit big-endian number, to a
  multiple of 64 bytes.\<close>

definition sha_pad :: "string \<Rightarrow> string" where
  "sha_pad m =
     m @ char_of (128 :: nat) # replicate ((119 - length m mod 64) mod 64) (char_of (0 :: nat))
       @ PutUint64_BE (of_nat (8 * length m))"

fun sha_extend :: "nat \<Rightarrow> u32 list \<Rightarrow> u32 list" where
  "sha_extend 0 w = w"
| "sha_extend (Suc n) w =
     (let w15 = w ! 14; w2 = w ! 1;
          s0 = rotr32 7 w15 XOR rotr32 18 w15 XOR drop_bit 3 w15;
          s1 = rotr32 17 w2 XOR rotr32 19 w2 XOR drop_bit 10 w2
      in sha_extend n ((w ! 15 + s0 + w ! 6 + s1) # w))"

definition sha_schedule :: "string \<Rightarrow> u32 list" where
  "sha_schedule block = rev (sha_extend 48 (rev (map be32_word (chunks 16 4 block))))"

fun sha_round :: "u32 list \<Rightarrow> u32 \<times> u32 \<Rightarrow> u32 list" where
  "sha_round [a, b, c, d, e, f, g, h] (k, w) =
     (let s1 = rotr32 6 e XOR rotr32 11 e XOR rotr32 25 e;
          ch = (e AND f) XOR (NOT e AND g);
          t1 = h + s1 + ch + k + w;
          s0 = rotr32 2 a XOR rotr32 13 a XOR rotr32 22 a;
          maj = (a AND b) XOR (a AND c) XOR (b AND c);
          t2 = s0 + maj
      in [t1 + t2, a, b, c, d + t1, e, f, g])"
| "sha_round s kw = s"

definition sha_block :: "u32 list \<Rightarrow> string \<Rightarrow> u32 list" where
  "sha_block h block = map2 (+) h (foldl sha_round h (zip sha_K (sha_schedule block)))"

definition Sum256 :: "string \<Rightarrow> string" where
  "Sum256 m =
     (let p = sha_pad m
      in concat (map word_be32 (foldl sha_block sha_H0 (chunks (length p div 64) 64 p))))"

lemma length_sha_round: "length s = 8 \<Longrightarrow> length (sha_round s kw) = 8"
  by (cases "(s, kw)" rule: sha_round.cases) (auto simp: Let_def)

lemma length_sha_rounds: "length s = 8 \<Longrightarrow> length (foldl sha_round s kws) = 8"
  by (induction kws arbitrary: s) (auto simp: length_sha_round)

lemma length_sha_blocks: "length h = 8 \<Longrightarrow> length (foldl sha_block h bs) = 8"
  by (induction bs arbitrary: h) (auto simp: sha_block_def length_sha_rounds)

lemma length_concat_word_be32: "length (concat (map word_be32 ws)) = 4 * length ws"
  by (induction ws) (auto simp: word_be32_def)

lemma length_Sum256 [simp]: "length (Sum256 m) = 32"
proof -
  have "length sha_H0 = 8" by (simp add: sha_H0_def)
  then show ?thesis
    by (simp add: Sum256_def Let_def length_concat_word_be32 length_sha_blocks)
qed

end
