(* ===== verification/Volume_Identity.thy ===== *)
theory Volume_Identity
  imports Go_Encoding Go_Errors
begin

text \<open>
  The packages \<^verbatim>\<open>internal/volumeidentity\<close> and \<^verbatim>\<open>internal/attachment\<close>: the identifiers derived
  from a Kubernetes object, and the CSI volume handle that names one object exactly. The
  handle is an instance of the locale \<open>codec\<close> (interpretation \<open>vh\<close>).
\<close>

section \<open>internal/volumeidentity\<close>

definition handlePrefix :: string where
  "handlePrefix = ''distort-v1''"

definition nqnPrefix :: string where
  "nqnPrefix = ''nqn.2026-02.io.distort:volume-''"

record Identity =
  id_ExternalID :: string
  id_VolumeHandle :: string

record Reference =
  r_Namespace :: string
  r_Name :: string
  r_UID :: string

definition volumeidentity_New :: "string \<Rightarrow> string \<Rightarrow> string \<Rightarrow> error + Identity" where
  "volumeidentity_New namespace name uid =
     (if namespace = [] \<or> name = [] \<or> uid = []
      then Inl (Errorf ''namespace, name, and UID are required for volume identity'' [])
      else let digest = Sum256 uid;
               externalID = ''vol-'' @ hex_EncodeToString (take 16 digest)
           in Inr \<lparr>id_ExternalID = externalID,
                   id_VolumeHandle = Join [handlePrefix,
                     RawURLEncoding_EncodeToString namespace,
                     RawURLEncoding_EncodeToString name,
                     RawURLEncoding_EncodeToString uid] ''.''\<rparr>)"

definition decode_field :: "string \<Rightarrow> string \<Rightarrow> error + string" where
  "decode_field field encoded =
     (case RawURLEncoding_DecodeString encoded of
        None \<Rightarrow> Inl (Errorf ''invalid %s in volume handle'' [S field])
      | Some value \<Rightarrow> if value = [] then Inl (Errorf ''invalid %s in volume handle'' [S field])
                      else Inr value)"

definition ParseVolumeHandle :: "string \<Rightarrow> error + Reference" where
  "ParseVolumeHandle handle =
     (let parts = Split handle CHR ''.''
      in if length parts \<noteq> 4 \<or> parts ! 0 \<noteq> handlePrefix
         then Inl (Errorf ''unsupported volume handle format'' [])
         else case decode_field ''namespace'' (parts ! 1) of
                Inl e \<Rightarrow> Inl e
              | Inr namespace \<Rightarrow> (case decode_field ''name'' (parts ! 2) of
                  Inl e \<Rightarrow> Inl e
                | Inr name \<Rightarrow> (case decode_field ''UID'' (parts ! 3) of
                    Inl e \<Rightarrow> Inl e
                  | Inr uid \<Rightarrow> Inr \<lparr>r_Namespace = namespace, r_Name = name, r_UID = uid\<rparr>)))"

definition NQN :: "string \<Rightarrow> string" where
  "NQN externalID = nqnPrefix @ externalID"

definition ExternalIDFromNQN :: "string \<Rightarrow> string \<times> bool" where
  "ExternalIDFromNQN nqn =
     (case CutPrefix nqn nqnPrefix of (externalID, found) \<Rightarrow> (externalID, found \<and> externalID \<noteq> []))"

section \<open>internal/attachment\<close>

definition attachment_Finalizer :: string where
  "attachment_Finalizer = ''storage.distort.io/attachment-fencing''"

definition ForceDetachAnnotation :: string where
  "ForceDetachAnnotation = ''storage.distort.io/force-detach-node''"

definition AccessReadyCondition :: string where
  "AccessReadyCondition = ''AccessReady''"

definition attachment_Name :: "string \<Rightarrow> string" where
  "attachment_Name volumeUID = ''nvme-attach-'' @ ToLower volumeUID"

definition HostNQN :: "string \<Rightarrow> string" where
  "HostNQN nodeID =
     (let digest = Sum256 nodeID
      in ''nqn.2026-01.io.distort:host-'' @ hex_EncodeToString (take 16 digest))"

section \<open>Lemmas\<close>

definition reference_ok :: "Reference \<Rightarrow> bool" where
  "reference_ok r \<longleftrightarrow> r_Namespace r \<noteq> [] \<and> r_Name r \<noteq> [] \<and> r_UID r \<noteq> []"

text \<open>The handle \<open>New\<close> puts into an identity.\<close>

definition handle_of :: "Reference \<Rightarrow> string" where
  "handle_of r = Join [handlePrefix,
     RawURLEncoding_EncodeToString (r_Namespace r),
     RawURLEncoding_EncodeToString (r_Name r),
     RawURLEncoding_EncodeToString (r_UID r)] ''.''"

lemma New_handle:
  "volumeidentity_New ns n u = Inr i \<Longrightarrow>
   id_VolumeHandle i = handle_of \<lparr>r_Namespace = ns, r_Name = n, r_UID = u\<rparr> \<and>
   reference_ok \<lparr>r_Namespace = ns, r_Name = n, r_UID = u\<rparr>"
  by (auto simp: volumeidentity_New_def handle_of_def reference_ok_def Let_def split: if_splits)

lemma decode_field_encode [simp]:
  "v \<noteq> [] \<Longrightarrow> decode_field f (RawURLEncoding_EncodeToString v) = Inr v"
  by (simp add: decode_field_def)

lemma Split_handle_of:
  "Split (handle_of r) CHR ''.'' = [handlePrefix, RawURLEncoding_EncodeToString (r_Namespace r),
     RawURLEncoding_EncodeToString (r_Name r), RawURLEncoding_EncodeToString (r_UID r)]"
  unfolding handle_of_def
  by (rule Split_Join) (auto simp: handlePrefix_def RawURL_no_dot)

interpretation vh: codec handle_of ParseVolumeHandle reference_ok
  by unfold_locales (simp add: ParseVolumeHandle_def Split_handle_of reference_ok_def)

text \<open>Every accepted handle names a whole reference.\<close>

lemma ParseVolumeHandle_ok: "ParseVolumeHandle h = Inr r \<Longrightarrow> reference_ok r"
  by (auto simp: ParseVolumeHandle_def reference_ok_def decode_field_def Let_def
      split: if_splits sum.splits option.splits)

section \<open>Properties\<close>

text \<open>C14: the volume handle of an object parses back to exactly that object's namespace,
  name and UID, and an identity is refused only when one of them is empty.\<close>

theorem ParseVolumeHandle_New:
  "case volumeidentity_New ns n u of
     Inl e \<Rightarrow> ns = [] \<or> n = [] \<or> u = []
   | Inr i \<Rightarrow> ParseVolumeHandle (id_VolumeHandle i) =
       Inr \<lparr>r_Namespace = ns, r_Name = n, r_UID = u\<rparr>"
proof (cases "volumeidentity_New ns n u")
  case (Inl e)
  then show ?thesis
    by (auto simp: volumeidentity_New_def Let_def split: if_splits)
next
  case (Inr i)
  with New_handle [OF Inr] vh.dec_enc show ?thesis by simp
qed

text \<open>Two objects with the same volume handle are the same object, so a handle issued
  for one volume can never address another.\<close>

lemma VolumeHandle_injective:
  assumes "volumeidentity_New ns n u = Inr i" and "volumeidentity_New ns' n' u' = Inr i'"
    and "id_VolumeHandle i = id_VolumeHandle i'"
  shows "ns = ns' \<and> n = n' \<and> u = u'"
  using vh.enc_inj [of "\<lparr>r_Namespace = ns, r_Name = n, r_UID = u\<rparr>"
      "\<lparr>r_Namespace = ns', r_Name = n', r_UID = u'\<rparr>"]
    New_handle [OF assms(1)] New_handle [OF assms(2)] assms(3)
  by simp

text \<open>The NVMe qualified name of a volume determines its external identifier.\<close>

lemma ExternalIDFromNQN_NQN:
  "ExternalIDFromNQN (NQN x) = (x, x \<noteq> []) \<and>
   (ExternalIDFromNQN nqn = (y, True) \<longleftrightarrow> nqn = NQN y \<and> y \<noteq> [])"
  using CutPrefix_True [of nqn nqnPrefix y]
  by (auto simp: ExternalIDFromNQN_def NQN_def split: prod.splits)

end
