(* ===== verification/Api_Types.thy ===== *)
theory Api_Types
  imports Go_Errors
begin

text \<open>
  The custom resources of \<^verbatim>\<open>api/v1alpha1\<close>: one record per Go struct, with the fields in
  the order of the source. Field names carry a prefix for their struct, because Go reuses
  names such as \<^verbatim>\<open>NodeName\<close> across structs. A \<^verbatim>\<open>resource.Quantity\<close> is its \<^verbatim>\<open>Value()\<close> in
  bytes, the only view the program takes of it. A nil pointer is \<open>None\<close>. Object values
  are immutable here, so \<^verbatim>\<open>DeepCopy\<close> is the identity.
\<close>

type_synonym nname = "string \<times> string" \<comment> \<open>namespace and name\<close>

section \<open>Object metadata and conditions\<close>

datatype ConditionStatus = ConditionTrue | ConditionFalse | ConditionUnknown

text \<open>A condition's message is a literal of the source or the text of an error.\<close>

datatype message = Text string | ErrorText error

record Condition =
  cond_Type :: string
  cond_Status :: ConditionStatus
  cond_ObservedGeneration :: int
  cond_LastTransitionTime :: int
  cond_Reason :: string
  cond_Message :: message

record OwnerReference =
  or_APIVersion :: string
  or_Kind :: string
  or_Name :: string
  or_UID :: string
  or_Controller :: bool
  or_BlockOwnerDeletion :: bool

record ObjectMeta =
  om_Name :: string
  om_Namespace :: string
  om_UID :: string
  om_Generation :: int
  om_ResourceVersion :: string
  om_DeletionTimestamp :: "int option"
  om_Finalizers :: "string list"
  om_Annotations :: strmap
  om_OwnerReferences :: "OwnerReference list"

text \<open>\<^verbatim>\<open>DeletionTimestamp.IsZero()\<close>, on a nil pointer too.\<close>

definition not_deleting :: "ObjectMeta \<Rightarrow> bool" where
  "not_deleting m \<longleftrightarrow> (case om_DeletionTimestamp m of None \<Rightarrow> True | Some t \<Rightarrow> time_IsZero t)"

definition object_key :: "ObjectMeta \<Rightarrow> nname" where
  "object_key m = (om_Namespace m, om_Name m)"

text \<open>\<^verbatim>\<open>NamespacedName.String()\<close>.\<close>

definition key_String :: "nname \<Rightarrow> string" where
  "key_String k = fst k @ ''/'' @ snd k"

text \<open>A condition as a composite literal of the source writes it.\<close>

definition mk_Condition :: "string \<Rightarrow> ConditionStatus \<Rightarrow> int \<Rightarrow> string \<Rightarrow> message \<Rightarrow> Condition" where
  "mk_Condition ty st gen reason msg =
     \<lparr>cond_Type = ty, cond_Status = st, cond_ObservedGeneration = gen,
      cond_LastTransitionTime = zero_time, cond_Reason = reason, cond_Message = msg\<rparr>"

section \<open>NVMeDeviceClaim\<close>

record NVMeDeviceClaimReference =
  ref_Namespace :: string
  ref_Name :: string
  ref_UID :: string

record NVMeDeviceClaimSpec =
  cs_SerialNumber :: string

record NVMeDeviceClaimStatus =
  cst_Active :: bool
  cst_MatchedDevice :: string
  cst_NodeName :: string
  cst_Conditions :: "Condition list"

record NVMeDeviceClaim =
  c_meta :: ObjectMeta
  c_spec :: NVMeDeviceClaimSpec
  c_status :: NVMeDeviceClaimStatus

section \<open>NVMeDevice\<close>

datatype NVMeDeviceState = DeviceStateUnset | DeviceAvailable | DeviceClaimed | DeviceUnavailable

record NVMeDeviceSpec =
  ds_NodeName :: string
  ds_PCIAddress :: string
  ds_SerialNumber :: string
  ds_Model :: string
  ds_TotalCapacity :: int
  ds_NUMANode :: int

record NVMeDeviceStatus =
  dst_State :: NVMeDeviceState
  dst_ClaimRef :: "NVMeDeviceClaimReference option"
  dst_FreeCapacity :: int
  dst_ActiveBackend :: string
  dst_Conditions :: "Condition list"

record NVMeDevice =
  d_meta :: ObjectMeta
  d_spec :: NVMeDeviceSpec
  d_status :: NVMeDeviceStatus

section \<open>NVMePartition\<close>

datatype NVMePartitionState =
  PartitionStateUnset | PartitionPending | PartitionCreating | PartitionExported | PartitionFailed

record NVMePartitionSpec =
  ps_Size :: int
  ps_NodeName :: string
  ps_ParentDeviceSerialNumber :: string
  ps_ClaimRef :: "NVMeDeviceClaimReference option"
  ps_AccessMode :: string
  ps_Filesystem :: string
  ps_RequestFingerprint :: string
  ps_TargetBackend :: string
  ps_VolumeManager :: string
  ps_TargetOptions :: strmap

record NVMePartitionStatus =
  pst_PlacementFingerprint :: string
  pst_State :: NVMePartitionState
  pst_ExternalID :: string
  pst_VolumeID :: string
  pst_BackendVolumeID :: string
  pst_AllocatedCapacity :: int
  pst_SPDKBaseBdev :: string
  pst_SPDKLvstoreName :: string
  pst_SPDKLvstoreUUID :: string
  pst_SPDKLvolName :: string
  pst_SPDKLvolUUID :: string
  pst_NQN :: string
  pst_PortalIP :: string
  pst_PortalPort :: int
  pst_Conditions :: "Condition list"

record NVMePartition =
  p_meta :: ObjectMeta
  p_spec :: NVMePartitionSpec
  p_status :: NVMePartitionStatus

section \<open>RDMAStorageNode\<close>

datatype RDMATransportType = RDMATransportRoCEv2 | RDMATransportInfiniBand | RDMATransportOther string

record RDMAStorageNodeSpec =
  ns_NodeName :: string
  ns_RDMAIP :: string
  ns_Transport :: RDMATransportType
  ns_LinkSpeed :: string

record RDMAStorageNodeStatus =
  nst_LastHeartbeatTime :: int
  nst_TotalCapacity :: int
  nst_FreeCapacity :: int
  nst_ActiveExports :: int
  nst_Conditions :: "Condition list"

record RDMAStorageNode =
  n_meta :: ObjectMeta
  n_spec :: RDMAStorageNodeSpec
  n_status :: RDMAStorageNodeStatus

definition NVMeInventoryReadyCondition :: string where
  "NVMeInventoryReadyCondition = ''NVMeInventoryReady''"

section \<open>NVMeVolumeAttachment\<close>

record NVMeVolumeReference =
  vr_Name :: string
  vr_UID :: string

record NVMeVolumeAttachmentSpec =
  as_VolumeRef :: NVMeVolumeReference
  as_NodeID :: string
  as_HostNQN :: string
  as_AttachmentID :: string

record NVMeVolumeAttachmentStatus =
  ast_ObservedAttachmentID :: string
  ast_Conditions :: "Condition list"

record NVMeVolumeAttachment =
  a_meta :: ObjectMeta
  a_spec :: NVMeVolumeAttachmentSpec
  a_status :: NVMeVolumeAttachmentStatus

section \<open>Zero values\<close>

text \<open>What a composite literal leaves out.\<close>

definition new_meta :: "string \<Rightarrow> string \<Rightarrow> ObjectMeta" where
  "new_meta ns n = \<lparr>om_Name = n, om_Namespace = ns, om_UID = [], om_Generation = 0, om_ResourceVersion = [],
     om_DeletionTimestamp = None, om_Finalizers = [], om_Annotations = [], om_OwnerReferences = []\<rparr>"

definition zero_partition_status :: NVMePartitionStatus where
  "zero_partition_status = \<lparr>pst_PlacementFingerprint = [], pst_State = PartitionStateUnset,
     pst_ExternalID = [], pst_VolumeID = [], pst_BackendVolumeID = [], pst_AllocatedCapacity = 0,
     pst_SPDKBaseBdev = [], pst_SPDKLvstoreName = [], pst_SPDKLvstoreUUID = [], pst_SPDKLvolName = [],
     pst_SPDKLvolUUID = [], pst_NQN = [], pst_PortalIP = [], pst_PortalPort = 0, pst_Conditions = []\<rparr>"

definition zero_device_status :: NVMeDeviceStatus where
  "zero_device_status = \<lparr>dst_State = DeviceStateUnset, dst_ClaimRef = None, dst_FreeCapacity = 0,
     dst_ActiveBackend = [], dst_Conditions = []\<rparr>"

definition zero_node_status :: RDMAStorageNodeStatus where
  "zero_node_status = \<lparr>nst_LastHeartbeatTime = zero_time, nst_TotalCapacity = 0, nst_FreeCapacity = 0,
     nst_ActiveExports = 0, nst_Conditions = []\<rparr>"

definition zero_attachment_status :: NVMeVolumeAttachmentStatus where
  "zero_attachment_status = \<lparr>ast_ObservedAttachmentID = [], ast_Conditions = []\<rparr>"

section \<open>Abbreviated paths into nested structs\<close>

text \<open>\<^verbatim>\<open>partition.Spec.NodeName\<close> and its kin.\<close>

abbreviation p_Name :: "NVMePartition \<Rightarrow> string" where "p_Name p \<equiv> om_Name (p_meta p)"
abbreviation p_Namespace :: "NVMePartition \<Rightarrow> string" where "p_Namespace p \<equiv> om_Namespace (p_meta p)"
abbreviation p_UID :: "NVMePartition \<Rightarrow> string" where "p_UID p \<equiv> om_UID (p_meta p)"
abbreviation d_Name :: "NVMeDevice \<Rightarrow> string" where "d_Name d \<equiv> om_Name (d_meta d)"
abbreviation p_NodeName :: "NVMePartition \<Rightarrow> string" where "p_NodeName p \<equiv> ps_NodeName (p_spec p)"
abbreviation p_Serial :: "NVMePartition \<Rightarrow> string" where
  "p_Serial p \<equiv> ps_ParentDeviceSerialNumber (p_spec p)"
abbreviation d_NodeName :: "NVMeDevice \<Rightarrow> string" where "d_NodeName d \<equiv> ds_NodeName (d_spec d)"
abbreviation d_Serial :: "NVMeDevice \<Rightarrow> string" where "d_Serial d \<equiv> ds_SerialNumber (d_spec d)"

end
