(* ===== verification/Kube.thy ===== *)
theory Kube
  imports Api_Types
begin

text \<open>
  The Kubernetes libraries the program is written against, as parameters.

  \<open>apimachinery\<close> holds the pure helpers (\<^verbatim>\<open>meta.FindStatusCondition\<close> and
  \<^verbatim>\<open>SetStatusCondition\<close>, \<^verbatim>\<open>controllerutil.ContainsFinalizer\<close>, \<^verbatim>\<open>AddFinalizer\<close>,
  \<^verbatim>\<open>RemoveFinalizer\<close>); an \<open>api\<close> holds the client calls on one kind of object; a \<open>kube\<close>
  is the client of a reconciler: the helpers, one \<open>api\<close> per custom resource, and the
  clock. Every call takes the world it runs in and returns the world it leaves, so the
  API server, its other clients and the clock are arbitrary. A write returns the object
  as the server answered it, because controller-runtime decodes the answer into the
  object passed.

  What the code relies on is stated as the named predicates \<open>conditions_ok\<close> and
  \<open>finalizers_ok\<close>. \<open>std_apimachinery\<close> satisfies both. \<open>recording\<close> wraps a client
  so that its world also holds the list of calls made so far: a theorem about the calls
  a handler makes is a theorem about that list, for every client.
\<close>

section \<open>The parameters\<close>

record apimachinery =
  FindStatusCondition :: "Condition list \<Rightarrow> string \<Rightarrow> Condition option"
  SetStatusCondition :: "int \<Rightarrow> Condition list \<Rightarrow> Condition \<Rightarrow> Condition list"
  IsStatusConditionTrue :: "Condition list \<Rightarrow> string \<Rightarrow> bool"
  ContainsFinalizer :: "ObjectMeta \<Rightarrow> string \<Rightarrow> bool"
  AddFinalizer :: "ObjectMeta \<Rightarrow> string \<Rightarrow> ObjectMeta"
  RemoveFinalizer :: "ObjectMeta \<Rightarrow> string \<Rightarrow> ObjectMeta"

record ('w, 'o) api =
  Get :: "nname \<Rightarrow> 'w \<Rightarrow> (error + 'o) \<times> 'w"
  ListAll :: "'w \<Rightarrow> (error + 'o list) \<times> 'w"
  Create :: "'o \<Rightarrow> 'w \<Rightarrow> (error + 'o) \<times> 'w"
  Update :: "'o \<Rightarrow> 'w \<Rightarrow> (error + 'o) \<times> 'w"
  Patch :: "'o \<Rightarrow> 'o \<Rightarrow> 'w \<Rightarrow> (error + 'o) \<times> 'w"
  StatusPatch :: "'o \<Rightarrow> 'o \<Rightarrow> 'w \<Rightarrow> (error + 'o) \<times> 'w"
  Delete :: "'o \<Rightarrow> 'w \<Rightarrow> (error + unit) \<times> 'w"

record 'w kube = apimachinery +
  partitions :: "('w, NVMePartition) api"
  devices :: "('w, NVMeDevice) api"
  claims :: "('w, NVMeDeviceClaim) api"
  rdmanodes :: "('w, RDMAStorageNode) api"
  attachments :: "('w, NVMeVolumeAttachment) api"
  Now :: "'w \<Rightarrow> int \<times> 'w"

text \<open>
  \<^verbatim>\<open>meta.SetStatusCondition\<close> reads the clock itself, for the transition time.
\<close>

definition set_condition ::
  "'w kube \<Rightarrow> Condition list \<Rightarrow> Condition \<Rightarrow> 'w \<Rightarrow> Condition list \<times> 'w" where
  "set_condition K cs c w = (case Now K w of (now, w) \<Rightarrow> (SetStatusCondition K now cs c, w))"

text \<open>
  \<^verbatim>\<open>ctrl.Result\<close> with the error that goes with it: \<open>Inr d\<close> asks for a requeue after \<open>d\<close>
  nanoseconds (never, when \<open>d\<close> is zero), \<open>Inl e\<close> is a failed reconciliation.
\<close>

type_synonym result = "error + int"

definition result_of :: "error option \<Rightarrow> result" where
  "result_of r = (case r of None \<Rightarrow> Inr 0 | Some e \<Rightarrow> Inl e)"

section \<open>What the code relies on\<close>

definition same_condition :: "Condition \<Rightarrow> Condition \<Rightarrow> bool" where
  "same_condition c c' \<longleftrightarrow> cond_Type c = cond_Type c' \<and> cond_Status c = cond_Status c' \<and>
     cond_ObservedGeneration c = cond_ObservedGeneration c' \<and>
     cond_Reason c = cond_Reason c' \<and> cond_Message c = cond_Message c'"

definition conditions_ok :: "'z apimachinery_scheme \<Rightarrow> bool" where
  "conditions_ok K \<longleftrightarrow>
     (\<forall>t. FindStatusCondition K [] t = None) \<and>
     (\<forall>now cs c. \<exists>c'. FindStatusCondition K (SetStatusCondition K now cs c) (cond_Type c) = Some c' \<and>
        same_condition c c') \<and>
     (\<forall>now cs c t. t \<noteq> cond_Type c \<longrightarrow>
        FindStatusCondition K (SetStatusCondition K now cs c) t = FindStatusCondition K cs t) \<and>
     (\<forall>cs t. IsStatusConditionTrue K cs t \<longleftrightarrow>
        (\<exists>c. FindStatusCondition K cs t = Some c \<and> cond_Status c = ConditionTrue))"

definition finalizers_ok :: "'z apimachinery_scheme \<Rightarrow> bool" where
  "finalizers_ok K \<longleftrightarrow>
     (\<forall>m f. ContainsFinalizer K m f \<longleftrightarrow> f \<in> set (om_Finalizers m)) \<and>
     (\<forall>m f. set (om_Finalizers (AddFinalizer K m f)) = insert f (set (om_Finalizers m))) \<and>
     (\<forall>m f. set (om_Finalizers (RemoveFinalizer K m f)) = set (om_Finalizers m) - {f})"

lemma find_set_condition:
  assumes "conditions_ok K"
  shows "\<exists>c'. FindStatusCondition K (SetStatusCondition K now cs c) (cond_Type c) = Some c' \<and>
    same_condition c c'"
  using assms by (simp add: conditions_ok_def)

lemma find_set_condition_other:
  assumes "conditions_ok K" and "t \<noteq> cond_Type c"
  shows "FindStatusCondition K (SetStatusCondition K now cs c) t = FindStatusCondition K cs t"
  using assms by (simp add: conditions_ok_def)

section \<open>A concrete instance of the pure helpers\<close>

fun std_set :: "int \<Rightarrow> Condition list \<Rightarrow> Condition \<Rightarrow> Condition list" where
  "std_set now [] c =
     [c\<lparr>cond_LastTransitionTime :=
        if time_IsZero (cond_LastTransitionTime c) then now else cond_LastTransitionTime c\<rparr>]"
| "std_set now (x # xs) c =
     (if cond_Type x = cond_Type c
      then c\<lparr>cond_LastTransitionTime :=
             if cond_Status x = cond_Status c then cond_LastTransitionTime x
             else if time_IsZero (cond_LastTransitionTime c) then now else cond_LastTransitionTime c\<rparr> # xs
      else x # std_set now xs c)"

definition std_find :: "Condition list \<Rightarrow> string \<Rightarrow> Condition option" where
  "std_find cs t = List.find (\<lambda>c. cond_Type c = t) cs"

definition std_apimachinery :: apimachinery where
  "std_apimachinery = \<lparr>
     FindStatusCondition = std_find,
     SetStatusCondition = std_set,
     IsStatusConditionTrue =
       (\<lambda>cs t. case std_find cs t of None \<Rightarrow> False | Some c \<Rightarrow> cond_Status c = ConditionTrue),
     ContainsFinalizer = (\<lambda>m f. f \<in> set (om_Finalizers m)),
     AddFinalizer = (\<lambda>m f. if f \<in> set (om_Finalizers m) then m
                           else m\<lparr>om_Finalizers := om_Finalizers m @ [f]\<rparr>),
     RemoveFinalizer = (\<lambda>m f. m\<lparr>om_Finalizers := filter (\<lambda>x. x \<noteq> f) (om_Finalizers m)\<rparr>)\<rparr>"

lemma std_find_Nil [simp]: "std_find [] t = None"
  by (simp add: std_find_def)

lemma std_find_set:
  "\<exists>c'. std_find (std_set now cs c) (cond_Type c) = Some c' \<and> same_condition c c'"
  by (induction cs) (auto simp: std_find_def same_condition_def)

lemma std_find_set_other:
  "t \<noteq> cond_Type c \<Longrightarrow> std_find (std_set now cs c) t = std_find cs t"
  by (induction cs) (auto simp: std_find_def)

lemma conditions_ok_std [simp]: "conditions_ok std_apimachinery"
  unfolding conditions_ok_def
  by (auto simp: std_apimachinery_def std_find_set std_find_set_other split: option.split)

lemma finalizers_ok_std [simp]: "finalizers_ok std_apimachinery"
  unfolding finalizers_ok_def by (auto simp: std_apimachinery_def)

text \<open>The same helpers with client calls beside them.\<close>

definition std_kube ::
  "('w, NVMePartition) api \<Rightarrow> ('w, NVMeDevice) api \<Rightarrow> ('w, NVMeDeviceClaim) api \<Rightarrow>
   ('w, RDMAStorageNode) api \<Rightarrow> ('w, NVMeVolumeAttachment) api \<Rightarrow> ('w \<Rightarrow> int \<times> 'w) \<Rightarrow> 'w kube" where
  "std_kube ps ds cs ns as now = apimachinery.extend std_apimachinery
     \<lparr>partitions = ps, devices = ds, claims = cs, rdmanodes = ns, attachments = as, Now = now\<rparr>"

lemma std_kube_ok [simp]:
  "conditions_ok (std_kube ps ds cs ns as now)" "finalizers_ok (std_kube ps ds cs ns as now)"
  using conditions_ok_std finalizers_ok_std
  by (simp_all add: conditions_ok_def finalizers_ok_def std_kube_def apimachinery.defs)

section \<open>Recording clients\<close>

datatype 'o call =
  GetCall nname "error + 'o"
| ListCall "error + 'o list"
| CreateCall 'o "error + 'o"
| UpdateCall 'o "error + 'o"
| PatchCall 'o 'o "error + 'o"
| StatusPatchCall 'o 'o "error + 'o"
| DeleteCall 'o "error + unit"

datatype 'e event =
  Partitions "NVMePartition call"
| Devices "NVMeDevice call"
| Claims "NVMeDeviceClaim call"
| RdmaNodes "RDMAStorageNode call"
| Attachments "NVMeVolumeAttachment call"
| Other 'e

type_synonym ('w, 'e) traced = "'w \<times> 'e list"

definition record_call :: "('r \<Rightarrow> 'e) \<Rightarrow> ('w \<Rightarrow> 'r \<times> 'w) \<Rightarrow> ('w, 'e) traced \<Rightarrow> 'r \<times> ('w, 'e) traced" where
  "record_call ev f s = (case s of (w, t) \<Rightarrow> case f w of (r, w) \<Rightarrow> (r, (w, t @ [ev r])))"

definition silent_call :: "('w \<Rightarrow> 'r \<times> 'w) \<Rightarrow> ('w, 'e) traced \<Rightarrow> 'r \<times> ('w, 'e) traced" where
  "silent_call f s = (case s of (w, t) \<Rightarrow> case f w of (r, w) \<Rightarrow> (r, (w, t)))"

definition recording_api :: "('o call \<Rightarrow> 'e) \<Rightarrow> ('w, 'o) api \<Rightarrow> (('w, 'e) traced, 'o) api" where
  "recording_api ev A = \<lparr>
     Get = (\<lambda>k. record_call (\<lambda>r. ev (GetCall k r)) (Get A k)),
     ListAll = record_call (\<lambda>r. ev (ListCall r)) (ListAll A),
     Create = (\<lambda>x. record_call (\<lambda>r. ev (CreateCall x r)) (Create A x)),
     Update = (\<lambda>x. record_call (\<lambda>r. ev (UpdateCall x r)) (Update A x)),
     Patch = (\<lambda>b x. record_call (\<lambda>r. ev (PatchCall b x r)) (Patch A b x)),
     StatusPatch = (\<lambda>b x. record_call (\<lambda>r. ev (StatusPatchCall b x r)) (StatusPatch A b x)),
     Delete = (\<lambda>x. record_call (\<lambda>r. ev (DeleteCall x r)) (Delete A x))\<rparr>"

definition recording :: "'w kube \<Rightarrow> ('w, 'e event) traced kube" where
  "recording K = apimachinery.extend (apimachinery.truncate K)
     \<lparr>partitions = recording_api Partitions (partitions K),
      devices = recording_api Devices (devices K),
      claims = recording_api Claims (claims K),
      rdmanodes = recording_api RdmaNodes (rdmanodes K),
      attachments = recording_api Attachments (attachments K),
      Now = silent_call (Now K)\<rparr>"

named_theorems trace_simps \<open>the calls of a recording client\<close>

lemma recording_sel [simp]:
  "FindStatusCondition (recording K) = FindStatusCondition K"
  "SetStatusCondition (recording K) = SetStatusCondition K"
  "IsStatusConditionTrue (recording K) = IsStatusConditionTrue K"
  "ContainsFinalizer (recording K) = ContainsFinalizer K"
  "AddFinalizer (recording K) = AddFinalizer K"
  "RemoveFinalizer (recording K) = RemoveFinalizer K"
  "partitions (recording K) = recording_api Partitions (partitions K)"
  "devices (recording K) = recording_api Devices (devices K)"
  "claims (recording K) = recording_api Claims (claims K)"
  "rdmanodes (recording K) = recording_api RdmaNodes (rdmanodes K)"
  "attachments (recording K) = recording_api Attachments (attachments K)"
  "Now (recording K) = silent_call (Now K)"
  by (simp_all add: recording_def apimachinery.defs)

lemma recording_api_sel [trace_simps]:
  "Get (recording_api ev A) k (w, t) = (case Get A k w of (r, w) \<Rightarrow> (r, (w, t @ [ev (GetCall k r)])))"
  "ListAll (recording_api ev A) (w, t) = (case ListAll A w of (r, w) \<Rightarrow> (r, (w, t @ [ev (ListCall r)])))"
  "Create (recording_api ev A) x (w, t) = (case Create A x w of (r, w) \<Rightarrow> (r, (w, t @ [ev (CreateCall x r)])))"
  "Update (recording_api ev A) x (w, t) = (case Update A x w of (r, w) \<Rightarrow> (r, (w, t @ [ev (UpdateCall x r)])))"
  "Patch (recording_api ev A) b x (w, t) =
     (case Patch A b x w of (r, w) \<Rightarrow> (r, (w, t @ [ev (PatchCall b x r)])))"
  "StatusPatch (recording_api ev A) b x (w, t) =
     (case StatusPatch A b x w of (r, w) \<Rightarrow> (r, (w, t @ [ev (StatusPatchCall b x r)])))"
  "Delete (recording_api ev A) x (w, t) = (case Delete A x w of (r, w) \<Rightarrow> (r, (w, t @ [ev (DeleteCall x r)])))"
  by (simp_all add: recording_api_def record_call_def)

lemma silent_call_pair [trace_simps]:
  "silent_call f (w, t) = (case f w of (r, w) \<Rightarrow> (r, (w, t)))"
  by (simp add: silent_call_def)

lemma set_condition_recording [trace_simps]:
  "set_condition (recording K) cs c (w, t) =
     (case set_condition K cs c w of (r, w) \<Rightarrow> (r, (w, t)))"
  by (simp add: set_condition_def trace_simps split: prod.split)

end
