(* ===== verification/Sample_Objects.thy ===== *)
theory Sample_Objects
  imports Kube
begin

text \<open>
  Concrete objects and a concrete API server, on which the hypotheses of the properties are
  shown to hold. The server \<open>mem_kube\<close> keeps its objects in lists, looks them up by
  namespace and name, accepts every write, and answers a status patch with the stored
  metadata and spec and the new status, and any other write with the stored status.
\<close>

section \<open>Objects\<close>

definition sample_meta :: "string \<Rightarrow> string \<Rightarrow> string \<Rightarrow> ObjectMeta" where
  "sample_meta ns n u = \<lparr>om_Name = n, om_Namespace = ns, om_UID = u, om_Generation = 1,
     om_ResourceVersion = ''1'', om_DeletionTimestamp = None, om_Finalizers = [],
     om_Annotations = [], om_OwnerReferences = []\<rparr>"

definition true_condition :: "string \<Rightarrow> int \<Rightarrow> Condition" where
  "true_condition t g = mk_Condition t ConditionTrue g ''Sample'' (Text [])"

definition sample_ref :: NVMeDeviceClaimReference where
  "sample_ref = \<lparr>ref_Namespace = ''storage'', ref_Name = ''claim'', ref_UID = ''claim-uid''\<rparr>"

definition sample_claim :: NVMeDeviceClaim where
  "sample_claim = \<lparr>c_meta = sample_meta ''storage'' ''claim'' ''claim-uid'',
     c_spec = \<lparr>cs_SerialNumber = ''SN1''\<rparr>,
     c_status = \<lparr>cst_Active = True, cst_MatchedDevice = ''dev1'', cst_NodeName = ''node1'',
       cst_Conditions = []\<rparr>\<rparr>"

definition sample_device :: NVMeDevice where
  "sample_device = \<lparr>d_meta = sample_meta [] ''dev1'' ''dev-uid'',
     d_spec = \<lparr>ds_NodeName = ''node1'', ds_PCIAddress = ''0000:01:00.0'', ds_SerialNumber = ''SN1'',
       ds_Model = ''model'', ds_TotalCapacity = 1073741824, ds_NUMANode = 0\<rparr>,
     d_status = \<lparr>dst_State = DeviceClaimed, dst_ClaimRef = Some sample_ref,
       dst_FreeCapacity = 1073741824, dst_ActiveBackend = [], dst_Conditions = []\<rparr>\<rparr>"

definition sample_status :: NVMePartitionStatus where
  "sample_status = zero_partition_status"

definition sample_partition :: NVMePartition where
  "sample_partition = \<lparr>p_meta = sample_meta ''apps'' ''pvc1'' ''part-uid'',
     p_spec = \<lparr>ps_Size = 8388608, ps_NodeName = [], ps_ParentDeviceSerialNumber = [], ps_ClaimRef = None,
       ps_AccessMode = ''ReadWriteOnce'', ps_Filesystem = ''ext4'', ps_RequestFingerprint = [],
       ps_TargetBackend = ''spdk'', ps_VolumeManager = ''spdk-lvol'', ps_TargetOptions = []\<rparr>,
     p_status = sample_status\<rparr>"

definition sample_node :: RDMAStorageNode where
  "sample_node = \<lparr>n_meta = sample_meta [] ''node1'' ''node-uid'',
     n_spec = \<lparr>ns_NodeName = ''node1'', ns_RDMAIP = ''192.0.2.10'', ns_Transport = RDMATransportRoCEv2,
       ns_LinkSpeed = ''100''\<rparr>,
     n_status = \<lparr>nst_LastHeartbeatTime = 0, nst_TotalCapacity = 0, nst_FreeCapacity = 0,
       nst_ActiveExports = 0,
       nst_Conditions = [true_condition ''Ready'' 1, true_condition NVMeInventoryReadyCondition 1]\<rparr>\<rparr>"

section \<open>An API server in memory\<close>

record mem =
  m_partitions :: "NVMePartition list"
  m_devices :: "NVMeDevice list"
  m_claims :: "NVMeDeviceClaim list"
  m_nodes :: "RDMAStorageNode list"
  m_attachments :: "NVMeVolumeAttachment list"

definition mem_put :: "('o \<Rightarrow> ObjectMeta) \<Rightarrow> 'o \<Rightarrow> 'o list \<Rightarrow> 'o list" where
  "mem_put md x xs = map (\<lambda>y. if object_key (md y) = object_key (md x) then x else y) xs"

text \<open>\<open>st\<close> and \<open>sts\<close> read and replace the status; \<open>lst\<close> and \<open>upd\<close> the list of the kind.\<close>

definition mem_api ::
  "('o \<Rightarrow> ObjectMeta) \<Rightarrow> ('o \<Rightarrow> 's) \<Rightarrow> ('s \<Rightarrow> 'o \<Rightarrow> 'o) \<Rightarrow> (mem \<Rightarrow> 'o list) \<Rightarrow>
   ('o list \<Rightarrow> mem \<Rightarrow> mem) \<Rightarrow> (mem, 'o) api" where
  "mem_api md st sts lst upd =
     (let find = (\<lambda>k m. List.find (\<lambda>y. object_key (md y) = k) (lst m));
          write = (\<lambda>f x m. case find (object_key (md x)) m of
                     None \<Rightarrow> (Inl (ApiError NotFound), m)
                   | Some y \<Rightarrow> (Inr (f y x), upd (mem_put md (f y x) (lst m)) m));
          spec = (\<lambda>y x. sts (st y) x)
      in \<lparr>Get = (\<lambda>k m. (case find k m of None \<Rightarrow> Inl (ApiError NotFound) | Some y \<Rightarrow> Inr y, m)),
          ListAll = (\<lambda>m. (Inr (lst m), m)),
          Create = (\<lambda>x m. case find (object_key (md x)) m of
                     None \<Rightarrow> (Inr x, upd (lst m @ [x]) m)
                   | Some y \<Rightarrow> (Inl (ApiError AlreadyExists), m)),
          Update = write spec,
          Patch = (\<lambda>b. write spec),
          StatusPatch = (\<lambda>b. write (\<lambda>y x. sts (st x) y)),
          Delete = (\<lambda>x m. (Inr (), upd (filter (\<lambda>y. object_key (md y) \<noteq> object_key (md x)) (lst m)) m))\<rparr>)"

definition mem_kube :: "mem kube" where
  "mem_kube = std_kube
     (mem_api p_meta p_status (\<lambda>s. p_status_update (\<lambda>_. s)) m_partitions (\<lambda>xs. m_partitions_update (\<lambda>_. xs)))
     (mem_api d_meta d_status (\<lambda>s. d_status_update (\<lambda>_. s)) m_devices (\<lambda>xs. m_devices_update (\<lambda>_. xs)))
     (mem_api c_meta c_status (\<lambda>s. c_status_update (\<lambda>_. s)) m_claims (\<lambda>xs. m_claims_update (\<lambda>_. xs)))
     (mem_api n_meta n_status (\<lambda>s. n_status_update (\<lambda>_. s)) m_nodes (\<lambda>xs. m_nodes_update (\<lambda>_. xs)))
     (mem_api a_meta a_status (\<lambda>s. a_status_update (\<lambda>_. s)) m_attachments (\<lambda>xs. m_attachments_update (\<lambda>_. xs)))
     (\<lambda>m. (0, m))"

definition sample_mem :: mem where
  "sample_mem = \<lparr>m_partitions = [sample_partition], m_devices = [sample_device],
     m_claims = [sample_claim], m_nodes = [sample_node], m_attachments = []\<rparr>"

lemmas sample_defs =
  sample_meta_def true_condition_def sample_ref_def sample_claim_def sample_device_def
  sample_status_def zero_partition_status_def sample_partition_def sample_node_def sample_mem_def mk_Condition_def
  NVMeInventoryReadyCondition_def

lemmas mem_defs =
  mem_kube_def std_kube_def mem_api_def mem_put_def object_key_def std_apimachinery_def
  apimachinery.defs Let_def std_find_def

section \<open>A client that refuses every call\<close>

definition refusing_api :: "('w, 'o) api" where
  "refusing_api = \<lparr>Get = (\<lambda>k w. (Inl (ApiError Conflict), w)), ListAll = (\<lambda>w. (Inl (ApiError Conflict), w)),
     Create = (\<lambda>x w. (Inl (ApiError Conflict), w)), Update = (\<lambda>x w. (Inl (ApiError Conflict), w)),
     Patch = (\<lambda>b x w. (Inl (ApiError Conflict), w)), StatusPatch = (\<lambda>b x w. (Inl (ApiError Conflict), w)),
     Delete = (\<lambda>x w. (Inl (ApiError Conflict), w))\<rparr>"

end
