(* ===== verification/Placement_Auth.thy ===== *)
theory Placement_Auth
  imports Kube Go_Encoding Sample_Objects
begin

text \<open>
  The package \<^verbatim>\<open>internal/placementauth\<close>: the manager authorizes one exact placement of a
  partition by storing a SHA-256 fingerprint of it in the status, and the agent accepts no
  other. A \<^verbatim>\<open>hash.Hash\<close> is the string written to it so far; \<^verbatim>\<open>Sum(nil)\<close> is \<^const>\<open>Sum256\<close> of
  that string. \<open>framed\<close> is the whole string a fingerprint hashes, and \<open>framed_inj\<close> is the
  reason for the length prefixes.
\<close>

section \<open>The code\<close>

definition placementauth_ConditionType :: string where
  "placementauth_ConditionType = ''PlacementAuthorized''"

definition writeComponent :: "string \<Rightarrow> string \<Rightarrow> string" where
  "writeComponent digest value =
     (digest @ PutUint64_BE (of_nat (length value))) @ value"

definition Fingerprint ::
  "string \<Rightarrow> string \<Rightarrow> string \<Rightarrow> NVMeDeviceClaimReference option \<Rightarrow> string" where
  "Fingerprint partitionUID nodeName deviceSerial claimRef =
     (case claimRef of
        None \<Rightarrow> []
      | Some ref \<Rightarrow>
          if partitionUID = [] \<or> nodeName = [] \<or> deviceSerial = [] \<or>
             ref_Namespace ref = [] \<or> ref_Name ref = [] \<or> ref_UID ref = []
          then []
          else hex_EncodeToString (Sum256 (foldl writeComponent []
                 [partitionUID, nodeName, deviceSerial, ref_Namespace ref, ref_Name ref, ref_UID ref])))"

definition IsAuthorized :: "'z apimachinery_scheme \<Rightarrow> NVMePartition \<Rightarrow> bool" where
  "IsAuthorized K part =
     (case FindStatusCondition K (pst_Conditions (p_status part)) placementauth_ConditionType of
        None \<Rightarrow> False
      | Some condition \<Rightarrow>
          if cond_Status condition \<noteq> ConditionTrue \<or>
             cond_ObservedGeneration condition \<noteq> om_Generation (p_meta part)
          then False
          else let expected = Fingerprint (p_UID part) (p_NodeName part) (p_Serial part)
                                (ps_ClaimRef (p_spec part))
               in expected \<noteq> [] \<and> pst_PlacementFingerprint (p_status part) = expected)"

section \<open>Framing\<close>

definition framed :: "string list \<Rightarrow> string" where
  "framed cs = concat (map (\<lambda>c. PutUint64_BE (of_nat (length c)) @ c) cs)"

lemma framed_Cons: "framed (c # cs) = PutUint64_BE (of_nat (length c)) @ c @ framed cs"
  by (simp add: framed_def)

text \<open>A Go string is shorter than \<open>2\<^sup>6\<^sup>4\<close> bytes.\<close>

definition go_len :: "string \<Rightarrow> bool" where
  "go_len s \<longleftrightarrow> length s < 2 ^ 64"

lemma length_prefix_inj:
  assumes "go_len a" and "go_len b"
    and "PutUint64_BE (of_nat (length a)) = PutUint64_BE (of_nat (length b))"
  shows "length a = length b"
proof -
  have "(of_nat (length a) :: 64 word) = of_nat (length b)"
    using assms(3) by (rule PutUint64_BE_inj)
  then have "unat (of_nat (length a) :: 64 word) = unat (of_nat (length b) :: 64 word)" by simp
  with assms(1,2) show ?thesis
    by (simp add: go_len_def unat_of_nat take_bit_nat_eq_self)
qed

lemma framed_inj:
  assumes "length cs = length ds" and "\<forall>c \<in> set cs. go_len c" and "\<forall>d \<in> set ds. go_len d"
    and "framed cs = framed ds"
  shows "cs = ds"
  using assms
proof (induction cs ds rule: list_induct2)
  case Nil
  then show ?case by simp
next
  case (Cons c cs d ds)
  from Cons.prems(3)
  have split: "PutUint64_BE (of_nat (length c)) @ (c @ framed cs) = PutUint64_BE (of_nat (length d)) @ (d @ framed ds)"
    by (simp add: framed_Cons)
  have pre: "PutUint64_BE (of_nat (length c)) = PutUint64_BE (of_nat (length d))"
    and rest: "c @ framed cs = d @ framed ds"
    using split by (simp_all add: append_eq_append_conv)
  have "length c = length d"
    using length_prefix_inj [OF _ _ pre] Cons.prems by simp
  with rest have "c = d" and "framed cs = framed ds" by simp_all
  with Cons show ?case by simp
qed

text \<open>The components a fingerprint covers.\<close>

definition placement :: "string \<Rightarrow> string \<Rightarrow> string \<Rightarrow> NVMeDeviceClaimReference \<Rightarrow> string list" where
  "placement u n s r = [u, n, s, ref_Namespace r, ref_Name r, ref_UID r]"

lemma placement_inj:
  "placement u n s r = placement u' n' s' r' \<longleftrightarrow> u = u' \<and> n = n' \<and> s = s' \<and> r = r'"
  by (auto simp: placement_def)

lemma Fingerprint_nonempty:
  "Fingerprint u n s cr \<noteq> [] \<longleftrightarrow>
   (\<exists>r. cr = Some r \<and> [] \<notin> set (placement u n s r))"
proof -
  have "hex_EncodeToString (Sum256 x) \<noteq> []" for x
    using length_hex [of "Sum256 x"] by fastforce
  then show ?thesis
    by (auto simp: Fingerprint_def placement_def split: option.splits)
qed

lemma Fingerprint_Some:
  "[] \<notin> set (placement u n s r) \<Longrightarrow>
   Fingerprint u n s (Some r) = hex_EncodeToString (Sum256 (framed (placement u n s r)))"
  by (auto simp: Fingerprint_def placement_def writeComponent_def framed_def)

text \<open>A collision: two different strings with the same SHA-256 digest.\<close>

definition sha256_collision :: "string \<Rightarrow> string \<Rightarrow> bool" where
  "sha256_collision a b \<longleftrightarrow> a \<noteq> b \<and> Sum256 a = Sum256 b"

lemma Fingerprint_eqD:
  assumes eq: "Fingerprint u n s (Some r) = Fingerprint u' n' s' (Some r')"
    and ne: "Fingerprint u n s (Some r) \<noteq> []"
    and len: "\<forall>c \<in> set (placement u n s r @ placement u' n' s' r'). go_len c"
  shows "(u = u' \<and> n = n' \<and> s = s' \<and> r = r') \<or>
    sha256_collision (framed (placement u n s r)) (framed (placement u' n' s' r'))"
proof -
  have "[] \<notin> set (placement u n s r)" "[] \<notin> set (placement u' n' s' r')"
    using ne eq by (metis Fingerprint_nonempty option.inject)+
  then have "Sum256 (framed (placement u n s r)) = Sum256 (framed (placement u' n' s' r'))"
    using eq by (metis Fingerprint_Some hex_inj)
  moreover have "framed (placement u n s r) = framed (placement u' n' s' r') \<Longrightarrow>
      placement u n s r = placement u' n' s' r'"
    using framed_inj [of "placement u n s r" "placement u' n' s' r'"] len
    by (simp add: placement_def)
  ultimately show ?thesis
    unfolding sha256_collision_def placement_inj by blast
qed

lemma IsAuthorized_iff:
  "IsAuthorized K p \<longleftrightarrow>
     (\<exists>c. FindStatusCondition K (pst_Conditions (p_status p)) placementauth_ConditionType = Some c \<and>
        cond_Status c = ConditionTrue \<and> cond_ObservedGeneration c = om_Generation (p_meta p)) \<and>
     pst_PlacementFingerprint (p_status p) \<noteq> [] \<and>
     pst_PlacementFingerprint (p_status p) =
       Fingerprint (p_UID p) (p_NodeName p) (p_Serial p) (ps_ClaimRef (p_spec p))"
  by (auto simp: IsAuthorized_def Let_def split: option.splits if_splits)

lemma IsAuthorized_ClaimRef:
  "IsAuthorized K p \<Longrightarrow> \<exists>r. ps_ClaimRef (p_spec p) = Some r \<and>
     [] \<notin> set (placement (p_UID p) (p_NodeName p) (p_Serial p) r)"
  by (metis IsAuthorized_iff Fingerprint_nonempty)

section \<open>Properties\<close>

text \<open>C15: two authorized partitions that carry the same fingerprint have the same UID, node,
  device and claim, unless their framed placements are a SHA-256 collision. So an
  authorization cannot be moved to another partition, node, device or claim by copying
  the status, nor survive an edit of the placement in the spec.\<close>

theorem IsAuthorized_binds_placement:
  assumes "IsAuthorized K p" and "IsAuthorized K' q"
    and "pst_PlacementFingerprint (p_status p) = pst_PlacementFingerprint (p_status q)"
    and "ps_ClaimRef (p_spec p) = Some r" and "ps_ClaimRef (p_spec q) = Some r'"
    and "\<forall>c \<in> set (placement (p_UID p) (p_NodeName p) (p_Serial p) r @
                   placement (p_UID q) (p_NodeName q) (p_Serial q) r'). go_len c"
  shows "(p_UID p = p_UID q \<and> p_NodeName p = p_NodeName q \<and> p_Serial p = p_Serial q \<and> r = r') \<or>
    sha256_collision (framed (placement (p_UID p) (p_NodeName p) (p_Serial p) r))
                     (framed (placement (p_UID q) (p_NodeName q) (p_Serial q) r'))"
proof (rule Fingerprint_eqD)
  show "Fingerprint (p_UID p) (p_NodeName p) (p_Serial p) (Some r) =
      Fingerprint (p_UID q) (p_NodeName q) (p_Serial q) (Some r')"
    using assms(1-5) by (metis IsAuthorized_iff)
  show "Fingerprint (p_UID p) (p_NodeName p) (p_Serial p) (Some r) \<noteq> []"
    using assms(1,4) by (metis IsAuthorized_iff)
qed (rule assms(6))

definition authorized_sample :: NVMePartition where
  "authorized_sample = sample_partition
     \<lparr>p_spec := (p_spec sample_partition)\<lparr>ps_NodeName := ''node1'', ps_ParentDeviceSerialNumber := ''SN1'',
        ps_ClaimRef := Some sample_ref\<rparr>,
      p_status := sample_status\<lparr>
        pst_PlacementFingerprint := Fingerprint ''part-uid'' ''node1'' ''SN1'' (Some sample_ref),
        pst_Conditions := [true_condition placementauth_ConditionType 1]\<rparr>\<rparr>"

lemma authorized_sample_ok: "IsAuthorized std_apimachinery authorized_sample"
  unfolding IsAuthorized_iff
  by (auto simp: authorized_sample_def sample_defs std_apimachinery_def std_find_def
      Fingerprint_nonempty placement_def)

theorem IsAuthorized_binds_placement_witness:
  "IsAuthorized std_apimachinery authorized_sample \<and> p_NodeName authorized_sample = ''node1'' \<and>
   (p_UID authorized_sample = p_UID authorized_sample \<or> sha256_collision [] [])"
  using IsAuthorized_binds_placement
    [OF authorized_sample_ok authorized_sample_ok refl, of sample_ref sample_ref]
    authorized_sample_ok
  by (simp add: authorized_sample_def sample_defs placement_def go_len_def)

end
