(* ===== verification/Rdma_Health.thy ===== *)
theory Rdma_Health
  imports Kube Sample_Objects
begin

text \<open>
  The package \<^verbatim>\<open>internal/rdmahealth\<close>, with the part of package \<^verbatim>\<open>net\<close> it uses:
  \<^verbatim>\<open>net.ParseIP\<close> (the parser of \<^verbatim>\<open>net/netip\<close>, which refuses zones) and the
  classification of addresses. A \<^verbatim>\<open>net.IP\<close> is its sixteen bytes, as \<^verbatim>\<open>ParseIP\<close> returns
  them; an IPv4 address is mapped into \<^verbatim>\<open>::ffff:0:0/96\<close>.
\<close>

section \<open>Package net\<close>

type_synonym ip = "nat list"

definition parse_octet :: "string \<Rightarrow> nat option" where
  "parse_octet f =
     (if f = [] \<or> length f > 3 \<or> \<not> list_all is_digit f \<or> (length f > 1 \<and> hd f = CHR ''0'') then None
      else let v = foldl (\<lambda>n c. 10 * n + digit_val c) 0 f in if v > 255 then None else Some v)"

definition parseIPv4Fields :: "string \<Rightarrow> nat list option" where
  "parseIPv4Fields s =
     (let vs = map parse_octet (Split s CHR ''.'')
      in if length vs = 4 \<and> None \<notin> set vs then Some (map the vs) else None)"

definition v4_mapped :: "nat list \<Rightarrow> ip" where
  "v4_mapped b = replicate 10 0 @ [255, 255] @ b"

definition hex_val :: "char \<Rightarrow> nat option" where
  "hex_val c =
     (let n = of_char c :: nat
      in if 48 \<le> n \<and> n \<le> 57 then Some (n - 48)
         else if 97 \<le> n \<and> n \<le> 102 then Some (n - 87)
         else if 65 \<le> n \<and> n \<le> 70 then Some (n - 55) else None)"

text \<open>The leading run of hexadecimal digits, and what follows it.\<close>

definition hex_run :: "string \<Rightarrow> string \<times> string" where
  "hex_run s = (takeWhile (\<lambda>c. hex_val c \<noteq> None) s, dropWhile (\<lambda>c. hex_val c \<noteq> None) s)"

text \<open>The loop of \<^verbatim>\<open>netip.parseIPv6\<close>. \<open>room\<close> is the number of 16-bit groups still free, \<open>out\<close>
  the bytes parsed so far, \<open>ell\<close> the position of the ellipsis. The result is what is left of
  the string with the bytes and the ellipsis.\<close>

fun parse_groups ::
  "nat \<Rightarrow> string \<Rightarrow> nat list \<Rightarrow> nat option \<Rightarrow> (string \<times> nat list \<times> nat option) option" where
  "parse_groups 0 s out ell = Some (s, out, ell)"
| "parse_groups (Suc room) s out ell =
     (let (ds, rest) = hex_run s
      in if ds = [] \<or> length ds > 4 then None
         else if rest \<noteq> [] \<and> hd rest = CHR ''.'' then
           (if (ell = None \<and> length out \<noteq> 12) \<or> length out + 4 > 16 then None
            else case parseIPv4Fields s of
                   None \<Rightarrow> None
                 | Some b \<Rightarrow> Some ([], out @ b, ell))
         else
           (let acc = foldl (\<lambda>n c. 16 * n + the (hex_val c)) 0 ds;
                out = out @ [acc div 256, acc mod 256]
            in case rest of
                 [] \<Rightarrow> Some ([], out, ell)
               | c # s \<Rightarrow>
                   if c \<noteq> CHR '':'' \<or> s = [] then None
                   else if hd s = CHR '':'' then
                     (if ell \<noteq> None then None
                      else if tl s = [] then Some ([], out, Some (length out))
                      else parse_groups room (tl s) out (Some (length out)))
                   else parse_groups room s out ell))"

definition parseIPv6 :: "string \<Rightarrow> ip option" where
  "parseIPv6 s =
     (if CHR ''%'' \<in> set s then None
      else if s = ''::'' then Some (replicate 16 0)
      else
        let (s, ell) = (if HasPrefix s ''::'' then (drop 2 s, Some 0) else (s, None))
        in case parse_groups 8 s [] ell of
             None \<Rightarrow> None
           | Some (s, out, ell) \<Rightarrow>
               if s \<noteq> [] then None
               else if length out < 16 then
                 (case ell of
                    None \<Rightarrow> None
                  | Some e \<Rightarrow> Some (take e out @ replicate (16 - length out) 0 @ drop e out))
               else if ell \<noteq> None then None
               else Some out)"

text \<open>The first of the bytes \<^verbatim>\<open>.\<close>, \<^verbatim>\<open>:\<close> and \<^verbatim>\<open>%\<close> selects the syntax.\<close>

definition ParseIP :: "string \<Rightarrow> ip option" where
  "ParseIP s =
     (case dropWhile (\<lambda>c. c \<notin> {CHR ''.'', CHR '':'', CHR ''%''}) s of
        [] \<Rightarrow> None
      | c # _ \<Rightarrow> if c = CHR ''.'' then map_option v4_mapped (parseIPv4Fields s)
                 else if c = CHR '':'' then parseIPv6 s else None)"

definition To4 :: "ip \<Rightarrow> nat list option" where
  "To4 ip = (if length ip = 16 \<and> take 12 ip = replicate 10 0 @ [255, 255] then Some (drop 12 ip) else None)"

definition IsUnspecified :: "ip \<Rightarrow> bool" where
  "IsUnspecified ip \<longleftrightarrow> To4 ip = Some [0, 0, 0, 0] \<or> ip = replicate 16 0"

definition IsLoopback :: "ip \<Rightarrow> bool" where
  "IsLoopback ip = (case To4 ip of Some b \<Rightarrow> b ! 0 = 127 | None \<Rightarrow> ip = replicate 15 0 @ [1])"

definition IsMulticast :: "ip \<Rightarrow> bool" where
  "IsMulticast ip = (case To4 ip of Some b \<Rightarrow> b ! 0 div 16 = 14 | None \<Rightarrow> ip ! 0 = 255)"

definition IsLinkLocalUnicast :: "ip \<Rightarrow> bool" where
  "IsLinkLocalUnicast ip =
     (case To4 ip of Some b \<Rightarrow> b ! 0 = 169 \<and> b ! 1 = 254
      | None \<Rightarrow> ip ! 0 = 254 \<and> ip ! 1 div 64 = 2)"

definition IsLinkLocalMulticast :: "ip \<Rightarrow> bool" where
  "IsLinkLocalMulticast ip =
     (case To4 ip of Some b \<Rightarrow> b ! 0 = 224 \<and> b ! 1 = 0 \<and> b ! 2 = 0
      | None \<Rightarrow> ip ! 0 = 255 \<and> ip ! 1 mod 16 = 2)"

definition IsGlobalUnicast :: "ip \<Rightarrow> bool" where
  "IsGlobalUnicast ip \<longleftrightarrow> (length ip = 4 \<or> length ip = 16) \<and> To4 ip \<noteq> Some [255, 255, 255, 255] \<and>
     \<not> IsUnspecified ip \<and> \<not> IsLoopback ip \<and> \<not> IsMulticast ip \<and> \<not> IsLinkLocalUnicast ip"

section \<open>internal/rdmahealth\<close>

definition ReadyCondition :: string where
  "ReadyCondition = ''Ready''"

definition FreshnessWindow :: int where
  "FreshnessWindow = 45 * second_ns"

definition MaxFutureSkew :: int where
  "MaxFutureSkew = 5 * second_ns"

definition HeartbeatIsFresh :: "int \<Rightarrow> int \<Rightarrow> bool" where
  "HeartbeatIsFresh lastHeartbeat now =
     (if time_IsZero lastHeartbeat then False
      else let age = time_Sub now lastHeartbeat
           in age \<le> FreshnessWindow \<and> age \<ge> - MaxFutureSkew)"

definition ParseUsableIP :: "string \<Rightarrow> error + ip" where
  "ParseUsableIP address =
     (case ParseIP address of
        None \<Rightarrow> Inl (Errorf ''%q is not a routable unicast IP address'' [S address])
      | Some ip \<Rightarrow>
          if \<not> IsGlobalUnicast ip \<or> IsLoopback ip \<or> IsUnspecified ip \<or> IsMulticast ip \<or>
             IsLinkLocalUnicast ip \<or> IsLinkLocalMulticast ip
          then Inl (Errorf ''%q is not a routable unicast IP address'' [S address])
          else Inr ip)"

definition rdmahealth_Validate :: "'z apimachinery_scheme \<Rightarrow> RDMAStorageNode \<Rightarrow> int \<Rightarrow> error option" where
  "rdmahealth_Validate K node now =
     (let name = om_Name (n_meta node) in
      if (case FindStatusCondition K (nst_Conditions (n_status node)) ReadyCondition of
            None \<Rightarrow> True | Some condition \<Rightarrow> cond_Status condition \<noteq> ConditionTrue)
      then Some (Errorf ''RDMAStorageNode %s is not Ready'' [S name])
      else if \<not> HeartbeatIsFresh (nst_LastHeartbeatTime (n_status node)) now
      then Some (Errorf ''RDMAStorageNode %s heartbeat is stale'' [S name])
      else case ParseUsableIP (ns_RDMAIP (n_spec node)) of
             Inl e \<Rightarrow> Some (Errorf ''RDMAStorageNode %s has no usable RDMA IP'' [S name])
           | Inr ip \<Rightarrow>
               if ns_Transport (n_spec node) \<noteq> RDMATransportRoCEv2 \<and>
                  ns_Transport (n_spec node) \<noteq> RDMATransportInfiniBand
               then Some (Errorf ''RDMAStorageNode %s does not advertise an RDMA transport'' [S name])
               else None)"

section \<open>Lemmas\<close>

text \<open>The dotted form of an IPv4 address.\<close>

definition dotted :: "nat list \<Rightarrow> string" where
  "dotted b = Join (map nat_decimal b) ''.''"

lemma nat_decimal_lt1000:
  assumes "n < 1000"
  shows "nat_decimal n =
    (if n < 10 then [digit_char n]
     else if n < 100 then [digit_char (n div 10), digit_char (n mod 10)]
     else [digit_char (n div 10 div 10), digit_char (n div 10 mod 10), digit_char (n mod 10)])"
proof -
  have "n div 10 < 10 \<longleftrightarrow> n < 100" and "n div 10 div 10 < 10" using assms by auto
  then show ?thesis
    by (simp add: nat_decimal.simps [of n] nat_decimal.simps [of "n div 10"]
        nat_decimal.simps [of "n div 10 div 10"])
qed

lemma digit_char_0:
  assumes "d < 10"
  shows "digit_char d = CHR ''0'' \<longleftrightarrow> d = 0"
proof -
  have "(of_char (digit_char d) :: nat) = 48 + d"
    using assms by (simp add: digit_char_def)
  moreover have "(of_char CHR ''0'' :: nat) = 48" by simp
  ultimately show ?thesis
    by (metis add_cancel_left_right of_char_eq_iff)
qed

lemma parse_octet_nat_decimal:
  assumes "n < 256"
  shows "parse_octet (nat_decimal n) = Some n"
proof -
  have "length (nat_decimal n) \<le> 3"
    using assms by (simp add: nat_decimal_lt1000)
  moreover have "\<not> (1 < length (nat_decimal n) \<and> hd (nat_decimal n) = CHR ''0'')"
  proof -
    have "n div 10 < 10 \<longleftrightarrow> n < 100" and "n div 10 div 10 < 10" and "0 < n div 10 div 10 \<longleftrightarrow> 100 \<le> n"
      and "0 < n div 10 \<longleftrightarrow> 10 \<le> n"
      using assms by auto
    then show ?thesis
      using assms by (auto simp: nat_decimal_lt1000 digit_char_0)
  qed
  ultimately show ?thesis
    using assms nat_decimal_digits [of n] nat_decimal_value [of n]
    by (simp add: parse_octet_def Let_def)
qed

lemma nat_decimal_no_punct:
  assumes "c \<in> set (nat_decimal n)"
  shows "c \<notin> {CHR ''.'', CHR '':'', CHR ''%''}"
proof -
  have "is_digit c"
    using assms nat_decimal_digits [of n] by (simp only: list_all_iff)
  moreover have "\<not> is_digit CHR ''.''" "\<not> is_digit CHR '':''" "\<not> is_digit CHR ''%''"
    by (simp_all add: is_digit_def)
  ultimately show ?thesis by blast
qed

lemma parseIPv4Fields_dotted:
  assumes "length b = 4" and "\<forall>n \<in> set b. n < 256"
  shows "parseIPv4Fields (dotted b) = Some b"
proof -
  have "Split (dotted b) CHR ''.'' = map nat_decimal b"
    unfolding dotted_def
    by (rule Split_Join) (use assms nat_decimal_no_punct in auto)
  moreover have "map parse_octet (map nat_decimal b) = map Some b"
    using assms(2) by (auto simp: parse_octet_nat_decimal)
  ultimately have "map parse_octet (Split (dotted b) CHR ''.'') = map Some b" by simp
  with assms(1) show ?thesis
    by (simp only: parseIPv4Fields_def Let_def) (simp add: comp_def image_iff)
qed

lemma ParseIP_dotted:
  assumes "length b = 4" and "\<forall>n \<in> set b. n < 256"
  shows "ParseIP (dotted b) = Some (v4_mapped b)"
proof -
  obtain x y r where b: "b = x # y # r"
    using assms(1) by (cases b; cases "tl b") auto
  then have d: "dotted b = nat_decimal x @ CHR ''.'' # dotted (y # r)"
    by (simp add: dotted_def)
  have "dropWhile (\<lambda>c. c \<notin> {CHR ''.'', CHR '':'', CHR ''%''}) (dotted b) = CHR ''.'' # dotted (y # r)"
    unfolding d by (subst dropWhile_append2) (use nat_decimal_no_punct in auto)
  then show ?thesis
    by (simp add: ParseIP_def parseIPv4Fields_dotted [OF assms])
qed

lemma To4_v4_mapped [simp]: "length b = 4 \<Longrightarrow> To4 (v4_mapped b) = Some b"
  by (simp add: To4_def v4_mapped_def)

text \<open>Every address the parser returns has sixteen bytes.\<close>

lemma parseIPv4Fields_length: "parseIPv4Fields s = Some b \<Longrightarrow> length b = 4"
  by (auto simp: parseIPv4Fields_def Let_def split: if_splits)

lemma parse_groups_length:
  assumes "parse_groups room s out ell = Some (s', out', ell')" and "length out + 2 * room = 16"
    and "ell = None \<or> the ell \<le> length out"
  shows "length out' \<le> 16 \<and> (ell' = None \<or> the ell' \<le> length out')"
  using assms
proof (induction room arbitrary: s out ell)
  case 0
  then show ?case by auto
next
  case (Suc room)
  obtain ds rest where run: "hex_run s = (ds, rest)" by fastforce
  let ?acc = "foldl (\<lambda>n c. 16 * n + the (hex_val c)) 0 ds"
  let ?out = "out @ [?acc div 256, ?acc mod 256]"
  have len: "length ?out + 2 * room = 16" using Suc.prems(2) by simp
  consider (v4) b where "parseIPv4Fields s = Some b" "out' = out @ b" "ell' = ell" "length out + 4 \<le> 16"
    | (stop) "out' = ?out" "ell' = ell \<or> ell' = Some (length ?out)"
    | (more) t where "parse_groups room t ?out ell = Some (s', out', ell')"
    | (ellipsis) t where "parse_groups room t ?out (Some (length ?out)) = Some (s', out', ell')"
    using Suc.prems(1) unfolding parse_groups.simps run Let_def prod.case
    by (auto split: if_split_asm option.split_asm list.split_asm)
  then show ?case
  proof cases
    case v4
    with Suc.prems(3) show ?thesis using parseIPv4Fields_length by fastforce
  next
    case stop
    with Suc.prems show ?thesis by auto
  next
    case more
    with Suc.IH len Suc.prems(3) show ?thesis by fastforce
  next
    case ellipsis
    from Suc.IH [OF this len] show ?thesis by simp
  qed
qed

lemma ParseIP_length:
  assumes "ParseIP s = Some ip"
  shows "length ip = 16"
proof -
  have v6: "length ip = 16" if p: "parseIPv6 t = Some ip" for t
  proof -
    have "length x \<le> 16 \<and> (e' = None \<or> the e' \<le> length x)"
      if "parse_groups 8 u [] e = Some (v, x, e')" "e = None \<or> e = Some 0" for u e v x e'
      using parse_groups_length [OF that(1)] that(2) by auto
    then show ?thesis
      using p by (fastforce simp: parseIPv6_def Let_def split: if_splits option.splits prod.splits)
  qed
  show ?thesis
    using assms v6 parseIPv4Fields_length
    by (auto simp: ParseIP_def v4_mapped_def split: list.splits if_splits)
qed

lemma HeartbeatIsFresh_iff:
  "HeartbeatIsFresh t now \<longleftrightarrow>
     t \<noteq> zero_time \<and> t - 5 * second_ns \<le> now \<and> now \<le> t + 45 * second_ns"
  unfolding HeartbeatIsFresh_def time_IsZero_def time_Sub_def FreshnessWindow_def MaxFutureSkew_def
    second_ns_def MinInt64_def MaxInt64_def Let_def
  by auto

section \<open>Properties\<close>

text \<open>Of the IPv4 addresses, \<^verbatim>\<open>ParseUsableIP\<close> accepts exactly those outside
  \<^verbatim>\<open>0.0.0.0\<close>, \<^verbatim>\<open>127.0.0.0/8\<close>, \<^verbatim>\<open>169.254.0.0/16\<close>, \<^verbatim>\<open>224.0.0.0/4\<close> and
  \<^verbatim>\<open>255.255.255.255\<close>, and returns the address written.\<close>

lemma ParseUsableIP_ipv4:
  assumes "a < 256" "b < 256" "c < 256" "d < 256"
  shows "ParseUsableIP (dotted [a, b, c, d]) =
    (if [a, b, c, d] = [0, 0, 0, 0] \<or> a = 127 \<or> (a = 169 \<and> b = 254) \<or> (224 \<le> a \<and> a \<le> 239) \<or>
        [a, b, c, d] = [255, 255, 255, 255]
     then Inl (Errorf ''%q is not a routable unicast IP address'' [S (dotted [a, b, c, d])])
     else Inr (v4_mapped [a, b, c, d]))"
proof -
  have p: "ParseIP (dotted [a, b, c, d]) = Some (v4_mapped [a, b, c, d])"
    using assms by (intro ParseIP_dotted) auto
  have "a div 16 = 14 \<longleftrightarrow> 224 \<le> a \<and> a \<le> 239" by auto
  moreover have "v4_mapped [a, b, c, d] \<noteq> replicate 16 0" "length (v4_mapped [a, b, c, d]) = 16"
    by (simp_all add: v4_mapped_def numeral_eq_Suc)
  ultimately show ?thesis
    by (simp add: ParseUsableIP_def p IsGlobalUnicast_def IsUnspecified_def IsLoopback_def IsMulticast_def
        IsLinkLocalUnicast_def IsLinkLocalMulticast_def)
qed

text \<open>A node passes \<^verbatim>\<open>Validate\<close> exactly when it reports Ready, its last heartbeat is at
  most 45 seconds old and at most 5 seconds in the future, its RDMA address is a usable one,
  and its transport is one of the two RDMA transports.\<close>

lemma rdmahealth_Validate_iff:
  "rdmahealth_Validate K node now = None \<longleftrightarrow>
     (\<exists>c. FindStatusCondition K (nst_Conditions (n_status node)) ReadyCondition = Some c \<and>
        cond_Status c = ConditionTrue) \<and>
     nst_LastHeartbeatTime (n_status node) \<noteq> zero_time \<and>
     nst_LastHeartbeatTime (n_status node) - 5 * second_ns \<le> now \<and>
     now \<le> nst_LastHeartbeatTime (n_status node) + 45 * second_ns \<and>
     (\<exists>ip. ParseUsableIP (ns_RDMAIP (n_spec node)) = Inr ip) \<and>
     ns_Transport (n_spec node) \<in> {RDMATransportRoCEv2, RDMATransportInfiniBand}"
  by (auto simp: rdmahealth_Validate_def HeartbeatIsFresh_iff Let_def split: option.splits sum.splits if_splits)

end
