(* ===== verification/Device_Controller.thy ===== *)
theory Device_Controller
  imports Kube Capacity Sample_Objects
begin

text \<open>
  \<^verbatim>\<open>internal/controller/nvmedevice_controller.go\<close>: the sum of the capacities reserved on a
  device, and the reconciler that publishes what is free. \<open>demand\<close> is the reference
  definition of that sum, in unbounded integers.
\<close>

section \<open>The code\<close>

fun allocated_loop :: "int \<Rightarrow> NVMePartition list \<Rightarrow> string \<Rightarrow> error + int" where
  "allocated_loop usedCapacity [] serialNumber = Inr usedCapacity"
| "allocated_loop usedCapacity (p # ps) serialNumber =
     (if p_Serial p \<noteq> serialNumber then allocated_loop usedCapacity ps serialNumber
      else case RoundUp (ps_Size (p_spec p)) of
             Inl err \<Rightarrow> Inl (Wrapf ''NVMePartition %s/%s has invalid capacity %q: %w''
                               [S (p_Namespace p), S (p_Name p), D (ps_Size (p_spec p))] err)
           | Inr allocatedBytes \<Rightarrow>
               if usedCapacity > sub64 MaxInt64 allocatedBytes
               then Inl (Errorf ''allocated capacity overflow for device serial %s'' [S serialNumber])
               else allocated_loop (add64 usedCapacity allocatedBytes) ps serialNumber)"

definition allocatedCapacityForDevice :: "NVMePartition list \<Rightarrow> string \<Rightarrow> error + int" where
  "allocatedCapacityForDevice ps serialNumber = allocated_loop 0 ps serialNumber"

definition device_Reconcile :: "'w kube \<Rightarrow> nname \<Rightarrow> 'w \<Rightarrow> result \<times> 'w" where
  "device_Reconcile K req w =
     (case Get (devices K) req w of
        (Inl err, w) \<Rightarrow> (result_of (IgnoreNotFound err), w)
      | (Inr device, w) \<Rightarrow>
          (case ListAll (partitions K) w of
             (Inl err, w) \<Rightarrow> (Inl err, w)
           | (Inr partitionList, w) \<Rightarrow>
               let totalCapacity = ds_TotalCapacity (d_spec device)
               in case allocatedCapacityForDevice partitionList (d_Serial device) of
                    Inl err \<Rightarrow> (Inl err, w)
                  | Inr usedCapacity \<Rightarrow>
                      let freeCapacity = max (sub64 totalCapacity usedCapacity) 0
                      in if dst_FreeCapacity (d_status device) \<noteq> freeCapacity
                         then let base = device;
                                  device = device\<lparr>d_status := (d_status device)\<lparr>dst_FreeCapacity := freeCapacity\<rparr>\<rparr>
                              in case StatusPatch (devices K) base device w of
                                   (Inl err, w) \<Rightarrow> (Inl err, w)
                                 | (Inr device, w) \<Rightarrow> (Inr 0, w)
                         else (Inr 0, w)))"

text \<open>The watch on partitions: the first listed device with the partition's serial number.\<close>

definition deviceForPartition :: "'w kube \<Rightarrow> NVMePartition \<Rightarrow> 'w \<Rightarrow> nname list \<times> 'w" where
  "deviceForPartition K p w =
     (if p_Serial p = [] then ([], w)
      else case ListAll (devices K) w of
             (Inl err, w) \<Rightarrow> ([], w)
           | (Inr deviceList, w) \<Rightarrow>
               (case List.find (\<lambda>dev. d_Serial dev = p_Serial p) deviceList of
                  None \<Rightarrow> ([], w)
                | Some dev \<Rightarrow> ([object_key (d_meta dev)], w)))"

section \<open>The reference sum\<close>

text \<open>The least multiple of the allocation unit that holds a size.\<close>

definition units_up :: "int \<Rightarrow> int" where
  "units_up b = (b + (AllocationUnitBytes - 1)) div AllocationUnitBytes * AllocationUnitBytes"

definition size_ok :: "NVMePartition \<Rightarrow> bool" where
  "size_ok p \<longleftrightarrow> 0 < ps_Size (p_spec p) \<and> ps_Size (p_spec p) \<le> MaxAllocatableBytes"

definition on_device :: "string \<Rightarrow> NVMePartition list \<Rightarrow> NVMePartition list" where
  "on_device serial ps = filter (\<lambda>p. p_Serial p = serial) ps"

definition demand :: "string \<Rightarrow> NVMePartition list \<Rightarrow> int" where
  "demand serial ps = (\<Sum>p \<leftarrow> on_device serial ps. units_up (ps_Size (p_spec p)))"

lemma RoundUp_units_up: "RoundUp b = Inr r \<Longrightarrow> r = units_up b"
  using RoundUp_no_wrap [of b] ru.round_InrD [of b r]
  by (simp add: units_up_def AllocationUnitBytes_def)

lemma RoundUp_eq:
  "RoundUp b = (if 0 < b \<and> b \<le> MaxAllocatableBytes then Inr (units_up b) else RoundUp b)"
  using RoundUp_no_wrap [of b] by (simp add: units_up_def AllocationUnitBytes_def)

lemma units_up_pos: "0 < b \<Longrightarrow> 0 < units_up b"
  by (auto simp: units_up_def AllocationUnitBytes_def pos_imp_zdiv_pos_iff)

lemma demand_nonneg: "list_all size_ok (on_device serial ps) \<Longrightarrow> 0 \<le> demand serial ps"
  unfolding demand_def
  by (rule sum_list_nonneg) (auto simp: list_all_iff size_ok_def intro: less_imp_le [OF units_up_pos])

lemma demand_Cons:
  "demand serial (p # ps) =
     (if p_Serial p = serial then units_up (ps_Size (p_spec p)) + demand serial ps else demand serial ps)"
  by (simp add: demand_def on_device_def)

lemma demand_append: "demand serial (ps @ qs) = demand serial ps + demand serial qs"
  by (simp add: demand_def on_device_def)

lemma on_device_Cons:
  "on_device serial (p # ps) = (if p_Serial p = serial then p # on_device serial ps else on_device serial ps)"
  by (simp add: on_device_def)

lemma allocated_loop_spec:
  assumes "0 \<le> used" and "used \<le> MaxInt64"
  shows "case allocated_loop used ps serial of
      Inr u \<Rightarrow> list_all size_ok (on_device serial ps) \<and> u = used + demand serial ps \<and> u \<le> MaxInt64
    | Inl e \<Rightarrow> \<not> (list_all size_ok (on_device serial ps) \<and> used + demand serial ps \<le> MaxInt64)"
  using assms
proof (induction ps arbitrary: used)
  case Nil
  then show ?case by (simp add: on_device_def demand_def)
next
  case (Cons p ps)
  let ?b = "ps_Size (p_spec p)"
  consider "p_Serial p \<noteq> serial" | e where "p_Serial p = serial" "RoundUp ?b = Inl e"
    | r where "p_Serial p = serial" "RoundUp ?b = Inr r"
    by (cases "RoundUp ?b") auto
  then show ?case
  proof cases
    case 1
    with Cons.IH [OF Cons.prems] show ?thesis
      by (simp add: on_device_Cons demand_Cons split: sum.splits)
  next
    case 2
    have "\<not> size_ok p"
      using 2 ru.round_ok [of ?b] by (auto simp: size_ok_def)
    with 2 show ?thesis by (simp add: on_device_Cons)
  next
    case 3
    note f = ru.round_InrD [OF 3(2)] ru.round_is_int64 [OF 3(2)]
    have r: "r = units_up ?b" using 3(2) by (rule RoundUp_units_up)
    have ok: "size_ok p" using f by (simp add: size_ok_def)
    have sub: "sub64 MaxInt64 r = MaxInt64 - r"
      using f by (intro sub64_exact) (auto simp: is_int64_def MaxInt64_def MinInt64_def)
    show ?thesis
    proof (cases "used > MaxInt64 - r")
      case True
      have "list_all size_ok (on_device serial ps) \<Longrightarrow> MaxInt64 < used + (r + demand serial ps)"
        using True demand_nonneg [of serial ps] by simp
      moreover obtain e where "allocated_loop used (p # ps) serial = Inl e"
        using True 3 by (simp add: sub)
      ultimately show ?thesis
        using 3(1) by (auto simp: on_device_Cons demand_Cons simp flip: r)
    next
      case False
      have add: "add64 used r = used + r"
        using False f Cons.prems by (intro add64_exact) (auto simp: is_int64_def MinInt64_def)
      from Cons.IH [of "used + r"] False f Cons.prems
      have IH: "case allocated_loop (used + r) ps serial of
          Inr u \<Rightarrow> list_all size_ok (on_device serial ps) \<and> u = used + r + demand serial ps \<and> u \<le> MaxInt64
        | Inl e \<Rightarrow> \<not> (list_all size_ok (on_device serial ps) \<and> used + r + demand serial ps \<le> MaxInt64)"
        by simp
      from False 3 have "allocated_loop used (p # ps) serial = allocated_loop (used + r) ps serial"
        by (simp add: sub add)
      with IH ok 3(1) show ?thesis
        by (simp add: on_device_Cons demand_Cons add.assoc flip: r split: sum.splits)
    qed
  qed
qed

lemma allocated_Inr:
  "allocatedCapacityForDevice ps serial = Inr u \<Longrightarrow>
   list_all size_ok (on_device serial ps) \<and> u = demand serial ps \<and> 0 \<le> u \<and> u \<le> MaxInt64"
  using allocated_loop_spec [where used = 0 and ps = ps and serial = serial] demand_nonneg [of serial ps]
  by (simp add: allocatedCapacityForDevice_def MaxInt64_def)

section \<open>Properties\<close>

text \<open>The capacity reserved on a device is computed exactly: the result is the unbounded
  sum of the rounded sizes of the partitions on it, and an error is returned exactly when a
  size is out of range or that sum does not fit in 64 bits. No addition wraps around.\<close>

lemma allocatedCapacityForDevice_exact:
  "case allocatedCapacityForDevice ps serial of
     Inr u \<Rightarrow> list_all size_ok (on_device serial ps) \<and> u = demand serial ps \<and> u \<le> MaxInt64
   | Inl e \<Rightarrow> \<not> (list_all size_ok (on_device serial ps) \<and> demand serial ps \<le> MaxInt64)"
  using allocated_loop_spec [where used = 0 and ps = ps and serial = serial]
  by (simp add: allocatedCapacityForDevice_def MaxInt64_def split: sum.splits)

text \<open>The calls of one reconciliation: reads only, or the read device with a new
  \<^verbatim>\<open>FreeCapacity\<close> written once.\<close>

definition free_exact :: "NVMeDevice \<Rightarrow> NVMePartition list \<Rightarrow> int \<Rightarrow> bool" where
  "free_exact d ps free \<longleftrightarrow>
     (let total = ds_TotalCapacity (d_spec d)
      in 0 \<le> free \<and> (0 \<le> total \<and> total \<le> MaxInt64 \<longrightarrow> free = max (total - demand (d_Serial d) ps) 0))"

definition device_calls_ok :: "nname \<Rightarrow> 'e event list \<Rightarrow> bool" where
  "device_calls_ok req t \<longleftrightarrow>
     (\<exists>r. t = [Devices (GetCall req r)]) \<or>
     (\<exists>d r. t = [Devices (GetCall req (Inr d)), Partitions (ListCall r)]) \<or>
     (\<exists>d ps free r. free_exact d ps free \<and>
        t = [Devices (GetCall req (Inr d)), Partitions (ListCall (Inr ps)),
             Devices (StatusPatchCall d (d\<lparr>d_status := (d_status d)\<lparr>dst_FreeCapacity := free\<rparr>\<rparr>) r)])"

lemma free_exactI:
  assumes "allocatedCapacityForDevice ps (d_Serial d) = Inr u"
  shows "free_exact d ps (max (sub64 (ds_TotalCapacity (d_spec d)) u) 0)"
proof -
  have u: "u = demand (d_Serial d) ps" "0 \<le> u" "u \<le> MaxInt64"
    using allocated_Inr [OF assms] by simp_all
  have "sub64 t u = t - u" if "0 \<le> t" "t \<le> MaxInt64" for t
    using that u by (intro sub64_exact) (auto simp: is_int64_def MinInt64_def MaxInt64_def)
  with u show ?thesis by (simp add: free_exact_def Let_def)
qed

text \<open>C19: every status a reconciliation writes for a device is the device as it was read, with
  \<^verbatim>\<open>FreeCapacity\<close> set to the exact difference between its capacity and the capacity
  reserved on it by the partitions listed, or zero where that is negative; nothing else of
  the device changes, and no other object is written.\<close>

theorem device_Reconcile_free_capacity:
  "device_calls_ok req (snd (snd (device_Reconcile (recording K) req (w, []))))"
  by (auto simp: device_Reconcile_def trace_simps Let_def device_calls_ok_def
      split: prod.splits sum.splits intro!: free_exactI)

end
