(* ===== verification/Trace_Logic.thy ===== *)
theory Trace_Logic
  imports Kube
begin

text \<open>
  Proving what a handler does to its environment, call by call.

  A handler run on a recording client leaves the list of its calls, in order. \<open>justified J t\<close>
  says that every call of the list \<open>t\<close> is justified by the calls before it: \<open>J u ev\<close> for
  the calls \<open>u\<close> made so far and the next call \<open>ev\<close>. \<open>post p Q\<close> says that the result and the
  calls of the run \<open>p\<close> satisfy \<open>Q\<close>. The collection \<open>vcg\<close> holds one rule per construct of
  the handlers (a call, a case distinction on its result, a conditional), so that a proof
  about a handler is its body taken apart by these rules, with the facts about the
  operations it calls, and the conditions that remain.
\<close>

section \<open>Runs and their calls\<close>

definition calls :: "'r \<times> ('w, 'e) traced \<Rightarrow> 'e list" where
  "calls p = snd (snd p)"

definition post :: "'r \<times> ('w, 'e) traced \<Rightarrow> ('r \<Rightarrow> 'e list \<Rightarrow> bool) \<Rightarrow> bool" where
  "post p Q \<longleftrightarrow> Q (fst p) (calls p)"

fun justified_from :: "('e list \<Rightarrow> 'e \<Rightarrow> bool) \<Rightarrow> 'e list \<Rightarrow> 'e list \<Rightarrow> bool" where
  "justified_from J u [] \<longleftrightarrow> True"
| "justified_from J u (ev # t) \<longleftrightarrow> J u ev \<and> justified_from J (u @ [ev]) t"

definition justified :: "('e list \<Rightarrow> 'e \<Rightarrow> bool) \<Rightarrow> 'e list \<Rightarrow> bool" where
  "justified J t \<longleftrightarrow> justified_from J [] t"

lemma justified_from_snoc:
  "justified_from J u (t @ [ev]) \<longleftrightarrow> justified_from J u t \<and> J (u @ t) ev"
  by (induction t arbitrary: u) auto

lemma justified_Nil [simp]: "justified J []"
  by (simp add: justified_def)

lemma justified_append [simp]: "justified J (t @ u) \<longleftrightarrow> justified J t \<and> justified_from J t u"
proof (induction u rule: rev_induct)
  case (snoc ev u)
  then show ?case
    by (simp add: justified_def justified_from_snoc flip: append_assoc)
qed simp

lemma justified_Cons [simp]: "justified J (ev # t) \<longleftrightarrow> J [] ev \<and> justified_from J [ev] t"
  by (simp add: justified_def)

lemma justified_mono:
  assumes "justified J t" and "\<And>u ev. J u ev \<Longrightarrow> J' u ev"
  shows "justified J' t"
  using assms by (induction t rule: rev_induct) auto

lemma justified_conj: "justified (\<lambda>u ev. J u ev \<and> J' u ev) t \<longleftrightarrow> justified J t \<and> justified J' t"
  by (induction t rule: rev_induct) auto

text \<open>What \<open>justified\<close> says of a call in the middle.\<close>

lemma justifiedD: "justified J (u @ ev # v) \<Longrightarrow> J u ev"
  by simp

section \<open>The rules\<close>

named_theorems vcg \<open>rules that take a handler apart\<close>
named_theorems evidence \<open>what a list of calls shows, a longer one shows\<close>

lemma post_retI [vcg]: "Q r t \<Longrightarrow> post (r, (w, t)) Q"
  by (simp add: post_def calls_def)

lemma post_ifI [vcg]: "(b \<Longrightarrow> post p Q) \<Longrightarrow> (\<not> b \<Longrightarrow> post q Q) \<Longrightarrow> post (if b then p else q) Q"
  by simp

lemma post_letI [vcg]: "(\<And>x. x = a \<Longrightarrow> post (f x) Q) \<Longrightarrow> post (let x = a in f x) Q"
  by simp

lemma post_sumI [vcg]:
  "(\<And>e. a = Inl e \<Longrightarrow> post (f e) Q) \<Longrightarrow> (\<And>x. a = Inr x \<Longrightarrow> post (g x) Q) \<Longrightarrow>
   post (case a of Inl e \<Rightarrow> f e | Inr x \<Rightarrow> g x) Q"
  by (cases a) simp_all

lemma post_optionI [vcg]:
  "(a = None \<Longrightarrow> post p Q) \<Longrightarrow> (\<And>x. a = Some x \<Longrightarrow> post (f x) Q) \<Longrightarrow>
   post (case a of None \<Rightarrow> p | Some x \<Rightarrow> f x) Q"
  by (cases a) simp_all

lemma post_listI [vcg]:
  "(a = [] \<Longrightarrow> post p Q) \<Longrightarrow> (\<And>x xs. a = x # xs \<Longrightarrow> post (f x xs) Q) \<Longrightarrow>
   post (case a of [] \<Rightarrow> p | x # xs \<Rightarrow> f x xs) Q"
  by (cases a) simp_all

text \<open>A run that goes on with \<open>g\<close> after the run \<open>p\<close>.\<close>

lemma post_bindI:
  "post p R \<Longrightarrow> (\<And>r w t. R r t \<Longrightarrow> post (g r (w, t)) Q) \<Longrightarrow> post (case p of (r, s) \<Rightarrow> g r s) Q"
  by (auto simp: post_def calls_def split: prod.splits)

lemma post_weaken: "post p R \<Longrightarrow> (\<And>r t. R r t \<Longrightarrow> Q r t) \<Longrightarrow> post p Q"
  by (simp add: post_def)

lemma post_calls: "post p (\<lambda>r t. Q t) \<longleftrightarrow> Q (calls p)"
  by (simp add: post_def)

lemma post_conjI: "post p Q \<Longrightarrow> post p R \<Longrightarrow> post p (\<lambda>r t. Q r t \<and> R r t)"
  by (simp add: post_def)

lemma recorded_calls [vcg]:
  "(\<And>r w. post (g r (w, t @ [ev (GetCall k r)])) Q) \<Longrightarrow>
   post (case Get (recording_api ev A) k (w, t) of (r, s) \<Rightarrow> g r s) Q"
  "(\<And>r w. post (h r (w, t @ [ev (ListCall r)])) Q) \<Longrightarrow>
   post (case ListAll (recording_api ev A) (w, t) of (r, s) \<Rightarrow> h r s) Q"
  "(\<And>r w. post (g r (w, t @ [ev (CreateCall x r)])) Q) \<Longrightarrow>
   post (case Create (recording_api ev A) x (w, t) of (r, s) \<Rightarrow> g r s) Q"
  "(\<And>r w. post (g r (w, t @ [ev (UpdateCall x r)])) Q) \<Longrightarrow>
   post (case Update (recording_api ev A) x (w, t) of (r, s) \<Rightarrow> g r s) Q"
  "(\<And>r w. post (g r (w, t @ [ev (PatchCall b x r)])) Q) \<Longrightarrow>
   post (case Patch (recording_api ev A) b x (w, t) of (r, s) \<Rightarrow> g r s) Q"
  "(\<And>r w. post (g r (w, t @ [ev (StatusPatchCall b x r)])) Q) \<Longrightarrow>
   post (case StatusPatch (recording_api ev A) b x (w, t) of (r, s) \<Rightarrow> g r s) Q"
  "(\<And>r w. post (d r (w, t @ [ev (DeleteCall x r)])) Q) \<Longrightarrow>
   post (case Delete (recording_api ev A) x (w, t) of (r, s) \<Rightarrow> d r s) Q"
  by (simp_all add: trace_simps split: prod.splits)

lemma silent_calls [vcg]:
  "(\<And>r w. post (g r (w, t)) Q) \<Longrightarrow> post (case silent_call f (w, t) of (r, s) \<Rightarrow> g r s) Q"
  by (simp add: trace_simps split: prod.splits)

lemma set_condition_call [vcg]:
  "(\<And>now w. post (g (SetStatusCondition K now cs c) (w, t)) Q) \<Longrightarrow>
   post (case set_condition (recording K) cs c (w, t) of (r, s) \<Rightarrow> g r s) Q"
  by (simp add: set_condition_def trace_simps split: prod.splits)

section \<open>Runs and the worlds they leave\<close>

text \<open>The same for properties of the world: \<open>after p Q\<close> says that the result and the world left
  by the run \<open>p\<close> satisfy \<open>Q\<close>.\<close>

definition after :: "'r \<times> 'w \<Rightarrow> ('r \<Rightarrow> 'w \<Rightarrow> bool) \<Rightarrow> bool" where
  "after p Q \<longleftrightarrow> Q (fst p) (snd p)"

named_theorems wp \<open>rules that take a handler apart, for properties of the world\<close>

lemma after_retI [wp]: "Q r w \<Longrightarrow> after (r, w) Q"
  by (simp add: after_def)

lemma after_ifI [wp]: "(b \<Longrightarrow> after p Q) \<Longrightarrow> (\<not> b \<Longrightarrow> after q Q) \<Longrightarrow> after (if b then p else q) Q"
  by simp

lemma after_sumI [wp]:
  "(\<And>e. a = Inl e \<Longrightarrow> after (f e) Q) \<Longrightarrow> (\<And>x. a = Inr x \<Longrightarrow> after (g x) Q) \<Longrightarrow>
   after (case a of Inl e \<Rightarrow> f e | Inr x \<Rightarrow> g x) Q"
  by (cases a) simp_all

lemma after_optionI [wp]:
  "(a = None \<Longrightarrow> after p Q) \<Longrightarrow> (\<And>x. a = Some x \<Longrightarrow> after (f x) Q) \<Longrightarrow>
   after (case a of None \<Rightarrow> p | Some x \<Rightarrow> f x) Q"
  by (cases a) simp_all

lemma after_bindI: "after p R \<Longrightarrow> (\<And>r w. R r w \<Longrightarrow> after (g r w) Q) \<Longrightarrow> after (case p of (r, w) \<Rightarrow> g r w) Q"
  by (auto simp: after_def split: prod.splits)

lemma after_weaken: "after p R \<Longrightarrow> (\<And>r w. R r w \<Longrightarrow> Q r w) \<Longrightarrow> after p Q"
  by (simp add: after_def)

end
