(* ===== verification/Claim_Controller.thy ===== *)
theory Claim_Controller
  imports Trace_Logic Sample_Objects
begin

text \<open>
  \<^verbatim>\<open>internal/controller/nvmedeviceclaim_controller.go\<close>: binding of claims to devices by
  serial number, and the release of a device when its claim is deleted. The properties are
  about the calls made on a recording client: what is written, on which evidence, and in
  which order, for every API server and every interleaving with other clients.
\<close>

section \<open>The code\<close>

definition claimFinalizer :: string where
  "claimFinalizer = ''storage.distort.io/claim-cleanup''"

definition claimBoundCondition :: string where
  "claimBoundCondition = ''Bound''"

definition deviceReadyCondition :: string where
  "deviceReadyCondition = ''HardwareAvailable''"

definition claimRequeueInterval :: int where
  "claimRequeueInterval = 30 * second_ns"

definition claimDeleteInterval :: int where
  "claimDeleteInterval = 5 * second_ns"

definition claimsForDevice :: "'w kube \<Rightarrow> NVMeDevice \<Rightarrow> 'w \<Rightarrow> nname list \<times> 'w" where
  "claimsForDevice K device w =
     (if d_Serial device = [] then ([], w)
      else case ListAll (claims K) w of
             (Inl err, w) \<Rightarrow> ([], w)
           | (Inr cs, w) \<Rightarrow>
               (map (object_key \<circ> c_meta)
                  (filter (\<lambda>c. EqualFold (cs_SerialNumber (c_spec c)) (d_Serial device)) cs), w))"

definition claimForPartition :: "NVMePartition \<Rightarrow> nname list" where
  "claimForPartition p =
     (case ps_ClaimRef (p_spec p) of
        None \<Rightarrow> []
      | Some ref \<Rightarrow> [(ref_Namespace ref, ref_Name ref)])"

definition deviceIsPresent :: "'z apimachinery_scheme \<Rightarrow> NVMeDevice \<Rightarrow> bool" where
  "deviceIsPresent K device =
     (if dst_State (d_status device) = DeviceUnavailable then False
      else case FindStatusCondition K (dst_Conditions (d_status device)) deviceReadyCondition of
             None \<Rightarrow> True
           | Some condition \<Rightarrow> cond_Status condition \<noteq> ConditionFalse)"

definition claimOwnsDevice :: "NVMeDeviceClaim \<Rightarrow> NVMeDevice \<Rightarrow> bool" where
  "claimOwnsDevice claim device =
     (case dst_ClaimRef (d_status device) of
        None \<Rightarrow> False
      | Some ref \<Rightarrow> ref_Namespace ref = om_Namespace (c_meta claim) \<and>
          ref_Name ref = om_Name (c_meta claim) \<and> ref_UID ref = om_UID (c_meta claim))"

definition updateClaimStatus ::
  "'w kube \<Rightarrow> NVMeDeviceClaim \<Rightarrow> bool \<Rightarrow> string \<Rightarrow> string \<Rightarrow> ConditionStatus \<Rightarrow> string \<Rightarrow> string \<Rightarrow>
   'w \<Rightarrow> error option \<times> 'w" where
  "updateClaimStatus K claim active device node conditionStatus reason message w =
     (case Get (claims K) (object_key (c_meta claim)) w of
        (Inl err, w) \<Rightarrow> (Some err, w)
      | (Inr latest, w) \<Rightarrow>
          (case set_condition K (cst_Conditions (c_status latest))
                  (mk_Condition claimBoundCondition conditionStatus (om_Generation (c_meta latest))
                     reason (Text message)) w of
             (conditions, w) \<Rightarrow>
               (case StatusPatch (claims K) latest
                       (latest\<lparr>c_status := (c_status latest)\<lparr>cst_Active := active,
                          cst_MatchedDevice := device, cst_NodeName := node,
                          cst_Conditions := conditions\<rparr>\<rparr>) w of
                  (r, w) \<Rightarrow> (err_of r, w))))"

definition releaseDevice ::
  "'w kube \<Rightarrow> NVMeDeviceClaim \<Rightarrow> NVMeDevice \<Rightarrow> 'w \<Rightarrow> error option \<times> 'w" where
  "releaseDevice K claim device w =
     (if \<not> claimOwnsDevice claim device then (None, w)
      else
        let base = device;
            device = device\<lparr>d_status := (d_status device)\<lparr>dst_ClaimRef := None\<rparr>\<rparr>;
            device = device\<lparr>d_status := (d_status device)\<lparr>dst_State :=
                       if deviceIsPresent K device then DeviceAvailable else DeviceUnavailable\<rparr>\<rparr>
        in case StatusPatch (devices K) base device w of (r, w) \<Rightarrow> (err_of r, w))"

text \<open>The loops over devices in \<^verbatim>\<open>finalizeClaim\<close> and \<^verbatim>\<open>reconcileClaimBinding\<close>: release every
  device of the list whose name differs from the one kept.\<close>

fun release_others ::
  "'w kube \<Rightarrow> NVMeDeviceClaim \<Rightarrow> string \<Rightarrow> NVMeDevice list \<Rightarrow> 'w \<Rightarrow> error option \<times> 'w" where
  "release_others K claim keep [] w = (None, w)"
| "release_others K claim keep (device # ds) w =
     (if d_Name device \<noteq> keep \<and> claimOwnsDevice claim device
      then case releaseDevice K claim device w of
             (Some err, w) \<Rightarrow> (Some err, w)
           | (None, w) \<Rightarrow> release_others K claim keep ds w
      else release_others K claim keep ds w)"

definition dependsOn :: "NVMeDeviceClaim \<Rightarrow> NVMePartition \<Rightarrow> bool" where
  "dependsOn claim p =
     (case ps_ClaimRef (p_spec p) of None \<Rightarrow> False | Some ref \<Rightarrow> ref_UID ref = om_UID (c_meta claim))"

text \<open>The release of the matched device, when there is one.\<close>

definition release_matched :: "'w kube \<Rightarrow> NVMeDeviceClaim \<Rightarrow> 'w \<Rightarrow> error option \<times> 'w" where
  "release_matched K claim w =
     (if cst_MatchedDevice (c_status claim) = [] then (None, w)
      else case Get (devices K) ([], cst_MatchedDevice (c_status claim)) w of
             (Inl err, w) \<Rightarrow> (if IsNotFound err then None else Some err, w)
           | (Inr device, w) \<Rightarrow> releaseDevice K claim device w)"

definition finalizeClaim :: "'w kube \<Rightarrow> NVMeDeviceClaim \<Rightarrow> 'w \<Rightarrow> result \<times> 'w" where
  "finalizeClaim K claim w =
     (if \<not> ContainsFinalizer K (c_meta claim) claimFinalizer then (Inr 0, w)
      else case ListAll (partitions K) w of
        (Inl err, w) \<Rightarrow> (Inl err, w)
      | (Inr ps, w) \<Rightarrow>
          if list_ex (dependsOn claim) ps then (Inr claimDeleteInterval, w)
          else case release_matched K claim w of
            (Some err, w) \<Rightarrow> (Inl err, w)
          | (None, w) \<Rightarrow>
              (case ListAll (devices K) w of
                 (Inl err, w) \<Rightarrow> (Inl err, w)
               | (Inr ds, w) \<Rightarrow>
                   (case release_others K claim (cst_MatchedDevice (c_status claim)) ds w of
                      (Some err, w) \<Rightarrow> (Inl err, w)
                    | (None, w) \<Rightarrow>
                        (case Patch (claims K) claim
                                (claim\<lparr>c_meta := RemoveFinalizer K (c_meta claim) claimFinalizer\<rparr>) w of
                           (r, w) \<Rightarrow> (result_of (err_of r), w)))))"

text \<open>An inactive status with the reason for it, and the requeue that follows.\<close>

definition refuse_claim ::
  "'w kube \<Rightarrow> NVMeDeviceClaim \<Rightarrow> string \<Rightarrow> string \<Rightarrow> 'w \<Rightarrow> result \<times> 'w" where
  "refuse_claim K claim reason message w =
     (case updateClaimStatus K claim False (cst_MatchedDevice (c_status claim))
             (cst_NodeName (c_status claim)) ConditionFalse reason message w of
        (Some err, w) \<Rightarrow> (Inl err, w)
      | (None, w) \<Rightarrow> (Inr claimRequeueInterval, w))"

definition claimRefOf :: "NVMeDeviceClaim \<Rightarrow> NVMeDeviceClaimReference" where
  "claimRefOf claim = \<lparr>ref_Namespace = om_Namespace (c_meta claim), ref_Name = om_Name (c_meta claim),
     ref_UID = om_UID (c_meta claim)\<rparr>"

text \<open>The end of \<^verbatim>\<open>reconcileClaimBinding\<close>, for the device that is to be bound. \<^verbatim>\<open>matching\<close>
  holds pointers into the listed devices, so its entry for that device, the only present
  one, is the server's answer when the loop reaches it.\<close>

definition bind_device ::
  "'w kube \<Rightarrow> NVMeDeviceClaim \<Rightarrow> NVMeDevice list \<Rightarrow> NVMeDevice \<Rightarrow> 'w \<Rightarrow> result \<times> 'w" where
  "bind_device K claim matching device w =
     (case StatusPatch (devices K) device
             (device\<lparr>d_status := (d_status device)\<lparr>dst_State := DeviceClaimed,
                dst_ClaimRef := Some (claimRefOf claim)\<rparr>\<rparr>) w of
        (Inl err, w) \<Rightarrow> (Inl err, w)
      | (Inr device, w) \<Rightarrow>
          (case release_others K claim (d_Name device)
                  (map (\<lambda>old. if deviceIsPresent K old then device else old) matching) w of
             (Some err, w) \<Rightarrow> (Inl err, w)
           | (None, w) \<Rightarrow>
               (case updateClaimStatus K claim True (d_Name device) (d_NodeName device)
                       ConditionTrue ''DeviceBound''
                       ''The claim is bound to an available NVMeDevice'' w of
                  (Some err, w) \<Rightarrow> (Inl err, w)
                | (None, w) \<Rightarrow> (Inr claimRequeueInterval, w))))"

definition reconcileClaimBinding :: "'w kube \<Rightarrow> NVMeDeviceClaim \<Rightarrow> 'w \<Rightarrow> result \<times> 'w" where
  "reconcileClaimBinding K claim w =
     (case ListAll (devices K) w of
        (Inl err, w) \<Rightarrow> (Inl err, w)
      | (Inr deviceList, w) \<Rightarrow>
          let matching = filter (\<lambda>dev. EqualFold (d_Serial dev) (cs_SerialNumber (c_spec claim))) deviceList;
              present = filter (deviceIsPresent K) matching
          in if length present = 0 then
               refuse_claim K claim ''DeviceUnavailable''
                 ''No currently available NVMeDevice has the requested serial number'' w
             else if length present > 1 then
               refuse_claim K claim ''AmbiguousDevices''
                 ''Multiple available NVMeDevices have the requested serial number'' w
             else
               let device = present ! 0;
                   legacyMatch = dst_ClaimRef (d_status device) = None \<and> cst_Active (c_status claim) \<and>
                     cst_MatchedDevice (c_status claim) = d_Name device;
                   ownedByAnotherClaim = dst_ClaimRef (d_status device) \<noteq> None \<and> \<not> claimOwnsDevice claim device;
                   legacyOwnershipConflict = dst_State (d_status device) = DeviceClaimed \<and>
                     \<not> claimOwnsDevice claim device \<and> \<not> legacyMatch
               in if ownedByAnotherClaim \<or> legacyOwnershipConflict then
                    refuse_claim K claim ''OwnedByAnotherClaim''
                      ''The matching NVMeDevice is owned by another claim'' w
                  else bind_device K claim matching device w)"

definition claim_Reconcile :: "'w kube \<Rightarrow> nname \<Rightarrow> 'w \<Rightarrow> result \<times> 'w" where
  "claim_Reconcile K req w =
     (case Get (claims K) req w of
        (Inl err, w) \<Rightarrow> (result_of (IgnoreNotFound err), w)
      | (Inr claim, w) \<Rightarrow>
          if \<not> not_deleting (c_meta claim) then finalizeClaim K claim w
          else if \<not> ContainsFinalizer K (c_meta claim) claimFinalizer then
            (case Update (claims K) (claim\<lparr>c_meta := AddFinalizer K (c_meta claim) claimFinalizer\<rparr>) w of
               (Inl err, w) \<Rightarrow> (Inl err, w)
             | (Inr claim, w) \<Rightarrow> reconcileClaimBinding K claim w)
          else reconcileClaimBinding K claim w)"

section \<open>What justifies a call\<close>

text \<open>A device write that takes a free device, or keeps one already owned. A device that is
  claimed without a reference predates references, and belongs to the claim it is matched to.\<close>

definition takes :: "NVMeDeviceClaim \<Rightarrow> NVMeDevice \<Rightarrow> NVMeDevice \<Rightarrow> bool" where
  "takes c b d \<longleftrightarrow>
     d = b\<lparr>d_status := (d_status b)\<lparr>dst_State := DeviceClaimed, dst_ClaimRef := Some (claimRefOf c)\<rparr>\<rparr> \<and>
     (claimOwnsDevice c b \<or>
      dst_ClaimRef (d_status b) = None \<and>
        (dst_State (d_status b) = DeviceClaimed \<longrightarrow>
         cst_Active (c_status c) \<and> cst_MatchedDevice (c_status c) = d_Name b))"

text \<open>A device write that frees a device the claim owns; it is available again if it is present.\<close>

definition gives_up :: "'z apimachinery_scheme \<Rightarrow> NVMeDeviceClaim \<Rightarrow> NVMeDevice \<Rightarrow> NVMeDevice \<Rightarrow> bool" where
  "gives_up K c b d \<longleftrightarrow> claimOwnsDevice c b \<and>
     d = b\<lparr>d_status := (d_status b)\<lparr>dst_ClaimRef := None,
       dst_State := if deviceIsPresent K b then DeviceAvailable else DeviceUnavailable\<rparr>\<rparr>"

text \<open>The claim has been read, or written and answered, in this run.\<close>

definition seen_claim :: "'e event list \<Rightarrow> NVMeDeviceClaim \<Rightarrow> bool" where
  "seen_claim t c \<longleftrightarrow>
     (\<exists>k. Claims (GetCall k (Inr c)) \<in> set t) \<or> (\<exists>x. Claims (UpdateCall x (Inr c)) \<in> set t)"

text \<open>The claim was read alive, or is the answer to adding the finalizer to one that was; or it was read
  while it is being deleted.\<close>

definition live_claim :: "'z apimachinery_scheme \<Rightarrow> 'e event list \<Rightarrow> NVMeDeviceClaim \<Rightarrow> bool" where
  "live_claim K t c \<longleftrightarrow>
     (\<exists>k b. Claims (GetCall k (Inr b)) \<in> set t \<and> not_deleting (c_meta b) \<and>
        (c = b \<or> Claims (UpdateCall (b\<lparr>c_meta := AddFinalizer K (c_meta b) claimFinalizer\<rparr>) (Inr c)) \<in> set t))"

definition dying_claim :: "'e event list \<Rightarrow> NVMeDeviceClaim \<Rightarrow> bool" where
  "dying_claim t c \<longleftrightarrow> (\<exists>k. Claims (GetCall k (Inr c)) \<in> set t) \<and> \<not> not_deleting (c_meta c)"

text \<open>\<open>b\<close> is the only device of a list read in this run that is present and has the claim's
  serial number.\<close>

definition sole_candidate ::
  "'z apimachinery_scheme \<Rightarrow> 'e event list \<Rightarrow> NVMeDeviceClaim \<Rightarrow> NVMeDevice \<Rightarrow> bool" where
  "sole_candidate K t c b \<longleftrightarrow>
     (\<exists>ds. Devices (ListCall (Inr ds)) \<in> set t \<and>
        filter (deviceIsPresent K)
          (filter (\<lambda>d. EqualFold (d_Serial d) (cs_SerialNumber (c_spec c))) ds) = [b])"

text \<open>When a device may be given up: the claim is being deleted and a listing of the partitions showed none that
  depends on it; or the claim lives, another device was just bound to it, and this one was listed with the
  claim's serial number and is not present any more.\<close>

definition device_seen :: "'e event list \<Rightarrow> NVMeDevice \<Rightarrow> bool" where
  "device_seen t b \<longleftrightarrow> (\<exists>k. Devices (GetCall k (Inr b)) \<in> set t) \<or> (\<exists>ds. Devices (ListCall (Inr ds)) \<in> set t \<and> b \<in> set ds)"

definition no_dependents :: "'e event list \<Rightarrow> NVMeDeviceClaim \<Rightarrow> bool" where
  "no_dependents t c \<longleftrightarrow> (\<exists>ps. Partitions (ListCall (Inr ps)) \<in> set t \<and> \<not> list_ex (dependsOn c) ps)"

definition replaced :: "'z apimachinery_scheme \<Rightarrow> 'e event list \<Rightarrow> NVMeDeviceClaim \<Rightarrow> NVMeDevice \<Rightarrow> bool" where
  "replaced K t c b \<longleftrightarrow>
     (\<exists>ds. Devices (ListCall (Inr ds)) \<in> set t \<and> b \<in> set ds) \<and>
     EqualFold (d_Serial b) (cs_SerialNumber (c_spec c)) \<and> \<not> deviceIsPresent K b \<and>
     (\<exists>b' d x. takes c b' d \<and> Devices (StatusPatchCall b' d (Inr x)) \<in> set t \<and> d_Name b \<noteq> d_Name x)"

definition release_due :: "'z apimachinery_scheme \<Rightarrow> 'e event list \<Rightarrow> NVMeDeviceClaim \<Rightarrow> NVMeDevice \<Rightarrow> bool" where
  "release_due K t c b \<longleftrightarrow>
     dying_claim t c \<and> no_dependents t c \<and> device_seen t b \<or> live_claim K t c \<and> replaced K t c b"

text \<open>A device has been given up, or there was nothing to give up.\<close>

definition given_up :: "'z apimachinery_scheme \<Rightarrow> 'e event list \<Rightarrow> NVMeDeviceClaim \<Rightarrow> NVMeDevice \<Rightarrow> bool" where
  "given_up K t c d \<longleftrightarrow> (claimOwnsDevice c d \<longrightarrow>
     (\<exists>d' x. gives_up K c d d' \<and> Devices (StatusPatchCall d d' (Inr x)) \<in> set t))"

text \<open>What has happened before the finalizer of a claim is removed: no listed partition depends
  on the claim, and the matched device and every listed device it owned have been given up.\<close>

definition matched_done :: "'z apimachinery_scheme \<Rightarrow> 'e event list \<Rightarrow> NVMeDeviceClaim \<Rightarrow> bool" where
  "matched_done K t c \<longleftrightarrow>
     (let m = cst_MatchedDevice (c_status c)
      in m = [] \<or>
         (\<exists>e. Devices (GetCall ([], m) (Inl e)) \<in> set t \<and> IsNotFound e) \<or>
         (\<exists>d. Devices (GetCall ([], m) (Inr d)) \<in> set t \<and> given_up K t c d))"

definition cleaned :: "'z apimachinery_scheme \<Rightarrow> 'e event list \<Rightarrow> NVMeDeviceClaim \<Rightarrow> bool" where
  "cleaned K t c \<longleftrightarrow> no_dependents t c \<and> matched_done K t c \<and>
     (\<exists>ds. Devices (ListCall (Inr ds)) \<in> set t \<and>
        (\<forall>d \<in> set ds. d_Name d \<noteq> cst_MatchedDevice (c_status c) \<longrightarrow> given_up K t c d))"

text \<open>Device writes.\<close>

definition device_write_ok :: "'z apimachinery_scheme \<Rightarrow> 'e event list \<Rightarrow> 'e event \<Rightarrow> bool" where
  "device_write_ok K t ev = (case ev of
     Devices (StatusPatchCall b d r) \<Rightarrow>
       (\<exists>c. live_claim K t c \<and> takes c b d \<and> sole_candidate K t c b \<or> gives_up K c b d \<and> release_due K t c b)
   | Devices (GetCall k r) \<Rightarrow> True
   | Devices (ListCall r) \<Rightarrow> True
   | Devices _ \<Rightarrow> False
   | Partitions (ListCall r) \<Rightarrow> True
   | Claims _ \<Rightarrow> True
   | _ \<Rightarrow> False)"

text \<open>Writes of the metadata of a claim.\<close>

definition finalizer_write_ok :: "'z apimachinery_scheme \<Rightarrow> 'e event list \<Rightarrow> 'e event \<Rightarrow> bool" where
  "finalizer_write_ok K t ev = (case ev of
     Claims (PatchCall b c r) \<Rightarrow> seen_claim t b \<and> \<not> not_deleting (c_meta b) \<and> cleaned K t b \<and>
       c = b\<lparr>c_meta := RemoveFinalizer K (c_meta b) claimFinalizer\<rparr>
   | Claims (UpdateCall c r) \<Rightarrow> (\<exists>b. seen_claim t b \<and> not_deleting (c_meta b) \<and>
       c = b\<lparr>c_meta := AddFinalizer K (c_meta b) claimFinalizer\<rparr>)
   | Claims (CreateCall c r) \<Rightarrow> False
   | Claims (DeleteCall c r) \<Rightarrow> False
   | _ \<Rightarrow> True)"

text \<open>Writes of the status of a claim.\<close>

definition bound_before :: "'e event list \<Rightarrow> NVMeDeviceClaim \<Rightarrow> bool" where
  "bound_before t l \<longleftrightarrow>
     (\<exists>c b d x. Devices (StatusPatchCall b d (Inr x)) \<in> set t \<and> seen_claim t c \<and> takes c b d \<and>
        cst_MatchedDevice (c_status l) = d_Name x \<and> cst_NodeName (c_status l) = d_NodeName x)"

definition status_write_ok :: "'e event list \<Rightarrow> 'e event \<Rightarrow> bool" where
  "status_write_ok t ev = (case ev of
     Claims (StatusPatchCall b l r) \<Rightarrow>
       c_meta l = c_meta b \<and> c_spec l = c_spec b \<and> (cst_Active (c_status l) \<longrightarrow> bound_before t l)
   | _ \<Rightarrow> True)"

definition claim_call_ok :: "'z apimachinery_scheme \<Rightarrow> 'e event list \<Rightarrow> 'e event \<Rightarrow> bool" where
  "claim_call_ok K t ev \<longleftrightarrow>
     device_write_ok K t ev \<and> finalizer_write_ok K t ev \<and> status_write_ok t ev"

lemmas claim_call_defs =
  claim_call_ok_def device_write_ok_def finalizer_write_ok_def status_write_ok_def

section \<open>Evidence persists\<close>

lemma seen_claim_append [evidence]: "seen_claim t c \<Longrightarrow> seen_claim (t @ u) c"
  unfolding seen_claim_def by auto

lemma given_up_mono: "given_up K t c d \<Longrightarrow> set t \<subseteq> set u \<Longrightarrow> given_up K u c d"
  unfolding given_up_def by blast

lemma matched_done_mono: "matched_done K t c \<Longrightarrow> set t \<subseteq> set u \<Longrightarrow> matched_done K u c"
  unfolding matched_done_def Let_def using given_up_mono [of K t c _ u] by blast

lemma live_claim_mono: "live_claim K t c \<Longrightarrow> set t \<subseteq> set u \<Longrightarrow> live_claim K u c"
  unfolding live_claim_def by blast

lemma live_claim_seen: "live_claim K t c \<Longrightarrow> seen_claim t c"
  unfolding live_claim_def seen_claim_def by blast

lemma dying_claim_mono: "dying_claim t c \<Longrightarrow> set t \<subseteq> set u \<Longrightarrow> dying_claim u c"
  unfolding dying_claim_def by blast

lemma no_dependents_mono: "no_dependents t c \<Longrightarrow> set t \<subseteq> set u \<Longrightarrow> no_dependents u c"
  unfolding no_dependents_def by blast

lemma release_due_mono: "release_due K t c b \<Longrightarrow> set t \<subseteq> set u \<Longrightarrow> release_due K u c b"
  unfolding release_due_def replaced_def device_seen_def
  using live_claim_mono [of K t c u] dying_claim_mono [of t c u] no_dependents_mono [of t c u] by blast

lemma bound_before_append [evidence]: "bound_before t l \<Longrightarrow> bound_before (t @ u) l"
  unfolding bound_before_def using seen_claim_append [of t _ u] by fastforce

lemma seen_claim_mono: "seen_claim t c \<Longrightarrow> set t \<subseteq> set u \<Longrightarrow> seen_claim u c"
  unfolding seen_claim_def by blast

lemma deviceIsPresent_recording [simp]: "deviceIsPresent (recording K) = deviceIsPresent K"
  by (rule ext) (simp add: deviceIsPresent_def)

section \<open>The operations\<close>

text \<open>Every operation keeps the calls justified and the calls made.\<close>

abbreviation claim_run :: "'w kube \<Rightarrow> 'e event list \<Rightarrow> 'e event list \<Rightarrow> bool" where
  "claim_run K t t' \<equiv> justified (claim_call_ok K) t' \<and> set t \<subseteq> set t'"

lemma updateClaimStatus_post:
  assumes "justified (claim_call_ok K) t"
    and "\<And>l. a \<Longrightarrow> cst_MatchedDevice (c_status l) = d \<Longrightarrow> cst_NodeName (c_status l) = n \<Longrightarrow> bound_before t l"
  shows "post (updateClaimStatus (recording K) c a d n s rs m (w, t)) (\<lambda>r t'. claim_run K t t')"
  unfolding updateClaimStatus_def recording_sel
  by (intro vcg) (use assms(1) in \<open>auto simp: claim_call_defs intro!: evidence assms(2)\<close>)

lemma refuse_claim_post:
  assumes "justified (claim_call_ok K) t"
  shows "post (refuse_claim (recording K) c rs m (w, t)) (\<lambda>r t'. claim_run K t t')"
  unfolding refuse_claim_def
  by (rule post_bindI, rule updateClaimStatus_post [OF assms], simp, intro vcg) simp_all

lemma present_unowned [simp]:
  "deviceIsPresent K (d\<lparr>d_status := (d_status d)\<lparr>dst_ClaimRef := x\<rparr>\<rparr>) = deviceIsPresent K d"
  by (simp add: deviceIsPresent_def)

lemma releaseDevice_post:
  assumes "justified (claim_call_ok K) t" and "release_due K t c d"
  shows "post (releaseDevice (recording K) c d (w, t))
    (\<lambda>r t'. claim_run K t t' \<and> (r = None \<longrightarrow> given_up K t' c d))"
  unfolding releaseDevice_def recording_sel deviceIsPresent_recording Let_def
  by (intro vcg)
    (use assms in \<open>auto simp: claim_call_defs gives_up_def given_up_def err_of_def split: sum.splits\<close>)

lemma release_others_post:
  assumes "justified (claim_call_ok K) t" and "\<And>d. d \<in> set ds \<Longrightarrow> d_Name d \<noteq> keep \<Longrightarrow> release_due K t c d"
  shows "post (release_others (recording K) c keep ds (w, t))
    (\<lambda>r t'. claim_run K t t' \<and> (r = None \<longrightarrow> (\<forall>d \<in> set ds. d_Name d \<noteq> keep \<longrightarrow> given_up K t' c d)))"
  using assms
proof (induction ds arbitrary: w t)
  case Nil
  then show ?case by (auto intro: vcg)
next
  case (Cons d ds)
  have rest: "post (release_others (recording K) c keep ds (w', t'))
      (\<lambda>r t''. claim_run K t t'' \<and> (r = None \<longrightarrow> (\<forall>x \<in> set (d # ds). d_Name x \<noteq> keep \<longrightarrow> given_up K t'' c x)))"
    if "claim_run K t t'" "d_Name d \<noteq> keep \<longrightarrow> given_up K t' c d" for w' t'
  proof (rule post_weaken [OF Cons.IH])
    show "justified (claim_call_ok K) t'" using that by simp
    show "release_due K t' c x" if "x \<in> set ds" "d_Name x \<noteq> keep" for x
      using that Cons.prems(2) [of x] \<open>claim_run K t t'\<close> by (auto intro: release_due_mono)
  qed (use that in \<open>auto intro: given_up_mono\<close>)
  show ?case
    unfolding release_others.simps
    by (intro vcg post_bindI [OF releaseDevice_post [OF Cons.prems(1)]] rest)
      (use Cons.prems in \<open>auto simp: given_up_def\<close>)
qed

lemma release_matched_post:
  assumes "justified (claim_call_ok K) t" and "dying_claim t c" and "no_dependents t c"
  shows "post (release_matched (recording K) c (w, t))
    (\<lambda>r t'. claim_run K t t' \<and> (r = None \<longrightarrow> matched_done K t' c))"
proof -
  let ?k = "([], cst_MatchedDevice (c_status c))"
  have rel: "post (releaseDevice (recording K) c d (w', t @ [Devices (GetCall ?k (Inr d))]))
      (\<lambda>r t'. claim_run K t t' \<and> (r = None \<longrightarrow> matched_done K t' c))" for d w'
  proof (rule post_weaken [OF releaseDevice_post])
    show "justified (claim_call_ok K) (t @ [Devices (GetCall ?k (Inr d))])"
      using assms by (simp add: claim_call_defs)
    show "release_due K (t @ [Devices (GetCall ?k (Inr d))]) c d"
      using assms(2,3) by (auto simp: release_due_def device_seen_def intro: dying_claim_mono no_dependents_mono)
  qed (auto simp: matched_done_def Let_def)
  show ?thesis
    unfolding release_matched_def recording_sel
    by (intro vcg)
      (use assms rel in \<open>auto simp: claim_call_defs matched_done_def Let_def\<close>)
qed

lemma cleanedI:
  assumes "matched_done K t c" and "set (t @ [Devices (ListCall (Inr ds))]) \<subseteq> set u"
    and "no_dependents t c"
    and "\<forall>d \<in> set ds. d_Name d \<noteq> cst_MatchedDevice (c_status c) \<longrightarrow> given_up K u c d"
  shows "cleaned K u c"
proof -
  have "matched_done K u c" "no_dependents u c"
    using assms(1-3) by (auto elim: matched_done_mono no_dependents_mono)
  with assms show ?thesis by (auto simp: cleaned_def)
qed

lemma finalizeClaim_post:
  assumes "justified (claim_call_ok K) t" and "dying_claim t c"
  shows "post (finalizeClaim (recording K) c (w, t)) (\<lambda>r t'. justified (claim_call_ok K) t')"
proof -
  have seen: "seen_claim u c" if "set t \<subseteq> set u" for u
    using dying_claim_mono [OF assms(2) that] by (auto simp: dying_claim_def seen_claim_def)
  have dying: "dying_claim u c" if "set t \<subseteq> set u" for u
    using dying_claim_mono [OF assms(2) that] .
  have listed: "no_dependents u c"
    if "Partitions (ListCall (Inr ps)) \<in> set u" "\<not> list_ex (dependsOn c) ps" for u ps
    using that by (auto simp: no_dependents_def)
  have due: "release_due K (u @ [Devices (ListCall (Inr ds))]) c d"
    if "set t \<subseteq> set u" "Partitions (ListCall (Inr ps)) \<in> set u" "\<not> list_ex (dependsOn c) ps" "d \<in> set ds" for u ps ds d
    using that dying [of "u @ [Devices (ListCall (Inr ds))]"] listed [of ps "u @ [Devices (ListCall (Inr ds))]"]
    by (auto simp: release_due_def device_seen_def)
  show ?thesis
    unfolding finalizeClaim_def recording_sel
    by (intro vcg post_bindI [OF release_matched_post] post_bindI [OF release_others_post])
      (use assms in \<open>auto simp: claim_call_defs dying_claim_def intro: seen dying listed due intro!: cleanedI\<close>)
qed

lemma bound_beforeI:
  assumes "Devices (StatusPatchCall b d (Inr x)) \<in> set t" and "seen_claim t c" and "takes c b d"
    and "cst_MatchedDevice (c_status l) = d_Name x" and "cst_NodeName (c_status l) = d_NodeName x"
  shows "bound_before t l"
  using assms unfolding bound_before_def by blast

lemma bind_device_post:
  assumes "justified (claim_call_ok K) t" and "live_claim K t c" and "sole_candidate K t c b"
    and "takes c b (b\<lparr>d_status := (d_status b)\<lparr>dst_State := DeviceClaimed, dst_ClaimRef := Some (claimRefOf c)\<rparr>\<rparr>)"
    and "Devices (ListCall (Inr listed)) \<in> set t"
    and "ds = filter (\<lambda>d. EqualFold (d_Serial d) (cs_SerialNumber (c_spec c))) listed"
  shows "post (bind_device (recording K) c ds b (w, t)) (\<lambda>r t'. justified (claim_call_ok K) t')"
proof -
  let ?d = "b\<lparr>d_status := (d_status b)\<lparr>dst_State := DeviceClaimed, dst_ClaimRef := Some (claimRefOf c)\<rparr>\<rparr>"
  let ?t = "\<lambda>r. t @ [Devices (StatusPatchCall b ?d r)]"
  have live: "live_claim K u c" if "set t \<subseteq> set u" for u using live_claim_mono [OF assms(2) that] .
  have due: "release_due K (?t (Inr x)) c old" if "old \<in> set ds" "\<not> deviceIsPresent K old" "d_Name old \<noteq> d_Name x" for x old
  proof -
    have "replaced K (?t (Inr x)) c old"
      using that assms(4,5,6) unfolding replaced_def by auto
    then show ?thesis using live [of "?t (Inr x)"] by (auto simp: release_due_def)
  qed
  show ?thesis
    unfolding bind_device_def recording_sel deviceIsPresent_recording
    by (intro vcg post_bindI [OF release_others_post] post_bindI [OF updateClaimStatus_post]
        bound_beforeI [OF _ _ assms(4)])
      (use assms(1-4) in \<open>auto simp: claim_call_defs intro: live due live_claim_seen split: if_splits\<close>)
qed

lemma sole_candidateI:
  assumes "Devices (ListCall (Inr ds)) \<in> set t"
    and "length (filter (deviceIsPresent K)
      (filter (\<lambda>d. EqualFold (d_Serial d) (cs_SerialNumber (c_spec c))) ds)) \<noteq> 0" (is "length ?p \<noteq> 0")
    and "\<not> 1 < length (filter (deviceIsPresent K)
      (filter (\<lambda>d. EqualFold (d_Serial d) (cs_SerialNumber (c_spec c))) ds))"
  shows "sole_candidate K t c (?p ! 0)"
proof -
  have "?p = [?p ! 0]" using assms(2,3) by (cases ?p) auto
  with assms(1) show ?thesis unfolding sole_candidate_def by blast
qed

lemma reconcileClaimBinding_post:
  assumes "justified (claim_call_ok K) t" and "live_claim K t c"
  shows "post (reconcileClaimBinding (recording K) c (w, t)) (\<lambda>r t'. justified (claim_call_ok K) t')"
  unfolding reconcileClaimBinding_def recording_sel deviceIsPresent_recording
proof (intro vcg bind_device_post post_weaken [OF refuse_claim_post])
  show "live_claim K (t @ [Devices (ListCall a)]) c" for a using assms(2) by (rule live_claim_mono) auto
qed (use assms in \<open>auto simp: claim_call_defs takes_def simp del: filter_filter length_0_conv
    intro!: sole_candidateI\<close>)

lemma claim_Reconcile_post:
  "post (claim_Reconcile (recording K) req (w, [])) (\<lambda>r t. justified (claim_call_ok K) t)"
  unfolding claim_Reconcile_def recording_sel
  by (intro vcg finalizeClaim_post reconcileClaimBinding_post)
    (auto simp: claim_call_defs seen_claim_def live_claim_def dying_claim_def)

section \<open>Properties\<close>

text \<open>C16: a claim takes and releases only what is its own. Whatever the API server answers and
  other clients do, every write a reconciliation makes to a device is one of two. It binds, for a
  claim that was read alive, the only present device with the claim's serial number, one that no
  other claim holds. Or it clears the reference of a device that names exactly this claim, and
  sets its state to available or unavailable as the device is present or not: for a claim being
  deleted, on which no listed partition depends; or for one that lives, a device of its serial number
  that is gone, after another device was bound in its place.\<close>

theorem claim_Reconcile_device_writes:
  "justified (device_write_ok K) (calls (claim_Reconcile (recording K) req (w, [])))"
  using claim_Reconcile_post [of K req w]
  by (auto simp: post_calls claim_call_ok_def elim: justified_mono)

text \<open>C17: the finalizer of a claim is removed only from a claim that is being deleted, and only
  after a listing of the partitions showed none that depends on it, the device it was
  matched to was looked up, and every listed device it owned was successfully released.\<close>

theorem claim_Reconcile_finalizer:
  "justified (finalizer_write_ok K) (calls (claim_Reconcile (recording K) req (w, [])))"
  using claim_Reconcile_post [of K req w]
  by (auto simp: post_calls claim_call_ok_def elim: justified_mono)

text \<open>A claim is reported active only after a device was bound to it successfully in the
  same reconciliation, and the report names that device and its node.\<close>

lemma claim_Reconcile_active:
  "justified (status_write_ok) (calls (claim_Reconcile (recording K) req (w, [])))"
  using claim_Reconcile_post [of K req w]
  by (auto simp: post_calls claim_call_ok_def elim: justified_mono)

end
