(* ===== verification/Partition_Controller.thy ===== *)
theory Partition_Controller
  imports Trace_Logic Device_Controller Placement_Auth Rdma_Health "HOL-Library.List_Lexorder"
    "HOL-Library.Char_ord" "HOL-Library.Product_Lexorder"
begin

text \<open>
  \<^verbatim>\<open>internal/controller/nvmepartition_controller.go\<close>: the choice of a device for a partition,
  and its reservation under the lock of the device.

  The reconciler is a record: its client, its \<^verbatim>\<open>APIReader\<close> when it has one, the per-device
  mutexes (\<open>Lock\<close> and \<open>Unlock\<close>, which may let other goroutines run), and
  \<^verbatim>\<open>retry.RetryOnConflict\<close> as a parameter. The last is relied on only through
  \<open>retry_ok\<close>: it runs the function it is given once or more, again only after a conflict.
\<close>

section \<open>The code\<close>

type_synonym 'w attempt = "bool \<times> 'w \<Rightarrow> error option \<times> (bool \<times> 'w)"

record 'w partition_reconciler =
  pr_Client :: "'w kube"
  pr_APIReader :: "'w kube option"
  pr_Lock :: "string \<Rightarrow> 'w \<Rightarrow> 'w"
  pr_Unlock :: "string \<Rightarrow> 'w \<Rightarrow> 'w"
  pr_RetryOnConflict :: "'w attempt \<Rightarrow> bool \<times> 'w \<Rightarrow> error option \<times> (bool \<times> 'w)"

record placementCandidate =
  pc_key :: nname
  pc_serial :: string
  pc_freeBytes :: int

definition reader :: "'w partition_reconciler \<Rightarrow> 'w kube" where
  "reader R = (case pr_APIReader R of Some a \<Rightarrow> a | None \<Rightarrow> pr_Client R)"

definition requestedBackend :: "NVMePartition \<Rightarrow> string" where
  "requestedBackend p =
     (if ps_TargetBackend (p_spec p) = [] then ''spdk'' else ps_TargetBackend (p_spec p))"

definition deviceCanHostPartition :: "NVMeDevice \<Rightarrow> NVMePartition \<Rightarrow> bool" where
  "deviceCanHostPartition device p =
     (if dst_State (d_status device) \<noteq> DeviceClaimed \<or> dst_ClaimRef (d_status device) = None then False
      else let backend = requestedBackend p
           in dst_ActiveBackend (d_status device) = [] \<or> dst_ActiveBackend (d_status device) = backend)"

definition inventoryIsReady :: "'z apimachinery_scheme \<Rightarrow> RDMAStorageNode \<Rightarrow> bool" where
  "inventoryIsReady K node =
     (case FindStatusCondition K (nst_Conditions (n_status node)) NVMeInventoryReadyCondition of
        None \<Rightarrow> False
      | Some condition \<Rightarrow> cond_Status condition = ConditionTrue)"

definition claim_matches :: "NVMeDeviceClaim \<Rightarrow> NVMeDeviceClaimReference \<Rightarrow> NVMeDevice \<Rightarrow> bool" where
  "claim_matches claim ref device \<longleftrightarrow>
     om_UID (c_meta claim) = ref_UID ref \<and> not_deleting (c_meta claim) \<and> cst_Active (c_status claim) \<and>
     cst_MatchedDevice (c_status claim) = d_Name device \<and>
     cst_NodeName (c_status claim) = d_NodeName device \<and>
     EqualFold (cs_SerialNumber (c_spec claim)) (d_Serial device)"

definition liveClaimOwnsDevice :: "'w kube \<Rightarrow> NVMeDevice \<Rightarrow> 'w \<Rightarrow> (error + bool) \<times> 'w" where
  "liveClaimOwnsDevice K device w =
     (case dst_ClaimRef (d_status device) of
        None \<Rightarrow> (Inr False, w)
      | Some ref \<Rightarrow>
          if ref_Namespace ref = [] \<or> ref_Name ref = [] \<or> ref_UID ref = [] then (Inr False, w)
          else case Get (claims K) (ref_Namespace ref, ref_Name ref) w of
                 (Inl err, w) \<Rightarrow> (if IsNotFound err then Inr False else Inl err, w)
               | (Inr claim, w) \<Rightarrow> (Inr (claim_matches claim ref device), w))"

definition availableCapacity :: "NVMeDevice \<Rightarrow> NVMePartition list \<Rightarrow> error + int" where
  "availableCapacity device ps =
     (case allocatedCapacityForDevice ps (d_Serial device) of
        Inl err \<Rightarrow> Inl err
      | Inr usedBytes \<Rightarrow> Inr (max (sub64 (ds_TotalCapacity (d_spec device)) usedBytes) 0))"

text \<open>The names of the ready nodes; each is validated at the time it is reached.\<close>

fun ready_nodes :: "'w kube \<Rightarrow> RDMAStorageNode list \<Rightarrow> 'w \<Rightarrow> string list \<times> 'w" where
  "ready_nodes K [] w = ([], w)"
| "ready_nodes K (n # ns) w =
     (case Now K w of (now, w) \<Rightarrow>
       (case ready_nodes K ns w of (names, w) \<Rightarrow>
          (if rdmahealth_Validate K n now = None \<and> inventoryIsReady K n
           then ns_NodeName (n_spec n) # names else names, w)))"

fun candidate_loop ::
  "'w kube \<Rightarrow> NVMePartition \<Rightarrow> int \<Rightarrow> NVMePartition list \<Rightarrow> string list \<Rightarrow> NVMeDevice list \<Rightarrow> 'w \<Rightarrow>
   (error + placementCandidate list) \<times> 'w" where
  "candidate_loop K p requestedBytes ps readyNodes [] w = (Inr [], w)"
| "candidate_loop K p requestedBytes ps readyNodes (device # ds) w =
     (if d_NodeName device \<notin> set readyNodes then candidate_loop K p requestedBytes ps readyNodes ds w
      else if \<not> deviceCanHostPartition device p then candidate_loop K p requestedBytes ps readyNodes ds w
      else case liveClaimOwnsDevice K device w of
        (Inl err, w) \<Rightarrow> (Inl err, w)
      | (Inr owned, w) \<Rightarrow>
          if \<not> owned then candidate_loop K p requestedBytes ps readyNodes ds w
          else case availableCapacity device ps of
            Inl err \<Rightarrow> (Inl err, w)
          | Inr freeBytes \<Rightarrow>
              (case candidate_loop K p requestedBytes ps readyNodes ds w of
                 (Inl err, w) \<Rightarrow> (Inl err, w)
               | (Inr candidates, w) \<Rightarrow>
                   (Inr (if freeBytes \<ge> requestedBytes
                         then \<lparr>pc_key = object_key (d_meta device), pc_serial = d_Serial device,
                               pc_freeBytes = freeBytes\<rparr> # candidates
                         else candidates), w)))"

text \<open>The comparison of \<^verbatim>\<open>sort.Slice\<close>: most free bytes first, then by the printed key.\<close>

definition candidate_rank :: "placementCandidate \<Rightarrow> int \<times> string" where
  "candidate_rank c = (- pc_freeBytes c, key_String (pc_key c))"

definition placementCandidates ::
  "'w partition_reconciler \<Rightarrow> NVMePartition \<Rightarrow> int \<Rightarrow> 'w \<Rightarrow> (error + placementCandidate list) \<times> 'w" where
  "placementCandidates R p requestedBytes w =
     (let K = reader R in
      case ListAll (devices K) w of
        (Inl err, w) \<Rightarrow> (Inl err, w)
      | (Inr ds, w) \<Rightarrow>
          (case ListAll (partitions K) w of
             (Inl err, w) \<Rightarrow> (Inl err, w)
           | (Inr ps, w) \<Rightarrow>
               (case ListAll (rdmanodes K) w of
                  (Inl err, w) \<Rightarrow> (Inl err, w)
                | (Inr rdmaNodes, w) \<Rightarrow>
                    (case ready_nodes K rdmaNodes w of
                       (readyNodes, w) \<Rightarrow>
                         (case candidate_loop K p requestedBytes ps readyNodes ds w of
                            (Inl err, w) \<Rightarrow> (Inl err, w)
                          | (Inr candidates, w) \<Rightarrow> (Inr (sort_key candidate_rank candidates), w))))))"

text \<open>The fields of the spec that a placement sets.\<close>

definition place :: "NVMeDevice \<Rightarrow> NVMePartition \<Rightarrow> NVMePartition" where
  "place device p = p\<lparr>p_spec := (p_spec p)\<lparr>ps_NodeName := d_NodeName device,
     ps_ParentDeviceSerialNumber := d_Serial device, ps_ClaimRef := dst_ClaimRef (d_status device)\<rparr>\<rparr>"

definition authorization :: "NVMePartition \<Rightarrow> Condition" where
  "authorization p = mk_Condition placementauth_ConditionType ConditionTrue
     (add64 (om_Generation (p_meta p)) 1) ''ManagerSelectedPlacement''
     (Text ''The management controller authorized this exact node, device, and claim placement'')"

text \<open>The writes of an attempt: the authorization first, through the status subresource, then
  the spec. The answer to the first still has the unassigned spec.\<close>

definition assign_partition ::
  "'w kube \<Rightarrow> NVMePartition \<Rightarrow> NVMeDevice \<Rightarrow> bool \<Rightarrow> 'w \<Rightarrow> (error option \<times> bool) \<times> 'w" where
  "assign_partition K p device assigned w =
     (let statusBase = place device p;
          fingerprint = Fingerprint (p_UID statusBase) (p_NodeName statusBase) (p_Serial statusBase)
                          (ps_ClaimRef (p_spec statusBase))
      in case set_condition K (pst_Conditions (p_status statusBase)) (authorization statusBase) w of
           (conditions, w) \<Rightarrow>
             (case StatusPatch (partitions K) statusBase
                     (statusBase\<lparr>p_status := (p_status statusBase)\<lparr>pst_PlacementFingerprint := fingerprint,
                        pst_Conditions := conditions\<rparr>\<rparr>) w of
                (Inl err, w) \<Rightarrow> ((Some err, assigned), w)
              | (Inr p, w) \<Rightarrow>
                  (case Update (partitions K) (place device p) w of
                     (Inl err, w) \<Rightarrow> ((Some err, assigned), w)
                   | (Inr p, w) \<Rightarrow> ((None, True), w))))"

text \<open>The function given to \<^verbatim>\<open>RetryOnConflict\<close>; it shares the variable \<^verbatim>\<open>assigned\<close>, which it is
  given and returns.\<close>

definition reserve_attempt ::
  "'w partition_reconciler \<Rightarrow> nname \<Rightarrow> placementCandidate \<Rightarrow> int \<Rightarrow> bool \<Rightarrow> 'w \<Rightarrow>
   (error option \<times> bool) \<times> 'w" where
  "reserve_attempt R partitionKey candidate requestedBytes assigned w =
     (let K = reader R in
      case Get (partitions K) partitionKey w of
        (Inl err, w) \<Rightarrow> ((IgnoreNotFound err, assigned), w)
      | (Inr p, w) \<Rightarrow>
          if p_NodeName p \<noteq> [] \<or> \<not> not_deleting (p_meta p) then ((None, p_NodeName p \<noteq> []), w)
          else case Get (devices K) (pc_key candidate) w of
            (Inl err, w) \<Rightarrow> ((if IsNotFound err then None else Some err, assigned), w)
          | (Inr device, w) \<Rightarrow>
              if d_Serial device \<noteq> pc_serial candidate \<or> \<not> deviceCanHostPartition device p
              then ((None, assigned), w)
              else case liveClaimOwnsDevice K device w of
                (Inl err, w) \<Rightarrow> ((Some err, assigned), w)
              | (Inr owned, w) \<Rightarrow>
                  if \<not> owned then ((None, assigned), w)
                  else case Get (rdmanodes K) ([], d_NodeName device) w of
                    (Inl err, w) \<Rightarrow> ((Some err, assigned), w)
                  | (Inr rdmaNode, w) \<Rightarrow>
                      (case Now K w of
                         (now, w) \<Rightarrow>
                           if rdmahealth_Validate K rdmaNode now \<noteq> None \<or> \<not> inventoryIsReady K rdmaNode
                           then ((None, assigned), w)
                           else case ListAll (partitions K) w of
                             (Inl err, w) \<Rightarrow> ((Some err, assigned), w)
                           | (Inr ps, w) \<Rightarrow>
                               (case availableCapacity device ps of
                                  Inl err \<Rightarrow> ((Some err, assigned), w)
                                | Inr freeBytes \<Rightarrow>
                                    if freeBytes < requestedBytes then ((None, assigned), w)
                                    else assign_partition (pr_Client R) p device assigned w)))"

definition as_attempt :: "(bool \<Rightarrow> 'w \<Rightarrow> (error option \<times> bool) \<times> 'w) \<Rightarrow> 'w attempt" where
  "as_attempt f s = (case s of (assigned, w) \<Rightarrow> case f assigned w of ((err, assigned), w) \<Rightarrow> (err, (assigned, w)))"

definition reserveCandidate ::
  "'w partition_reconciler \<Rightarrow> nname \<Rightarrow> placementCandidate \<Rightarrow> int \<Rightarrow> 'w \<Rightarrow> (bool \<times> error option) \<times> 'w" where
  "reserveCandidate R partitionKey candidate requestedBytes w =
     (let w = pr_Lock R (pc_serial candidate) w in
      case pr_RetryOnConflict R (as_attempt (reserve_attempt R partitionKey candidate requestedBytes)) (False, w) of
        (err, (assigned, w)) \<Rightarrow> ((assigned, err), pr_Unlock R (pc_serial candidate) w))"

fun reserve_loop ::
  "'w partition_reconciler \<Rightarrow> nname \<Rightarrow> int \<Rightarrow> placementCandidate list \<Rightarrow> 'w \<Rightarrow> result \<times> 'w" where
  "reserve_loop R partitionKey requestedBytes [] w = (Inr (5 * second_ns), w)"
| "reserve_loop R partitionKey requestedBytes (candidate # cs) w =
     (case reserveCandidate R partitionKey candidate requestedBytes w of
        ((assigned, err), w) \<Rightarrow>
          (case err of
             Some e \<Rightarrow> (Inl e, w)
           | None \<Rightarrow> if assigned then (Inr 0, w) else reserve_loop R partitionKey requestedBytes cs w))"

definition partition_Reconcile :: "'w partition_reconciler \<Rightarrow> nname \<Rightarrow> 'w \<Rightarrow> result \<times> 'w" where
  "partition_Reconcile R req w =
     (case Get (partitions (pr_Client R)) req w of
        (Inl err, w) \<Rightarrow> (result_of (IgnoreNotFound err), w)
      | (Inr p, w) \<Rightarrow>
          if p_NodeName p \<noteq> [] then (Inr 0, w)
          else case RoundUp (ps_Size (p_spec p)) of
            Inl err \<Rightarrow> (Inl (Wrapf ''invalid NVMePartition capacity %q: %w'' [D (ps_Size (p_spec p))] err), w)
          | Inr requestedBytes \<Rightarrow>
              (case placementCandidates R p requestedBytes w of
                 (Inl err, w) \<Rightarrow> (Inl err, w)
               | (Inr candidates, w) \<Rightarrow>
                   if candidates = [] then (Inr (5 * second_ns), w)
                   else reserve_loop R (object_key (p_meta p)) requestedBytes candidates w))"

section \<open>What is relied on of RetryOnConflict\<close>

text \<open>The function runs once, or again from a later state after a conflict; \<open>idle\<close> is what
  may happen between two runs.\<close>

inductive attempts ::
  "('s \<Rightarrow> 's \<Rightarrow> bool) \<Rightarrow> ('s \<Rightarrow> error option \<times> 's) \<Rightarrow> 's \<Rightarrow> error option \<times> 's \<Rightarrow> bool"
  for idle f where
  once: "attempts idle f s (f s)"
| again: "f s = (Some e, s') \<Longrightarrow> IsConflict e \<Longrightarrow> idle s' s'' \<Longrightarrow> attempts idle f s'' r \<Longrightarrow>
    attempts idle f s r"

definition retry_ok ::
  "('s \<Rightarrow> 's \<Rightarrow> bool) \<Rightarrow> (('s \<Rightarrow> error option \<times> 's) \<Rightarrow> 's \<Rightarrow> error option \<times> 's) \<Rightarrow> bool" where
  "retry_ok idle retry \<longleftrightarrow> (\<forall>f s. attempts idle f s (retry f s))"

text \<open>An invariant of the function is one of its retries.\<close>

lemma attempts_invariant:
  assumes "attempts idle f s r" and "I s"
    and "\<And>s. I s \<Longrightarrow> I (snd (f s))" and "\<And>s s'. I s \<Longrightarrow> idle s s' \<Longrightarrow> I s'"
  shows "I (snd r)"
  using assms(1,2)
proof (induction rule: attempts.induct)
  case (once s)
  then show ?case by (rule assms(3))
next
  case (again s e s' s'' r)
  have "I s'" using assms(3) [OF again.prems] again.hyps(1) by simp
  with assms(4) again.hyps(3) again.IH show ?case by blast
qed

section \<open>A recording reconciler\<close>

definition recording_reconciler ::
  "'w kube \<Rightarrow> 'w kube option \<Rightarrow> (string \<Rightarrow> 'w \<Rightarrow> 'w) \<Rightarrow> (string \<Rightarrow> 'w \<Rightarrow> 'w) \<Rightarrow>
   (('w, 'e event) traced attempt \<Rightarrow> bool \<times> ('w, 'e event) traced \<Rightarrow>
      error option \<times> (bool \<times> ('w, 'e event) traced)) \<Rightarrow>
   ('w, 'e event) traced partition_reconciler" where
  "recording_reconciler C A lock unlock retry =
     \<lparr>pr_Client = recording C, pr_APIReader = map_option recording A,
      pr_Lock = (\<lambda>k (w, t). (lock k w, t)), pr_Unlock = (\<lambda>k (w, t). (unlock k w, t)),
      pr_RetryOnConflict = retry\<rparr>"

lemma reader_recording:
  "reader (recording_reconciler C A lock unlock retry) = recording (case A of Some a \<Rightarrow> a | None \<Rightarrow> C)"
  by (simp add: reader_def recording_reconciler_def split: option.split)

lemma recording_reconciler_sel [simp]:
  "pr_Client (recording_reconciler C A lock unlock retry) = recording C"
  "pr_Lock (recording_reconciler C A lock unlock retry) k (w, t) = (lock k w, t)"
  "pr_Unlock (recording_reconciler C A lock unlock retry) k (w, t) = (unlock k w, t)"
  "pr_RetryOnConflict (recording_reconciler C A lock unlock retry) = retry"
  by (simp_all add: recording_reconciler_def)

text \<open>Between two attempts no call is made by this run, and \<^verbatim>\<open>assigned\<close> stays as it is.\<close>

definition quiet :: "bool \<times> ('w, 'e) traced \<Rightarrow> bool \<times> ('w, 'e) traced \<Rightarrow> bool" where
  "quiet s s' \<longleftrightarrow> fst s' = fst s \<and> snd (snd s') = snd (snd s)"

section \<open>What justifies an assignment\<close>

text \<open>The evidence read before a partition is placed on a device: the device is claimed and
  offers the backend, its claim is live, its node is healthy, and the partitions listed
  leave room for the request.\<close>

definition placement_evidence ::
  "'z apimachinery_scheme \<Rightarrow> 'e event list \<Rightarrow> NVMePartition \<Rightarrow> NVMeDevice \<Rightarrow> int \<Rightarrow> bool" where
  "placement_evidence K t p d bytes \<longleftrightarrow>
     (\<exists>k. Partitions (GetCall k (Inr p)) \<in> set t) \<and> p_NodeName p = [] \<and> not_deleting (p_meta p) \<and>
     (\<exists>k. Devices (GetCall k (Inr d)) \<in> set t) \<and> deviceCanHostPartition d p \<and>
     (\<exists>ref c. dst_ClaimRef (d_status d) = Some ref \<and>
        Claims (GetCall (ref_Namespace ref, ref_Name ref) (Inr c)) \<in> set t \<and> claim_matches c ref d \<and>
        ref_Namespace ref \<noteq> [] \<and> ref_Name ref \<noteq> [] \<and> ref_UID ref \<noteq> []) \<and>
     (\<exists>n now. RdmaNodes (GetCall ([], d_NodeName d) (Inr n)) \<in> set t \<and>
        rdmahealth_Validate K n now = None \<and> inventoryIsReady K n) \<and>
     (\<exists>ps free. Partitions (ListCall (Inr ps)) \<in> set t \<and> availableCapacity d ps = Inr free \<and> bytes \<le> free)"

text \<open>The bytes requested: the rounded size of the partition read first.\<close>

definition requested :: "'e event list \<Rightarrow> int \<Rightarrow> bool" where
  "requested t bytes \<longleftrightarrow>
     (\<exists>k p u. t = Partitions (GetCall k (Inr p)) # u \<and> RoundUp (ps_Size (p_spec p)) = Inr bytes)"

text \<open>The status that authorizes a placement.\<close>

definition authorizes :: "'z apimachinery_scheme \<Rightarrow> NVMePartition \<Rightarrow> NVMeDevice \<Rightarrow> NVMePartition \<Rightarrow> bool" where
  "authorizes K p d q \<longleftrightarrow>
     p_meta q = p_meta p \<and> p_spec q = p_spec (place d p) \<and>
     pst_PlacementFingerprint (p_status q) =
       Fingerprint (p_UID p) (d_NodeName d) (d_Serial d) (dst_ClaimRef (d_status d)) \<and>
     (\<exists>now. pst_Conditions (p_status q) =
        SetStatusCondition K now (pst_Conditions (p_status p)) (authorization p))"

definition placement_call_ok ::
  "'z apimachinery_scheme \<Rightarrow> 'y apimachinery_scheme \<Rightarrow> 'e event list \<Rightarrow> 'e event \<Rightarrow> bool" where
  "placement_call_ok C K t ev = (case ev of
     Partitions (StatusPatchCall b q r) \<Rightarrow>
       (\<exists>p d bytes. b = place d p \<and> authorizes C p d q \<and>
          requested t bytes \<and> placement_evidence K t p d bytes)
   | Partitions (UpdateCall x r) \<Rightarrow>
       (\<exists>p d q y bytes. Partitions (StatusPatchCall (place d p) q (Inr y)) \<in> set t \<and>
          authorizes C p d q \<and> requested t bytes \<and> placement_evidence K t p d bytes \<and> x = place d y)
   | Partitions (GetCall k r) \<Rightarrow> True | Partitions (ListCall r) \<Rightarrow> True
   | Devices (GetCall k r) \<Rightarrow> True | Devices (ListCall r) \<Rightarrow> True
   | Claims (GetCall k r) \<Rightarrow> True
   | RdmaNodes (GetCall k r) \<Rightarrow> True | RdmaNodes (ListCall r) \<Rightarrow> True
   | _ \<Rightarrow> False)"

section \<open>The operations\<close>

lemma placement_evidence_append [evidence]:
  "placement_evidence K t p d bytes \<Longrightarrow> placement_evidence K (t @ u) p d bytes"
  unfolding placement_evidence_def set_append by blast

lemma requested_append [evidence]: "requested t bytes \<Longrightarrow> requested (t @ u) bytes"
  by (auto simp: requested_def)

abbreviation placement_run ::
  "'w kube \<Rightarrow> 'w kube \<Rightarrow> 'e event list \<Rightarrow> 'e event list \<Rightarrow> bool" where
  "placement_run C K t t' \<equiv> justified (placement_call_ok C K) t' \<and> prefix t t'"

lemma liveClaimOwnsDevice_post:
  assumes "justified (placement_call_ok C K) t"
  shows "post (liveClaimOwnsDevice (recording K) d (w, t))
    (\<lambda>r t'. placement_run C K t t' \<and> (r = Inr True \<longrightarrow>
       (\<exists>ref c. dst_ClaimRef (d_status d) = Some ref \<and>
          Claims (GetCall (ref_Namespace ref, ref_Name ref) (Inr c)) \<in> set t' \<and> claim_matches c ref d \<and>
          ref_Namespace ref \<noteq> [] \<and> ref_Name ref \<noteq> [] \<and> ref_UID ref \<noteq> [])))"
  unfolding liveClaimOwnsDevice_def recording_sel
  by (intro vcg) (use assms in \<open>auto simp: placement_call_ok_def\<close>)

lemma ready_nodes_post: "post (ready_nodes (recording K) ns (w, t)) (\<lambda>r t'. t' = t)"
proof (induction ns arbitrary: w)
  case Nil
  then show ?case by (auto intro: vcg)
next
  case (Cons n ns)
  show ?case
    unfolding ready_nodes.simps recording_sel
    by (intro vcg post_bindI [OF Cons.IH]) simp
qed

lemma candidate_loop_post:
  assumes "justified (placement_call_ok C K) t"
  shows "post (candidate_loop (recording K) p b ps ns ds (w, t)) (\<lambda>r t'. placement_run C K t t')"
  using assms
proof (induction ds arbitrary: w t)
  case Nil
  then show ?case by (auto intro: vcg)
next
  case (Cons d ds)
  have rest: "post (candidate_loop (recording K) p b ps ns ds (w', t')) (\<lambda>r t''. placement_run C K t t'')"
    if "placement_run C K t t'" for w' t'
    using that by (intro post_weaken [OF Cons.IH]) (auto dest: prefix_order.order_trans)
  show ?case
    unfolding candidate_loop.simps
    by (intro vcg post_bindI [OF liveClaimOwnsDevice_post [OF Cons.prems]] post_bindI [OF rest] rest)
      (use Cons.prems in auto)
qed

lemma placementCandidates_post:
  assumes "justified (placement_call_ok C K) t"
    and "reader R = recording K"
  shows "post (placementCandidates R p b (w, t)) (\<lambda>r t'. placement_run C K t t')"
  unfolding placementCandidates_def assms(2) Let_def recording_sel
  by (intro vcg post_bindI [OF ready_nodes_post] post_bindI [OF candidate_loop_post])
    (use assms(1) in \<open>auto simp: placement_call_ok_def prefix_def\<close>)

lemma status_call_ok:
  "authorizes C p d q \<Longrightarrow> requested t b \<Longrightarrow> placement_evidence K t p d b \<Longrightarrow>
   placement_call_ok C K t (Partitions (StatusPatchCall (place d p) q r))"
  unfolding placement_call_ok_def by auto

lemma update_call_ok:
  "Partitions (StatusPatchCall (place d p) q (Inr y)) \<in> set t \<Longrightarrow> authorizes C p d q \<Longrightarrow>
   requested t b \<Longrightarrow> placement_evidence K t p d b \<Longrightarrow>
   placement_call_ok C K t (Partitions (UpdateCall (place d y) r))"
  unfolding placement_call_ok_def event.case call.case by blast

lemma authorizes_place:
  "authorizes C p d ((place d p)\<lparr>p_status := (p_status (place d p))
     \<lparr>pst_PlacementFingerprint := Fingerprint (p_UID (place d p)) (p_NodeName (place d p)) (p_Serial (place d p))
        (ps_ClaimRef (p_spec (place d p))),
      pst_Conditions := SetStatusCondition C now (pst_Conditions (p_status (place d p))) (authorization (place d p))\<rparr>\<rparr>)"
  by (auto simp: authorizes_def place_def authorization_def)

lemma assign_partition_post:
  assumes "justified (placement_call_ok C K) t" and "requested t bytes" and "placement_evidence K t p d bytes"
  shows "post (assign_partition (recording C) p d a (w, t)) (\<lambda>r t'. placement_run C K t t')"
  unfolding assign_partition_def Let_def recording_sel
  by (intro vcg)
    (use assms in \<open>auto intro!: status_call_ok update_call_ok authorizes_place evidence\<close>)

lemma helpers_recording [simp]:
  "rdmahealth_Validate (recording K) = rdmahealth_Validate K"
  "inventoryIsReady (recording K) = inventoryIsReady K"
  by (intro ext; simp add: rdmahealth_Validate_def inventoryIsReady_def)+

lemma reserve_attempt_post:
  assumes "justified (placement_call_ok C K) t" and "requested t bytes"
    and "pr_Client R = recording C" and "reader R = recording K"
  shows "post (reserve_attempt R k c bytes a (w, t)) (\<lambda>r t'. placement_run C K t t')"
  unfolding reserve_attempt_def Let_def assms(3,4) recording_sel helpers_recording
  by (intro vcg post_bindI [OF liveClaimOwnsDevice_post] post_weaken [OF assign_partition_post])
    (use assms(1,2) in \<open>auto simp: placement_call_ok_def prefix_def placement_evidence_def not_less
      simp del: split_paired_Ex intro: evidence\<close>)

lemma requested_prefix: "requested t bytes \<Longrightarrow> prefix t t' \<Longrightarrow> requested t' bytes"
  by (auto simp: prefix_def intro: evidence)

lemma reserveCandidate_post:
  fixes C :: "'w kube"
    and retry :: "('w, 'e event) traced attempt \<Rightarrow> bool \<times> ('w, 'e event) traced \<Rightarrow>
      error option \<times> (bool \<times> ('w, 'e event) traced)"
  assumes "retry_ok quiet retry" and "justified (placement_call_ok C K) t" and "requested t bytes"
    and K: "K = (case A of Some a \<Rightarrow> a | None \<Rightarrow> C)"
  shows "post (reserveCandidate (recording_reconciler C A lock unlock retry) k c bytes (w, t))
    (\<lambda>r t'. placement_run C K t t')"
proof -
  let ?R = "recording_reconciler C A lock unlock retry"
  let ?f = "as_attempt (reserve_attempt ?R k c bytes)"
  let ?I = "\<lambda>s :: bool \<times> ('w, 'e event) traced. placement_run C K t (snd (snd s))"
  have "attempts quiet ?f (False, (lock (pc_serial c) w, t)) (retry ?f (False, (lock (pc_serial c) w, t)))"
    using assms(1) by (simp add: retry_ok_def)
  then have "?I (snd (retry ?f (False, (lock (pc_serial c) w, t))))"
  proof (rule attempts_invariant)
    fix s
    assume I: "?I s"
    obtain a w' t' where s: "s = (a, (w', t'))" by (metis surj_pair)
    have "post (reserve_attempt ?R k c bytes a (w', t')) (\<lambda>r t''. placement_run C K t' t'')"
      using I s assms(3) requested_prefix
      by (intro reserve_attempt_post) (auto simp: reader_recording K)
    then show "?I (snd (?f s))"
      using I s by (auto simp: as_attempt_def post_def calls_def split: prod.splits)
  qed (use assms(2) in \<open>auto simp: quiet_def\<close>)
  then show ?thesis
    by (auto simp: reserveCandidate_def Let_def post_def calls_def split: prod.splits)
qed

lemma reserve_loop_post:
  assumes "retry_ok quiet retry" and "justified (placement_call_ok C K) t" and "requested t bytes"
    and K: "K = (case A of Some a \<Rightarrow> a | None \<Rightarrow> C)"
  shows "post (reserve_loop (recording_reconciler C A lock unlock retry) k bytes cs (w, t))
    (\<lambda>r t'. justified (placement_call_ok C K) t')"
  using assms(2,3)
proof (induction cs arbitrary: w t)
  case Nil
  then show ?case by (auto intro: vcg)
next
  case (Cons c cs)
  show ?case
    unfolding reserve_loop.simps
    by (rule post_bindI [OF reserveCandidate_post [OF assms(1) Cons.prems K]])
      (auto intro!: vcg Cons.IH intro: requested_prefix [OF Cons.prems(2)] split: prod.splits)
qed

lemma partition_Reconcile_post:
  assumes "retry_ok quiet retry" and K: "K = (case A of Some a \<Rightarrow> a | None \<Rightarrow> C)"
  shows "post (partition_Reconcile (recording_reconciler C A lock unlock retry) req (w, []))
    (\<lambda>r t. justified (placement_call_ok C K) t)"
  unfolding partition_Reconcile_def recording_reconciler_sel recording_sel
  by (intro vcg post_bindI [OF placementCandidates_post] reserve_loop_post [OF assms(1) _ _ K])
    (auto simp: placement_call_ok_def requested_def prefix_def reader_recording K)

section \<open>Capacity is never over-committed\<close>

text \<open>\<open>used s w\<close> is the capacity of the device with serial \<open>s\<close> that the partitions stored in the
  world \<open>w\<close> reserve. The manager runs one reconciliation at a time under leader election, so
  only its own \<^verbatim>\<open>Update\<close> raises it, by the rounded size of the partition updated; a listing
  shows at least what is reserved when it returns.\<close>

definition sole_assigner :: "'w kube \<Rightarrow> 'w kube \<Rightarrow> (string \<Rightarrow> 'w \<Rightarrow> int) \<Rightarrow> bool" where
  "sole_assigner C K used \<longleftrightarrow>
     (\<forall>s w k. used s (snd (Get (partitions K) k w)) \<le> used s w \<and>
        used s (snd (Get (devices K) k w)) \<le> used s w \<and>
        used s (snd (Get (claims K) k w)) \<le> used s w \<and>
        used s (snd (Get (rdmanodes K) k w)) \<le> used s w \<and>
        used s (snd (Now K w)) \<le> used s w \<and> used s (snd (Now C w)) \<le> used s w) \<and>
     (\<forall>s w. after (ListAll (partitions K) w)
        (\<lambda>r w'. used s w' \<le> used s w \<and> (\<forall>ps. r = Inr ps \<longrightarrow> used s w' \<le> demand s ps))) \<and>
     (\<forall>s b x w. after (StatusPatch (partitions C) b x w)
        (\<lambda>r w'. used s w' \<le> used s w)) \<and>
     (\<forall>s x w. after (Update (partitions C) x w)
        (\<lambda>r w'. used s w' \<le> used s w + (if p_Serial x = s then max 0 (units_up (ps_Size (p_spec x))) else 0)))"

text \<open>The device a candidate names has the capacity \<open>cap\<close>, and the partition of the request, as
  it is read and as the server answers a status patch, still has the size that was
  requested.\<close>

definition request_stands :: "'w kube \<Rightarrow> 'w kube \<Rightarrow> nname \<Rightarrow> int \<Rightarrow> (string \<Rightarrow> int) \<Rightarrow> bool" where
  "request_stands C K k bytes cap \<longleftrightarrow>
     (\<forall>w p. fst (Get (partitions K) k w) = Inr p \<longrightarrow>
        object_key (p_meta p) = k \<and> units_up (ps_Size (p_spec p)) \<le> bytes) \<and>
     (\<forall>w b x y. object_key (p_meta x) = k \<longrightarrow> fst (StatusPatch (partitions C) b x w) = Inr y \<longrightarrow>
        units_up (ps_Size (p_spec y)) \<le> bytes) \<and>
     (\<forall>w k d. fst (Get (devices K) k w) = Inr d \<longrightarrow>
        ds_TotalCapacity (d_spec d) = cap (d_Serial d) \<and> 0 \<le> cap (d_Serial d) \<and> cap (d_Serial d) \<le> MaxInt64)"

lemma availableCapacity_demand:
  assumes "availableCapacity d ps = Inr free" and "bytes \<le> free" and "0 < bytes"
    and "0 \<le> ds_TotalCapacity (d_spec d)" and "ds_TotalCapacity (d_spec d) \<le> MaxInt64"
  shows "demand (d_Serial d) ps + bytes \<le> ds_TotalCapacity (d_spec d)"
proof -
  obtain u where u: "allocatedCapacityForDevice ps (d_Serial d) = Inr u"
    and free: "free = max (sub64 (ds_TotalCapacity (d_spec d)) u) 0"
    using assms(1) by (auto simp: availableCapacity_def split: sum.splits)
  note a = allocated_Inr [OF u]
  have "sub64 (ds_TotalCapacity (d_spec d)) u = ds_TotalCapacity (d_spec d) - u"
    using a assms(4,5) by (intro sub64_exact) (auto simp: is_int64_def MinInt64_def MaxInt64_def)
  with free a assms(2,3) show ?thesis by auto
qed

definition within :: "(string \<Rightarrow> 'w \<Rightarrow> int) \<Rightarrow> (string \<Rightarrow> int) \<Rightarrow> 'w \<Rightarrow> bool" where
  "within used cap w \<longleftrightarrow> (\<forall>s. used s w \<le> cap s)"

text \<open>From \<open>w\<close> to \<open>w'\<close> the reservations on the device \<open>s\<close> grow by at most \<open>u\<close>, and no others.\<close>

definition grows :: "(string \<Rightarrow> 'w \<Rightarrow> int) \<Rightarrow> string \<Rightarrow> int \<Rightarrow> 'w \<Rightarrow> 'w \<Rightarrow> bool" where
  "grows used s u w w' \<longleftrightarrow> (\<forall>s'. used s' w' \<le> used s' w + (if s = s' then u else 0))"

lemma grows_trans: "grows used s 0 w w' \<Longrightarrow> grows used s u w' w'' \<Longrightarrow> grows used s u w w''"
  unfolding grows_def by (smt (verit))

lemma within_grows:
  "within used cap w \<Longrightarrow> grows used s u w w' \<Longrightarrow> used s w + u \<le> cap s \<Longrightarrow> within used cap w'"
  unfolding within_def grows_def by (smt (verit))

lemma within_grows_0: "within used cap w \<Longrightarrow> grows used s 0 w w' \<Longrightarrow> within used cap w'"
  unfolding within_def grows_def by (smt (verit))

lemma place_simps [simp]:
  "p_Serial (place d p) = d_Serial d" "ps_Size (p_spec (place d p)) = ps_Size (p_spec p)"
  by (simp_all add: place_def)

lemma within_reads:
  assumes "sole_assigner C K used" and "within used cap w"
  shows "after (Get (partitions K) k w) (\<lambda>r w'. within used cap w')"
    "after (Get (devices K) k w) (\<lambda>r w'. within used cap w')"
    "after (Get (claims K) k w) (\<lambda>r w'. within used cap w')"
    "after (Get (rdmanodes K) k w) (\<lambda>r w'. within used cap w')"
    "after (Now K w) (\<lambda>r w'. within used cap w')"
  using assms unfolding sole_assigner_def after_def within_def by (meson order_trans)+

lemma liveClaimOwnsDevice_within:
  assumes "sole_assigner C K used" and "within used cap w"
  shows "after (liveClaimOwnsDevice K d w) (\<lambda>r w'. within used cap w')"
  unfolding liveClaimOwnsDevice_def
  by (intro wp after_bindI [OF within_reads(3) [OF assms]]) (use assms in auto)

lemma assign_partition_within:
  assumes "sole_assigner C K used" and "request_stands C K k bytes cap" and "within used cap w"
    and "object_key (p_meta p) = k" and "used (d_Serial d) w + bytes \<le> cap (d_Serial d)"
    and "0 < bytes"
  shows "after (assign_partition C p d a w) (\<lambda>r w'. within used cap w')"
proof -
  let ?g = "grows used (d_Serial d)"
  have now: "after (set_condition C cs c w) (\<lambda>r w'. ?g 0 w w')" for cs c w
    using assms(1) unfolding set_condition_def
    by (auto simp: sole_assigner_def after_def grows_def split: prod.splits) (metis snd_conv)
  have patch: "after (StatusPatch (partitions C) b x w)
      (\<lambda>r w'. ?g 0 w w' \<and> (\<forall>y. r = Inr y \<longrightarrow> units_up (ps_Size (p_spec y)) \<le> bytes))"
    if "object_key (p_meta x) = k" for b x w
    using assms(1,2) that unfolding sole_assigner_def after_def grows_def request_stands_def by auto
  have upd: "after (Update (partitions C) (place d x) w)
      (\<lambda>r w'. ?g (max 0 (units_up (ps_Size (p_spec x)))) w w')" for x w
  proof -
    have "\<forall>s. after (Update (partitions C) (place d x) w) (\<lambda>r w'. used s w' \<le> used s w +
        (if p_Serial (place d x) = s then max 0 (units_up (ps_Size (p_spec (place d x)))) else 0))"
      using assms(1) unfolding sole_assigner_def by blast
    then show ?thesis unfolding after_def grows_def place_simps by blast
  qed
  have keep: "within used cap w2" if "?g 0 w w1" "?g 0 w1 w2" for w1 w2
    using within_grows_0 [OF assms(3) grows_trans [OF that]] .
  have room: "within used cap w3" if "?g 0 w w1" "?g 0 w1 w2" "?g u w2 w3" "u \<le> bytes" for w1 w2 w3 u
    using within_grows [OF assms(3) grows_trans [OF that(1) grows_trans [OF that(2,3)]]] assms(5) that(4) by simp
  show ?thesis
    unfolding assign_partition_def Let_def
    by (intro after_bindI [OF now] after_bindI [OF patch] wp after_bindI [OF upd])
      (use assms(4,6) in \<open>auto simp: place_def intro: keep room\<close>)
qed

lemma reserve_attempt_within:
  assumes sole: "sole_assigner (pr_Client R) (reader R) used" and stands: "request_stands (pr_Client R) (reader R) k bytes cap"
    and "0 < bytes" and "within used cap w"
  shows "after (reserve_attempt R k c bytes a w) (\<lambda>r w'. within used cap w')"
proof -
  note reads = within_reads [OF sole]
  have getp: "after (Get (partitions (reader R)) k w)
      (\<lambda>r w'. within used cap w' \<and> (\<forall>p. r = Inr p \<longrightarrow> object_key (p_meta p) = k))"
    if "within used cap w" for w
    using reads(1) [OF that, of k] stands unfolding after_def request_stands_def by blast
  have getd: "after (Get (devices (reader R)) k' w)
      (\<lambda>r w'. within used cap w' \<and> (\<forall>d. r = Inr d \<longrightarrow> ds_TotalCapacity (d_spec d) = cap (d_Serial d) \<and>
         0 \<le> cap (d_Serial d) \<and> cap (d_Serial d) \<le> MaxInt64))"
    if "within used cap w" for k' w
    using reads(2) [OF that, of k'] stands unfolding after_def request_stands_def by blast
  have list: "after (ListAll (partitions (reader R)) w)
      (\<lambda>r w'. within used cap w' \<and> (\<forall>ps s. r = Inr ps \<longrightarrow> used s w' \<le> demand s ps))"
    if "within used cap w" for w
    using sole that unfolding sole_assigner_def after_def within_def by (meson order_trans)
  have room: "used s w + bytes \<le> cap s"
    if "availableCapacity d ps = Inr free" "\<not> free < bytes" "\<forall>s. used s w \<le> demand s ps"
      "d_Serial d = s" "ds_TotalCapacity (d_spec d) = cap s" "0 \<le> cap s" "cap s \<le> MaxInt64" for d w ps free s
  proof -
    have "demand (d_Serial d) ps + bytes \<le> ds_TotalCapacity (d_spec d)"
      using that assms(3) by (intro availableCapacity_demand) auto
    moreover have "used s w \<le> demand s ps" using that(3) by simp
    ultimately show ?thesis using that(4,5) by simp
  qed
  show ?thesis
    unfolding reserve_attempt_def Let_def
    by (intro wp after_bindI [OF getp] after_bindI [OF getd]
        after_bindI [OF liveClaimOwnsDevice_within [OF sole]] after_bindI [OF reads(4)]
        after_bindI [OF reads(5)] after_bindI [OF list] assign_partition_within [OF sole stands])
      (use assms(3,4) in \<open>auto intro!: room\<close>)
qed

lemma reserveCandidate_within:
  fixes used :: "string \<Rightarrow> 'w \<Rightarrow> int"
  assumes "sole_assigner (pr_Client R) (reader R) used"
    and "request_stands (pr_Client R) (reader R) k bytes cap" and "0 < bytes"
    and "retry_ok (\<lambda>s s'. \<forall>x. used x (snd s') \<le> used x (snd s)) (pr_RetryOnConflict R)"
    and locks: "\<And>x s w. used x (pr_Lock R s w) \<le> used x w" "\<And>x s w. used x (pr_Unlock R s w) \<le> used x w"
    and "within used cap w"
  shows "within used cap (snd (reserveCandidate R k c bytes w))"
proof -
  let ?w = "pr_Lock R (pc_serial c) w" and ?f = "as_attempt (reserve_attempt R k c bytes)"
  have less: "within used cap w''" if "within used cap w'" "\<forall>x. used x w'' \<le> used x w'" for w' w''
    using that unfolding within_def by (meson order_trans)
  have "attempts (\<lambda>s s'. \<forall>x. used x (snd s') \<le> used x (snd s)) ?f (False, ?w)
      (pr_RetryOnConflict R ?f (False, ?w))"
    using assms(4) by (simp add: retry_ok_def)
  then have "within used cap (snd (snd (pr_RetryOnConflict R ?f (False, ?w))))"
  proof (rule attempts_invariant [where I = "\<lambda>s :: bool \<times> 'w. within used cap (snd s)"])
    fix s :: "bool \<times> 'w"
    assume "within used cap (snd s)"
    from reserve_attempt_within [OF assms(1-3) this, of c "fst s"]
    show "within used cap (snd (snd (?f s)))"
      by (auto simp: as_attempt_def after_def split: prod.splits)
  qed (use less locks assms(7) in auto)
  then show ?thesis
    using less [OF _ allI [OF locks(2)]] by (auto simp: reserveCandidate_def Let_def split: prod.splits)
qed

section \<open>Candidates\<close>

definition candidate_ok ::
  "NVMePartition \<Rightarrow> int \<Rightarrow> NVMePartition list \<Rightarrow> string list \<Rightarrow> NVMeDevice list \<Rightarrow> placementCandidate \<Rightarrow> bool" where
  "candidate_ok p bytes ps ns ds c \<longleftrightarrow> bytes \<le> pc_freeBytes c \<and>
     (\<exists>d \<in> set ds. pc_key c = object_key (d_meta d) \<and> pc_serial c = d_Serial d \<and> d_NodeName d \<in> set ns \<and>
        deviceCanHostPartition d p \<and> availableCapacity d ps = Inr (pc_freeBytes c))"

lemma candidate_ok_Cons: "candidate_ok p bytes ps ns ds c \<Longrightarrow> candidate_ok p bytes ps ns (d # ds) c"
  by (auto simp: candidate_ok_def)

lemma candidate_loop_result:
  "after (candidate_loop K p bytes ps ns ds w)
     (\<lambda>r w'. \<forall>cs. r = Inr cs \<longrightarrow> list_all (candidate_ok p bytes ps ns ds) cs)"
proof (induction ds arbitrary: w)
  case Nil
  then show ?case by (auto intro: wp)
next
  case (Cons d ds)
  have any: "after (liveClaimOwnsDevice K d w) (\<lambda>r w. True)" by (simp add: after_def)
  show ?case
    unfolding candidate_loop.simps
    by (intro wp after_bindI [OF any] after_bindI [OF Cons.IH] after_weaken [OF Cons.IH])
      (auto simp: list_all_iff candidate_ok_Cons, auto simp: candidate_ok_def)
qed

section \<open>Properties\<close>

text \<open>C10: every placement the manager writes is backed by fresh evidence read in the same run. The
  partition was read unassigned and not being deleted; the device was read as claimed and
  with a compatible backend; the claim it names was read and is live, active and matched to
  it; its node was read and is healthy, with a ready inventory; and the partitions listed
  leave at least the requested bytes free. The authorization of exactly this placement is
  written, and answered, before the spec that carries it; nothing else is ever written.\<close>

theorem partition_Reconcile_assignments:
  assumes "retry_ok quiet retry"
  shows "justified (placement_call_ok C (case A of Some a \<Rightarrow> a | None \<Rightarrow> C))
    (calls (partition_Reconcile (recording_reconciler C A lock unlock retry) req (w, [])))"
  using partition_Reconcile_post [OF assms refl] by (simp add: post_calls)

lemma run_once_ok: "retry_ok idle (\<lambda>f s. f s)"
  by (simp add: retry_ok_def attempts.once)

theorem partition_Reconcile_assignments_witness:
  "retry_ok quiet (\<lambda>f. (f :: (mem, unit event) traced attempt)) \<and>
   justified (placement_call_ok mem_kube mem_kube)
     (calls (partition_Reconcile (recording_reconciler mem_kube None (\<lambda>_ w. w) (\<lambda>_ w. w) (\<lambda>f. f))
        (''apps'', ''pvc1'') (sample_mem, [])) :: unit event list)"
proof
  show "retry_ok quiet (\<lambda>f. (f :: (mem, unit event) traced attempt))" by (rule run_once_ok)
  show "justified (placement_call_ok mem_kube mem_kube)
     (calls (partition_Reconcile (recording_reconciler mem_kube None (\<lambda>_ w. w) (\<lambda>_ w. w) (\<lambda>f. f))
        (''apps'', ''pvc1'') (sample_mem, [])) :: unit event list)"
    by (rule partition_Reconcile_assignments [OF run_once_ok, where A = None, unfolded option.case])
qed

text \<open>C2: a reservation never over-commits a device. While only the manager assigns partitions,
  and the partition still has the size that was requested, the capacity reserved on every
  device stays within its total capacity, whatever conflicts and retries happen.\<close>

theorem reserveCandidate_no_overcommit:
  fixes used :: "string \<Rightarrow> 'w \<Rightarrow> int"
  assumes "sole_assigner (pr_Client R) (reader R) used"
    and "request_stands (pr_Client R) (reader R) k bytes cap" and "0 < bytes"
    and "retry_ok (\<lambda>s s'. \<forall>x. used x (snd s') \<le> used x (snd s)) (pr_RetryOnConflict R)"
    and "\<And>x s w. used x (pr_Lock R s w) \<le> used x w" and "\<And>x s w. used x (pr_Unlock R s w) \<le> used x w"
    and "\<forall>s. used s w \<le> cap s"
  shows "\<forall>s. used s (snd (reserveCandidate R k c bytes w)) \<le> cap s"
  using reserveCandidate_within [OF assms(1-6)] assms(7) by (simp add: within_def)

text \<open>A store of one partition, unassigned or (\<open>True\<close>) assigned to the sample device.\<close>

definition cell_partition :: "bool \<Rightarrow> NVMePartition" where
  "cell_partition w = (if w then place sample_device sample_partition else sample_partition)"

definition cell_api :: "(bool \<Rightarrow> 'o) \<Rightarrow> ('o \<Rightarrow> bool) \<Rightarrow> (bool, 'o) api" where
  "cell_api obj assigns = \<lparr>Get = (\<lambda>k w. (Inr (obj w), w)), ListAll = (\<lambda>w. (Inr [obj w], w)),
     Create = (\<lambda>x w. (Inl (ApiError AlreadyExists), w)), Update = (\<lambda>x w. (Inr x, w \<or> assigns x)),
     Patch = (\<lambda>b x w. (Inr x, w)), StatusPatch = (\<lambda>b x w. (Inr (obj w), w)),
     Delete = (\<lambda>x w. (Inr (), w))\<rparr>"

definition cell_kube :: "bool kube" where
  "cell_kube = std_kube
     (cell_api cell_partition (\<lambda>x. p_Serial x = ''SN1'' \<and> ps_Size (p_spec x) = 8388608))
     (cell_api (\<lambda>_. sample_device) (\<lambda>_. False)) (cell_api (\<lambda>_. sample_claim) (\<lambda>_. False))
     (cell_api (\<lambda>_. sample_node) (\<lambda>_. False)) (cell_api (\<lambda>_. undefined) (\<lambda>_. False)) (\<lambda>w. (0, w))"

definition cell_reconciler :: "bool partition_reconciler" where
  "cell_reconciler = \<lparr>pr_Client = cell_kube, pr_APIReader = None, pr_Lock = (\<lambda>_ w. w),
     pr_Unlock = (\<lambda>_ w. w), pr_RetryOnConflict = (\<lambda>f. f)\<rparr>"

definition cell_used :: "string \<Rightarrow> bool \<Rightarrow> int" where
  "cell_used s w = (if w \<and> s = ''SN1'' then 8388608 else 0)"

lemma units_up_cell: "units_up 8388608 = 8388608"
  by (simp add: units_up_def AllocationUnitBytes_def)

lemma cell_sel [simp]:
  "partitions cell_kube = cell_api cell_partition (\<lambda>x. p_Serial x = ''SN1'' \<and> ps_Size (p_spec x) = 8388608)"
  "devices cell_kube = cell_api (\<lambda>_. sample_device) (\<lambda>_. False)"
  "claims cell_kube = cell_api (\<lambda>_. sample_claim) (\<lambda>_. False)"
  "rdmanodes cell_kube = cell_api (\<lambda>_. sample_node) (\<lambda>_. False)" "Now cell_kube w = (0, w)"
  by (simp_all add: cell_kube_def std_kube_def apimachinery.defs)

lemma cell_demand: "demand s [cell_partition w] = cell_used s w + (if \<not> w \<and> s = [] then 8388608 else 0)"
  by (simp add: demand_def on_device_def cell_partition_def place_def sample_defs cell_used_def units_up_cell)

lemma cell_sole_assigner: "sole_assigner cell_kube cell_kube cell_used"
  by (auto simp: sole_assigner_def after_def cell_api_def cell_demand)
    (auto simp: cell_used_def units_up_cell)

lemma cell_request_stands:
  "request_stands cell_kube cell_kube (''apps'', ''pvc1'') 8388608 (\<lambda>_. 1073741824)"
  by (simp add: request_stands_def cell_api_def cell_partition_def place_def sample_defs object_key_def
      units_up_cell MaxInt64_def)

theorem reserveCandidate_no_overcommit_witness:
  "cell_used ''SN1'' (snd (reserveCandidate cell_reconciler (''apps'', ''pvc1'')
     \<lparr>pc_key = ([], ''dev1''), pc_serial = ''SN1'', pc_freeBytes = 1073741824\<rparr> 8388608 False)) \<le> 1073741824"
proof -
  have r: "pr_Client cell_reconciler = cell_kube" "reader cell_reconciler = cell_kube"
    "pr_RetryOnConflict cell_reconciler = (\<lambda>f s. f s)"
    by (simp_all add: cell_reconciler_def reader_def)
  show ?thesis
    using reserveCandidate_no_overcommit [of cell_reconciler cell_used "(''apps'', ''pvc1'')" 8388608
        "\<lambda>_. 1073741824" False, unfolded r, OF cell_sole_assigner cell_request_stands _ run_once_ok]
    by (simp add: cell_reconciler_def cell_used_def)
qed

text \<open>The candidates are tried best first: they are sorted by decreasing free capacity, ties
  by name, and every one of them has at least the requested bytes free.\<close>

lemma placementCandidates_best_first:
  "case fst (placementCandidates R p bytes w) of
     Inl e \<Rightarrow> True
   | Inr cs \<Rightarrow> sorted (map candidate_rank cs) \<and> list_all (\<lambda>c. bytes \<le> pc_freeBytes c) cs"
proof -
  have any: "after x (\<lambda>r w. True)" for x :: "'r \<times> 'w" by (simp add: after_def)
  have "after (placementCandidates R p bytes w) (\<lambda>r w'. \<forall>cs. r = Inr cs \<longrightarrow>
      sorted (map candidate_rank cs) \<and> list_all (\<lambda>c. bytes \<le> pc_freeBytes c) cs)"
    unfolding placementCandidates_def Let_def
    by (intro after_bindI [OF candidate_loop_result] wp after_bindI [OF any])
      (auto simp: list_all_iff candidate_ok_def)
  then show ?thesis by (auto simp: after_def split: sum.splits)
qed

text \<open>C18: the placement the manager authorizes is one the agent accepts: once the server has
  stored it and counted one generation, \<^verbatim>\<open>IsAuthorized\<close> holds of it.\<close>

theorem authorized_placement_accepted:
  assumes "conditions_ok K" and "authorizes K p d q"
    and "dst_ClaimRef (d_status d) = Some ref"
    and "[] \<notin> {p_UID p, d_NodeName d, d_Serial d, ref_Namespace ref, ref_Name ref, ref_UID ref}"
  shows "IsAuthorized K (q\<lparr>p_meta := (p_meta q)\<lparr>om_Generation := add64 (om_Generation (p_meta q)) 1\<rparr>\<rparr>)"
proof -
  obtain now where c: "pst_Conditions (p_status q) =
      SetStatusCondition K now (pst_Conditions (p_status p)) (authorization p)"
    using assms(2) by (auto simp: authorizes_def)
  have ty: "cond_Type (authorization p) = placementauth_ConditionType"
    by (simp add: authorization_def mk_Condition_def)
  from find_set_condition [OF assms(1), of now "pst_Conditions (p_status p)" "authorization p"] obtain c' where
    "FindStatusCondition K (pst_Conditions (p_status q)) placementauth_ConditionType = Some c'"
    "same_condition (authorization p) c'"
    unfolding c ty by blast
  moreover have "Fingerprint (p_UID p) (d_NodeName d) (d_Serial d) (Some ref) \<noteq> []"
    using assms(4) by (simp add: Fingerprint_nonempty placement_def)
  ultimately show ?thesis
    using assms(2,3)
    by (auto simp: IsAuthorized_iff authorizes_def place_def same_condition_def authorization_def mk_Condition_def)
qed

theorem authorized_placement_accepted_witness:
  "\<exists>q. authorizes std_apimachinery sample_partition sample_device q \<and>
     IsAuthorized std_apimachinery
       (q\<lparr>p_meta := (p_meta q)\<lparr>om_Generation := add64 (om_Generation (p_meta q)) 1\<rparr>\<rparr>)"
proof (intro exI conjI)
  let ?q = "(place sample_device sample_partition)\<lparr>p_status := sample_status
    \<lparr>pst_PlacementFingerprint := Fingerprint ''part-uid'' ''node1'' ''SN1'' (Some sample_ref),
     pst_Conditions := SetStatusCondition std_apimachinery 0 [] (authorization sample_partition)\<rparr>\<rparr>"
  show a: "authorizes std_apimachinery sample_partition sample_device ?q"
    by (auto simp: authorizes_def place_def sample_defs)
  show "IsAuthorized std_apimachinery
      (?q\<lparr>p_meta := (p_meta ?q)\<lparr>om_Generation := add64 (om_Generation (p_meta ?q)) 1\<rparr>\<rparr>)"
    by (rule authorized_placement_accepted [OF conditions_ok_std a, where ref = sample_ref]) (simp_all add: sample_defs)
qed

end
