(* ===== verification/Rdma_Controller.thy ===== *)
theory Rdma_Controller
  imports Trace_Logic Rdma_Health
begin

text \<open>
  \<^verbatim>\<open>internal/controller/rdmastoragenode_controller.go\<close>: readiness that the reporter stops
  refreshing is withdrawn.
\<close>

section \<open>The code\<close>

definition stale_condition :: "RDMAStorageNode \<Rightarrow> Condition" where
  "stale_condition node = mk_Condition ReadyCondition ConditionFalse (om_Generation (n_meta node))
     ''StaleHeartbeat''
     (Text ''The RDMA reporter heartbeat is stale or outside the allowed clock skew'')"

definition reported_ready :: "'z apimachinery_scheme \<Rightarrow> RDMAStorageNode \<Rightarrow> bool" where
  "reported_ready K node =
     (case FindStatusCondition K (nst_Conditions (n_status node)) ReadyCondition of
        None \<Rightarrow> False | Some condition \<Rightarrow> cond_Status condition = ConditionTrue)"

definition rdmanode_Reconcile :: "'w kube \<Rightarrow> nname \<Rightarrow> 'w \<Rightarrow> result \<times> 'w" where
  "rdmanode_Reconcile K req w =
     (case Get (rdmanodes K) req w of
        (Inl err, w) \<Rightarrow> (result_of (IgnoreNotFound err), w)
      | (Inr node, w) \<Rightarrow>
          (case Now K w of
             (now, w) \<Rightarrow>
               if reported_ready K node \<and> \<not> HeartbeatIsFresh (nst_LastHeartbeatTime (n_status node)) now
               then (case set_condition K (nst_Conditions (n_status node)) (stale_condition node) w of
                       (conditions, w) \<Rightarrow>
                         (case StatusPatch (rdmanodes K) node
                                 (node\<lparr>n_status := (n_status node)\<lparr>nst_Conditions := conditions\<rparr>\<rparr>) w of
                            (Inl err, w) \<Rightarrow> (Inl err, w)
                          | (Inr node, w) \<Rightarrow> (Inr (div64 FreshnessWindow 2), w)))
               else (Inr (div64 FreshnessWindow 2), w)))"

section \<open>Properties\<close>

text \<open>A node that is withdrawn: everything but the conditions is as it was read, and
  \<^verbatim>\<open>rdmahealth.Validate\<close> rejects it at every time.\<close>

definition withdrawn :: "'z apimachinery_scheme \<Rightarrow> RDMAStorageNode \<Rightarrow> RDMAStorageNode \<Rightarrow> bool" where
  "withdrawn K n n' \<longleftrightarrow> (\<exists>cs. n' = n\<lparr>n_status := (n_status n)\<lparr>nst_Conditions := cs\<rparr>\<rparr>) \<and>
     (\<forall>t. rdmahealth_Validate K n' t \<noteq> None) \<and>
     (\<forall>ty. ty \<noteq> ReadyCondition \<longrightarrow> FindStatusCondition K (nst_Conditions (n_status n')) ty =
        FindStatusCondition K (nst_Conditions (n_status n)) ty)"

definition rdma_calls_ok :: "'z apimachinery_scheme \<Rightarrow> nname \<Rightarrow> result \<Rightarrow> 'e event list \<Rightarrow> bool" where
  "rdma_calls_ok K req res t \<longleftrightarrow>
     (\<exists>e. t = [RdmaNodes (GetCall req (Inl e))]) \<or>
     (\<exists>n now. t = [RdmaNodes (GetCall req (Inr n))] \<and> res = Inr (22500000000) \<and>
        (reported_ready K n \<longrightarrow> HeartbeatIsFresh (nst_LastHeartbeatTime (n_status n)) now)) \<or>
     (\<exists>n n' now r. t = [RdmaNodes (GetCall req (Inr n)), RdmaNodes (StatusPatchCall n n' r)] \<and>
        withdrawn K n n' \<and> \<not> HeartbeatIsFresh (nst_LastHeartbeatTime (n_status n)) now \<and>
        (res = Inr 22500000000 \<longleftrightarrow> err_of r = None))"

lemma withdrawnI:
  assumes "conditions_ok K"
  shows "withdrawn K n (n\<lparr>n_status := (n_status n)\<lparr>nst_Conditions :=
    SetStatusCondition K now (nst_Conditions (n_status n)) (stale_condition n)\<rparr>\<rparr>)"
    (is "withdrawn K n ?n")
proof -
  have ty: "cond_Type (stale_condition n) = ReadyCondition" "cond_Status (stale_condition n) = ConditionFalse"
    by (simp_all add: stale_condition_def mk_Condition_def)
  from find_set_condition [OF assms, of now "nst_Conditions (n_status n)" "stale_condition n"]
  obtain c where "FindStatusCondition K (nst_Conditions (n_status ?n)) ReadyCondition = Some c"
    "cond_Status c = ConditionFalse"
    unfolding ty by (auto simp: same_condition_def ty)
  then have "\<forall>t. rdmahealth_Validate K ?n t \<noteq> None"
    by (simp add: rdmahealth_Validate_def Let_def)
  moreover have "\<forall>x. x \<noteq> ReadyCondition \<longrightarrow> FindStatusCondition K (nst_Conditions (n_status ?n)) x =
      FindStatusCondition K (nst_Conditions (n_status n)) x"
    using find_set_condition_other [OF assms] ty(1) by simp
  ultimately show ?thesis unfolding withdrawn_def by blast
qed

lemma reported_ready_recording [simp]: "reported_ready (recording K) = reported_ready K"
  by (rule ext) (simp add: reported_ready_def)

lemma requeue_half_window: "div64 FreshnessWindow 2 = 22500000000"
  by (simp add: div64_def FreshnessWindow_def second_ns_def quot_def to_int64_def)

text \<open>A reconciliation withdraws the readiness of a node exactly when the node reports ready
  and its heartbeat is not fresh, and otherwise writes nothing. The node it writes fails
  validation from then on, its other conditions are untouched, and unless a call fails the
  node is looked at again after half the freshness window.\<close>

lemma rdmanode_Reconcile_withdraws:
  assumes "conditions_ok K"
  shows "post (rdmanode_Reconcile (recording K) req (w, [])) (rdma_calls_ok K req)"
  unfolding rdmanode_Reconcile_def recording_sel reported_ready_recording requeue_half_window
  by (intro vcg) (use withdrawnI [OF assms] in \<open>auto simp: rdma_calls_ok_def\<close>)

end
