(* ===== verification/Go_Json.thy ===== *)
theory Go_Json
  imports Go_Errors
begin

text \<open>
  The part of Go's \<^verbatim>\<open>encoding/json\<close> that the program uses to encode values: strings with
  the escapes \<^verbatim>\<open>json.Marshal\<close> applies (control characters, quotes, the characters that are
  special in HTML, the two line separators of Unicode, and bytes that are not UTF-8),
  integers, and objects; the keys of a Go map are emitted in ascending order.
\<close>

section \<open>Strings\<close>

text \<open>The number of bytes of the UTF-8 sequence at the front of a list of bytes, zero where
  there is none; only called when the first byte is at least 128.\<close>

definition is_cont :: "nat \<Rightarrow> bool" where
  "is_cont b \<longleftrightarrow> 128 \<le> b \<and> b \<le> 191"

definition utf8_size :: "nat list \<Rightarrow> nat" where
  "utf8_size bs =
     (case bs of
        b0 # b1 # r \<Rightarrow>
          if 194 \<le> b0 \<and> b0 \<le> 223 then (if is_cont b1 then 2 else 0)
          else (case r of
                  b2 # r \<Rightarrow>
                    if 224 \<le> b0 \<and> b0 \<le> 239 then
                      (if is_cont b1 \<and> is_cont b2 \<and> (b0 = 224 \<longrightarrow> 160 \<le> b1) \<and> (b0 = 237 \<longrightarrow> b1 \<le> 159)
                       then 3 else 0)
                    else (case r of
                            b3 # _ \<Rightarrow>
                              if 240 \<le> b0 \<and> b0 \<le> 244 \<and> is_cont b1 \<and> is_cont b2 \<and> is_cont b3 \<and>
                                 (b0 = 240 \<longrightarrow> 144 \<le> b1) \<and> (b0 = 244 \<longrightarrow> b1 \<le> 143)
                              then 4 else 0
                          | [] \<Rightarrow> 0)
                | [] \<Rightarrow> 0)
      | _ \<Rightarrow> 0)"

definition json_hex_digit :: "nat \<Rightarrow> char" where
  "json_hex_digit d = ''0123456789abcdef'' ! d"

text \<open>One byte below 128. The backslash is written by its code.\<close>

definition json_ascii :: "char \<Rightarrow> string" where
  "json_ascii c =
     (let n = of_char c :: nat; bs = char_of (92 :: nat) in
      if n = 34 \<or> n = 92 then [bs, c]
      else if n = 8 then [bs, CHR ''b'']
      else if n = 12 then [bs, CHR ''f'']
      else if n = 10 then [bs, CHR ''n'']
      else if n = 13 then [bs, CHR ''r'']
      else if n = 9 then [bs, CHR ''t'']
      else if n < 32 \<or> n = 60 \<or> n = 62 \<or> n = 38
      then [bs, CHR ''u'', CHR ''0'', CHR ''0'', json_hex_digit (n div 16), json_hex_digit (n mod 16)]
      else [c])"

function json_escape :: "string \<Rightarrow> string" where
  "json_escape [] = []"
| "json_escape (c # cs) =
     (let bs = char_of (92 :: nat); k = utf8_size (map of_char (c # cs)) in
      if (of_char c :: nat) < 128 then json_ascii c @ json_escape cs
      else if k = 0 then bs # ''ufffd'' @ json_escape cs
      else if map of_char (take 3 (c # cs)) = [226 :: nat, 128, 168]
      then bs # ''u2028'' @ json_escape (drop (k - 1) cs)
      else if map of_char (take 3 (c # cs)) = [226 :: nat, 128, 169]
      then bs # ''u2029'' @ json_escape (drop (k - 1) cs)
      else take k (c # cs) @ json_escape (drop (k - 1) cs))"
  by pat_completeness auto
termination
  by (relation "measure length") auto

definition json_quote :: "string \<Rightarrow> string" where
  "json_quote s = CHR 0x22 # json_escape s @ [CHR 0x22]"

section \<open>Objects\<close>

definition json_member :: "string \<times> string \<Rightarrow> string" where
  "json_member kv = json_quote (fst kv) @ '':'' @ snd kv"

text \<open>The values are encoded texts already.\<close>

definition json_object :: "(string \<times> string) list \<Rightarrow> string" where
  "json_object kvs = ''{'' @ Join (map json_member kvs) '','' @ ''}''"

definition json_strmap :: "strmap \<Rightarrow> string" where
  "json_strmap m = json_object (map (\<lambda>(k, v). (k, json_quote v)) (sort_key fst m))"

section \<open>Lemmas\<close>

text \<open>Characters that are copied.\<close>

definition json_plain :: "char \<Rightarrow> bool" where
  "json_plain c \<longleftrightarrow> (let n = of_char c :: nat in
     32 \<le> n \<and> n < 127 \<and> n \<noteq> 34 \<and> n \<noteq> 92 \<and> n \<noteq> 60 \<and> n \<noteq> 62 \<and> n \<noteq> 38)"

lemma json_ascii_plain: "json_plain c \<Longrightarrow> json_ascii c = [c]"
  by (simp add: json_plain_def json_ascii_def Let_def)

lemma json_escape_plain: "list_all json_plain s \<Longrightarrow> json_escape s = s"
proof (induction s)
  case (Cons c cs)
  then have "(of_char c :: nat) < 128" by (simp add: json_plain_def Let_def)
  with Cons show ?case by (simp add: json_ascii_plain Let_def)
qed simp

lemma json_quote_plain: "list_all json_plain s \<Longrightarrow> json_quote s = CHR 0x22 # s @ [CHR 0x22]"
  by (simp add: json_quote_def json_escape_plain)

lemma json_plain_no_quote: "list_all json_plain s \<Longrightarrow> CHR 0x22 \<notin> set s"
  by (auto simp: list_all_iff json_plain_def Let_def)

text \<open>A text up to the first occurrence of a character is determined.\<close>

lemma cut_at:
  "c \<notin> set x \<Longrightarrow> c \<notin> set y \<Longrightarrow> x @ c # r = y @ c # s \<longleftrightarrow> x = y \<and> r = s"
proof (induction x arbitrary: y)
  case Nil
  then show ?case by (cases y) auto
next
  case (Cons a x)
  then show ?case by (cases y) auto
qed

end
