(* ===== verification/Csi_Volumes.thy ===== *)
theory Csi_Volumes
  imports Go_Json Go_Encoding Capacity Storage_Options Api_Types
begin

text \<open>
  The decisions of the CSI controller about a requested volume that need no cluster:
  \<^verbatim>\<open>filesystem.go\<close>, \<^verbatim>\<open>volume_capability.go\<close>, \<^verbatim>\<open>create_volume_request.go\<close> and the pure
  functions of \<^verbatim>\<open>controller_server.go\<close> (\<^verbatim>\<open>normalizeCapacityRange\<close>, \<^verbatim>\<open>storageConfiguration\<close>,
  \<^verbatim>\<open>validateStorageCombination\<close>, \<^verbatim>\<open>volumeContextForPartition\<close>).

  The messages of the CSI protocol are records; a message pointer is an option, \<open>None\<close> for
  nil. The getters of a nil message return zero values.
\<close>

section \<open>Messages\<close>

datatype AccessMode =
  ACCESS_UNKNOWN | SINGLE_NODE_WRITER | SINGLE_NODE_READER_ONLY | MULTI_NODE_READER_ONLY
| MULTI_NODE_SINGLE_WRITER | MULTI_NODE_MULTI_WRITER | SINGLE_NODE_SINGLE_WRITER
| SINGLE_NODE_MULTI_WRITER

record MountVolume =
  mv_FsType :: string
  mv_MountFlags :: "string list"

text \<open>\<open>vc_Mount\<close> is nil for a raw block capability.\<close>

record VolumeCapability =
  vc_Mount :: "MountVolume option"
  vc_AccessMode :: "AccessMode option"

record CapacityRange =
  cr_RequiredBytes :: int
  cr_LimitBytes :: int

definition mode_String :: "AccessMode \<Rightarrow> string" where
  "mode_String m = (case m of
     ACCESS_UNKNOWN \<Rightarrow> ''UNKNOWN''
   | SINGLE_NODE_WRITER \<Rightarrow> ''SINGLE_NODE_WRITER''
   | SINGLE_NODE_READER_ONLY \<Rightarrow> ''SINGLE_NODE_READER_ONLY''
   | MULTI_NODE_READER_ONLY \<Rightarrow> ''MULTI_NODE_READER_ONLY''
   | MULTI_NODE_SINGLE_WRITER \<Rightarrow> ''MULTI_NODE_SINGLE_WRITER''
   | MULTI_NODE_MULTI_WRITER \<Rightarrow> ''MULTI_NODE_MULTI_WRITER''
   | SINGLE_NODE_SINGLE_WRITER \<Rightarrow> ''SINGLE_NODE_SINGLE_WRITER''
   | SINGLE_NODE_MULTI_WRITER \<Rightarrow> ''SINGLE_NODE_MULTI_WRITER'')"

section \<open>File systems\<close>

definition defaultFilesystem :: string where
  "defaultFilesystem = ''ext4''"

definition xfsFilesystem :: string where
  "xfsFilesystem = ''xfs''"

definition filesystemParameter :: string where
  "filesystemParameter = ''fsType''"

definition csiFilesystemParameter :: string where
  "csiFilesystemParameter = ''csi.storage.k8s.io/fstype''"

definition supportedFilesystems :: "string list" where
  "supportedFilesystems = [''ext4'', ''xfs'']"

definition normalizeFilesystem :: "string \<Rightarrow> string" where
  "normalizeFilesystem filesystem = ToLower (TrimSpace filesystem)"

definition validateFilesystem :: "string \<Rightarrow> error + string" where
  "validateFilesystem filesystem =
     (if filesystem \<notin> set supportedFilesystems
      then Inl (Errorf ''unsupported filesystem %q: supported filesystems are ext4 and xfs'' [S filesystem])
      else Inr filesystem)"

text \<open>The values of the two file system parameters that are set and not blank.\<close>

definition explicit_filesystems :: "strmap \<Rightarrow> string list" where
  "explicit_filesystems parameters =
     concat (map (\<lambda>key. case map_of parameters key of
                          None \<Rightarrow> []
                        | Some value \<Rightarrow> if TrimSpace value \<noteq> [] then [normalizeFilesystem value] else [])
       [filesystemParameter, csiFilesystemParameter])"

fun requested_filesystem :: "string \<Rightarrow> VolumeCapability option list \<Rightarrow> error + string" where
  "requested_filesystem requested [] = Inr requested"
| "requested_filesystem requested (capability # cs) =
     (case Option.bind capability vc_Mount of
        None \<Rightarrow> requested_filesystem requested cs
      | Some mount \<Rightarrow>
          if TrimSpace (mv_FsType mount) = [] then requested_filesystem requested cs
          else let filesystem = normalizeFilesystem (mv_FsType mount) in
               if requested \<noteq> [] \<and> filesystem \<noteq> requested
               then Inl (Errorf ''conflicting filesystem types in volume capabilities: %q and %q''
                           [S requested, S filesystem])
               else requested_filesystem filesystem cs)"

definition resolveFilesystem :: "strmap \<Rightarrow> VolumeCapability option list \<Rightarrow> error + string" where
  "resolveFilesystem parameters capabilities =
     (case explicit_filesystems parameters of
        e # es \<Rightarrow>
          if \<not> list_all (\<lambda>filesystem. filesystem = e) es
          then Inl (Errorf ''conflicting filesystem parameters: %s=%q and %s=%q''
                 [S filesystemParameter, S (map_index parameters filesystemParameter),
                  S csiFilesystemParameter, S (map_index parameters csiFilesystemParameter)])
          else validateFilesystem e
      | [] \<Rightarrow>
          (case requested_filesystem [] capabilities of
             Inl e \<Rightarrow> Inl e
           | Inr requested \<Rightarrow>
               validateFilesystem (if requested = [] then defaultFilesystem else requested)))"

section \<open>Volume capabilities\<close>

definition supportedAccessMode :: AccessMode where
  "supportedAccessMode = SINGLE_NODE_WRITER"

record canonicalVolumeCapability =
  cc_AccessMode :: string
  cc_Filesystem :: string

fun capability_loop :: "int \<Rightarrow> string \<Rightarrow> VolumeCapability option list \<Rightarrow> error option" where
  "capability_loop index capabilityFilesystem [] = None"
| "capability_loop index capabilityFilesystem (capability # cs) =
     (case capability of
        None \<Rightarrow> Some (Errorf ''volume capability %d is missing'' [D index])
      | Some capability \<Rightarrow>
     (case vc_Mount capability of
        None \<Rightarrow> Some (Errorf ''raw block volumes are not supported'' [])
      | Some mount \<Rightarrow>
          if mv_MountFlags mount \<noteq> [] then Some (Errorf ''mount flags are not supported'' [])
          else let currentFilesystem = normalizeFilesystem (mv_FsType mount) in
          if mv_FsType mount \<noteq> [] \<and> capabilityFilesystem \<noteq> [] \<and> currentFilesystem \<noteq> capabilityFilesystem
          then Some (Errorf ''conflicting filesystem types in volume capabilities: %q and %q''
                       [S capabilityFilesystem, S currentFilesystem])
          else if vc_AccessMode capability \<noteq> Some supportedAccessMode
          then Some (Errorf ''access mode %s is not supported; only %s is supported''
                 [S (mode_String (case vc_AccessMode capability of None \<Rightarrow> ACCESS_UNKNOWN | Some m \<Rightarrow> m)),
                  S (mode_String supportedAccessMode)])
          else capability_loop (index + 1)
                 (if mv_FsType mount \<noteq> [] then currentFilesystem else capabilityFilesystem) cs))"

definition validateVolumeCapabilities ::
  "strmap \<Rightarrow> VolumeCapability option list \<Rightarrow> error + canonicalVolumeCapability" where
  "validateVolumeCapabilities parameters capabilities =
     (if capabilities = [] then Inl (Errorf ''volume capabilities cannot be empty'' [])
      else case capability_loop 0 [] capabilities of
        Some e \<Rightarrow> Inl e
      | None \<Rightarrow>
          (case resolveFilesystem parameters capabilities of
             Inl e \<Rightarrow> Inl e
           | Inr filesystem \<Rightarrow>
               Inr \<lparr>cc_AccessMode = mode_String supportedAccessMode, cc_Filesystem = filesystem\<rparr>))"

section \<open>Capacity\<close>

definition defaultVolumeCapacityBytes :: int where
  "defaultVolumeCapacityBytes = 1024 * 1024 * 1024"

definition normalizeCapacityRange :: "CapacityRange option \<Rightarrow> error + int \<times> int" where
  "normalizeCapacityRange capacityRange =
     (case capacityRange of
        None \<Rightarrow> Inr (defaultVolumeCapacityBytes, defaultVolumeCapacityBytes)
      | Some cr \<Rightarrow>
          let requiredBytes = cr_RequiredBytes cr; limitBytes = cr_LimitBytes cr in
          if requiredBytes < 0 then Inl (Errorf ''required_bytes cannot be negative'' [])
          else if limitBytes < 0 then Inl (Errorf ''limit_bytes cannot be negative'' [])
          else if requiredBytes = 0 \<and> limitBytes = 0
          then Inl (Errorf ''at least one of required_bytes or limit_bytes must be positive'' [])
          else
            let requiredBytes' =
                  (if requiredBytes = 0 then
                     (if limitBytes < defaultVolumeCapacityBytes
                      then mul64 (div64 limitBytes AllocationUnitBytes) AllocationUnitBytes
                      else defaultVolumeCapacityBytes)
                   else requiredBytes) in
            if requiredBytes = 0 \<and> limitBytes < defaultVolumeCapacityBytes \<and> requiredBytes' = 0
            then Inl (Errorf ''limit_bytes %d is smaller than the minimum allocation unit %d''
                        [D limitBytes, D AllocationUnitBytes])
            else if limitBytes > 0 \<and> requiredBytes' > limitBytes
            then Inl (Errorf ''required_bytes %d exceeds limit_bytes %d'' [D requiredBytes', D limitBytes])
            else case RoundUp requiredBytes' of
                   Inl e \<Rightarrow> Inl e
                 | Inr allocatedBytes \<Rightarrow>
                     if limitBytes > 0 \<and> allocatedBytes > limitBytes
                     then Inl (Errorf ''required capacity rounds up to %d bytes, exceeding limit_bytes %d''
                                 [D allocatedBytes, D limitBytes])
                     else Inr (requiredBytes', allocatedBytes))"

section \<open>Storage configuration\<close>

definition spdkTargetBackend :: string where
  "spdkTargetBackend = ''spdk''"

definition kernelTargetBackend :: string where
  "kernelTargetBackend = ''kernel''"

definition partitionVolumeManager :: string where
  "partitionVolumeManager = ''partition''"

definition validateStorageCombination :: "string \<Rightarrow> string \<Rightarrow> error option" where
  "validateStorageCombination targetBackend volumeManager =
     (if targetBackend \<noteq> spdkTargetBackend \<and> targetBackend \<noteq> kernelTargetBackend
      then Some (Errorf ''target backend %q is not implemented'' [S targetBackend])
      else if volumeManager \<noteq> partitionVolumeManager
      then Some (Errorf ''volume manager %q is not implemented'' [S volumeManager])
      else None)"

text \<open>Whether a parameter of the storage class is an option of the backend.\<close>

definition is_target_option :: "string \<Rightarrow> bool" where
  "is_target_option key \<longleftrightarrow> \<not> HasPrefix key ''csi.storage.k8s.io/'' \<and> key \<noteq> ''target-backend'' \<and>
     key \<noteq> ''volume-manager'' \<and> key \<noteq> filesystemParameter"

definition storageConfiguration :: "strmap \<Rightarrow> error + string \<times> string \<times> strmap" where
  "storageConfiguration parameters =
     (let targetBackend = (if map_index parameters ''target-backend'' = [] then spdkTargetBackend
                           else map_index parameters ''target-backend'');
          volumeManager = (if map_index parameters ''volume-manager'' = [] then partitionVolumeManager
                           else map_index parameters ''volume-manager'') in
      case validateStorageCombination targetBackend volumeManager of
        Some e \<Rightarrow> Inl e
      | None \<Rightarrow>
          let targetOptions = filter (\<lambda>(key, value). is_target_option key) parameters in
          (case storageoptions_Validate targetBackend targetOptions of
             Some e \<Rightarrow> Inl e
           | None \<Rightarrow> Inr (targetBackend, volumeManager, targetOptions)))"

definition volumeContextForPartition :: "NVMePartition \<Rightarrow> strmap" where
  "volumeContextForPartition p =
     (let filesystem = (if ps_Filesystem (p_spec p) = [] then defaultFilesystem
                        else ps_Filesystem (p_spec p)) in
      [(''nqn'', pst_NQN (p_status p)),
       (''portalIP'', pst_PortalIP (p_status p)),
       (''portalPort'', Itoa (pst_PortalPort (p_status p))),
       (filesystemParameter, filesystem)])"

section \<open>The fingerprint of a request\<close>

record canonicalCreateVolumeRequest =
  rq_RequiredBytes :: int
  rq_LimitBytes :: int
  rq_TargetBackend :: string
  rq_VolumeManager :: string
  rq_TargetOptions :: strmap
  rq_Capability :: canonicalVolumeCapability

definition json_Marshal_request :: "canonicalCreateVolumeRequest \<Rightarrow> string" where
  "json_Marshal_request r = json_object
     [(''requiredBytes'', Itoa (rq_RequiredBytes r)),
      (''limitBytes'', Itoa (rq_LimitBytes r)),
      (''targetBackend'', json_quote (rq_TargetBackend r)),
      (''volumeManager'', json_quote (rq_VolumeManager r)),
      (''targetOptions'', json_strmap (rq_TargetOptions r)),
      (''capability'', json_object
         [(''accessMode'', json_quote (cc_AccessMode (rq_Capability r))),
          (''filesystem'', json_quote (cc_Filesystem (rq_Capability r)))])]"

text \<open>Marshalling integers, strings and maps of strings does not fail.\<close>

definition fingerprintCreateVolumeRequest :: "canonicalCreateVolumeRequest \<Rightarrow> error + string" where
  "fingerprintCreateVolumeRequest r = Inr (hex_EncodeToString (Sum256 (json_Marshal_request r)))"

section \<open>Lemmas: capacity\<close>

text \<open>A size that can be allocated for a request.\<close>

definition fits :: "CapacityRange \<Rightarrow> int \<Rightarrow> bool" where
  "fits r m \<longleftrightarrow> 0 < m \<and> AllocationUnitBytes dvd m \<and> m \<le> MaxInt64 \<and> cr_RequiredBytes r \<le> m \<and>
     (cr_LimitBytes r = 0 \<or> m \<le> cr_LimitBytes r)"

text \<open>The answer a range deserves.\<close>

definition range_answered :: "CapacityRange \<Rightarrow> error + int \<times> int \<Rightarrow> bool" where
  "range_answered r answer \<longleftrightarrow> (case answer of
     Inr (q, a) \<Rightarrow> fits r a \<and> RoundUp q = Inr a \<and>
       (cr_RequiredBytes r = 0 \<or> q = cr_RequiredBytes r \<and> {m. fits r m \<and> m < a} = {})
   | Inl e \<Rightarrow> cr_RequiredBytes r < 0 \<or> cr_LimitBytes r < 0 \<or>
       cr_RequiredBytes r = 0 \<and> cr_LimitBytes r = 0 \<or> {m. fits r m} = {})"

lemma units_below:
  assumes "0 \<le> x" and "x < defaultVolumeCapacityBytes"
  shows "mul64 (div64 x AllocationUnitBytes) AllocationUnitBytes = x - x mod AllocationUnitBytes"
proof -
  have x: "is_int64 x"
    using assms by (simp add: is_int64_def MinInt64_def MaxInt64_def defaultVolumeCapacityBytes_def)
  have d: "div64 x AllocationUnitBytes = x div AllocationUnitBytes"
    using assms(1) x by (simp add: div64_exact AllocationUnitBytes_def)
  have eq: "x div AllocationUnitBytes * AllocationUnitBytes = x - x mod AllocationUnitBytes"
    by (simp add: minus_mod_eq_div_mult)
  have "0 \<le> x - x mod AllocationUnitBytes" "x - x mod AllocationUnitBytes \<le> x"
    using assms(1) by (simp_all add: zmod_le_nonneg_dividend AllocationUnitBytes_def)
  then have "is_int64 (x div AllocationUnitBytes * AllocationUnitBytes)"
    unfolding eq using x by (rule_tac is_int64_between [of 0 x]) auto
  then show ?thesis by (simp add: d mul64_exact eq)
qed

lemma fits_RoundUp:
  assumes "RoundUp q = Inr a" and "cr_RequiredBytes r \<le> q" and "0 \<le> cr_LimitBytes r"
    and "\<not> (0 < cr_LimitBytes r \<and> cr_LimitBytes r < a)"
  shows "fits r a"
  using assms ru.round_InrD [OF assms(1)] ru.round_le_max [OF assms(1)] ru.max_int64
  by (auto simp: fits_def)

lemma fits_least: "RoundUp (cr_RequiredBytes r) = Inr a \<Longrightarrow> fits r m \<Longrightarrow> a \<le> m"
  by (rule ru.round_least) (auto simp: fits_def)

lemma no_unit_fits:
  assumes "0 \<le> x" and "x - x mod AllocationUnitBytes = 0" and "AllocationUnitBytes dvd m" and "m \<le> x"
  shows "m \<le> 0"
proof (rule ccontr)
  assume "\<not> m \<le> 0"
  then have "AllocationUnitBytes \<le> m" using assms(3) zdvd_imp_le by force
  moreover have "x < AllocationUnitBytes"
    using assms(2) pos_mod_bound [of AllocationUnitBytes x] by (simp add: AllocationUnitBytes_def)
  ultimately show False using assms(4) by simp
qed

lemma normalize_required:
  assumes "0 < cr_RequiredBytes r" and "0 \<le> cr_LimitBytes r"
  shows "range_answered r (normalizeCapacityRange (Some r))"
proof (cases "RoundUp (cr_RequiredBytes r)")
  case (Inl e)
  then have "{m. fits r m} = {}"
    using RoundUp_InlD [OF Inl assms(1)] by (fastforce simp: fits_def)
  then show ?thesis using assms Inl by (simp add: normalizeCapacityRange_def range_answered_def Let_def)
next
  case (Inr a)
  note least = fits_least [OF Inr]
  show ?thesis
  proof (cases "0 < cr_LimitBytes r \<and> cr_LimitBytes r < a")
    case True
    then have "{m. fits r m} = {}" using least by (fastforce simp: fits_def)
    then show ?thesis using assms Inr True by (simp add: normalizeCapacityRange_def range_answered_def Let_def)
  next
    case False
    have "{m. fits r m \<and> m < a} = {}" using least by fastforce
    moreover have "cr_RequiredBytes r \<le> a" using ru.round_InrD(4) [OF Inr] .
    ultimately show ?thesis
      using assms Inr False fits_RoundUp [OF Inr order_refl assms(2) False]
      by (auto simp: normalizeCapacityRange_def range_answered_def Let_def)
  qed
qed

lemma normalize_default:
  assumes "cr_RequiredBytes r = 0" and "0 < cr_LimitBytes r"
  shows "range_answered r (normalizeCapacityRange (Some r))"
proof -
  let ?u = "cr_LimitBytes r - cr_LimitBytes r mod AllocationUnitBytes"
  define q where "q = (if cr_LimitBytes r < defaultVolumeCapacityBytes then ?u else defaultVolumeCapacityBytes)"
  have n: "normalizeCapacityRange (Some r) =
    (if q = 0 then Inl (Errorf ''limit_bytes %d is smaller than the minimum allocation unit %d''
                        [D (cr_LimitBytes r), D AllocationUnitBytes])
     else case RoundUp q of Inl e \<Rightarrow> Inl e | Inr a \<Rightarrow>
       if cr_LimitBytes r < a then Inl (Errorf ''required capacity rounds up to %d bytes, exceeding limit_bytes %d''
                                 [D a, D (cr_LimitBytes r)]) else Inr (q, a))"
    using assms units_below [of "cr_LimitBytes r"]
    by (auto simp: normalizeCapacityRange_def q_def defaultVolumeCapacityBytes_def Let_def
        AllocationUnitBytes_def split: sum.split)
  have le: "q \<le> cr_LimitBytes r" and dv: "AllocationUnitBytes dvd q" and nn: "0 \<le> q"
    using assms by (auto simp: q_def defaultVolumeCapacityBytes_def AllocationUnitBytes_def dvd_minus_mod
        zmod_le_nonneg_dividend)
  show ?thesis
  proof (cases "q = 0")
    case True
    then have "{m. fits r m} = {}"
      using no_unit_fits [of "cr_LimitBytes r"] assms(2)
      by (fastforce simp: fits_def q_def defaultVolumeCapacityBytes_def split: if_splits)
    then show ?thesis by (simp add: n True range_answered_def)
  next
    case False
    have "q \<le> MaxAllocatableBytes"
      using le by (auto simp: q_def defaultVolumeCapacityBytes_def MaxAllocatableBytes_val split: if_splits)
    then have "RoundUp q = Inr q" using ru.round_multiple [OF dv] nn False by simp
    then show ?thesis
      using False le assms fits_RoundUp [of q q r] nn by (simp add: n range_answered_def)
  qed
qed

section \<open>Lemmas: capabilities\<close>

definition supported_capability :: "VolumeCapability option \<Rightarrow> bool" where
  "supported_capability capability \<longleftrightarrow> (case capability of
     None \<Rightarrow> False
   | Some c \<Rightarrow> vc_AccessMode c = Some SINGLE_NODE_WRITER \<and>
       (case vc_Mount c of None \<Rightarrow> False | Some m \<Rightarrow> mv_MountFlags m = []))"

text \<open>The file system types the capabilities name, normalized; a type of white space only
  is blank.\<close>

fun named_types :: "VolumeCapability option list \<Rightarrow> string list" where
  "named_types [] = []"
| "named_types (c # cs) =
     (case Option.bind c vc_Mount of
        None \<Rightarrow> []
      | Some m \<Rightarrow> if mv_FsType m = [] then [] else [normalizeFilesystem (mv_FsType m)]) @ named_types cs"

text \<open>No two of them differ, except that blank ones may come first.\<close>

definition one_type :: "string list \<Rightarrow> bool" where
  "one_type ts \<longleftrightarrow> (case dropWhile (\<lambda>t. t = []) ts of [] \<Rightarrow> True | u # us \<Rightarrow> list_all (\<lambda>t. t = u) us)"

definition chosen_filesystem :: "strmap \<Rightarrow> VolumeCapability option list \<Rightarrow> string \<Rightarrow> bool" where
  "chosen_filesystem parameters capabilities fs \<longleftrightarrow>
     (let es = explicit_filesystems parameters; ts = filter (\<lambda>t. t \<noteq> []) (named_types capabilities) in
      fs \<in> {''ext4'', ''xfs''} \<and>
      (if es \<noteq> [] then set es = {fs} else if ts \<noteq> [] then set ts = {fs} else fs = ''ext4''))"

lemma ToLower_Nil [simp]: "ToLower s = [] \<longleftrightarrow> s = []"
  by (simp add: ToLower_def)

lemma normalizeFilesystem_blank: "normalizeFilesystem t = [] \<longleftrightarrow> TrimSpace t = []"
  by (simp add: normalizeFilesystem_def)

lemma TrimSpace_Nil [simp]: "TrimSpace [] = []"
  by (simp add: TrimSpace_def)

lemma one_type_simps [simp]:
  "one_type []" "one_type ([] # ts) \<longleftrightarrow> one_type ts"
  "f \<noteq> [] \<Longrightarrow> one_type (f # ts) \<longleftrightarrow> list_all (\<lambda>t. t = f) ts"
  by (simp_all add: one_type_def)

lemma capability_loop_None:
  "capability_loop i f cs = None \<longleftrightarrow> list_all supported_capability cs \<and> one_type (f # named_types cs)"
proof (induction cs arbitrary: i f)
  case (Cons c cs)
  show ?case
    by (cases "f = []"; cases c)
      (auto simp: Cons.IH supported_capability_def supportedAccessMode_def Let_def split: option.splits)
qed (simp add: one_type_def)

lemma requested_filesystem_one:
  assumes "one_type (f # named_types cs)"
  shows "requested_filesystem f cs = Inr (last (f # filter (\<lambda>t. t \<noteq> []) (named_types cs)))"
  using assms
proof (induction cs arbitrary: f)
  case (Cons c cs)
  show ?case
  proof (cases "Option.bind c vc_Mount")
    case None
    then show ?thesis using Cons by simp
  next
    case (Some m)
    let ?t = "normalizeFilesystem (mv_FsType m)"
    show ?thesis
    proof (cases "TrimSpace (mv_FsType m) = []")
      case blank: True
      then have t: "?t = []" by (simp add: normalizeFilesystem_blank)
      have "one_type (f # named_types cs)"
        using Cons.prems Some t by (cases "f = []") (auto split: if_splits)
      with Cons.IH [of f] Some blank t show ?thesis by simp
    next
      case False
      then have t: "?t \<noteq> []" and ne: "mv_FsType m \<noteq> []"
        by (auto simp: normalizeFilesystem_blank)
      have "one_type (?t # named_types cs)" "f = [] \<or> ?t = f"
        using Cons.prems Some t ne by (cases "f = []"; auto)+
      with Cons.IH [of ?t] Some False t ne show ?thesis by (auto simp: Let_def)
    qed
  qed
qed simp

lemma one_type_set:
  assumes "one_type ts" and "filter (\<lambda>t. t \<noteq> []) ts \<noteq> []"
  shows "set (filter (\<lambda>t. t \<noteq> []) ts) = {last (filter (\<lambda>t. t \<noteq> []) ts)}"
  using assms
proof (induction ts)
  case (Cons t ts)
  show ?case
  proof (cases "t = []")
    case False
    with Cons.prems(1) have eq: "filter (\<lambda>t. t \<noteq> []) ts = ts" "set ts \<subseteq> {t}"
      by (auto simp: list_all_iff filter_id_conv)
    show ?thesis
    proof (cases "ts = []")
      case ne: False
      then have "last ts = t" using eq(2) last_in_set by blast
      with ne eq False show ?thesis by auto
    qed (use False in simp)
  qed (use Cons in simp)
qed simp

lemma resolveFilesystem_Inr:
  assumes "one_type (named_types cs)"
  shows "resolveFilesystem ps cs = Inr fs \<longleftrightarrow> chosen_filesystem ps cs fs"
proof (cases "explicit_filesystems ps")
  case Nil
  let ?ts = "filter (\<lambda>t. t \<noteq> []) (named_types cs)"
  have r: "requested_filesystem [] cs = Inr (last ([] # ?ts))"
    using requested_filesystem_one [of "[]" cs] assms by simp
  show ?thesis
  proof (cases "?ts = []")
    case True
    then show ?thesis using Nil r
      by (auto simp: resolveFilesystem_def chosen_filesystem_def validateFilesystem_def
          supportedFilesystems_def defaultFilesystem_def)
  next
    case False
    then have "last ?ts \<noteq> []" using last_in_set [OF False] by auto
    then show ?thesis using Nil r False one_type_set [OF assms False]
      by (auto simp: resolveFilesystem_def chosen_filesystem_def validateFilesystem_def
          supportedFilesystems_def Let_def)
  qed
next
  case (Cons e es)
  then show ?thesis
    by (auto simp: resolveFilesystem_def chosen_filesystem_def validateFilesystem_def
        supportedFilesystems_def list_all_iff Let_def)
qed

section \<open>Lemmas: fingerprints\<close>

text \<open>The requests the controller fingerprints.\<close>

definition canonical :: "canonicalCreateVolumeRequest \<Rightarrow> bool" where
  "canonical r \<longleftrightarrow>
     validateStorageCombination (rq_TargetBackend r) (rq_VolumeManager r) = None \<and>
     storageoptions_Validate (rq_TargetBackend r) (rq_TargetOptions r) = None \<and>
     strmap_ok (rq_TargetOptions r) \<and>
     cc_AccessMode (rq_Capability r) = ''SINGLE_NODE_WRITER'' \<and>
     cc_Filesystem (rq_Capability r) \<in> {''ext4'', ''xfs''}"

lemma json_plain_hex: "is_hex_char c \<Longrightarrow> json_plain c"
proof -
  assume h: "is_hex_char c"
  define n where "n = (of_char c :: nat)"
  have "(48 \<le> n \<and> n \<le> 57) \<or> (97 \<le> n \<and> n \<le> 102) \<or> (65 \<le> n \<and> n \<le> 70)"
    using h by (simp only: is_hex_char_def is_digit_def n_def)
  then show "json_plain c" unfolding json_plain_def Let_def n_def [symmetric] by auto
qed

lemma json_plain_mask:
  assumes "ValidateSPDKCoreMask v = None"
  shows "list_all json_plain v"
proof -
  have "HasPrefix v ''0x''" "list_all is_hex_char (drop 2 v)"
    using assms by (auto simp: ValidateSPDKCoreMask_def spdkCoreMaskPattern_def split: if_splits)
  moreover from this(1) have "take 2 v = ''0x''" by (simp add: HasPrefix_def numeral_2_eq_2)
  then have "v = ''0x'' @ drop 2 v" using append_take_drop_id [of 2 v] by simp
  moreover have "list_all json_plain ''0x''" by (simp add: json_plain_def Let_def)
  ultimately show ?thesis
    using json_plain_hex by (metis (no_types, lifting) list_all_append list_all_iff)
qed

text \<open>Accepted options: none, or one core mask.\<close>

lemma valid_options_cases:
  assumes "storageoptions_Validate b m = None" and "strmap_ok m" and "b \<in> {''spdk'', ''kernel''}"
  obtains "m = []" | v where "m = [(SPDKCoreMaskOption, v)]" and "list_all json_plain v"
proof (cases m)
  case (Cons kv m')
  obtain k v where kv: "kv = (k, v)" by (cases kv)
  have b: "b = ''spdk''" "k = SPDKCoreMaskOption" "ValidateSPDKCoreMask v = None"
    using assms(1,3) Cons kv by (auto simp: storageoptions_Validate_def split: if_splits option.splits)
  have "m' = []"
  proof (cases m')
    case (Cons kv' m'')
    then have "fst kv' = SPDKCoreMaskOption"
      using assms(1) \<open>m = kv # m'\<close> kv b
      by (cases kv') (auto simp: storageoptions_Validate_def split: if_splits option.splits)
    then show ?thesis using assms(2) \<open>m = kv # m'\<close> Cons kv b by (simp add: strmap_ok_def)
  qed
  with that(2) Cons kv b json_plain_mask show thesis by simp
qed (rule that(1))

lemma nat_decimal_char: "c \<in> set (nat_decimal n) \<Longrightarrow> is_digit c"
  using nat_decimal_digits [of n] by (simp add: list_all_iff)

lemma Itoa_no_comma: "CHR '','' \<notin> set (Itoa i)"
  using nat_decimal_char [of "CHR '',''"] by (auto simp: Itoa_def is_digit_def)

lemma Itoa_inj:
  assumes "Itoa i = Itoa j"
  shows "i = j"
proof -
  have d: "nat_decimal n \<noteq> CHR ''-'' # r" for n r
    using nat_decimal_char [of "CHR ''-''" n] by (auto simp: is_digit_def)
  show ?thesis
    using assms d d [symmetric] nat_decimal_inj [of "nat i" "nat j"] nat_decimal_inj [of "nat (- i)" "nat (- j)"]
    by (auto simp: Itoa_def split: if_splits)
qed

lemma json_strmap_options:
  "json_strmap [] = ''{}''"
  "list_all json_plain v \<Longrightarrow> json_strmap [(SPDKCoreMaskOption, v)] =
     CHR ''{'' # CHR 0x22 # ''spdk-core-mask'' @ CHR 0x22 # CHR '':'' # CHR 0x22 # v @ [CHR 0x22, CHR ''}'']"
  by (simp_all add: json_strmap_def json_object_def json_member_def json_quote_plain json_plain_def
      Let_def SPDKCoreMaskOption_def)

lemma json_Marshal_cut:
  "json_Marshal_request r = CHR ''{'' # CHR 0x22 # ''requiredBytes'' @ CHR 0x22 # CHR '':'' #
     Itoa (rq_RequiredBytes r) @ CHR '','' # CHR 0x22 # ''limitBytes'' @ CHR 0x22 # CHR '':'' #
     Itoa (rq_LimitBytes r) @ CHR '','' # CHR 0x22 # ''targetBackend'' @ CHR 0x22 # CHR '':'' #
     json_quote (rq_TargetBackend r) @ CHR '','' # CHR 0x22 # ''volumeManager'' @ CHR 0x22 # CHR '':'' #
     json_quote (rq_VolumeManager r) @ CHR '','' # CHR 0x22 # ''targetOptions'' @ CHR 0x22 # CHR '':'' #
     json_strmap (rq_TargetOptions r) @ CHR '','' # CHR 0x22 # ''capability'' @ CHR 0x22 # CHR '':'' #
     CHR ''{'' # CHR 0x22 # ''accessMode'' @ CHR 0x22 # CHR '':'' #
     json_quote (cc_AccessMode (rq_Capability r)) @ CHR '','' # CHR 0x22 # ''filesystem'' @
     CHR 0x22 # CHR '':'' # json_quote (cc_Filesystem (rq_Capability r)) @ ''}}''"
  by (simp add: json_Marshal_request_def json_object_def json_member_def json_quote_plain
      [of "''requiredBytes''"] json_quote_plain [of "''limitBytes''"] json_quote_plain [of "''targetBackend''"]
      json_quote_plain [of "''volumeManager''"] json_quote_plain [of "''targetOptions''"]
      json_quote_plain [of "''capability''"] json_quote_plain [of "''accessMode''"]
      json_quote_plain [of "''filesystem''"] json_plain_def Let_def)

lemma json_quote_cut:
  assumes "list_all json_plain a" and "list_all json_plain b"
  shows "json_quote a @ x = json_quote b @ y \<longleftrightarrow> a = b \<and> x = y"
  using assms cut_at [OF json_plain_no_quote json_plain_no_quote, of a b x y]
  by (simp add: json_quote_plain)

lemma json_strmap_cut:
  assumes "m = [] \<or> (\<exists>v. m = [(SPDKCoreMaskOption, v)] \<and> list_all json_plain v)"
    and "m' = [] \<or> (\<exists>v. m' = [(SPDKCoreMaskOption, v)] \<and> list_all json_plain v)"
  shows "json_strmap m @ x = json_strmap m' @ y \<longleftrightarrow> m = m' \<and> x = y"
  using assms cut_at [OF json_plain_no_quote json_plain_no_quote]
  by (auto simp: json_strmap_options)

lemma canonicalD:
  assumes "canonical r"
  shows "list_all json_plain (rq_TargetBackend r)" "rq_VolumeManager r = ''partition''"
    "list_all json_plain (cc_Filesystem (rq_Capability r))"
    "cc_AccessMode (rq_Capability r) = ''SINGLE_NODE_WRITER''"
    "rq_TargetOptions r = [] \<or> (\<exists>v. rq_TargetOptions r = [(SPDKCoreMaskOption, v)] \<and> list_all json_plain v)"
proof -
  have b: "rq_TargetBackend r \<in> {''spdk'', ''kernel''}"
    using assms by (auto simp: canonical_def validateStorageCombination_def spdkTargetBackend_def
        kernelTargetBackend_def split: if_splits)
  then show "list_all json_plain (rq_TargetBackend r)" by (auto simp: json_plain_def Let_def)
  show "rq_VolumeManager r = ''partition''" "cc_AccessMode (rq_Capability r) = ''SINGLE_NODE_WRITER''"
    using assms by (auto simp: canonical_def validateStorageCombination_def partitionVolumeManager_def
        split: if_splits)
  show "list_all json_plain (cc_Filesystem (rq_Capability r))"
    using assms by (auto simp: canonical_def json_plain_def Let_def)
  show "rq_TargetOptions r = [] \<or> (\<exists>v. rq_TargetOptions r = [(SPDKCoreMaskOption, v)] \<and> list_all json_plain v)"
    using assms b by (auto simp: canonical_def elim!: valid_options_cases)
qed

lemma json_Marshal_inj:
  assumes "canonical r" and "canonical r'" and "json_Marshal_request r = json_Marshal_request r'"
  shows "r = r'"
proof -
  note c = canonicalD [OF assms(1)] canonicalD [OF assms(2)]
  have "Itoa (rq_RequiredBytes r) = Itoa (rq_RequiredBytes r') \<and> Itoa (rq_LimitBytes r) = Itoa (rq_LimitBytes r') \<and>
    rq_TargetBackend r = rq_TargetBackend r' \<and> rq_TargetOptions r = rq_TargetOptions r' \<and>
    cc_Filesystem (rq_Capability r) = cc_Filesystem (rq_Capability r')"
    using assms(3) c
    by (simp add: json_Marshal_cut cut_at Itoa_no_comma json_quote_cut json_strmap_cut
        json_quote_cut [of _ _ "[]" "[]", simplified])
  with c show ?thesis
    by (cases r; cases r'; cases "rq_Capability r"; cases "rq_Capability r'") (auto dest: Itoa_inj)
qed

section \<open>Properties\<close>

text \<open>A volume is accepted exactly when there is a capability, every capability is a mount
  without flags for a single writing node, the file system types agree, and the file system is
  \<^verbatim>\<open>ext4\<close> or \<^verbatim>\<open>xfs\<close>: the one the parameters name, else the one the capabilities name, else
  \<^verbatim>\<open>ext4\<close>. The canonical capability records that file system.\<close>

lemma validateVolumeCapabilities_iff:
  "validateVolumeCapabilities parameters capabilities = Inr c \<longleftrightarrow>
     capabilities \<noteq> [] \<and> list_all supported_capability capabilities \<and> one_type (named_types capabilities) \<and>
     chosen_filesystem parameters capabilities (cc_Filesystem c) \<and> cc_AccessMode c = ''SINGLE_NODE_WRITER''"
proof (cases "capabilities \<noteq> [] \<and> capability_loop 0 [] capabilities = None")
  case True
  then have one: "one_type (named_types capabilities)" and sup: "list_all supported_capability capabilities"
    by (simp_all add: capability_loop_None)
  have "validateVolumeCapabilities parameters capabilities = Inr c \<longleftrightarrow>
      resolveFilesystem parameters capabilities = Inr (cc_Filesystem c) \<and> cc_AccessMode c = ''SINGLE_NODE_WRITER''"
    using True by (cases c) (auto simp: validateVolumeCapabilities_def supportedAccessMode_def mode_String_def
        split: sum.splits)
  with True one sup show ?thesis by (simp add: resolveFilesystem_Inr)
next
  case False
  then show ?thesis
    by (auto simp: validateVolumeCapabilities_def capability_loop_None split: option.splits)
qed


text \<open>For every requested range, \<^verbatim>\<open>normalizeCapacityRange\<close> either returns a size in whole
  allocation units between \<^verbatim>\<open>required_bytes\<close> and \<^verbatim>\<open>limit_bytes\<close>, the least such size when a
  size is required, together with the size that rounds up to it, or it fails because the
  range is negative or empty of such sizes (\<open>range_answered\<close>).\<close>

lemma normalizeCapacityRange_fits:
  "range_answered r (normalizeCapacityRange (Some r))"
proof (cases "cr_RequiredBytes r < 0 \<or> cr_LimitBytes r < 0 \<or> cr_RequiredBytes r = 0 \<and> cr_LimitBytes r = 0")
  case True
  then have "\<exists>e. normalizeCapacityRange (Some r) = Inl e"
    by (auto simp: normalizeCapacityRange_def Let_def)
  with True show ?thesis by (auto simp: range_answered_def)
next
  case False
  show ?thesis
  proof (cases "cr_RequiredBytes r = 0")
    case zero: True
    with False have lim: "0 < cr_LimitBytes r" by auto
    show ?thesis using zero lim by (rule normalize_default)
  next
    case pos: False
    with False have "0 < cr_RequiredBytes r" "0 \<le> cr_LimitBytes r" by auto
    then show ?thesis by (rule normalize_required)
  qed
qed

text \<open>C21: two requests with the same fingerprint ask for the same sizes, backend, volume manager,
  options and capability, unless their encodings are a collision of SHA-256: the retry of a
  request finds its volume, and a different request under the same name is told apart.\<close>

theorem fingerprint_determines_request:
  assumes "canonical r" and "canonical r'"
    and "fingerprintCreateVolumeRequest r = fingerprintCreateVolumeRequest r'"
  shows "r = r' \<or> Sum256 (json_Marshal_request r) = Sum256 (json_Marshal_request r') \<and>
    json_Marshal_request r \<noteq> json_Marshal_request r'"
  using assms json_Marshal_inj hex_inj by (auto simp: fingerprintCreateVolumeRequest_def)

definition sample_request :: canonicalCreateVolumeRequest where
  "sample_request = \<lparr>rq_RequiredBytes = 8388608, rq_LimitBytes = 0, rq_TargetBackend = ''spdk'',
     rq_VolumeManager = ''partition'', rq_TargetOptions = [(''spdk-core-mask'', ''0x3'')],
     rq_Capability = \<lparr>cc_AccessMode = ''SINGLE_NODE_WRITER'', cc_Filesystem = ''ext4''\<rparr>\<rparr>"

lemma canonical_sample_request: "canonical sample_request"
  by code_simp

theorem fingerprint_determines_request_witness:
  "canonical sample_request \<and> (sample_request = sample_request \<or>
     Sum256 (json_Marshal_request sample_request) = Sum256 (json_Marshal_request sample_request) \<and>
     json_Marshal_request sample_request \<noteq> json_Marshal_request sample_request)"
  using fingerprint_determines_request [OF canonical_sample_request canonical_sample_request refl]
    canonical_sample_request by simp

end
