(* ===== verification/Host.thy ===== *)
theory Host
  imports Trace_Logic
begin

text \<open>
  The machine a node component runs on, as a parameter: commands, files and directories,
  network interfaces, the environment, the clock of a request and child processes, through
  the functions of \<^verbatim>\<open>os\<close>, \<^verbatim>\<open>os/exec\<close>, \<^verbatim>\<open>path/filepath\<close>, \<^verbatim>\<open>net\<close> and \<^verbatim>\<open>unix\<close> that the program
  calls. Every call takes the world and returns the world it leaves, so that the kernel, the
  tools and other programs are arbitrary. \<open>recording_host\<close> lists the calls, as \<open>recording\<close>
  does for the cluster.
\<close>

section \<open>The interface\<close>

text \<open>A command with the environment variables added for it.\<close>

record command =
  cmd_Env :: "string list"
  cmd_Args :: "string list"

definition Command :: "string list \<Rightarrow> command" where
  "Command args = \<lparr>cmd_Env = [], cmd_Args = args\<rparr>"

datatype file_mode = ModeSymlink | ModeSocket | ModeOther

text \<open>\<open>h_CombinedOutput\<close> returns the merged output, \<open>h_Output\<close> the standard output and the
  standard error. \<open>h_Stat\<close> returns the identity of the file that \<^verbatim>\<open>os.SameFile\<close> compares.
  \<open>h_Sleep\<close> is the select on \<^verbatim>\<open>ctx.Done()\<close> and \<^verbatim>\<open>time.After\<close>; it returns the error of the
  context when that ended first. \<open>h_Timers poll timeout\<close> is a wait with a ticker and a timer:
  the ticks it sees and how it ends. A child process has a handle; \<open>h_Exited\<close> polls the
  channel its exit is reported on, \<open>h_Reap\<close> waits for it for a while. \<open>h_Getrlimit\<close> and
  \<open>h_Setrlimit\<close> are about the limit of locked memory, its current and its maximal value.\<close>

record 'w host =
  h_CombinedOutput :: "command \<Rightarrow> 'w \<Rightarrow> (string \<times> error option) \<times> 'w"
  h_Output :: "command \<Rightarrow> 'w \<Rightarrow> ((string \<times> string) \<times> error option) \<times> 'w"
  h_CtxErr :: "'w \<Rightarrow> code option \<times> 'w"
  h_Sleep :: "int \<Rightarrow> 'w \<Rightarrow> code option \<times> 'w"
  h_Timers :: "int \<Rightarrow> int \<Rightarrow> 'w \<Rightarrow> (nat \<times> wake) \<times> 'w"
  h_Stat :: "string \<Rightarrow> 'w \<Rightarrow> (error + nat) \<times> 'w"
  h_Lstat :: "string \<Rightarrow> 'w \<Rightarrow> (error + file_mode) \<times> 'w"
  h_ReadFile :: "string \<Rightarrow> 'w \<Rightarrow> (error + string) \<times> 'w"
  h_WriteFile :: "string \<Rightarrow> string \<Rightarrow> 'w \<Rightarrow> error option \<times> 'w"
  h_MkdirAll :: "string \<Rightarrow> 'w \<Rightarrow> error option \<times> 'w"
  h_Mkdir :: "string \<Rightarrow> 'w \<Rightarrow> error option \<times> 'w"
  h_Remove :: "string \<Rightarrow> 'w \<Rightarrow> error option \<times> 'w"
  h_Symlink :: "string \<Rightarrow> string \<Rightarrow> 'w \<Rightarrow> error option \<times> 'w"
  h_Readlink :: "string \<Rightarrow> 'w \<Rightarrow> (error + string) \<times> 'w"
  h_ReadDir :: "string \<Rightarrow> 'w \<Rightarrow> (error + string list) \<times> 'w"
  h_EvalSymlinks :: "string \<Rightarrow> 'w \<Rightarrow> (error + string) \<times> 'w"
  h_DeviceNumber :: "string \<Rightarrow> 'w \<Rightarrow> (error + string) \<times> 'w"
  h_Getenv :: "string \<Rightarrow> 'w \<Rightarrow> string \<times> 'w"
  h_Interface :: "string \<Rightarrow> 'w \<Rightarrow> (error + bool \<times> (error + string list)) \<times> 'w"
  h_Start :: "string list \<Rightarrow> 'w \<Rightarrow> (error + nat) \<times> 'w"
  h_Exited :: "nat \<Rightarrow> 'w \<Rightarrow> bool \<times> 'w"
  h_Kill :: "nat \<Rightarrow> 'w \<Rightarrow> error option \<times> 'w"
  h_Reap :: "nat \<Rightarrow> 'w \<Rightarrow> bool \<times> 'w"
  h_Getrlimit :: "'w \<Rightarrow> (error + nat \<times> nat) \<times> 'w"
  h_Setrlimit :: "nat \<Rightarrow> nat \<Rightarrow> 'w \<Rightarrow> error option \<times> 'w"

text \<open>A host on which every operation fails and nothing changes, the base of the example hosts.\<close>

definition refusing_host :: "'w host" where
  "refusing_host = (let err = OSError (OSFailure ''permission denied'') in \<lparr>
     h_CombinedOutput = (\<lambda>c w. (([], Some err), w)), h_Output = (\<lambda>c w. ((([], []), Some err), w)),
     h_CtxErr = (\<lambda>w. (None, w)), h_Sleep = (\<lambda>d w. (None, w)), h_Timers = (\<lambda>p d w. ((0, WakeTimeout), w)),
     h_Stat = (\<lambda>p w. (Inl err, w)), h_Lstat = (\<lambda>p w. (Inl err, w)), h_ReadFile = (\<lambda>p w. (Inl err, w)),
     h_WriteFile = (\<lambda>p d w. (Some err, w)), h_MkdirAll = (\<lambda>p w. (Some err, w)), h_Mkdir = (\<lambda>p w. (Some err, w)),
     h_Remove = (\<lambda>p w. (Some err, w)), h_Symlink = (\<lambda>t l w. (Some err, w)), h_Readlink = (\<lambda>p w. (Inl err, w)),
     h_ReadDir = (\<lambda>p w. (Inl err, w)), h_EvalSymlinks = (\<lambda>p w. (Inl err, w)),
     h_DeviceNumber = (\<lambda>p w. (Inl err, w)), h_Getenv = (\<lambda>v w. ([], w)), h_Interface = (\<lambda>n w. (Inl err, w)),
     h_Start = (\<lambda>a w. (Inl err, w)), h_Exited = (\<lambda>p w. (True, w)), h_Kill = (\<lambda>p w. (Some err, w)),
     h_Reap = (\<lambda>p w. (True, w)), h_Getrlimit = (\<lambda>w. (Inl err, w)), h_Setrlimit = (\<lambda>c m w. (Some err, w))\<rparr>)"

section \<open>Recording hosts\<close>

datatype host_event =
  RunEv command string "error option"
| OutputEv command string string "error option"
| CtxErrEv "code option"
| StatEv string "error + nat"
| LstatEv string "error + file_mode"
| ReadFileEv string "error + string"
| WriteFileEv string string "error option"
| MkdirEv string "error option"
| RemoveEv string "error option"
| SymlinkEv string string "error option"
| ReadlinkEv string "error + string"
| ReadDirEv string "error + string list"
| EvalSymlinksEv string "error + string"
| DeviceNumberEv string "error + string"
| GetenvEv string string
| InterfaceEv string "error + bool \<times> (error + string list)"
| StartEv "string list" "error + nat"
| ExitedEv nat bool
| KillEv nat "error option"
| ReapEv nat bool
| GetrlimitEv "error + nat \<times> nat"
| SetrlimitEv nat nat "error option"

definition recording_host :: "'w host \<Rightarrow> ('w, host_event) traced host" where
  "recording_host H = \<lparr>
     h_CombinedOutput = (\<lambda>c. record_call (\<lambda>r. (RunEv c (fst r) (snd r))) (h_CombinedOutput H c)),
     h_Output = (\<lambda>c. record_call (\<lambda>r. (OutputEv c (fst (fst r)) (snd (fst r)) (snd r))) (h_Output H c)),
     h_CtxErr = record_call (\<lambda>r. (CtxErrEv r)) (h_CtxErr H),
     h_Sleep = (\<lambda>d. silent_call (h_Sleep H d)),
     h_Timers = (\<lambda>p d. silent_call (h_Timers H p d)),
     h_Stat = (\<lambda>p. record_call (\<lambda>r. (StatEv p r)) (h_Stat H p)),
     h_Lstat = (\<lambda>p. record_call (\<lambda>r. (LstatEv p r)) (h_Lstat H p)),
     h_ReadFile = (\<lambda>p. record_call (\<lambda>r. (ReadFileEv p r)) (h_ReadFile H p)),
     h_WriteFile = (\<lambda>p d. record_call (\<lambda>r. (WriteFileEv p d r)) (h_WriteFile H p d)),
     h_MkdirAll = (\<lambda>p. record_call (\<lambda>r. (MkdirEv p r)) (h_MkdirAll H p)),
     h_Mkdir = (\<lambda>p. record_call (\<lambda>r. (MkdirEv p r)) (h_Mkdir H p)),
     h_Remove = (\<lambda>p. record_call (\<lambda>r. (RemoveEv p r)) (h_Remove H p)),
     h_Symlink = (\<lambda>t l. record_call (\<lambda>r. (SymlinkEv t l r)) (h_Symlink H t l)),
     h_Readlink = (\<lambda>p. record_call (\<lambda>r. (ReadlinkEv p r)) (h_Readlink H p)),
     h_ReadDir = (\<lambda>p. record_call (\<lambda>r. (ReadDirEv p r)) (h_ReadDir H p)),
     h_EvalSymlinks = (\<lambda>p. record_call (\<lambda>r. (EvalSymlinksEv p r)) (h_EvalSymlinks H p)),
     h_DeviceNumber = (\<lambda>p. record_call (\<lambda>r. (DeviceNumberEv p r)) (h_DeviceNumber H p)),
     h_Getenv = (\<lambda>v. record_call (\<lambda>r. (GetenvEv v r)) (h_Getenv H v)),
     h_Interface = (\<lambda>n. record_call (\<lambda>r. (InterfaceEv n r)) (h_Interface H n)),
     h_Start = (\<lambda>a. record_call (\<lambda>r. (StartEv a r)) (h_Start H a)),
     h_Exited = (\<lambda>p. record_call (\<lambda>r. (ExitedEv p r)) (h_Exited H p)),
     h_Kill = (\<lambda>p. record_call (\<lambda>r. (KillEv p r)) (h_Kill H p)),
     h_Reap = (\<lambda>p. record_call (\<lambda>r. (ReapEv p r)) (h_Reap H p)),
     h_Getrlimit = record_call (\<lambda>r. (GetrlimitEv r)) (h_Getrlimit H),
     h_Setrlimit = (\<lambda>c m. record_call (\<lambda>r. (SetrlimitEv c m r)) (h_Setrlimit H c m))\<rparr>"

lemma host_calls [vcg]:
  "(\<And>o' e w. post (g (o', e) (w, t @ [RunEv c o' e])) Q) \<Longrightarrow>
   post (case h_CombinedOutput (recording_host H) c (w, t) of (r, s) \<Rightarrow> g r s) Q"
  "(\<And>o' o'' e w. post (g2 ((o', o''), e) (w, t @ [OutputEv c o' o'' e])) Q) \<Longrightarrow>
   post (case h_Output (recording_host H) c (w, t) of (r, s) \<Rightarrow> g2 r s) Q"
  "(\<And>r w. post (g3 r (w, t @ [CtxErrEv r])) Q) \<Longrightarrow>
   post (case h_CtxErr (recording_host H) (w, t) of (r, s) \<Rightarrow> g3 r s) Q"
  "(\<And>r w. post (g3 r (w, t)) Q) \<Longrightarrow>
   post (case h_Sleep (recording_host H) d (w, t) of (r, s) \<Rightarrow> g3 r s) Q"
  "(\<And>r w. post (g4 r (w, t)) Q) \<Longrightarrow>
   post (case h_Timers (recording_host H) d d' (w, t) of (r, s) \<Rightarrow> g4 r s) Q"
  "(\<And>r w. post (g5 r (w, t @ [StatEv p r])) Q) \<Longrightarrow>
   post (case h_Stat (recording_host H) p (w, t) of (r, s) \<Rightarrow> g5 r s) Q"
  "(\<And>r w. post (g6 r (w, t @ [LstatEv p r])) Q) \<Longrightarrow>
   post (case h_Lstat (recording_host H) p (w, t) of (r, s) \<Rightarrow> g6 r s) Q"
  "(\<And>r w. post (g7 r (w, t @ [ReadFileEv p r])) Q) \<Longrightarrow>
   post (case h_ReadFile (recording_host H) p (w, t) of (r, s) \<Rightarrow> g7 r s) Q"
  "(\<And>r w. post (g8 r (w, t @ [WriteFileEv p x r])) Q) \<Longrightarrow>
   post (case h_WriteFile (recording_host H) p x (w, t) of (r, s) \<Rightarrow> g8 r s) Q"
  "(\<And>r w. post (g8 r (w, t @ [MkdirEv p r])) Q) \<Longrightarrow>
   post (case h_MkdirAll (recording_host H) p (w, t) of (r, s) \<Rightarrow> g8 r s) Q"
  "(\<And>r w. post (g8 r (w, t @ [MkdirEv p r])) Q) \<Longrightarrow>
   post (case h_Mkdir (recording_host H) p (w, t) of (r, s) \<Rightarrow> g8 r s) Q"
  "(\<And>r w. post (g8 r (w, t @ [RemoveEv p r])) Q) \<Longrightarrow>
   post (case h_Remove (recording_host H) p (w, t) of (r, s) \<Rightarrow> g8 r s) Q"
  "(\<And>r w. post (g8 r (w, t @ [SymlinkEv p x r])) Q) \<Longrightarrow>
   post (case h_Symlink (recording_host H) p x (w, t) of (r, s) \<Rightarrow> g8 r s) Q"
  "(\<And>r w. post (g7 r (w, t @ [ReadlinkEv p r])) Q) \<Longrightarrow>
   post (case h_Readlink (recording_host H) p (w, t) of (r, s) \<Rightarrow> g7 r s) Q"
  "(\<And>r w. post (g9 r (w, t @ [ReadDirEv p r])) Q) \<Longrightarrow>
   post (case h_ReadDir (recording_host H) p (w, t) of (r, s) \<Rightarrow> g9 r s) Q"
  "(\<And>r w. post (g7 r (w, t @ [EvalSymlinksEv p r])) Q) \<Longrightarrow>
   post (case h_EvalSymlinks (recording_host H) p (w, t) of (r, s) \<Rightarrow> g7 r s) Q"
  "(\<And>r w. post (g7 r (w, t @ [DeviceNumberEv p r])) Q) \<Longrightarrow>
   post (case h_DeviceNumber (recording_host H) p (w, t) of (r, s) \<Rightarrow> g7 r s) Q"
  "(\<And>r w. post (g10 r (w, t @ [GetenvEv p r])) Q) \<Longrightarrow>
   post (case h_Getenv (recording_host H) p (w, t) of (r, s) \<Rightarrow> g10 r s) Q"
  "(\<And>r w. post (g11 r (w, t @ [InterfaceEv p r])) Q) \<Longrightarrow>
   post (case h_Interface (recording_host H) p (w, t) of (r, s) \<Rightarrow> g11 r s) Q"
  "(\<And>r w. post (g5 r (w, t @ [StartEv a r])) Q) \<Longrightarrow>
   post (case h_Start (recording_host H) a (w, t) of (r, s) \<Rightarrow> g5 r s) Q"
  "(\<And>r w. post (g12 r (w, t @ [ExitedEv i r])) Q) \<Longrightarrow>
   post (case h_Exited (recording_host H) i (w, t) of (r, s) \<Rightarrow> g12 r s) Q"
  "(\<And>r w. post (g8 r (w, t @ [KillEv i r])) Q) \<Longrightarrow>
   post (case h_Kill (recording_host H) i (w, t) of (r, s) \<Rightarrow> g8 r s) Q"
  "(\<And>r w. post (g12 r (w, t @ [ReapEv i r])) Q) \<Longrightarrow>
   post (case h_Reap (recording_host H) i (w, t) of (r, s) \<Rightarrow> g12 r s) Q"
  "(\<And>r w. post (g13 r (w, t @ [GetrlimitEv r])) Q) \<Longrightarrow>
   post (case h_Getrlimit (recording_host H) (w, t) of (r, s) \<Rightarrow> g13 r s) Q"
  "(\<And>r w. post (g8 r (w, t @ [SetrlimitEv i j r])) Q) \<Longrightarrow>
   post (case h_Setrlimit (recording_host H) i j (w, t) of (r, s) \<Rightarrow> g8 r s) Q"
  by (simp_all add: recording_host_def record_call_def silent_call_def split: prod.splits)

text \<open>A component whose last step is such a call.\<close>

lemma host_rets [vcg]:
  "(\<And>r. Q r (t @ [RemoveEv p r])) \<Longrightarrow> post (h_Remove (recording_host H) p (w, t)) Q"
  "(\<And>r. Q r (t @ [WriteFileEv p x r])) \<Longrightarrow> post (h_WriteFile (recording_host H) p x (w, t)) Q"
  "(\<And>r. Q r (t @ [SetrlimitEv i j r])) \<Longrightarrow> post (h_Setrlimit (recording_host H) i j (w, t)) Q"
  by (simp_all add: recording_host_def record_call_def post_def calls_def split: prod.splits)

text \<open>The components of a pair that a call returned.\<close>

lemma post_pairI [vcg]: "post (f x y) Q \<Longrightarrow> post (case (x, y) of (a, b) \<Rightarrow> f a b) Q"
  by simp

lemma post_bindI2:
  "post p R \<Longrightarrow> (\<And>x y w t. R (x, y) t \<Longrightarrow> post (g x y (w, t)) Q) \<Longrightarrow>
   post (case p of ((x, y), s) \<Rightarrow> g x y s) Q"
  by (auto simp: post_def calls_def split: prod.splits)

text \<open>The result of an operation that may still be running, passed on.\<close>

lemma post_fuelI [vcg]:
  "(r = None \<Longrightarrow> post p Q) \<Longrightarrow> (r = Some None \<Longrightarrow> post q Q) \<Longrightarrow> (\<And>e. r = Some (Some e) \<Longrightarrow> post (f e) Q) \<Longrightarrow>
   post (case r of None \<Rightarrow> p | Some None \<Rightarrow> q | Some (Some e) \<Rightarrow> f e) Q"
  by (auto split: option.split)

section \<open>Looking around\<close>

text \<open>The calls that only look.\<close>

fun is_read :: "host_event \<Rightarrow> bool" where
  "is_read (CtxErrEv _) = True"
| "is_read (StatEv _ _) = True"
| "is_read (LstatEv _ _) = True"
| "is_read (ReadFileEv _ _) = True"
| "is_read (ReadlinkEv _ _) = True"
| "is_read (ReadDirEv _ _) = True"
| "is_read (EvalSymlinksEv _ _) = True"
| "is_read (DeviceNumberEv _ _) = True"
| "is_read (GetenvEv _ _) = True"
| "is_read (InterfaceEv _ _) = True"
| "is_read (ExitedEv _ _) = True"
| "is_read (GetrlimitEv _) = True"
| "is_read _ = False"

definition reads_after :: "host_event list \<Rightarrow> host_event list \<Rightarrow> bool" where
  "reads_after t t' \<longleftrightarrow> (\<exists>u. t' = t @ u \<and> list_all is_read u)"

lemma reads_after_refl [simp]: "reads_after t t"
  by (simp add: reads_after_def)

lemma reads_after_snoc: "reads_after t t' \<Longrightarrow> is_read e \<Longrightarrow> reads_after t (t' @ [e])"
  by (auto simp: reads_after_def)

lemma reads_after_set [evidence]: "reads_after t t' \<Longrightarrow> set t \<subseteq> set t'"
  by (auto simp: reads_after_def)

lemma reads_after_trans: "reads_after t t' \<Longrightarrow> reads_after t' t'' \<Longrightarrow> reads_after t t''"
  by (auto simp: reads_after_def)

lemma justified_reads:
  assumes "reads_after t t'" and "justified J t" and "\<And>u e. is_read e \<Longrightarrow> J u e"
  shows "justified J t'"
proof -
  have "justified_from J v u" if "list_all is_read u" for v u
    using that assms(3) by (induction u arbitrary: v) auto
  with assms(1,2) show ?thesis by (auto simp: reads_after_def)
qed

section \<open>The commands of a run\<close>

definition was_run :: "command \<Rightarrow> host_event list \<Rightarrow> bool" where
  "was_run c t \<longleftrightarrow> (\<exists>out e. RunEv c out e \<in> set t)"

definition succeeded :: "command \<Rightarrow> host_event list \<Rightarrow> bool" where
  "succeeded c t \<longleftrightarrow> (\<exists>out. RunEv c out None \<in> set t)"

lemma was_run_mono [evidence]: "was_run c t \<Longrightarrow> set t \<subseteq> set t' \<Longrightarrow> was_run c t'"
  by (auto simp: was_run_def)

lemma succeeded_mono [evidence]: "succeeded c t \<Longrightarrow> set t \<subseteq> set t' \<Longrightarrow> succeeded c t'"
  by (auto simp: succeeded_def)

text \<open>The calls after \<open>t\<close> run only commands of \<open>A\<close>.\<close>

fun runs_in :: "command set \<Rightarrow> host_event \<Rightarrow> bool" where
  "runs_in A (RunEv c _ _) \<longleftrightarrow> c \<in> A"
| "runs_in A _ \<longleftrightarrow> True"

definition runs_only :: "command set \<Rightarrow> host_event list \<Rightarrow> host_event list \<Rightarrow> bool" where
  "runs_only A t t' \<longleftrightarrow> (\<exists>u. t' = t @ u \<and> list_all (runs_in A) u)"

lemma runs_only_refl [simp]: "runs_only A t t"
  by (simp add: runs_only_def)

lemma runs_only_append [intro]: "runs_only A t t' \<Longrightarrow> list_all (runs_in A) u \<Longrightarrow> runs_only A t (t' @ u)"
  by (auto simp: runs_only_def)

lemma runs_only_trans: "runs_only A t t' \<Longrightarrow> runs_only A t' t'' \<Longrightarrow> runs_only A t t''"
  by (auto simp: runs_only_def)

lemma runs_only_set [evidence]: "runs_only A t t' \<Longrightarrow> set t \<subseteq> set t'"
  by (auto simp: runs_only_def)

lemma runs_only_reads: "reads_after t t' \<Longrightarrow> runs_only A t t'"
proof -
  have "runs_in A e" if "is_read e" for e using that by (cases e) simp_all
  then show "reads_after t t' \<Longrightarrow> runs_only A t t'" by (auto simp: reads_after_def runs_only_def list_all_iff)
qed

lemma runs_only_was_run: "runs_only A t t' \<Longrightarrow> c \<notin> A \<Longrightarrow> was_run c t' \<longleftrightarrow> was_run c t"
  by (fastforce simp: runs_only_def was_run_def list_all_iff)

lemma succeeded_was_run: "succeeded c t \<Longrightarrow> was_run c t"
  by (auto simp: succeeded_def was_run_def)

lemma runs_only_succeeded: "runs_only A t t' \<Longrightarrow> c \<notin> A \<Longrightarrow> succeeded c t' \<longleftrightarrow> succeeded c t"
  by (fastforce simp: runs_only_def succeeded_def list_all_iff)

lemma was_run_append [simp]: "was_run c (t @ u) \<longleftrightarrow> was_run c t \<or> was_run c u"
  by (auto simp: was_run_def)

lemma succeeded_append [simp]: "succeeded c (t @ u) \<longleftrightarrow> succeeded c t \<or> succeeded c u"
  by (auto simp: succeeded_def)

lemma was_run_Cons [simp]: "was_run c (ev # u) \<longleftrightarrow> (\<exists>out e. ev = RunEv c out e) \<or> was_run c u"
  by (auto simp: was_run_def)

lemma was_run_Nil [simp]: "\<not> was_run c []"
  by (simp add: was_run_def)

lemma succeeded_Cons [simp]: "succeeded c (ev # u) \<longleftrightarrow> (\<exists>out. ev = RunEv c out None) \<or> succeeded c u"
  by (auto simp: succeeded_def)

lemma succeeded_Nil [simp]: "\<not> succeeded c []"
  by (simp add: succeeded_def)

end
