(* ===== verification/Csi_Mount.thy ===== *)
theory Csi_Mount
  imports Csi_Volumes Host
begin

text \<open>
  \<^verbatim>\<open>mountinfo.go\<close>: reading the mount table of the node, and the checks that a staging or a
  published mount is the expected one.
\<close>

section \<open>The code\<close>

text \<open>The options are a set.\<close>

record mountRecord =
  mr_majorMinor :: string
  mr_root :: string
  mr_target :: string
  mr_filesystem :: string
  mr_source :: string
  mr_options :: "string list"

text \<open>The replacer of the four octal escapes; the backslash has code 92.\<close>

definition mount_escape :: "string \<Rightarrow> char option" where
  "mount_escape s =
     (let bs = char_of (92 :: nat) in
      if s = bs # ''040'' then Some (char_of (32 :: nat))
      else if s = bs # ''011'' then Some (char_of (9 :: nat))
      else if s = bs # ''012'' then Some (char_of (10 :: nat))
      else if s = bs # ''134'' then Some bs
      else None)"

fun unescapeMountInfoField :: "string \<Rightarrow> string" where
  "unescapeMountInfoField (a # b # c # d # r) =
     (case mount_escape [a, b, c, d] of
        Some x \<Rightarrow> x # unescapeMountInfoField r
      | None \<Rightarrow> a # unescapeMountInfoField (b # c # d # r))"
| "unescapeMountInfoField s = s"

text \<open>The position of the field \<^verbatim>\<open>-\<close>.\<close>

definition separator_of :: "string list \<Rightarrow> int" where
  "separator_of fs =
     (let n = length (takeWhile (\<lambda>f. f \<noteq> ''-'') fs) in if n < length fs then int n else -1)"

definition parse_mount_row :: "string \<Rightarrow> string list \<Rightarrow> error + mountRecord" where
  "parse_mount_row line fs =
     (let separator = separator_of fs; n = nat separator in
      if length fs < 10 \<or> separator < 6 \<or> separator + 3 \<ge> int (length fs)
      then Inl (Errorf ''invalid mountinfo row %q'' [S line])
      else Inr \<lparr>mr_majorMinor = fs ! 2,
                mr_root = Clean (unescapeMountInfoField (fs ! 3)),
                mr_target = Clean (unescapeMountInfoField (fs ! 4)),
                mr_filesystem = fs ! (n + 1),
                mr_source = unescapeMountInfoField (fs ! (n + 2)),
                mr_options = Split (fs ! 5) CHR '','' @ Split (fs ! (n + 3)) CHR '',''\<rparr>)"

fun parse_mount_rows :: "string list \<Rightarrow> error + mountRecord list" where
  "parse_mount_rows [] = Inr []"
| "parse_mount_rows (line # rest) =
     (if Fields line = [] then parse_mount_rows rest
      else case parse_mount_row line (Fields line) of
             Inl e \<Rightarrow> Inl e
           | Inr rec \<Rightarrow>
               (case parse_mount_rows rest of Inl e \<Rightarrow> Inl e | Inr recs \<Rightarrow> Inr (rec # recs)))"

definition parseMountInfo :: "string \<Rightarrow> error + mountRecord list" where
  "parseMountInfo s = parse_mount_rows (Split (TrimSpace s) newline)"

definition readMountInfo :: "'w host \<Rightarrow> 'w \<Rightarrow> (error + string) \<times> 'w" where
  "readMountInfo H w = h_ReadFile H ''/proc/self/mountinfo'' w"

definition mountAt :: "'w host \<Rightarrow> string \<Rightarrow> 'w \<Rightarrow> (error + mountRecord option) \<times> 'w" where
  "mountAt H target w =
     (case h_ReadFile H ''/proc/self/mountinfo'' w of (r, w) \<Rightarrow>
      (case r of
         Inl err \<Rightarrow> (Inl (Wrapf ''read mountinfo: %w'' [] err), w)
       | Inr contents \<Rightarrow>
           (case parseMountInfo contents of
              Inl err \<Rightarrow> (Inl err, w)
            | Inr records \<Rightarrow>
                (Inr (List.find (\<lambda>rec. mr_target rec = Clean target) (rev records)), w))))"

definition optionEnabled :: "mountRecord \<Rightarrow> string \<Rightarrow> bool" where
  "optionEnabled rec option' \<longleftrightarrow> option' \<in> set (mr_options rec)"

text \<open>Whether something is mounted at the target, and what is wrong with it.\<close>

definition verifyStagingMount ::
  "'w host \<Rightarrow> string \<Rightarrow> string \<Rightarrow> string \<Rightarrow> 'w \<Rightarrow> (bool \<times> error option) \<times> 'w" where
  "verifyStagingMount H source target filesystem w =
     (case mountAt H target w of (r, w) \<Rightarrow>
      (case r of
         Inl err \<Rightarrow> ((False, Some err), w)
       | Inr found \<Rightarrow>
      (case found of
         None \<Rightarrow> ((False, None), w)
       | Some rec \<Rightarrow>
      (case h_DeviceNumber H source w of (r, w) \<Rightarrow>
      (case r of
         Inl err \<Rightarrow> ((True, Some (Wrapf ''inspect expected block device %s: %w'' [S source] err)), w)
       | Inr expectedDevice \<Rightarrow>
           if mr_majorMinor rec \<noteq> expectedDevice
           then ((True, Some (Errorf ''target %s is mounted from device %s (%s), expected %s (%s)''
                   [S target, S (mr_source rec), S (mr_majorMinor rec), S source, S expectedDevice])), w)
           else if normalizeFilesystem (mr_filesystem rec) \<noteq> filesystem
           then ((True, Some (Errorf ''target %s uses filesystem %s, expected %s''
                   [S target, S (mr_filesystem rec), S filesystem])), w)
           else if optionEnabled rec ''ro''
           then ((True, Some (Errorf ''staging target %s is read-only'' [S target])), w)
           else ((True, None), w))))))"

definition verifyPublishedMount ::
  "'w host \<Rightarrow> string \<Rightarrow> string \<Rightarrow> bool \<Rightarrow> 'w \<Rightarrow> (bool \<times> error option) \<times> 'w" where
  "verifyPublishedMount H source target readOnly w =
     (case mountAt H target w of (r, w) \<Rightarrow>
      (case r of
         Inl err \<Rightarrow> ((False, Some err), w)
       | Inr found \<Rightarrow>
      (case found of
         None \<Rightarrow> ((False, None), w)
       | Some rec \<Rightarrow>
      (case h_Stat H source w of (r, w) \<Rightarrow>
      (case r of
         Inl err \<Rightarrow> ((True, Some (Wrapf ''inspect bind source %s: %w'' [S source] err)), w)
       | Inr sourceInfo \<Rightarrow>
      (case h_Stat H target w of (r, w) \<Rightarrow>
      (case r of
         Inl err \<Rightarrow> ((True, Some (Wrapf ''inspect bind target %s: %w'' [S target] err)), w)
       | Inr targetInfo \<Rightarrow>
           if sourceInfo \<noteq> targetInfo
           then ((True, Some (Errorf ''target %s is not a bind mount of %s (mount root %s, source %s)''
                   [S target, S source, S (mr_root rec), S (mr_source rec)])), w)
           else if readOnly \<noteq> optionEnabled rec ''ro''
           then ((True, Some (Errorf ''target %s read-only state does not match requested readOnly=%t''
                   [S target, S (if readOnly then ''true'' else ''false'')])), w)
           else ((True, None), w))))))))"

definition csi_isMountPoint :: "'w host \<Rightarrow> string \<Rightarrow> 'w \<Rightarrow> (bool \<times> error option) \<times> 'w" where
  "csi_isMountPoint H target w =
     (case mountAt H target w of (r, w) \<Rightarrow>
      (case r of
         Inl err \<Rightarrow> ((False, Some err), w)
       | Inr found \<Rightarrow> ((found \<noteq> None, None), w)))"

section \<open>The format of the table\<close>

text \<open>The format that \<^verbatim>\<open>proc_pid_mountinfo(5)\<close> documents. A row: identifiers, device, root and mount
  point, options, optional tags, a dash, and the type, source and options of the superblock. A blank, tab, newline
  or backslash in a path is written as a backslash and the three octal digits of its code.\<close>

record mount_entry =
  me_ids :: "string \<times> string"
  me_majorMinor :: string
  me_root :: string
  me_target :: string
  me_options :: "string list"
  me_tags :: "string list"
  me_filesystem :: string
  me_source :: string
  me_super :: "string list"

definition octal_digit :: "nat \<Rightarrow> char" where
  "octal_digit n = char_of (48 + n mod 8)"

definition octal_escape :: "char \<Rightarrow> string" where
  "octal_escape c = (let n = of_char c :: nat in
     [char_of (92 :: nat), octal_digit (n div 64), octal_digit (n div 8), octal_digit n])"

definition escaped_char :: "char \<Rightarrow> string" where
  "escaped_char c = (if (of_char c :: nat) \<in> {9, 10, 32, 92} then octal_escape c else [c])"

definition escaped :: "string \<Rightarrow> string" where
  "escaped s = concat (map escaped_char s)"

definition row_fields :: "mount_entry \<Rightarrow> string list" where
  "row_fields e = [fst (me_ids e), snd (me_ids e), me_majorMinor e, escaped (me_root e), escaped (me_target e),
     Join (me_options e) '',''] @ me_tags e @
     [''-'', me_filesystem e, escaped (me_source e), Join (me_super e) '','']"

definition word_ok :: "string \<Rightarrow> bool" where
  "word_ok s \<longleftrightarrow> s \<noteq> [] \<and> list_all (\<lambda>c. \<not> is_space c) s"

text \<open>A path whose only white space is what the format escapes: other white space, such as a carriage return, is
  written as it is, and would end the field.\<close>

definition path_ok :: "string \<Rightarrow> bool" where
  "path_ok s \<longleftrightarrow> s \<noteq> [] \<and>
     list_all (\<lambda>c. \<not> is_space c \<or> (of_char c :: nat) \<in> {9, 10, 32}) s"

definition options_ok :: "string list \<Rightarrow> bool" where
  "options_ok os \<longleftrightarrow> os \<noteq> [] \<and> list_all (\<lambda>x. word_ok x \<and> CHR '','' \<notin> set x) os"

text \<open>The source has no \<open>#\<close>: Linux escapes it in that field only, and the parser does not decode it.\<close>

definition entry_ok :: "mount_entry \<Rightarrow> bool" where
  "entry_ok e \<longleftrightarrow> word_ok (fst (me_ids e)) \<and> word_ok (snd (me_ids e)) \<and> word_ok (me_majorMinor e) \<and>
     path_ok (me_root e) \<and> path_ok (me_target e) \<and> options_ok (me_options e) \<and>
     list_all (\<lambda>x. word_ok x \<and> x \<noteq> ''-'') (me_tags e) \<and> word_ok (me_filesystem e) \<and>
     path_ok (me_source e) \<and> CHR ''#'' \<notin> set (me_source e) \<and> options_ok (me_super e) \<and>
     list_all (\<lambda>x. x \<noteq> ''-'') [fst (me_ids e), snd (me_ids e), me_majorMinor e, escaped (me_root e),
       escaped (me_target e), Join (me_options e) '','']"

text \<open>The text \<open>s\<close> is the table of the entries, one line each.\<close>

definition mount_table :: "mount_entry list \<Rightarrow> string \<Rightarrow> bool" where
  "mount_table es s \<longleftrightarrow> list_all entry_ok es \<and> s = concat (map (\<lambda>e. Join (row_fields e) '' '' @ [newline]) es)"

definition record_of :: "mount_entry \<Rightarrow> mountRecord" where
  "record_of e = \<lparr>mr_majorMinor = me_majorMinor e, mr_root = Clean (me_root e),
     mr_target = Clean (me_target e), mr_filesystem = me_filesystem e, mr_source = me_source e,
     mr_options = me_options e @ me_super e\<rparr>"

section \<open>Lemmas\<close>

lemma char_of_code: "(of_char c :: nat) = n \<Longrightarrow> c = char_of n"
  by (metis char_of_char)

lemma octal_escapes:
  "octal_escape (char_of (9 :: nat)) = char_of (92 :: nat) # ''011''" "octal_escape (char_of (10 :: nat)) = char_of (92 :: nat) # ''012''"
  "octal_escape (char_of (32 :: nat)) = char_of (92 :: nat) # ''040''" "octal_escape (char_of (92 :: nat)) = char_of (92 :: nat) # ''134''"
  by code_simp+

lemma unescape_plain:
  assumes "(of_char c :: nat) \<noteq> 92"
  shows "unescapeMountInfoField (c # r) = c # unescapeMountInfoField r"
proof -
  have c: "c \<noteq> char_of (92 :: nat)" using assms by auto
  have "mount_escape (c # x) = None" for x
    using c by (simp add: mount_escape_def Let_def)
  then show ?thesis
    by (cases "(c # r)" rule: unescapeMountInfoField.cases) simp_all
qed

lemma unescape_escaped_char: "unescapeMountInfoField (escaped_char c @ r) = c # unescapeMountInfoField r"
proof (cases "(of_char c :: nat) \<in> {9, 10, 32, 92}")
  case True
  then consider "c = char_of (9 :: nat)" | "c = char_of (10 :: nat)" | "c = char_of (32 :: nat)" | "c = char_of (92 :: nat)"
    by (auto dest: char_of_code)
  then show ?thesis by cases (simp_all add: escaped_char_def octal_escapes mount_escape_def)
next
  case False
  then show ?thesis by (simp add: escaped_char_def unescape_plain)
qed

lemma unescape_escaped [simp]: "unescapeMountInfoField (escaped s) = s"
  by (induction s) (simp_all add: escaped_def unescape_escaped_char)

lemma escaped_char_word:
  assumes "\<not> is_space c \<or> (of_char c :: nat) \<in> {9, 10, 32}"
  shows "word_ok (escaped_char c)"
proof (cases "(of_char c :: nat) \<in> {9, 10, 32, 92}")
  case True
  then consider "c = char_of (9 :: nat)" | "c = char_of (10 :: nat)" | "c = char_of (32 :: nat)" | "c = char_of (92 :: nat)"
    by (auto dest: char_of_code)
  then show ?thesis by cases (simp_all add: escaped_char_def octal_escapes word_ok_def is_space_def)
next
  case False
  then have "escaped_char c = [c]" by (simp add: escaped_char_def)
  with assms False show ?thesis by (simp add: word_ok_def)
qed

lemma escaped_word_ok:
  assumes "path_ok s"
  shows "word_ok (escaped s)"
proof -
  have "\<forall>c \<in> set s. word_ok (escaped_char c)"
    using assms escaped_char_word by (simp add: path_ok_def list_all_iff)
  moreover obtain c s' where "s = c # s'"
    using assms by (cases s) (simp_all add: path_ok_def)
  ultimately show ?thesis by (auto simp: escaped_def word_ok_def list_all_iff)
qed

lemma Fields_aux_word:
  "list_all (\<lambda>c. \<not> is_space c) w \<Longrightarrow> Fields_aux (w @ s) acc = Fields_aux s (rev w @ acc)"
  by (induction w arbitrary: acc) simp_all

lemma is_space_blank [simp]: "is_space (CHR '' '')"
  by (simp add: is_space_def)

lemma Fields_Join: "list_all word_ok ws \<Longrightarrow> Fields (Join ws '' '') = ws"
proof (induction ws rule: induct_list012)
  case (3 x y ws)
  then show ?case
    by (simp add: Fields_def Fields_aux_word word_ok_def)
qed (simp_all add: Fields_def Fields_aux_word [of _ "[]", simplified] word_ok_def)

lemma Join_word_ok: "options_ok os \<Longrightarrow> word_ok (Join os '','')"
proof (induction os rule: induct_list012)
  case (3 x y ws)
  then show ?case by (auto simp: options_ok_def word_ok_def is_space_def)
qed (simp_all add: options_ok_def)

lemma row_words: "entry_ok e \<Longrightarrow> list_all word_ok (row_fields e)"
  by (auto simp: row_fields_def entry_ok_def escaped_word_ok Join_word_ok list_all_iff)
    (simp add: word_ok_def is_space_def)

lemma separator_row:
  assumes "entry_ok e"
  shows "separator_of (row_fields e) = int (6 + length (me_tags e))"
proof -
  let ?p = "[fst (me_ids e), snd (me_ids e), me_majorMinor e, escaped (me_root e), escaped (me_target e),
     Join (me_options e) '',''] @ me_tags e"
  have "\<forall>x \<in> set ?p. x \<noteq> ''-''" using assms by (auto simp: entry_ok_def list_all_iff)
  then have "takeWhile (\<lambda>f. f \<noteq> ''-'') (?p @ ''-'' # r) = ?p" for r
    by (subst takeWhile_append2) auto
  then show ?thesis by (simp add: separator_of_def row_fields_def)
qed

lemma Split_options: "options_ok os \<Longrightarrow> Split (Join os '','') CHR '','' = os"
  by (rule Split_Join) (auto simp: options_ok_def list_all_iff)

lemma parse_row_entry:
  assumes "entry_ok e"
  shows "parse_mount_row line (row_fields e) = Inr (record_of e)"
proof -
  have n: "row_fields e ! (6 + length (me_tags e) + k) =
      [''-'', me_filesystem e, escaped (me_source e), Join (me_super e) '',''] ! k" for k
    by (simp add: row_fields_def nth_append)
  have len: "length (row_fields e) = 10 + length (me_tags e)" by (simp add: row_fields_def)
  have "row_fields e ! 2 = me_majorMinor e" "row_fields e ! 3 = escaped (me_root e)"
    "row_fields e ! 4 = escaped (me_target e)" "row_fields e ! 5 = Join (me_options e) '',''"
    by (simp_all add: row_fields_def)
  moreover have "nat (separator_of (row_fields e)) = 6 + length (me_tags e)"
    using separator_row [OF assms] by simp
  moreover have "options_ok (me_options e)" "options_ok (me_super e)"
    using assms by (simp_all add: entry_ok_def)
  ultimately show ?thesis
    unfolding parse_mount_row_def Let_def
    using separator_row [OF assms] len n [of 1] n [of 2] n [of 3]
    by (simp add: record_of_def Split_options)
qed

lemma parse_rows_entries:
  assumes "list_all entry_ok es"
  shows "parse_mount_rows (map (\<lambda>e. Join (row_fields e) '' '') es) = Inr (map record_of es)"
  using assms
proof (induction es)
  case (Cons e es)
  then have "Fields (Join (row_fields e) '' '') = row_fields e" by (simp add: Fields_Join row_words)
  moreover have "row_fields e \<noteq> []" by (simp add: row_fields_def)
  ultimately show ?case using Cons by (simp add: parse_row_entry)
qed simp

text \<open>A printed row starts and ends with a character that is not white space, and holds no newline.\<close>

lemma Join_ends:
  assumes "list_all word_ok ws" and "ws \<noteq> []"
  shows "Join ws '' '' \<noteq> [] \<and> \<not> is_space (hd (Join ws '' '')) \<and> \<not> is_space (last (Join ws '' '')) \<and>
    newline \<notin> set (Join ws '' '')"
  using assms
proof (induction ws rule: induct_list012)
  case (2 x)
  then show ?case
    by (cases x rule: rev_cases) (auto simp: word_ok_def list_all_iff newline_def is_space_def hd_append neq_Nil_conv)
next
  case (3 x y ws)
  have "newline \<notin> set x" "x \<noteq> []" "\<not> is_space (hd x)"
    using 3(3) by (auto simp: word_ok_def list_all_iff newline_def is_space_def neq_Nil_conv)
  moreover have "newline \<noteq> CHR '' ''" by code_simp
  ultimately show ?case using 3 by (auto simp: hd_append)
qed simp

lemma TrimSpace_line:
  assumes "s \<noteq> []" and "\<not> is_space (hd s)" and "\<not> is_space (last s)"
  shows "TrimSpace (s @ [newline]) = s"
proof -
  have sp: "is_space newline" by (simp add: newline_def is_space_def)
  have "dropWhile is_space (s @ [newline]) = s @ [newline]"
    using assms(1,2) by (cases s) simp_all
  moreover have "dropWhile is_space (newline # rev s) = rev s"
    using assms(1,3) sp by (cases s rule: rev_cases) simp_all
  ultimately show ?thesis by (simp add: TrimSpace_def)
qed

lemma print_rows:
  assumes "es \<noteq> []"
  shows "concat (map (\<lambda>e. Join (row_fields e) '' '' @ [newline]) es) = Join (map (\<lambda>e. Join (row_fields e) '' '') es) [newline] @ [newline]"
  using assms by (induction es rule: induct_list012) simp_all

lemma Join_lines_ends:
  assumes "list_all (\<lambda>l. l \<noteq> [] \<and> \<not> is_space (hd l) \<and> \<not> is_space (last l)) ls" and "ls \<noteq> []"
  shows "Join ls [newline] \<noteq> [] \<and> \<not> is_space (hd (Join ls [newline])) \<and> \<not> is_space (last (Join ls [newline]))"
  using assms by (induction ls rule: induct_list012) auto

section \<open>What the checks rest on\<close>

text \<open>The mount that a reading of the table shows at a path: the last one, which covers the
  others.\<close>

definition shown_mount :: "string \<Rightarrow> error + string \<Rightarrow> mountRecord option" where
  "shown_mount target q =
     (case q of
        Inl _ \<Rightarrow> None
      | Inr contents \<Rightarrow>
          (case parseMountInfo contents of
             Inl _ \<Rightarrow> None
           | Inr records \<Rightarrow> List.find (\<lambda>rec. mr_target rec = Clean target) (rev records)))"

definition mountinfo_read :: "error + string \<Rightarrow> host_event" where
  "mountinfo_read q = ReadFileEv ''/proc/self/mountinfo'' q"

definition table_readable :: "error + string \<Rightarrow> bool" where
  "table_readable q \<longleftrightarrow> (case q of Inl _ \<Rightarrow> False | Inr s \<Rightarrow> (case parseMountInfo s of Inl _ \<Rightarrow> False | Inr _ \<Rightarrow> True))"

definition unmounted_seen :: "string \<Rightarrow> host_event list \<Rightarrow> bool" where
  "unmounted_seen target t \<longleftrightarrow>
     (\<exists>u q. t = u @ [mountinfo_read q] \<and> table_readable q \<and> shown_mount target q = None)"

text \<open>The last two readings show the staging mount that was asked for: the device of the source,
  the file system, writable.\<close>

definition staged_seen :: "string \<Rightarrow> string \<Rightarrow> string \<Rightarrow> host_event list \<Rightarrow> bool" where
  "staged_seen source target filesystem t \<longleftrightarrow>
     (\<exists>u q rec. t = u @ [mountinfo_read q, DeviceNumberEv source (Inr (mr_majorMinor rec))] \<and>
        shown_mount target q = Some rec \<and>
        normalizeFilesystem (mr_filesystem rec) = filesystem \<and> \<not> optionEnabled rec ''ro'')"

text \<open>The last readings show a mount of the same file as the source, read-only as asked.\<close>

definition published_seen :: "string \<Rightarrow> string \<Rightarrow> bool \<Rightarrow> host_event list \<Rightarrow> bool" where
  "published_seen source target readOnly t \<longleftrightarrow>
     (\<exists>u q rec i. t = u @ [mountinfo_read q, StatEv source (Inr i), StatEv target (Inr i)] \<and>
        shown_mount target q = Some rec \<and> (readOnly \<longleftrightarrow> optionEnabled rec ''ro''))"

lemma mountinfo_read_eq [simp]: "mountinfo_read q = mountinfo_read q' \<longleftrightarrow> q = q'"
  by (simp add: mountinfo_read_def)

lemma mountAt_post:
  "post (mountAt (recording_host H) target (w, t))
     (\<lambda>r t'. \<exists>q. t' = t @ [mountinfo_read q] \<and>
        (case r of Inl _ \<Rightarrow> \<not> table_readable q | Inr found \<Rightarrow> table_readable q \<and> shown_mount target q = found))"
  unfolding mountAt_def mountinfo_read_def
  by (intro vcg) (auto simp: shown_mount_def table_readable_def)

lemma mountinfo_is_read [simp]: "is_read (mountinfo_read q)"
  by (simp add: mountinfo_read_def)

lemma verifyStagingMount_post:
  "post (verifyStagingMount (recording_host H) source target fs (w, t))
     (\<lambda>r t'. reads_after t t' \<and> (r = (True, None) \<longrightarrow> staged_seen source target fs t') \<and>
        (r = (False, None) \<longrightarrow> unmounted_seen target t'))"
  unfolding verifyStagingMount_def
  by (intro vcg post_bindI [OF mountAt_post]) (auto simp: staged_seen_def unmounted_seen_def reads_after_def)

lemma verifyPublishedMount_post:
  "post (verifyPublishedMount (recording_host H) source target ro (w, t))
     (\<lambda>r t'. reads_after t t' \<and> (r = (True, None) \<longrightarrow> published_seen source target ro t') \<and>
        (r = (False, None) \<longrightarrow> unmounted_seen target t'))"
  unfolding verifyPublishedMount_def
  by (intro vcg post_bindI [OF mountAt_post]) (auto simp: published_seen_def unmounted_seen_def reads_after_def)

lemma csi_isMountPoint_post:
  "post (csi_isMountPoint (recording_host H) target (w, t))
     (\<lambda>r t'. reads_after t t' \<and> (r = (False, None) \<longrightarrow> unmounted_seen target t'))"
  unfolding csi_isMountPoint_def
  by (intro vcg post_bindI [OF mountAt_post]) (auto simp: unmounted_seen_def reads_after_def)

section \<open>Properties\<close>

text \<open>C22: the parser of the mount table reads every text in the documented format: of every row, in order, the
  device, root, mount point and source, with their escaped blanks, tabs, newlines and backslashes, the file system
  and the options. It is about entries whose paths hold no other white space and whose source holds no \<open>#\<close>.\<close>

theorem parseMountInfo_reads:
  assumes "mount_table es s"
  shows "parseMountInfo s = Inr (map record_of es)"
proof (cases "es = []")
  case True
  with assms show ?thesis by (simp add: parseMountInfo_def mount_table_def TrimSpace_def Fields_def)
next
  case False
  let ?ls = "map (\<lambda>e. Join (row_fields e) '' '') es"
  have ok: "list_all entry_ok es" and s: "s = concat (map (\<lambda>e. Join (row_fields e) '' '' @ [newline]) es)"
    using assms by (simp_all add: mount_table_def)
  have rows: "Join (row_fields e) '' '' \<noteq> [] \<and> \<not> is_space (hd (Join (row_fields e) '' '')) \<and>
      \<not> is_space (last (Join (row_fields e) '' '')) \<and> newline \<notin> set (Join (row_fields e) '' '')"
    if "e \<in> set es" for e
    using Join_ends [OF row_words [of e]] that ok by (auto simp: list_all_iff row_fields_def)
  have "Split (TrimSpace s) newline = ?ls"
  proof -
    have "list_all (\<lambda>l. l \<noteq> [] \<and> \<not> is_space (hd l) \<and> \<not> is_space (last l)) ?ls"
      using rows by (auto simp: list_all_iff)
    then have "TrimSpace (Join ?ls [newline] @ [newline]) = Join ?ls [newline]"
      using Join_lines_ends [of ?ls] False TrimSpace_line by simp
    moreover have "Split (Join ?ls [newline]) newline = ?ls"
      using rows False by (intro Split_Join) auto
    ultimately show ?thesis using print_rows [OF False] s by simp
  qed
  then show ?thesis by (simp add: parseMountInfo_def parse_rows_entries [OF ok])
qed

definition sample_entry :: mount_entry where
  "sample_entry = \<lparr>me_ids = (''36'', ''35''), me_majorMinor = ''259:1'', me_root = ''/'',
     me_target = ''/var/lib/my volume'', me_options = [''rw'', ''noatime''], me_tags = [''shared:2''],
     me_filesystem = ''ext4'', me_source = ''/dev/nvme1n1'', me_super = [''rw'']\<rparr>"

definition sample_table :: string where
  "sample_table = Join [''36'', ''35'', ''259:1'', ''/'', ''/var/lib/my'' @ [char_of (92 :: nat)] @ ''040volume'', ''rw,noatime'',
     ''shared:2'', ''-'', ''ext4'', ''/dev/nvme1n1'', ''rw''] '' '' @ [newline]"

lemma sample_table_ok: "mount_table [sample_entry] sample_table"
  by code_simp

theorem parseMountInfo_reads_witness:
  "mount_table [sample_entry] sample_table \<and> parseMountInfo sample_table = Inr [record_of sample_entry]"
  using sample_table_ok parseMountInfo_reads [OF sample_table_ok] by simp

end
