(* ===== verification/Csi_Controller.thy ===== *)
theory Csi_Controller
  imports Csi_Volumes Volume_Identity Trace_Logic Sample_Objects
begin

text \<open>
  The CSI controller service: \<^verbatim>\<open>controller_server.go\<close> (creating, validating and deleting
  volumes) and \<^verbatim>\<open>controller_attachment.go\<close> (attaching a volume to a node and detaching it).

  A handler waits for the cluster with a ticker and a timer. What the Go runtime decides
  there is a parameter: \<open>cs_timers poll timeout\<close> says how many ticks a wait sees before
  it ends and how it ends, by the timer or by the cancellation of the request; both fire
  eventually, so a wait is a recursion over its ticks. The loop of
  \<^verbatim>\<open>ControllerPublishVolume\<close> has no bound in the code: it takes fuel here, and \<open>None\<close> is a
  run that is still going; the properties hold for every amount of fuel.
\<close>

section \<open>The server\<close>

record 'w controller_server =
  cs_k8sClient :: "'w kube"
  cs_partitionReadyPollInterval :: int
  cs_partitionReadyTimeout :: int
  cs_attachmentPollInterval :: int
  cs_attachmentReadyTimeout :: int
  cs_partitionDeletePollInterval :: int
  cs_partitionDeleteTimeout :: int
  cs_timers :: "int \<Rightarrow> int \<Rightarrow> 'w \<Rightarrow> (nat \<times> wake) \<times> 'w"
  cs_NewUUID :: "'w \<Rightarrow> string \<times> 'w"

text \<open>\<^verbatim>\<open>status.FromContextError(ctx.Err()).Err()\<close> and \<^verbatim>\<open>status.Code\<close>.\<close>

definition FromContextError :: "code \<Rightarrow> error" where
  "FromContextError c = Status c ''%v'' [E (ContextError c)]"

definition status_Code_NotFound :: "error \<Rightarrow> bool" where
  "status_Code_NotFound e \<longleftrightarrow> (case e of Status c _ _ \<Rightarrow> c = NotFound_code | _ \<Rightarrow> False)"

definition errPartitionDeletionTimeout :: error where
  "errPartitionDeletionTimeout = Errorf ''timed out waiting for NVMePartition deletion'' []"

section \<open>Waiting for a partition\<close>

fun ready_loop :: "'w kube \<Rightarrow> nname \<Rightarrow> nat \<Rightarrow> wake \<Rightarrow> 'w \<Rightarrow> error option \<times> 'w" where
  "ready_loop K key 0 fin w =
     (case fin of
        WakeTimeout \<Rightarrow> (Some (Errorf ''timeout waiting for NVMePartition %s'' [S (snd key)]), w)
      | WakeDone c \<Rightarrow> (Some (ContextError c), w))"
| "ready_loop K key (Suc n) fin w =
     (case Get (partitions K) key w of (r, w) \<Rightarrow>
      (case r of
         Inl e \<Rightarrow> ready_loop K key n fin w
       | Inr p \<Rightarrow>
           if pst_State (p_status p) = PartitionExported then (None, w)
           else if pst_State (p_status p) = PartitionFailed
           then (Some (Errorf ''partition creation failed'' []), w)
           else ready_loop K key n fin w))"

definition waitForPartitionReady :: "'w controller_server \<Rightarrow> nname \<Rightarrow> 'w \<Rightarrow> error option \<times> 'w" where
  "waitForPartitionReady cs key w =
     (let pollInterval = (if cs_partitionReadyPollInterval cs \<le> 0 then 5 * second_ns
                          else cs_partitionReadyPollInterval cs);
          readyTimeout = (if cs_partitionReadyTimeout cs \<le> 0 then 120 * second_ns
                          else cs_partitionReadyTimeout cs) in
      case cs_timers cs pollInterval readyTimeout w of (ticks, w) \<Rightarrow>
        ready_loop (cs_k8sClient cs) key (fst ticks) (snd ticks) w)"

text \<open>What a look at the partition says about its deletion; \<open>None\<close> goes on waiting.\<close>

definition deletion_seen :: "string \<Rightarrow> error + NVMePartition \<Rightarrow> error option option" where
  "deletion_seen uid r =
     (case r of
        Inl e \<Rightarrow> if IsNotFound e then Some None else Some (Some e)
      | Inr current \<Rightarrow> if p_UID current \<noteq> uid then Some None else None)"

definition deletion_woken :: "nname \<Rightarrow> string \<Rightarrow> wake \<Rightarrow> error" where
  "deletion_woken key uid fin =
     (case fin of
        WakeDone c \<Rightarrow> ContextError c
      | WakeTimeout \<Rightarrow> Wrapf ''%w %s/%s UID %s'' [S (fst key), S (snd key), S uid] errPartitionDeletionTimeout)"

fun deleted_loop :: "'w kube \<Rightarrow> nname \<Rightarrow> string \<Rightarrow> nat \<Rightarrow> wake \<Rightarrow> 'w \<Rightarrow> error option \<times> 'w" where
  "deleted_loop K key uid 0 fin w =
     (case Get (partitions K) key w of (r, w) \<Rightarrow>
      (case deletion_seen uid r of
         Some res \<Rightarrow> (res, w)
       | None \<Rightarrow> (Some (deletion_woken key uid fin), w)))"
| "deleted_loop K key uid (Suc n) fin w =
     (case Get (partitions K) key w of (r, w) \<Rightarrow>
      (case deletion_seen uid r of
         Some res \<Rightarrow> (res, w)
       | None \<Rightarrow> deleted_loop K key uid n fin w))"

definition waitForPartitionDeleted ::
  "'w controller_server \<Rightarrow> nname \<Rightarrow> string \<Rightarrow> 'w \<Rightarrow> error option \<times> 'w" where
  "waitForPartitionDeleted cs key uid w =
     (let pollInterval = (if cs_partitionDeletePollInterval cs \<le> 0 then 500000000
                          else cs_partitionDeletePollInterval cs);
          deleteTimeout = (if cs_partitionDeleteTimeout cs \<le> 0 then 120 * second_ns
                           else cs_partitionDeleteTimeout cs) in
      case cs_timers cs pollInterval deleteTimeout w of (ticks, w) \<Rightarrow>
        deleted_loop (cs_k8sClient cs) key uid (fst ticks) (snd ticks) w)"

section \<open>CreateVolume\<close>

record CreateVolumeRequest =
  cv_Name :: string
  cv_CapacityRange :: "CapacityRange option"
  cv_VolumeCapabilities :: "VolumeCapability option list"
  cv_Parameters :: strmap

record Volume =
  v_VolumeId :: string
  v_CapacityBytes :: int
  v_VolumeContext :: strmap

definition request_namespace :: "strmap \<Rightarrow> string" where
  "request_namespace parameters =
     (let ns = map_index parameters ''csi.storage.k8s.io/pvc/namespace'' in
      if ns = [] then ''default'' else ns)"

definition range_limit :: "CapacityRange option \<Rightarrow> int" where
  "range_limit r = (case r of None \<Rightarrow> 0 | Some r \<Rightarrow> cr_LimitBytes r)"

definition canonical_request ::
  "CreateVolumeRequest \<Rightarrow> canonicalVolumeCapability \<Rightarrow> int \<Rightarrow> string \<times> string \<times> strmap \<Rightarrow>
   canonicalCreateVolumeRequest" where
  "canonical_request req capability requiredBytes config =
     (case config of (targetBackend, volumeManager, targetOptions) \<Rightarrow>
      \<lparr>rq_RequiredBytes = requiredBytes,
       rq_LimitBytes = (case cv_CapacityRange req of
                          None \<Rightarrow> defaultVolumeCapacityBytes | Some r \<Rightarrow> cr_LimitBytes r),
       rq_TargetBackend = targetBackend, rq_VolumeManager = volumeManager,
       rq_TargetOptions = targetOptions, rq_Capability = capability\<rparr>)"

text \<open>The partition object of a request, from its canonical form and fingerprint.\<close>

definition new_partition :: "nname \<Rightarrow> canonicalCreateVolumeRequest \<Rightarrow> string \<Rightarrow> NVMePartition" where
  "new_partition key cr requestFingerprint =
     \<lparr>p_meta = new_meta (fst key) (snd key),
      p_spec = \<lparr>ps_Size = rq_RequiredBytes cr, ps_NodeName = [], ps_ParentDeviceSerialNumber = [],
        ps_ClaimRef = None, ps_AccessMode = cc_AccessMode (rq_Capability cr),
        ps_Filesystem = cc_Filesystem (rq_Capability cr), ps_RequestFingerprint = requestFingerprint,
        ps_TargetBackend = rq_TargetBackend cr, ps_VolumeManager = rq_VolumeManager cr,
        ps_TargetOptions = rq_TargetOptions cr\<rparr>,
      p_status = zero_partition_status\<rparr>"

text \<open>Create the object, or find that it exists with the same fingerprint.\<close>

definition create_partition :: "'w kube \<Rightarrow> NVMePartition \<Rightarrow> 'w \<Rightarrow> error option \<times> 'w" where
  "create_partition K part w =
     (case Create (partitions K) part w of (r, w) \<Rightarrow>
      (case r of
         Inr _ \<Rightarrow> (None, w)
       | Inl err \<Rightarrow>
           if \<not> IsAlreadyExists err
           then (Some (Status Internal ''failed to create partition: %v'' [E err]), w)
           else (case Get (partitions K) (p_Namespace part, p_Name part) w of (r, w) \<Rightarrow>
                (case r of
                   Inl err \<Rightarrow> (Some (Status Internal ''failed to get existing partition: %v'' [E err]), w)
                 | Inr existing \<Rightarrow>
                     if ps_RequestFingerprint (p_spec existing) \<noteq> ps_RequestFingerprint (p_spec part)
                     then (Some (Status AlreadyExists_code
                             ''partition %s/%s already exists with different immutable CreateVolume properties; delete the existing partition or PVC first''
                             [S (p_Namespace part), S (p_Name part)]), w)
                     else (None, w)))))"

definition volume_id :: "NVMePartition \<Rightarrow> error + string" where
  "volume_id p =
     (if pst_VolumeID (p_status p) = [] then
        (case volumeidentity_New (p_Namespace p) (p_Name p) (p_UID p) of
           Inl identityErr \<Rightarrow> Inl (Status Internal ''failed to derive partition identity: %v'' [E identityErr])
         | Inr identity \<Rightarrow> Inr (id_VolumeHandle identity))
      else Inr (pst_VolumeID (p_status p)))"

text \<open>The answer, from the exported partition.\<close>

definition created_volume :: "NVMePartition \<Rightarrow> int \<Rightarrow> int \<Rightarrow> int \<Rightarrow> error + Volume" where
  "created_volume p requiredBytes expectedAllocation limitBytes =
     (case volume_id p of
        Inl e \<Rightarrow> Inl e
      | Inr volumeID \<Rightarrow>
          let allocatedBytes = (if pst_AllocatedCapacity (p_status p) = 0 then expectedAllocation
                                else pst_AllocatedCapacity (p_status p)) in
          if allocatedBytes < requiredBytes
          then Inl (Status Internal ''backend allocated %d bytes, below required_bytes %d''
                      [D allocatedBytes, D requiredBytes])
          else if limitBytes > 0 \<and> allocatedBytes > limitBytes
          then Inl (Status Internal ''backend allocated %d bytes, exceeding limit_bytes %d''
                      [D allocatedBytes, D limitBytes])
          else Inr \<lparr>v_VolumeId = volumeID, v_CapacityBytes = allocatedBytes,
                    v_VolumeContext = volumeContextForPartition p\<rparr>)"

text \<open>The part of the handler that talks to the cluster.\<close>

definition provision ::
  "'w controller_server \<Rightarrow> NVMePartition \<Rightarrow> int \<Rightarrow> int \<Rightarrow> int \<Rightarrow> 'w \<Rightarrow> (error + Volume) \<times> 'w" where
  "provision cs part requiredBytes expectedAllocation limitBytes w =
     (case create_partition (cs_k8sClient cs) part w of (r, w) \<Rightarrow>
      (case r of
         Some e \<Rightarrow> (Inl e, w)
       | None \<Rightarrow>
     (case waitForPartitionReady cs (p_Namespace part, p_Name part) w of (r, w) \<Rightarrow>
      (case r of
         Some err \<Rightarrow> (Inl (Status DeadlineExceeded ''partition failed to become ready: %v'' [E err]), w)
       | None \<Rightarrow>
     (case Get (partitions (cs_k8sClient cs)) (p_Namespace part, p_Name part) w of (r, w) \<Rightarrow>
      (case r of
         Inl err \<Rightarrow> (Inl (Status Internal ''failed to get final partition status: %v'' [E err]), w)
       | Inr p \<Rightarrow> (created_volume p requiredBytes expectedAllocation limitBytes, w)))))))"

definition CreateVolume ::
  "'w controller_server \<Rightarrow> CreateVolumeRequest \<Rightarrow> 'w \<Rightarrow> (error + Volume) \<times> 'w" where
  "CreateVolume cs req w =
     (if cv_Name req = [] then (Inl (Status InvalidArgument ''Name cannot be empty'' []), w)
      else case validateVolumeCapabilities (cv_Parameters req) (cv_VolumeCapabilities req) of
        Inl err \<Rightarrow> (Inl (Status InvalidArgument ''Invalid volume capabilities: %v'' [E err]), w)
      | Inr capability \<Rightarrow>
     (case normalizeCapacityRange (cv_CapacityRange req) of
        Inl err \<Rightarrow> (Inl (Status InvalidArgument ''Invalid capacity range: %v'' [E err]), w)
      | Inr sizes \<Rightarrow>
     (case storageConfiguration (cv_Parameters req) of
        Inl err \<Rightarrow> (Inl (Status InvalidArgument ''Invalid storage configuration: %v'' [E err]), w)
      | Inr config \<Rightarrow>
     (case fingerprintCreateVolumeRequest (canonical_request req capability (fst sizes) config) of
        Inl err \<Rightarrow> (Inl (Status Internal ''Failed to fingerprint CreateVolume request: %v'' [E err]), w)
      | Inr requestFingerprint \<Rightarrow>
          provision cs
            (new_partition (request_namespace (cv_Parameters req), cv_Name req)
               (canonical_request req capability (fst sizes) config) requestFingerprint)
            (fst sizes) (snd sizes) (range_limit (cv_CapacityRange req)) w))))"

section \<open>ValidateVolumeCapabilities\<close>

record ValidateVolumeCapabilitiesRequest =
  vv_VolumeId :: string
  vv_VolumeContext :: strmap
  vv_VolumeCapabilities :: "VolumeCapability option list"
  vv_Parameters :: strmap

datatype ValidateVolumeCapabilitiesResponse =
  Unconfirmed error
| Confirmed strmap "VolumeCapability option list" strmap

definition names_filesystem :: "VolumeCapability option \<Rightarrow> bool" where
  "names_filesystem capability \<longleftrightarrow>
     (case Option.bind capability vc_Mount of None \<Rightarrow> False | Some m \<Rightarrow> TrimSpace (mv_FsType m) \<noteq> [])"

text \<open>The parameters the capabilities are checked against: those of the request, with the
  file system of the volume context or of the volume where nothing else names one.\<close>

definition validation_parameters :: "strmap \<Rightarrow> ValidateVolumeCapabilitiesRequest \<Rightarrow> strmap" where
  "validation_parameters expectedContext req =
     (let ps = vv_Parameters req in
      if map_of ps filesystemParameter \<noteq> None \<or> map_of ps csiFilesystemParameter \<noteq> None then ps
      else if map_index (vv_VolumeContext req) filesystemParameter \<noteq> []
      then map_set ps filesystemParameter (map_index (vv_VolumeContext req) filesystemParameter)
      else if list_ex names_filesystem (vv_VolumeCapabilities req) then ps
      else map_set ps filesystemParameter (map_index expectedContext filesystemParameter))"

text \<open>The comparison of the creation parameters with the volume.\<close>

definition validate_creation_parameters :: "NVMePartition \<Rightarrow> strmap \<Rightarrow> error option" where
  "validate_creation_parameters p parameters =
     (case storageConfiguration parameters of
        Inl err \<Rightarrow> Some err
      | Inr (targetBackend, volumeManager, targetOptions) \<Rightarrow>
          let expectedBackend = (if ps_TargetBackend (p_spec p) = [] then spdkTargetBackend
                                 else ps_TargetBackend (p_spec p));
              expectedManager = (if ps_VolumeManager (p_spec p) = [] then partitionVolumeManager
                                 else ps_VolumeManager (p_spec p)) in
          if targetBackend \<noteq> expectedBackend \<or> volumeManager \<noteq> expectedManager \<or>
             \<not> maps_Equal targetOptions (ps_TargetOptions (p_spec p))
          then Some (Errorf ''volume creation parameters do not match the persisted storage configuration'' [])
          else case map_of parameters ''csi.storage.k8s.io/pvc/namespace'' of
                 None \<Rightarrow> None
               | Some namespace \<Rightarrow>
                   if (if namespace = [] then ''default'' else namespace) \<noteq> p_Namespace p
                   then Some (Errorf ''volume namespace parameter does not match the persisted volume'' [])
                   else None)"

definition validatePersistedVolumeRequest ::
  "NVMePartition \<Rightarrow> ValidateVolumeCapabilitiesRequest \<Rightarrow> error option" where
  "validatePersistedVolumeRequest p req =
     (let expectedContext = volumeContextForPartition p in
      if vv_VolumeContext req \<noteq> [] \<and> \<not> maps_Equal (vv_VolumeContext req) expectedContext
      then Some (Errorf ''volume context does not match the persisted volume'' [])
      else case validateVolumeCapabilities (validation_parameters expectedContext req)
                  (vv_VolumeCapabilities req) of
        Inl err \<Rightarrow> Some err
      | Inr capability \<Rightarrow>
          let expectedAccessMode = (if ps_AccessMode (p_spec p) = [] then mode_String supportedAccessMode
                                    else ps_AccessMode (p_spec p)) in
          if cc_AccessMode capability \<noteq> expectedAccessMode \<or>
             cc_Filesystem capability \<noteq> map_index expectedContext filesystemParameter
          then Some (Errorf ''requested capability does not match the persisted access mode and filesystem'' [])
          else if vv_Parameters req = [] then None
          else validate_creation_parameters p (vv_Parameters req))"

definition partitionForVolumeHandle ::
  "'w kube \<Rightarrow> string \<Rightarrow> 'w \<Rightarrow> (error + NVMePartition) \<times> 'w" where
  "partitionForVolumeHandle K volumeID w =
     (case ParseVolumeHandle volumeID of
        Inl err \<Rightarrow> (Inl (Status NotFound_code
                      ''Volume handle is invalid or legacy and cannot be attached: %v'' [E err]), w)
      | Inr reference \<Rightarrow>
     (case Get (partitions K) (r_Namespace reference, r_Name reference) w of (r, w) \<Rightarrow>
      (case r of
         Inl err \<Rightarrow>
           (if IsNotFound err then (Inl (Status NotFound_code ''Volume does not exist'' []), w)
            else (Inl (Status Internal ''Failed to get volume: %v'' [E err]), w))
       | Inr p \<Rightarrow>
           if p_UID p \<noteq> r_UID reference
           then (Inl (Status NotFound_code ''Volume no longer exists'' []), w)
           else (Inr p, w))))"

definition ValidateVolumeCapabilities ::
  "'w controller_server \<Rightarrow> ValidateVolumeCapabilitiesRequest \<Rightarrow> 'w \<Rightarrow>
   (error + ValidateVolumeCapabilitiesResponse) \<times> 'w" where
  "ValidateVolumeCapabilities cs req w =
     (if vv_VolumeId req = [] then (Inl (Status InvalidArgument ''Volume ID must be provided'' []), w)
      else case partitionForVolumeHandle (cs_k8sClient cs) (vv_VolumeId req) w of (r, w) \<Rightarrow>
     (case r of
        Inl err \<Rightarrow> (Inl err, w)
      | Inr p \<Rightarrow>
     (case validatePersistedVolumeRequest p req of
        Some err \<Rightarrow> (Inr (Unconfirmed err), w)
      | None \<Rightarrow> (Inr (Confirmed (vv_VolumeContext req) (vv_VolumeCapabilities req) (vv_Parameters req)), w))))"

section \<open>DeleteVolume\<close>

definition deletion_error :: "error \<Rightarrow> error" where
  "deletion_error err =
     (if errors_Is err (ContextError Canceled) then FromContextError Canceled
      else if errors_Is err (ContextError DeadlineExceeded) then FromContextError DeadlineExceeded
      else if errors_Is err errPartitionDeletionTimeout then Status DeadlineExceeded ''%v'' [E err]
      else Status Internal ''failed to verify partition deletion: %v'' [E err])"

definition deletePartitionAndWait :: "'w controller_server \<Rightarrow> NVMePartition \<Rightarrow> 'w \<Rightarrow> error option \<times> 'w" where
  "deletePartitionAndWait cs p w =
     (let K = cs_k8sClient cs in
      case Get (attachments K) (p_Namespace p, attachment_Name (p_UID p)) w of (r, w) \<Rightarrow>
     (case r of
        Inr a \<Rightarrow> (Some (Status FailedPrecondition ''volume is still attached to node %q''
                         [S (as_NodeID (a_spec a))]), w)
      | Inl err \<Rightarrow>
          if \<not> IsNotFound err
          then (Some (Status Internal ''failed to check volume attachment: %v'' [E err]), w)
          else case Delete (partitions K) p w of (r, w) \<Rightarrow>
            if (case r of Inl err \<Rightarrow> IgnoreNotFound err \<noteq> None | Inr _ \<Rightarrow> False)
            then (Some (Status Internal ''failed to delete partition: %v''
                          (case r of Inl err \<Rightarrow> [E err] | Inr _ \<Rightarrow> [])), w)
            else case waitForPartitionDeleted cs (object_key (p_meta p)) (p_UID p) w of (r, w) \<Rightarrow>
              (case r of Some err \<Rightarrow> (Some (deletion_error err), w) | None \<Rightarrow> (None, w))))"

text \<open>Whether a partition is the volume of a handle from before volume handles named UIDs.\<close>

definition legacy_match :: "string \<Rightarrow> NVMePartition \<Rightarrow> bool" where
  "legacy_match volumeID p \<longleftrightarrow>
     p_Name p = volumeID \<and>
     (let externalID = (if pst_ExternalID (p_status p) = []
                        then (case ExternalIDFromNQN (pst_NQN (p_status p)) of (x, _) \<Rightarrow> x)
                        else pst_ExternalID (p_status p)) in
      externalID = [] \<or> externalID = volumeID)"

definition deleteLegacyVolume :: "'w controller_server \<Rightarrow> string \<Rightarrow> 'w \<Rightarrow> error option \<times> 'w" where
  "deleteLegacyVolume cs volumeID w =
     (case ListAll (partitions (cs_k8sClient cs)) w of (r, w) \<Rightarrow>
      (case r of
         Inl err \<Rightarrow> (Some (Status Internal ''failed to resolve legacy volume ID: %v'' [E err]), w)
       | Inr ps \<Rightarrow>
           (case filter (legacy_match volumeID) ps of
              [] \<Rightarrow> (None, w)
            | p # others \<Rightarrow>
                if others \<noteq> []
                then (Some (Status FailedPrecondition
                        ''legacy volume ID %q matches multiple partitions; refusing ambiguous deletion''
                        [S volumeID]), w)
                else deletePartitionAndWait cs p w)))"

definition DeleteVolume :: "'w controller_server \<Rightarrow> string \<Rightarrow> 'w \<Rightarrow> error option \<times> 'w" where
  "DeleteVolume cs volID w =
     (if volID = [] then (Some (Status InvalidArgument ''Volume ID missing in request'' []), w)
      else case ParseVolumeHandle volID of
        Inl err \<Rightarrow> deleteLegacyVolume cs volID w
      | Inr reference \<Rightarrow>
     (case Get (partitions (cs_k8sClient cs)) (r_Namespace reference, r_Name reference) w of (r, w) \<Rightarrow>
      (case r of
         Inl err \<Rightarrow>
           (if IsNotFound err then (None, w)
            else (Some (Status Internal ''failed to get partition: %v'' [E err]), w))
       | Inr p \<Rightarrow>
           if p_UID p \<noteq> r_UID reference then (None, w)
           else deletePartitionAndWait cs p w)))"

section \<open>Attachments\<close>

definition publishContextNodeID :: string where
  "publishContextNodeID = ''attachedNodeID''"

definition publishContextHostNQN :: string where
  "publishContextHostNQN = ''hostNQN''"

definition publishContextAttachmentID :: string where
  "publishContextAttachmentID = ''attachmentID''"

definition attachmentTiming :: "'w controller_server \<Rightarrow> int \<times> int" where
  "attachmentTiming cs =
     ((if cs_attachmentPollInterval cs \<le> 0 then 250000000 else cs_attachmentPollInterval cs),
      (if cs_attachmentReadyTimeout cs \<le> 0 then 120 * second_ns else cs_attachmentReadyTimeout cs))"

text \<open>\<open>done\<close> looks at the attachment, nil when it does not exist: whether the wait is over, and
  the error it ends with.\<close>

type_synonym attachment_test = "NVMeVolumeAttachment option \<Rightarrow> bool \<times> error option"

definition poll_seen :: "attachment_test \<Rightarrow> error + NVMeVolumeAttachment \<Rightarrow> error option option" where
  "poll_seen fin r =
     (case r of
        Inl err \<Rightarrow>
          if IsNotFound err
          then (case fin None of (complete, err) \<Rightarrow> if err \<noteq> None \<or> complete then Some err else None)
          else Some (Some (Status Internal ''Failed to observe volume attachment: %v'' [E err]))
      | Inr current \<Rightarrow>
          (case fin (Some current) of (complete, err) \<Rightarrow>
             if err \<noteq> None \<or> complete then Some err else None))"

definition poll_woken :: "string \<Rightarrow> wake \<Rightarrow> error" where
  "poll_woken timeoutMessage fin =
     (case fin of
        WakeDone c \<Rightarrow> FromContextError c
      | WakeTimeout \<Rightarrow> Status DeadlineExceeded timeoutMessage [])"

fun poll_loop ::
  "'w kube \<Rightarrow> nname \<Rightarrow> attachment_test \<Rightarrow> string \<Rightarrow> nat \<Rightarrow> wake \<Rightarrow> 'w \<Rightarrow> error option \<times> 'w" where
  "poll_loop K key test timeoutMessage 0 fin w =
     (case Get (attachments K) key w of (r, w) \<Rightarrow>
      (case poll_seen test r of
         Some res \<Rightarrow> (res, w)
       | None \<Rightarrow> (Some (poll_woken timeoutMessage fin), w)))"
| "poll_loop K key test timeoutMessage (Suc n) fin w =
     (case Get (attachments K) key w of (r, w) \<Rightarrow>
      (case poll_seen test r of
         Some res \<Rightarrow> (res, w)
       | None \<Rightarrow> poll_loop K key test timeoutMessage n fin w))"

definition pollAttachment ::
  "'w controller_server \<Rightarrow> nname \<Rightarrow> attachment_test \<Rightarrow> string \<Rightarrow> 'w \<Rightarrow> error option \<times> 'w" where
  "pollAttachment cs key test timeoutMessage w =
     (case attachmentTiming cs of (poll, timeoutDuration) \<Rightarrow>
      case cs_timers cs poll timeoutDuration w of (ticks, w) \<Rightarrow>
        poll_loop (cs_k8sClient cs) key test timeoutMessage (fst ticks) (snd ticks) w)"

definition ready_test :: "'z apimachinery_scheme \<Rightarrow> string \<Rightarrow> attachment_test" where
  "ready_test K attachmentID current =
     (case current of
        None \<Rightarrow> (False, Some (Status Aborted
                   ''Volume attachment was revoked while waiting for target authorization'' []))
      | Some a \<Rightarrow>
          if \<not> not_deleting (a_meta a)
          then (False, Some (Status Aborted
                  ''Volume attachment was revoked while waiting for target authorization'' []))
          else (ast_ObservedAttachmentID (a_status a) = attachmentID \<and>
                IsStatusConditionTrue K (ast_Conditions (a_status a)) AccessReadyCondition, None))"

definition deleted_test :: attachment_test where
  "deleted_test current = (current = None, None)"

definition waitForAttachmentReady ::
  "'w controller_server \<Rightarrow> nname \<Rightarrow> string \<Rightarrow> 'w \<Rightarrow> error option \<times> 'w" where
  "waitForAttachmentReady cs key attachmentID w =
     pollAttachment cs key (ready_test (cs_k8sClient cs) attachmentID)
       ''Timed out waiting for provider target to authorize attachment'' w"

definition waitForAttachmentDeleted :: "'w controller_server \<Rightarrow> nname \<Rightarrow> 'w \<Rightarrow> error option \<times> 'w" where
  "waitForAttachmentDeleted cs key w =
     pollAttachment cs key deleted_test ''Timed out waiting for provider target to revoke attachment'' w"

record ControllerPublishVolumeRequest =
  pb_VolumeId :: string
  pb_NodeId :: string
  pb_VolumeContext :: strmap
  pb_VolumeCapability :: "VolumeCapability option"

definition new_attachment :: "NVMePartition \<Rightarrow> string \<Rightarrow> string \<Rightarrow> NVMeVolumeAttachment" where
  "new_attachment p nodeID attachmentID =
     \<lparr>a_meta = (new_meta (p_Namespace p) (attachment_Name (p_UID p)))
        \<lparr>om_Finalizers := [attachment_Finalizer],
         om_OwnerReferences :=
           [\<lparr>or_APIVersion = ''storage.distort.io/v1alpha1'', or_Kind = ''NVMePartition'',
             or_Name = p_Name p, or_UID = p_UID p, or_Controller = True, or_BlockOwnerDeletion = True\<rparr>]\<rparr>,
      a_spec = \<lparr>as_VolumeRef = \<lparr>vr_Name = p_Name p, vr_UID = p_UID p\<rparr>, as_NodeID = nodeID,
        as_HostNQN = HostNQN nodeID, as_AttachmentID = attachmentID\<rparr>,
      a_status = zero_attachment_status\<rparr>"

text \<open>Read the attachment, or create it. \<open>Inr None\<close>: somebody else created it in between.\<close>

definition current_attachment ::
  "'w controller_server \<Rightarrow> NVMePartition \<Rightarrow> string \<Rightarrow> 'w \<Rightarrow> (error + NVMeVolumeAttachment option) \<times> 'w" where
  "current_attachment cs p nodeID w =
     (let K = cs_k8sClient cs in
      case Get (attachments K) (p_Namespace p, attachment_Name (p_UID p)) w of (r, w) \<Rightarrow>
     (case r of
        Inr existing \<Rightarrow> (Inr (Some existing), w)
      | Inl err \<Rightarrow>
          if \<not> IsNotFound err
          then (Inl (Status Internal ''Failed to get volume attachment: %v'' [E err]), w)
          else case cs_NewUUID cs w of (attachmentID, w) \<Rightarrow>
            (case Create (attachments K) (new_attachment p nodeID attachmentID) w of (r, w) \<Rightarrow>
             (case r of
                Inr created \<Rightarrow> (Inr (Some created), w)
              | Inl err \<Rightarrow>
                  if IsAlreadyExists err then (Inr None, w)
                  else (Inl (Status Internal ''Failed to create volume attachment: %v'' [E err]), w)))))"

definition publish_context :: "NVMeVolumeAttachment \<Rightarrow> strmap" where
  "publish_context a =
     [(publishContextNodeID, as_NodeID (a_spec a)),
      (publishContextHostNQN, as_HostNQN (a_spec a)),
      (publishContextAttachmentID, as_AttachmentID (a_spec a))]"

text \<open>One round of the loop of \<^verbatim>\<open>ControllerPublishVolume\<close>; \<open>None\<close> is \<^verbatim>\<open>continue\<close>.\<close>

definition publish_round ::
  "'w controller_server \<Rightarrow> NVMePartition \<Rightarrow> string \<Rightarrow> 'w \<Rightarrow> (error + strmap) option \<times> 'w" where
  "publish_round cs p nodeID w =
     (let K = cs_k8sClient cs; key = (p_Namespace p, attachment_Name (p_UID p)) in
      case current_attachment cs p nodeID w of (r, w) \<Rightarrow>
     (case r of
        Inl err \<Rightarrow> (Some (Inl err), w)
      | Inr current \<Rightarrow>
     (case current of
        None \<Rightarrow> (None, w)
      | Some existing \<Rightarrow>
          if vr_Name (as_VolumeRef (a_spec existing)) \<noteq> p_Name p \<or>
             vr_UID (as_VolumeRef (a_spec existing)) \<noteq> p_UID p
          then (Some (Inl (Status FailedPrecondition
                  ''Attachment identity does not match the requested volume'' [])), w)
          else if \<not> not_deleting (a_meta existing)
          then (case waitForAttachmentDeleted cs key w of (r, w) \<Rightarrow>
                (case r of Some err \<Rightarrow> (Some (Inl err), w) | None \<Rightarrow> (None, w)))
          else if as_NodeID (a_spec existing) \<noteq> nodeID
          then (if map_index (om_Annotations (a_meta existing)) ForceDetachAnnotation \<noteq> as_NodeID (a_spec existing)
                then (Some (Inl (Status FailedPrecondition
                        ''Volume is attached to node %q; annotate %s with %s=%q only after confirming the old node is fenced''
                        [S (as_NodeID (a_spec existing)), S (key_String key), S ForceDetachAnnotation,
                         S (as_NodeID (a_spec existing))])), w)
                else case Delete (attachments K) existing w of (r, w) \<Rightarrow>
                  if (case r of Inl err \<Rightarrow> \<not> IsNotFound err | Inr _ \<Rightarrow> False)
                  then (Some (Inl (Status Internal ''Failed to begin forced attachment revocation: %v''
                                     (case r of Inl err \<Rightarrow> [E err] | Inr _ \<Rightarrow> []))), w)
                  else case waitForAttachmentDeleted cs key w of (r, w) \<Rightarrow>
                    (case r of Some err \<Rightarrow> (Some (Inl err), w) | None \<Rightarrow> (None, w)))
          else case waitForAttachmentReady cs key (as_AttachmentID (a_spec existing)) w of (r, w) \<Rightarrow>
            (case r of
               Some err \<Rightarrow> (Some (Inl err), w)
             | None \<Rightarrow> (Some (Inr (publish_context existing)), w)))))"

fun publish_loop ::
  "nat \<Rightarrow> 'w controller_server \<Rightarrow> NVMePartition \<Rightarrow> string \<Rightarrow> 'w \<Rightarrow> (error + strmap) option \<times> 'w" where
  "publish_loop 0 cs p nodeID w = (None, w)"
| "publish_loop (Suc fuel) cs p nodeID w =
     (case publish_round cs p nodeID w of (r, w) \<Rightarrow>
      (case r of None \<Rightarrow> publish_loop fuel cs p nodeID w | Some answer \<Rightarrow> (Some answer, w)))"

definition ControllerPublishVolume ::
  "nat \<Rightarrow> 'w controller_server \<Rightarrow> ControllerPublishVolumeRequest \<Rightarrow> 'w \<Rightarrow> (error + strmap) option \<times> 'w" where
  "ControllerPublishVolume fuel cs req w =
     (if pb_VolumeId req = [] \<or> pb_NodeId req = []
      then (Some (Inl (Status InvalidArgument ''Volume ID and node ID must be provided'' [])), w)
      else case validateVolumeCapabilities (pb_VolumeContext req) [pb_VolumeCapability req] of
        Inl err \<Rightarrow> (Some (Inl (Status InvalidArgument ''Invalid volume capability: %v'' [E err])), w)
      | Inr _ \<Rightarrow>
     (case partitionForVolumeHandle (cs_k8sClient cs) (pb_VolumeId req) w of (r, w) \<Rightarrow>
      (case r of
         Inl err \<Rightarrow> (Some (Inl err), w)
       | Inr p \<Rightarrow>
           if pst_State (p_status p) \<noteq> PartitionExported
           then (Some (Inl (Status FailedPrecondition ''Volume %s is not exported'' [S (pb_VolumeId req)])), w)
           else publish_loop fuel cs p (pb_NodeId req) w)))"

definition ControllerUnpublishVolume ::
  "'w controller_server \<Rightarrow> string \<Rightarrow> string \<Rightarrow> 'w \<Rightarrow> error option \<times> 'w" where
  "ControllerUnpublishVolume cs volumeID nodeID w =
     (if volumeID = [] then (Some (Status InvalidArgument ''Volume ID must be provided'' []), w)
      else let K = cs_k8sClient cs in
      case partitionForVolumeHandle K volumeID w of (r, w) \<Rightarrow>
     (case r of
        Inl err \<Rightarrow> (if status_Code_NotFound err then (None, w) else (Some err, w))
      | Inr p \<Rightarrow>
     (case Get (attachments K) (p_Namespace p, attachment_Name (p_UID p)) w of (r, w) \<Rightarrow>
      (case r of
         Inl err \<Rightarrow>
           (if IsNotFound err then (None, w)
            else (Some (Status Internal ''Failed to get volume attachment: %v'' [E err]), w))
       | Inr existing \<Rightarrow>
           if nodeID \<noteq> [] \<and> as_NodeID (a_spec existing) \<noteq> nodeID then (None, w)
           else case Delete (attachments K) existing w of (r, w) \<Rightarrow>
             if (case r of Inl err \<Rightarrow> \<not> IsNotFound err | Inr _ \<Rightarrow> False)
             then (Some (Status Internal ''Failed to delete volume attachment: %v''
                           (case r of Inl err \<Rightarrow> [E err] | Inr _ \<Rightarrow> [])), w)
             else waitForAttachmentDeleted cs (p_Namespace p, attachment_Name (p_UID p)) w))))"

section \<open>ControllerGetCapabilities\<close>

datatype controller_capability = CREATE_DELETE_VOLUME | PUBLISH_UNPUBLISH_VOLUME

definition ControllerGetCapabilities :: "controller_capability list" where
  "ControllerGetCapabilities = [CREATE_DELETE_VOLUME, PUBLISH_UNPUBLISH_VOLUME]"

section \<open>Recording servers\<close>

definition recording_server ::
  "'w controller_server \<Rightarrow> ('w, 'e event) traced controller_server" where
  "recording_server cs =
     \<lparr>cs_k8sClient = recording (cs_k8sClient cs),
      cs_partitionReadyPollInterval = cs_partitionReadyPollInterval cs,
      cs_partitionReadyTimeout = cs_partitionReadyTimeout cs,
      cs_attachmentPollInterval = cs_attachmentPollInterval cs,
      cs_attachmentReadyTimeout = cs_attachmentReadyTimeout cs,
      cs_partitionDeletePollInterval = cs_partitionDeletePollInterval cs,
      cs_partitionDeleteTimeout = cs_partitionDeleteTimeout cs,
      cs_timers = (\<lambda>p d. silent_call (cs_timers cs p d)),
      cs_NewUUID = silent_call (cs_NewUUID cs)\<rparr>"

lemma recording_server_sel [simp]:
  "cs_k8sClient (recording_server cs) = recording (cs_k8sClient cs)"
  "cs_timers (recording_server cs) = (\<lambda>p d. silent_call (cs_timers cs p d))"
  "cs_NewUUID (recording_server cs) = silent_call (cs_NewUUID cs)"
  by (simp_all add: recording_server_def)

section \<open>Creating a volume: what is called\<close>

text \<open>The partition a request asks for, and the sizes it is checked against.\<close>

definition asks_for :: "CreateVolumeRequest \<Rightarrow> NVMePartition \<Rightarrow> int \<Rightarrow> int \<Rightarrow> bool" where
  "asks_for req x required expected \<longleftrightarrow>
     (\<exists>capability config fingerprint.
        validateVolumeCapabilities (cv_Parameters req) (cv_VolumeCapabilities req) = Inr capability \<and>
        normalizeCapacityRange (cv_CapacityRange req) = Inr (required, expected) \<and>
        storageConfiguration (cv_Parameters req) = Inr config \<and>
        fingerprintCreateVolumeRequest (canonical_request req capability required config) = Inr fingerprint \<and>
        x = new_partition (request_namespace (cv_Parameters req), cv_Name req)
              (canonical_request req capability required config) fingerprint)"

text \<open>A run of \<^verbatim>\<open>CreateVolume\<close> creates the partition asked for, once and first, and otherwise
  only reads it.\<close>

definition create_call_ok :: "CreateVolumeRequest \<Rightarrow> 'e event list \<Rightarrow> 'e event \<Rightarrow> bool" where
  "create_call_ok req u ev \<longleftrightarrow>
     (case ev of
        Partitions c \<Rightarrow>
          (case c of
             CreateCall x r \<Rightarrow> u = [] \<and> (\<exists>required expected. asks_for req x required expected)
           | GetCall key r \<Rightarrow> key = (request_namespace (cv_Parameters req), cv_Name req)
           | _ \<Rightarrow> False)
      | _ \<Rightarrow> False)"

text \<open>The object of the request exists: it was created, or found with its fingerprint.\<close>

definition obtained :: "NVMePartition \<Rightarrow> 'e event list \<Rightarrow> bool" where
  "obtained x t \<longleftrightarrow>
     (\<exists>y. Partitions (CreateCall x (Inr y)) \<in> set t) \<or>
     (\<exists>y. Partitions (GetCall (object_key (p_meta x)) (Inr y)) \<in> set t \<and>
        ps_RequestFingerprint (p_spec y) = ps_RequestFingerprint (p_spec x))"

lemma obtained_mono [evidence]: "obtained x t \<Longrightarrow> set t \<subseteq> set t' \<Longrightarrow> obtained x t'"
  unfolding obtained_def by blast

text \<open>What a successful answer rests on: the object, an observation that it is exported, and
  after it the state the answer is made from.\<close>

definition volume_answered ::
  "CreateVolumeRequest \<Rightarrow> Volume \<Rightarrow> 'e event list \<Rightarrow> bool" where
  "volume_answered req v t \<longleftrightarrow>
     (\<exists>x required expected u p0 p. asks_for req x required expected \<and> obtained x u \<and>
        t = u @ [Partitions (GetCall (object_key (p_meta x)) (Inr p0)),
                 Partitions (GetCall (object_key (p_meta x)) (Inr p))] \<and>
        pst_State (p_status p0) = PartitionExported \<and>
        volume_id p = Inr (v_VolumeId v) \<and>
        v_VolumeContext v = volumeContextForPartition p \<and>
        v_CapacityBytes v = (if pst_AllocatedCapacity (p_status p) = 0 then expected else pst_AllocatedCapacity (p_status p)) \<and>
        required \<le> v_CapacityBytes v \<and>
        (range_limit (cv_CapacityRange req) \<le> 0 \<or> v_CapacityBytes v \<le> range_limit (cv_CapacityRange req)))"

definition create_calls_ok :: "CreateVolumeRequest \<Rightarrow> error + Volume \<Rightarrow> 'e event list \<Rightarrow> bool" where
  "create_calls_ok req r t \<longleftrightarrow>
     justified (create_call_ok req) t \<and> (\<forall>v. r = Inr v \<longrightarrow> volume_answered req v t)"

lemma ready_loop_post:
  assumes "justified J t" and "\<And>u r. J u (Partitions (GetCall key r))"
  shows "post (ready_loop (recording K) key n fin (w, t))
    (\<lambda>r t'. justified J t' \<and> set t \<subseteq> set t' \<and>
       (r = None \<longrightarrow> (\<exists>u p. t' = t @ u @ [Partitions (GetCall key (Inr p))] \<and>
          pst_State (p_status p) = PartitionExported)))"
  using assms(1)
proof (induction n arbitrary: w t)
  case 0
  then show ?case by (cases fin) (auto intro!: vcg)
next
  case (Suc n)
  have step: "justified J (t @ [Partitions (GetCall key r)])" for r
    using Suc.prems assms(2) by simp
  show ?case
    unfolding ready_loop.simps recording_sel
    by (intro vcg post_weaken [OF Suc.IH [OF step]]) (use step in auto)
qed

lemma waitForPartitionReady_post:
  assumes "justified J t" and "\<And>u r. J u (Partitions (GetCall key r))"
  shows "post (waitForPartitionReady (recording_server cs) key (w, t))
    (\<lambda>r t'. justified J t' \<and> set t \<subseteq> set t' \<and>
       (r = None \<longrightarrow> (\<exists>u p. t' = t @ u @ [Partitions (GetCall key (Inr p))] \<and>
          pst_State (p_status p) = PartitionExported)))"
  unfolding waitForPartitionReady_def Let_def recording_server_sel
  by (intro vcg ready_loop_post assms)

lemma new_partition_key [simp]: "object_key (p_meta (new_partition key cr fp)) = key"
  by (simp add: new_partition_def new_meta_def object_key_def)

lemma key_pair: "(p_Namespace p, p_Name p) = object_key (p_meta p)"
  by (simp add: object_key_def)

lemma create_partition_post:
  assumes "asks_for req x required expected"
  shows "post (create_partition (recording K) x (w, []))
    (\<lambda>r t. justified (create_call_ok req) t \<and> (r = None \<longrightarrow> obtained x t))"
proof -
  have key: "object_key (p_meta x) = (request_namespace (cv_Parameters req), cv_Name req)"
    using assms by (auto simp: asks_for_def)
  show ?thesis
    unfolding create_partition_def recording_sel key_pair
    by (intro vcg) (use assms key in \<open>auto simp: create_call_ok_def obtained_def\<close>)
qed

lemma created_volume_Inr:
  assumes "created_volume p required expected limit = Inr v"
  shows "volume_id p = Inr (v_VolumeId v) \<and> v_VolumeContext v = volumeContextForPartition p \<and>
    v_CapacityBytes v = (if pst_AllocatedCapacity (p_status p) = 0 then expected else pst_AllocatedCapacity (p_status p)) \<and> required \<le> v_CapacityBytes v \<and>
    (limit \<le> 0 \<or> v_CapacityBytes v \<le> limit)"
  using assms by (auto simp: created_volume_def Let_def split: sum.splits if_splits)

lemma volume_answeredI:
  assumes "asks_for req x required expected" and "obtained x t"
    and "pst_State (p_status p0) = PartitionExported"
    and "created_volume p required expected (range_limit (cv_CapacityRange req)) = Inr v"
  shows "volume_answered req v (t @ u @ [Partitions (GetCall (object_key (p_meta x)) (Inr p0)),
    Partitions (GetCall (object_key (p_meta x)) (Inr p))])"
proof -
  have "obtained x (t @ u)" using assms(2) by (auto intro: evidence)
  then show ?thesis
    using assms(1,3) created_volume_Inr [OF assms(4)] unfolding volume_answered_def
    by (metis append.assoc)
qed

lemma provision_post:
  assumes x: "asks_for req x required expected"
  shows "post (provision (recording_server cs) x required expected (range_limit (cv_CapacityRange req)) (w, []))
    (create_calls_ok req)"
proof -
  have key: "object_key (p_meta x) = (request_namespace (cv_Parameters req), cv_Name req)"
    using x by (auto simp: asks_for_def)
  have get: "create_call_ok req u (Partitions (GetCall (object_key (p_meta x)) r))" for u r
    by (simp add: create_call_ok_def key)
  show ?thesis
    unfolding provision_def recording_server_sel recording_sel key_pair
    by (intro vcg post_bindI [OF create_partition_post [OF x]] post_bindI [OF waitForPartitionReady_post [where J = "create_call_ok req"]])
      (use get in \<open>auto simp: create_calls_ok_def intro: volume_answeredI [OF x]\<close>)
qed

section \<open>Deleting a volume: what is called\<close>

text \<open>The partition that a volume handle names: by its UID, or for a legacy handle the only one
  that matches.\<close>

definition names_volume :: "string \<Rightarrow> 'e event list \<Rightarrow> NVMePartition \<Rightarrow> bool" where
  "names_volume vol u p \<longleftrightarrow>
     (case ParseVolumeHandle vol of
        Inr ref \<Rightarrow> p_UID p = r_UID ref \<and>
          Partitions (GetCall (r_Namespace ref, r_Name ref) (Inr p)) \<in> set u
      | Inl _ \<Rightarrow> \<exists>ps. Partitions (ListCall (Inr ps)) \<in> set u \<and> filter (legacy_match vol) ps = [p])"

text \<open>A run of \<^verbatim>\<open>DeleteVolume\<close> deletes only that partition, right after it saw that no
  attachment of it exists, and otherwise only reads.\<close>

definition delete_call_ok :: "string \<Rightarrow> 'e event list \<Rightarrow> 'e event \<Rightarrow> bool" where
  "delete_call_ok vol u ev \<longleftrightarrow>
     (case ev of
        Partitions c \<Rightarrow>
          (case c of
             DeleteCall p r \<Rightarrow> names_volume vol u p \<and>
               (\<exists>u' e. u = u' @ [Attachments (GetCall (p_Namespace p, attachment_Name (p_UID p)) (Inl e))] \<and>
                  IsNotFound e)
           | GetCall _ _ \<Rightarrow> True
           | ListCall _ \<Rightarrow> True
           | _ \<Rightarrow> False)
      | Attachments c \<Rightarrow> (case c of GetCall _ _ \<Rightarrow> True | _ \<Rightarrow> False)
      | _ \<Rightarrow> False)"

text \<open>The last call saw that the partition does not exist, or not with this UID.\<close>

definition seen_gone :: "nname \<Rightarrow> string \<Rightarrow> 'e event list \<Rightarrow> bool" where
  "seen_gone key uid t \<longleftrightarrow>
     (\<exists>u r. t = u @ [Partitions (GetCall key r)] \<and> deletion_seen uid r = Some None)"

definition volume_gone :: "string \<Rightarrow> 'e event list \<Rightarrow> bool" where
  "volume_gone vol t \<longleftrightarrow>
     (\<exists>ref. ParseVolumeHandle vol = Inr ref \<and> seen_gone (r_Namespace ref, r_Name ref) (r_UID ref) t) \<or>
     (\<exists>p. names_volume vol t p \<and> seen_gone (object_key (p_meta p)) (p_UID p) t) \<or>
     (\<exists>e u ps. ParseVolumeHandle vol = Inl e \<and> t = u @ [Partitions (ListCall (Inr ps))] \<and>
        filter (legacy_match vol) ps = [])"

definition delete_calls_ok :: "string \<Rightarrow> error option \<Rightarrow> 'e event list \<Rightarrow> bool" where
  "delete_calls_ok vol r t \<longleftrightarrow> justified (delete_call_ok vol) t \<and> (r = None \<longrightarrow> volume_gone vol t)"

lemma names_volume_mono [evidence]:
  "names_volume vol u p \<Longrightarrow> set u \<subseteq> set u' \<Longrightarrow> names_volume vol u' p"
  unfolding names_volume_def by (auto split: sum.splits)

lemma deleted_loop_post:
  assumes "justified J t" and "\<And>u r. J u (Partitions (GetCall key r))"
  shows "post (deleted_loop (recording K) key uid n fin (w, t))
    (\<lambda>r t'. justified J t' \<and> set t \<subseteq> set t' \<and> (r = None \<longrightarrow> seen_gone key uid t'))"
  using assms(1)
proof (induction n arbitrary: w t)
  case 0
  then show ?case
    unfolding deleted_loop.simps recording_sel
    by (intro vcg) (use assms(2) in \<open>auto simp: seen_gone_def\<close>)
next
  case (Suc n)
  have step: "justified J (t @ [Partitions (GetCall key r)])" for r
    using Suc.prems assms(2) by simp
  show ?case
    unfolding deleted_loop.simps recording_sel
    by (intro vcg post_weaken [OF Suc.IH [OF step]]) (use step in \<open>auto simp: seen_gone_def\<close>)
qed

lemma waitForPartitionDeleted_post:
  assumes "justified J t" and "\<And>u r. J u (Partitions (GetCall key r))"
  shows "post (waitForPartitionDeleted (recording_server cs) key uid (w, t))
    (\<lambda>r t'. justified J t' \<and> set t \<subseteq> set t' \<and> (r = None \<longrightarrow> seen_gone key uid t'))"
  unfolding waitForPartitionDeleted_def Let_def recording_server_sel
  by (intro vcg deleted_loop_post assms)

lemma delete_reads:
  "delete_call_ok vol u (Partitions (GetCall k r))" "delete_call_ok vol u (Partitions (ListCall q))"
  "delete_call_ok vol u (Attachments (GetCall k a))"
  by (simp_all add: delete_call_ok_def)

lemma deletePartitionAndWait_post:
  assumes "justified (delete_call_ok vol) t" and "names_volume vol t p"
  shows "post (deletePartitionAndWait (recording_server cs) p (w, t)) (delete_calls_ok vol)"
  unfolding deletePartitionAndWait_def Let_def recording_server_sel recording_sel
  by (intro vcg post_bindI [OF waitForPartitionDeleted_post [where J = "delete_call_ok vol"]])
    (use assms in \<open>auto simp: delete_calls_ok_def delete_reads volume_gone_def delete_call_ok_def
       intro: evidence\<close>)

lemma deleteLegacyVolume_post:
  assumes "ParseVolumeHandle vol = Inl e"
  shows "post (deleteLegacyVolume (recording_server cs) vol (w, [])) (delete_calls_ok vol)"
  unfolding deleteLegacyVolume_def recording_server_sel recording_sel
  by (intro vcg deletePartitionAndWait_post)
    (use assms in \<open>auto simp: delete_calls_ok_def delete_reads volume_gone_def names_volume_def\<close>)

section \<open>Attaching and detaching a volume: what is called\<close>

text \<open>The partition of a volume handle, as it was read.\<close>

definition volume_read :: "string \<Rightarrow> 'e event list \<Rightarrow> NVMePartition \<Rightarrow> bool" where
  "volume_read vol u p \<longleftrightarrow>
     (\<exists>ref. ParseVolumeHandle vol = Inr ref \<and> p_UID p = r_UID ref \<and>
        Partitions (GetCall (r_Namespace ref, r_Name ref) (Inr p)) \<in> set u)"

definition attachment_key :: "NVMePartition \<Rightarrow> nname" where
  "attachment_key p = (p_Namespace p, attachment_Name (p_UID p))"

definition attachment_found :: "NVMePartition \<Rightarrow> 'e event list \<Rightarrow> NVMeVolumeAttachment \<Rightarrow> bool" where
  "attachment_found p u a \<longleftrightarrow>
     Attachments (GetCall (attachment_key p) (Inr a)) \<in> set u \<or>
     (\<exists>x. Attachments (CreateCall x (Inr a)) \<in> set u)"

definition attachment_seen :: "NVMePartition \<Rightarrow> 'e event list \<Rightarrow> NVMeVolumeAttachment \<Rightarrow> bool" where
  "attachment_seen p u a \<longleftrightarrow>
     vr_Name (as_VolumeRef (a_spec a)) = p_Name p \<and> vr_UID (as_VolumeRef (a_spec a)) = p_UID p \<and>
     attachment_found p u a"

text \<open>A run of \<^verbatim>\<open>ControllerPublishVolume\<close> creates the attachment of an exported volume to the
  node, right after it saw that the volume has none, and deletes one of another node only when
  the attachment is annotated with that node.\<close>

definition publish_call_ok :: "string \<Rightarrow> string \<Rightarrow> 'e event list \<Rightarrow> 'e event \<Rightarrow> bool" where
  "publish_call_ok vol node u ev \<longleftrightarrow>
     (case ev of
        Partitions c \<Rightarrow> (case c of GetCall _ _ \<Rightarrow> True | _ \<Rightarrow> False)
      | Attachments c \<Rightarrow>
          (case c of
             GetCall _ _ \<Rightarrow> True
           | CreateCall x r \<Rightarrow>
               (\<exists>p attachmentID u' e. volume_read vol u p \<and> pst_State (p_status p) = PartitionExported \<and>
                  x = new_attachment p node attachmentID \<and>
                  u = u' @ [Attachments (GetCall (attachment_key p) (Inl e))] \<and> IsNotFound e)
           | DeleteCall a r \<Rightarrow>
               (\<exists>p. volume_read vol u p \<and> attachment_seen p u a \<and> not_deleting (a_meta a) \<and>
                  as_NodeID (a_spec a) \<noteq> node \<and>
                  map_index (om_Annotations (a_meta a)) ForceDetachAnnotation = as_NodeID (a_spec a))
           | _ \<Rightarrow> False)
      | _ \<Rightarrow> False)"

text \<open>What a successful answer rests on: the attachment is of this node, and the last call saw
  that the target has authorized exactly this attachment.\<close>

definition publish_answered ::
  "'z apimachinery_scheme \<Rightarrow> string \<Rightarrow> string \<Rightarrow> strmap \<Rightarrow> 'e event list \<Rightarrow> bool" where
  "publish_answered K vol node ctx t \<longleftrightarrow>
     (\<exists>p a u b. volume_read vol t p \<and> pst_State (p_status p) = PartitionExported \<and>
        attachment_seen p t a \<and> as_NodeID (a_spec a) = node \<and> ctx = publish_context a \<and>
        t = u @ [Attachments (GetCall (attachment_key p) (Inr b))] \<and> not_deleting (a_meta b) \<and>
        ast_ObservedAttachmentID (a_status b) = as_AttachmentID (a_spec a) \<and>
        IsStatusConditionTrue K (ast_Conditions (a_status b)) AccessReadyCondition)"

definition publish_calls_ok ::
  "'z apimachinery_scheme \<Rightarrow> string \<Rightarrow> string \<Rightarrow> (error + strmap) option \<Rightarrow> 'e event list \<Rightarrow> bool" where
  "publish_calls_ok K vol node r t \<longleftrightarrow>
     justified (publish_call_ok vol node) t \<and>
     (\<forall>ctx. r = Some (Inr ctx) \<longrightarrow> publish_answered K vol node ctx t)"

text \<open>A run of \<^verbatim>\<open>ControllerUnpublishVolume\<close> deletes only the attachment of the volume it just
  read, of the node that was named, and succeeds only when it saw none of it left.\<close>

definition unpublish_call_ok :: "string \<Rightarrow> string \<Rightarrow> 'e event list \<Rightarrow> 'e event \<Rightarrow> bool" where
  "unpublish_call_ok vol node u ev \<longleftrightarrow>
     (case ev of
        Partitions c \<Rightarrow> (case c of GetCall _ _ \<Rightarrow> True | _ \<Rightarrow> False)
      | Attachments c \<Rightarrow>
          (case c of
             GetCall _ _ \<Rightarrow> True
           | DeleteCall a r \<Rightarrow>
               (\<exists>p u'. volume_read vol u p \<and> u = u' @ [Attachments (GetCall (attachment_key p) (Inr a))]) \<and>
               (node = [] \<or> as_NodeID (a_spec a) = node)
           | _ \<Rightarrow> False)
      | _ \<Rightarrow> False)"

definition detached_seen :: "string \<Rightarrow> string \<Rightarrow> 'e event list \<Rightarrow> bool" where
  "detached_seen vol node t \<longleftrightarrow>
     (\<exists>e. ParseVolumeHandle vol = Inl e) \<or>
     (\<exists>ref. ParseVolumeHandle vol = Inr ref \<and> seen_gone (r_Namespace ref, r_Name ref) (r_UID ref) t) \<or>
     (\<exists>p u r. volume_read vol t p \<and> t = u @ [Attachments (GetCall (attachment_key p) r)] \<and>
        (case r of Inl e \<Rightarrow> IsNotFound e | Inr a \<Rightarrow> node \<noteq> [] \<and> as_NodeID (a_spec a) \<noteq> node))"

definition unpublish_calls_ok :: "string \<Rightarrow> string \<Rightarrow> error option \<Rightarrow> 'e event list \<Rightarrow> bool" where
  "unpublish_calls_ok vol node r t \<longleftrightarrow>
     justified (unpublish_call_ok vol node) t \<and> (r = None \<longrightarrow> detached_seen vol node t)"

lemma volume_read_mono [evidence]: "volume_read vol u p \<Longrightarrow> set u \<subseteq> set u' \<Longrightarrow> volume_read vol u' p"
  unfolding volume_read_def by blast

lemma attachment_seen_mono [evidence]:
  "attachment_seen p u a \<Longrightarrow> set u \<subseteq> set u' \<Longrightarrow> attachment_seen p u' a"
  unfolding attachment_seen_def attachment_found_def by blast

lemma poll_loop_post:
  assumes "justified J t" and "\<And>u r. J u (Attachments (GetCall key r))"
  shows "post (poll_loop (recording K) key test msg n fin (w, t))
    (\<lambda>r t'. justified J t' \<and> set t \<subseteq> set t' \<and>
       (r = None \<longrightarrow> (\<exists>u q. t' = u @ [Attachments (GetCall key q)] \<and> poll_seen test q = Some None)))"
  using assms(1)
proof (induction n arbitrary: w t)
  case 0
  then show ?case
    unfolding poll_loop.simps recording_sel by (intro vcg) (use assms(2) in auto)
next
  case (Suc n)
  have step: "justified J (t @ [Attachments (GetCall key r)])" for r
    using Suc.prems assms(2) by simp
  show ?case
    unfolding poll_loop.simps recording_sel
    by (intro vcg post_weaken [OF Suc.IH [OF step]]) (use step in auto)
qed

lemma poll_ready:
  "poll_seen (ready_test K i) q = Some None \<longleftrightarrow>
     (\<exists>b. q = Inr b \<and> not_deleting (a_meta b) \<and> ast_ObservedAttachmentID (a_status b) = i \<and>
        IsStatusConditionTrue K (ast_Conditions (a_status b)) AccessReadyCondition)"
  by (auto simp: poll_seen_def ready_test_def split: sum.splits if_splits)

lemma poll_deleted:
  "poll_seen deleted_test q = Some None \<longleftrightarrow> (\<exists>e. q = Inl e \<and> IsNotFound e)"
  by (auto simp: poll_seen_def deleted_test_def split: sum.splits if_splits)

lemma ready_test_recording [simp]: "ready_test (recording K) i = ready_test K i"
  by (rule ext) (simp add: ready_test_def split: option.split)

lemma waitForAttachmentReady_post:
  assumes "justified J t" and "\<And>u r. J u (Attachments (GetCall key r))"
  shows "post (waitForAttachmentReady (recording_server cs) key i (w, t))
    (\<lambda>r t'. justified J t' \<and> set t \<subseteq> set t' \<and>
       (r = None \<longrightarrow> (\<exists>u b. t' = u @ [Attachments (GetCall key (Inr b))] \<and> not_deleting (a_meta b) \<and>
          ast_ObservedAttachmentID (a_status b) = i \<and>
          IsStatusConditionTrue (cs_k8sClient cs) (ast_Conditions (a_status b)) AccessReadyCondition)))"
  unfolding waitForAttachmentReady_def pollAttachment_def attachmentTiming_def prod.case
    recording_server_sel ready_test_recording
  by (intro vcg post_weaken [OF poll_loop_post [OF assms]]) (auto simp: poll_ready)

lemma waitForAttachmentDeleted_post:
  assumes "justified J t" and "\<And>u r. J u (Attachments (GetCall key r))"
  shows "post (waitForAttachmentDeleted (recording_server cs) key (w, t))
    (\<lambda>r t'. justified J t' \<and> set t \<subseteq> set t' \<and>
       (r = None \<longrightarrow> (\<exists>u e. t' = u @ [Attachments (GetCall key (Inl e))] \<and> IsNotFound e)))"
  unfolding waitForAttachmentDeleted_def pollAttachment_def attachmentTiming_def prod.case
    recording_server_sel
  by (intro vcg post_weaken [OF poll_loop_post [OF assms]]) (auto simp: poll_deleted)

lemma partitionForVolumeHandle_post:
  assumes "\<And>u k r. J u (Partitions (GetCall k r))"
  shows "post (partitionForVolumeHandle (recording K) vol (w, []))
     (\<lambda>r t. justified J t \<and>
        (case r of
           Inr p \<Rightarrow> volume_read vol t p
         | Inl e \<Rightarrow> status_Code_NotFound e \<longrightarrow> detached_seen vol node t))"
  unfolding partitionForVolumeHandle_def recording_sel
  by (intro vcg) (use assms in \<open>auto simp: volume_read_def detached_seen_def seen_gone_def deletion_seen_def
      status_Code_NotFound_def\<close>)

lemma publish_reads:
  "publish_call_ok vol node u (Partitions (GetCall k r))" "publish_call_ok vol node u (Attachments (GetCall k a))"
  "unpublish_call_ok vol node u (Partitions (GetCall k r))"
  "unpublish_call_ok vol node u (Attachments (GetCall k a))"
  by (simp_all add: publish_call_ok_def unpublish_call_ok_def)

lemma current_attachment_post:
  assumes "justified (publish_call_ok vol node) t" and "volume_read vol t p"
    and "pst_State (p_status p) = PartitionExported"
  shows "post (current_attachment (recording_server cs) p node (w, t))
    (\<lambda>r t'. justified (publish_call_ok vol node) t' \<and> set t \<subseteq> set t' \<and>
       (\<forall>a. r = Inr (Some a) \<longrightarrow> attachment_found p t' a))"
proof -
  have create: "publish_call_ok vol node (t @ [Attachments (GetCall (attachment_key p) (Inl e))])
      (Attachments (CreateCall (new_attachment p node i) r))" if "IsNotFound e" for e i r
    unfolding publish_call_ok_def event.case call.case
    using that assms(3) volume_read_mono [OF assms(2), of "t @ [Attachments (GetCall (attachment_key p) (Inl e))]"]
    by (metis set_append Un_upper1)
  show ?thesis
    unfolding current_attachment_def Let_def recording_server_sel recording_sel attachment_key_def [symmetric]
    by (intro vcg) (use assms create in \<open>auto simp: publish_reads attachment_found_def\<close>)
qed

lemma publish_round_post:
  assumes "justified (publish_call_ok vol node) t" and "volume_read vol t p"
    and "pst_State (p_status p) = PartitionExported"
  shows "post (publish_round (recording_server cs) p node (w, t))
    (\<lambda>r t'. publish_calls_ok (cs_k8sClient cs) vol node r t' \<and> set t \<subseteq> set t')"
proof -
  note J = waitForAttachmentDeleted_post [where J = "publish_call_ok vol node"]
    waitForAttachmentReady_post [where J = "publish_call_ok vol node"]
  have del: "publish_call_ok vol node u (Attachments (DeleteCall a r))"
    if "attachment_seen p u a" "set t \<subseteq> set u" "not_deleting (a_meta a)" "as_NodeID (a_spec a) \<noteq> node"
      "map_index (om_Annotations (a_meta a)) ForceDetachAnnotation = as_NodeID (a_spec a)" for u a r
    unfolding publish_call_ok_def event.case call.case
    using that evidence assms(2) by blast
  have ans: "publish_answered (cs_k8sClient cs) vol (as_NodeID (a_spec a)) (publish_context a)
      (u @ [Attachments (GetCall (attachment_key p) (Inr b))])"
    if "set t \<subseteq> set t'" "attachment_seen p t' a"
      "set t' \<subseteq> set (u @ [Attachments (GetCall (attachment_key p) (Inr b))])" "not_deleting (a_meta b)"
      "ast_ObservedAttachmentID (a_status b) = as_AttachmentID (a_spec a)"
      "IsStatusConditionTrue (cs_k8sClient cs) (ast_Conditions (a_status b)) AccessReadyCondition"
    for u t' a b
  proof -
    note m = volume_read_mono [OF assms(2) subset_trans [OF that(1,3)]] attachment_seen_mono [OF that(2,3)]
    show ?thesis unfolding publish_answered_def using m that(4-) assms(3) by blast
  qed
  show ?thesis
    unfolding publish_round_def Let_def recording_server_sel recording_sel attachment_key_def [symmetric]
    by (intro vcg post_bindI [OF current_attachment_post [OF assms]] post_bindI [OF J(1)] post_bindI [OF J(2)])
      (auto simp: publish_reads publish_calls_ok_def del attachment_seen_def intro: ans)
qed

lemma publish_loop_post:
  assumes "justified (publish_call_ok vol node) t" and "volume_read vol t p"
    and "pst_State (p_status p) = PartitionExported"
  shows "post (publish_loop fuel (recording_server cs) p node (w, t))
    (publish_calls_ok (cs_k8sClient cs) vol node)"
  using assms
proof (induction fuel arbitrary: w t)
  case 0
  then show ?case by (auto intro!: vcg simp: publish_calls_ok_def)
next
  case (Suc fuel)
  show ?case
    unfolding publish_loop.simps
    by (intro vcg post_bindI [OF publish_round_post [OF Suc.prems]] Suc.IH)
      (use Suc.prems in \<open>auto simp: publish_calls_ok_def intro: evidence\<close>)
qed

lemma detached_seenI:
  assumes "volume_read vol t p" and "set t \<subseteq> set (u @ [Attachments (GetCall (attachment_key p) r)])"
    and "case r of Inl e \<Rightarrow> IsNotFound e | Inr a \<Rightarrow> node \<noteq> [] \<and> as_NodeID (a_spec a) \<noteq> node"
  shows "detached_seen vol node (u @ [Attachments (GetCall (attachment_key p) r)])"
  unfolding detached_seen_def using volume_read_mono [OF assms(1,2)] assms(3) by blast

lemma unpublish_deleteI:
  assumes "volume_read vol t p" and "node = [] \<or> as_NodeID (a_spec a) = node"
  shows "unpublish_call_ok vol node (t @ [Attachments (GetCall (attachment_key p) (Inr a))])
    (Attachments (DeleteCall a r))"
  unfolding unpublish_call_ok_def event.case call.case
  using volume_read_mono [OF assms(1), of "t @ [Attachments (GetCall (attachment_key p) (Inr a))]"] assms(2)
  by (metis set_append Un_upper1)

section \<open>Attaching a volume ends\<close>

text \<open>The calls of a request fail once its context has ended: \<open>ends w\<close> bounds the looks at an
  attachment that are still answered, and no call gives the request more time.\<close>

definition context_ends :: "'w controller_server \<Rightarrow> ('w \<Rightarrow> nat) \<Rightarrow> bool" where
  "context_ends cs ends \<longleftrightarrow>
     (let K = cs_k8sClient cs in
      (\<forall>k w. after (Get (attachments K) k w)
         (\<lambda>r w'. if ends w = 0 then (\<exists>e. r = Inl e \<and> \<not> IsNotFound e) else ends w' < ends w)) \<and>
      (\<forall>k w. after (Get (partitions K) k w) (\<lambda>r w'. ends w' \<le> ends w)) \<and>
      (\<forall>x w. after (Create (attachments K) x w) (\<lambda>r w'. ends w' \<le> ends w)) \<and>
      (\<forall>x w. after (Delete (attachments K) x w) (\<lambda>r w'. ends w' \<le> ends w)) \<and>
      (\<forall>p d w. after (cs_timers cs p d w) (\<lambda>r w'. ends w' \<le> ends w)) \<and>
      (\<forall>w. after (cs_NewUUID cs w) (\<lambda>r w'. ends w' \<le> ends w)))"

lemma context_endsD:
  assumes "context_ends cs ends"
  shows "after (Get (attachments (cs_k8sClient cs)) k w)
      (\<lambda>r w'. if ends w = 0 then (\<exists>e. r = Inl e \<and> \<not> IsNotFound e) else ends w' < ends w)"
    and "after (Get (partitions (cs_k8sClient cs)) k w) (\<lambda>r w'. ends w' \<le> ends w)"
    and "after (Create (attachments (cs_k8sClient cs)) x w) (\<lambda>r w'. ends w' \<le> ends w)"
    and "after (Delete (attachments (cs_k8sClient cs)) x w) (\<lambda>r w'. ends w' \<le> ends w)"
    and "after (cs_timers cs p d w) (\<lambda>r w'. ends w' \<le> ends w)"
    and "after (cs_NewUUID cs w) (\<lambda>r w'. ends w' \<le> ends w)"
  using assms unfolding context_ends_def Let_def by blast+

text \<open>A wait succeeds only while the context lasts, and takes from its time.\<close>

lemma poll_loop_ends:
  assumes "context_ends cs ends"
  shows "after (poll_loop (cs_k8sClient cs) key test msg n fin w)
    (\<lambda>r w'. r \<noteq> None \<or> ends w' < ends w)"
proof (induction n arbitrary: w)
  case 0
  show ?case
    unfolding poll_loop.simps
    by (intro after_bindI [OF context_endsD(1) [OF assms]] wp) (auto simp: poll_seen_def split: if_splits)
next
  case (Suc n)
  show ?case
    unfolding poll_loop.simps
    by (intro after_bindI [OF context_endsD(1) [OF assms]] wp after_weaken [OF Suc])
      (auto simp: poll_seen_def split: if_splits)
qed

lemma pollAttachment_ends:
  assumes "context_ends cs ends"
  shows "after (pollAttachment cs key test msg w) (\<lambda>r w'. r \<noteq> None \<or> ends w' < ends w)"
  unfolding pollAttachment_def attachmentTiming_def prod.case
  by (intro after_bindI [OF context_endsD(5) [OF assms]] after_weaken [OF poll_loop_ends [OF assms]]) auto

lemma partitionForVolumeHandle_ends:
  assumes "context_ends cs ends"
  shows "after (partitionForVolumeHandle (cs_k8sClient cs) vol w) (\<lambda>r w'. ends w' \<le> ends w)"
  unfolding partitionForVolumeHandle_def
  by (intro wp after_bindI [OF context_endsD(2) [OF assms]]) auto

lemma current_attachment_ends:
  assumes "context_ends cs ends"
  shows "after (current_attachment cs p node w)
    (\<lambda>r w'. if ends w = 0 then (\<exists>e. r = Inl e) else ends w' < ends w)"
  unfolding current_attachment_def Let_def
  by (intro after_bindI [OF context_endsD(1) [OF assms]] after_bindI [OF context_endsD(3) [OF assms]]
        after_bindI [OF context_endsD(6) [OF assms]] wp)
    (auto split: if_splits)

lemma publish_round_ends:
  assumes "context_ends cs ends"
  shows "after (publish_round cs p node w) (\<lambda>r w'. r \<noteq> None \<or> ends w' < ends w)"
  unfolding publish_round_def Let_def waitForAttachmentDeleted_def waitForAttachmentReady_def
  by (intro after_bindI [OF current_attachment_ends [OF assms]] after_bindI [OF context_endsD(4) [OF assms]]
        after_bindI [OF pollAttachment_ends [OF assms]] wp)
    (auto split: if_splits)

lemma publish_loop_returns:
  assumes "context_ends cs ends" and "ends w < fuel"
  shows "fst (publish_loop fuel cs p node w) \<noteq> None"
  using assms(2)
proof (induction fuel arbitrary: w)
  case (Suc fuel)
  show ?case
    using publish_round_ends [OF assms(1), of p node w] Suc
    by (auto simp: after_def split: prod.splits option.splits)
qed simp

section \<open>Properties\<close>

text \<open>C11: a run of \<^verbatim>\<open>CreateVolume\<close> creates the partition of the request at most once, before any
  other call, and else only reads that partition. When it answers with a volume, the object was
  created by it or carries the fingerprint of the same request, it was observed exported, and the
  answer takes identity and portal from the state read after that observation. Its capacity is the
  allocated capacity of that state, or the rounded request only when the state has none, and lies
  between \<^verbatim>\<open>required_bytes\<close> and \<^verbatim>\<open>limit_bytes\<close>.\<close>

theorem CreateVolume_calls:
  "post (CreateVolume (recording_server cs) req (w, [])) (create_calls_ok req)"
  unfolding CreateVolume_def
  by (intro vcg provision_post) (auto simp: create_calls_ok_def asks_for_def)

text \<open>C8: a run of \<^verbatim>\<open>DeleteVolume\<close> deletes only the partition with the UID of the handle (for a
  legacy handle, the only partition that matches it), and only right after it saw that no
  attachment of that partition exists. It reports success only when its last call saw that the
  volume is gone: absent, or replaced by an object with another UID.\<close>

theorem DeleteVolume_calls:
  "post (DeleteVolume (recording_server cs) vol (w, [])) (delete_calls_ok vol)"
  unfolding DeleteVolume_def recording_server_sel recording_sel
  by (intro vcg deletePartitionAndWait_post deleteLegacyVolume_post)
    (auto simp: delete_calls_ok_def delete_reads volume_gone_def names_volume_def seen_gone_def
      deletion_seen_def)

text \<open>C12: however long it runs, \<^verbatim>\<open>ControllerPublishVolume\<close> creates an attachment only for an exported
  volume whose UID is that of the handle, right after it saw that the volume has none, and it
  deletes the attachment of another node only when that attachment carries the force-detach
  annotation naming that node. It answers only when the attachment is of the requested node and its
  last call saw that the target authorized this very attachment, not being deleted.\<close>

theorem ControllerPublishVolume_calls:
  "post (ControllerPublishVolume fuel (recording_server cs) req (w, []))
     (publish_calls_ok (cs_k8sClient cs) (pb_VolumeId req) (pb_NodeId req))"
  unfolding ControllerPublishVolume_def recording_server_sel
  by (intro vcg publish_loop_post post_bindI [OF partitionForVolumeHandle_post
        [where J = "publish_call_ok (pb_VolumeId req) (pb_NodeId req)"]])
    (auto simp: publish_calls_ok_def publish_reads)

text \<open>\<^verbatim>\<open>ControllerUnpublishVolume\<close> deletes only the attachment it just read, of the volume with
  the UID of the handle and of the node that was named, and it succeeds only when the handle is
  no volume's, the volume is gone, or its last call saw no attachment of that node.\<close>

lemma ControllerUnpublishVolume_calls:
  "post (ControllerUnpublishVolume (recording_server cs) vol node (w, [])) (unpublish_calls_ok vol node)"
  unfolding ControllerUnpublishVolume_def Let_def recording_server_sel recording_sel
    attachment_key_def [symmetric]
  by (intro vcg post_bindI [OF partitionForVolumeHandle_post [where J = "unpublish_call_ok vol node"]]
        post_weaken [OF waitForAttachmentDeleted_post [where J = "unpublish_call_ok vol node"]])
    (auto simp: unpublish_calls_ok_def publish_reads unpublish_deleteI intro: detached_seenI)

text \<open>C20: \<^verbatim>\<open>ControllerPublishVolume\<close> does not loop for ever: when the calls of the request fail once
  its context has ended, it returns an answer, even if the attachment keeps appearing and
  disappearing; the number of rounds is bounded by the looks at the attachment that the context
  leaves time for.\<close>

theorem ControllerPublishVolume_returns:
  assumes "context_ends cs ends"
  shows "fst (ControllerPublishVolume (Suc (ends w)) cs req w) \<noteq> None"
proof -
  have "after (ControllerPublishVolume (Suc (ends w)) cs req w) (\<lambda>r w'. r \<noteq> None)"
    unfolding ControllerPublishVolume_def
    by (intro wp after_bindI [OF partitionForVolumeHandle_ends [OF assms]])
      (use publish_loop_returns [OF assms] in \<open>auto simp: after_def simp del: publish_loop.simps\<close>)
  then show ?thesis by (simp add: after_def)
qed

text \<open>A cluster in which the attachment is never there to be read and always there when it is
  created, until the context ends after as many looks as the world says.\<close>

definition flapping_kube :: "nat kube" where
  "flapping_kube = std_kube
     (refusing_api\<lparr>Get := (\<lambda>k w. (Inr (sample_partition
        \<lparr>p_status := zero_partition_status\<lparr>pst_State := PartitionExported\<rparr>\<rparr>), w))\<rparr>)
     refusing_api refusing_api refusing_api
     (refusing_api
        \<lparr>Get := (\<lambda>k w. (Inl (if w = 0 then ContextError DeadlineExceeded else ApiError NotFound), w - 1)),
         Create := (\<lambda>x w. (Inl (ApiError AlreadyExists), w))\<rparr>)
     (\<lambda>w. (0, w))"

definition flapping_server :: "nat controller_server" where
  "flapping_server = \<lparr>cs_k8sClient = flapping_kube, cs_partitionReadyPollInterval = 0,
     cs_partitionReadyTimeout = 0, cs_attachmentPollInterval = 0, cs_attachmentReadyTimeout = 0,
     cs_partitionDeletePollInterval = 0, cs_partitionDeleteTimeout = 0,
     cs_timers = (\<lambda>p d w. ((0, WakeTimeout), w)), cs_NewUUID = (\<lambda>w. (''id'', w))\<rparr>"

lemma flapping_context_ends: "context_ends flapping_server (\<lambda>w. w)"
  by (simp add: context_ends_def flapping_server_def flapping_kube_def std_kube_def apimachinery.defs
      refusing_api_def after_def IsNotFound_def)

theorem ControllerPublishVolume_returns_witness:
  "context_ends flapping_server (\<lambda>w. w) \<and>
   fst (ControllerPublishVolume 4 flapping_server
     \<lparr>pb_VolumeId = ''distort-v1.YXBwcw.cHZjMQ.cGFydC11aWQ'', pb_NodeId = ''node2'', pb_VolumeContext = [],
      pb_VolumeCapability = Some \<lparr>vc_Mount = Some \<lparr>mv_FsType = [], mv_MountFlags = []\<rparr>,
        vc_AccessMode = Some SINGLE_NODE_WRITER\<rparr>\<rparr> 3) \<noteq> None"
  using ControllerPublishVolume_returns [OF flapping_context_ends, of 3] flapping_context_ends
  by (simp only: eval_nat_numeral BitM.simps numeral_One simp_thms)

end
