(* ===== verification/Go_Json_Decode.thy ===== *)
theory Go_Json_Decode
  imports Go_Json
begin

text \<open>
  The part of Go's \<^verbatim>\<open>encoding/json\<close> that the program uses to decode the answers of tools:
  the grammar of JSON, and the rules by which \<^verbatim>\<open>json.Unmarshal\<close> fills structs (keys match
  up to letter case, unknown keys are ignored, \<^verbatim>\<open>null\<close> leaves the zero value, a value of the
  wrong type is an error). Of several keys for one field the last one counts.

  The parser is recursive over a bound on its depth; \<open>json_Unmarshal\<close> starts it with the
  length of the text, which no nesting can exceed.
\<close>

section \<open>Values\<close>

datatype json =
  JNull
| JBool bool
| JNumber string
| JString string
| JArray "json list"
| JObject "(string \<times> json) list"

section \<open>Strings\<close>

definition json_space :: "char \<Rightarrow> bool" where
  "json_space c \<longleftrightarrow> (let n = of_char c :: nat in n = 32 \<or> n = 9 \<or> n = 10 \<or> n = 13)"

definition skip_ws :: "string \<Rightarrow> string" where
  "skip_ws s = dropWhile json_space s"

definition hex_digit_val :: "char \<Rightarrow> nat option" where
  "hex_digit_val c =
     (let n = of_char c :: nat in
      if 48 \<le> n \<and> n \<le> 57 then Some (n - 48)
      else if 97 \<le> n \<and> n \<le> 102 then Some (n - 87)
      else if 65 \<le> n \<and> n \<le> 70 then Some (n - 55)
      else None)"

text \<open>The four digits after \<^verbatim>\<open>\u\<close>.\<close>

definition hex4 :: "string \<Rightarrow> nat option" where
  "hex4 s =
     (case map hex_digit_val (take 4 s) of
        [Some a, Some b, Some c, Some d] \<Rightarrow> Some (((a * 16 + b) * 16 + c) * 16 + d)
      | _ \<Rightarrow> None)"

definition utf8_encode :: "nat \<Rightarrow> string" where
  "utf8_encode r =
     map char_of
       (if r < 128 then [r]
        else if r < 2048 then [192 + r div 64, 128 + r mod 64]
        else if r < 65536 then [224 + r div 4096, 128 + r div 64 mod 64, 128 + r mod 64]
        else [240 + r div 262144, 128 + r div 4096 mod 64, 128 + r div 64 mod 64, 128 + r mod 64])"

definition is_high_surrogate :: "nat \<Rightarrow> bool" where
  "is_high_surrogate r \<longleftrightarrow> 55296 \<le> r \<and> r < 56320"

definition is_low_surrogate :: "nat \<Rightarrow> bool" where
  "is_low_surrogate r \<longleftrightarrow> 56320 \<le> r \<and> r < 57344"

text \<open>The replacement character.\<close>

definition rune_error :: string where
  "rune_error = utf8_encode 65533"

definition simple_escape :: "char \<Rightarrow> char option" where
  "simple_escape c =
     (let n = of_char c :: nat in
      if n = 34 \<or> n = 92 \<or> n = 47 then Some c
      else if c = CHR ''b'' then Some (char_of (8 :: nat))
      else if c = CHR ''f'' then Some (char_of (12 :: nat))
      else if c = CHR ''n'' then Some (char_of (10 :: nat))
      else if c = CHR ''r'' then Some (char_of (13 :: nat))
      else if c = CHR ''t'' then Some (char_of (9 :: nat))
      else None)"

text \<open>The text after the opening quote: the string, and what follows the closing quote.\<close>

function parse_string :: "string \<Rightarrow> string \<Rightarrow> (string \<times> string) option" where
  "parse_string acc [] = None"
| "parse_string acc (c # cs) =
     (let n = of_char c :: nat; k = utf8_size (map of_char (c # cs)) in
      if n = 34 then Some (acc, cs)
      else if n < 32 then None
      else if n = 92 then
        (case cs of
           [] \<Rightarrow> None
         | e # r \<Rightarrow>
             if e = CHR ''u'' then
               (case hex4 r of
                  None \<Rightarrow> None
                | Some u \<Rightarrow>
                    if is_high_surrogate u \<and> map of_char (take 2 (drop 4 r)) = [92 :: nat, 117] \<and>
                       (case hex4 (drop 6 r) of None \<Rightarrow> False | Some v \<Rightarrow> is_low_surrogate v)
                    then parse_string
                           (acc @ utf8_encode (65536 + (u - 55296) * 1024 + (the (hex4 (drop 6 r)) - 56320)))
                           (drop 10 r)
                    else parse_string
                           (acc @ (if is_high_surrogate u \<or> is_low_surrogate u then rune_error
                                   else utf8_encode u)) (drop 4 r))
             else (case simple_escape e of None \<Rightarrow> None | Some x \<Rightarrow> parse_string (acc @ [x]) r))
      else if n < 128 then parse_string (acc @ [c]) cs
      else if k = 0 then parse_string (acc @ rune_error) cs
      else parse_string (acc @ take k (c # cs)) (drop (k - 1) cs))"
  by pat_completeness auto
termination
  by (relation "measure (\<lambda>(acc, s). length s)") auto

section \<open>Numbers\<close>

definition number_char :: "char \<Rightarrow> bool" where
  "number_char c \<longleftrightarrow> is_digit c \<or> c \<in> set ''+-.eE''"

definition digits1 :: "string \<Rightarrow> string option" where
  "digits1 s = (if s \<noteq> [] \<and> is_digit (hd s) then Some (dropWhile is_digit s) else None)"

definition valid_exponent :: "string \<Rightarrow> bool" where
  "valid_exponent s =
     (case s of
        [] \<Rightarrow> True
      | c # r \<Rightarrow>
          (c = CHR ''e'' \<or> c = CHR ''E'') \<and>
          digits1 (case r of [] \<Rightarrow> [] | x # r' \<Rightarrow> if x = CHR ''+'' \<or> x = CHR ''-'' then r' else r) = Some [])"

definition valid_number :: "string \<Rightarrow> bool" where
  "valid_number s =
     (let s = (case s of [] \<Rightarrow> [] | c # r \<Rightarrow> if c = CHR ''-'' then r else s) in
      case digits1 s of
        None \<Rightarrow> False
      | Some r \<Rightarrow>
          (hd s = CHR ''0'' \<longrightarrow> r = tl s) \<and>
          (case r of
             [] \<Rightarrow> True
           | c # r' \<Rightarrow>
               if c = CHR ''.'' then (case digits1 r' of None \<Rightarrow> False | Some r'' \<Rightarrow> valid_exponent r'')
               else valid_exponent r))"

section \<open>Documents\<close>

fun parse_value :: "nat \<Rightarrow> string \<Rightarrow> (json \<times> string) option"
  and parse_elements :: "nat \<Rightarrow> string \<Rightarrow> (json list \<times> string) option"
  and parse_members :: "nat \<Rightarrow> string \<Rightarrow> ((string \<times> json) list \<times> string) option" where
  "parse_value 0 s = None"
| "parse_value (Suc n) s =
     (case skip_ws s of
        [] \<Rightarrow> None
      | c # r \<Rightarrow>
          if c = CHR 0x22 then
            (case parse_string [] r of None \<Rightarrow> None | Some (x, r) \<Rightarrow> Some (JString x, r))
          else if c = CHR ''['' then
            (case skip_ws r of
               x # r' \<Rightarrow>
                 if x = CHR '']'' then Some (JArray [], r')
                 else (case parse_elements n r of None \<Rightarrow> None | Some (xs, r) \<Rightarrow> Some (JArray xs, r))
             | [] \<Rightarrow> None)
          else if c = CHR ''{'' then
            (case skip_ws r of
               x # r' \<Rightarrow>
                 if x = CHR ''}'' then Some (JObject [], r')
                 else (case parse_members n r of None \<Rightarrow> None | Some (xs, r) \<Rightarrow> Some (JObject xs, r))
             | [] \<Rightarrow> None)
          else if HasPrefix (c # r) ''true'' then Some (JBool True, drop 4 (c # r))
          else if HasPrefix (c # r) ''false'' then Some (JBool False, drop 5 (c # r))
          else if HasPrefix (c # r) ''null'' then Some (JNull, drop 4 (c # r))
          else if valid_number (takeWhile number_char (c # r))
          then Some (JNumber (takeWhile number_char (c # r)), dropWhile number_char (c # r))
          else None)"
| "parse_elements 0 s = None"
| "parse_elements (Suc n) s =
     (case parse_value n s of
        None \<Rightarrow> None
      | Some (x, r) \<Rightarrow>
          (case skip_ws r of
             [] \<Rightarrow> None
           | c # r \<Rightarrow>
               if c = CHR '']'' then Some ([x], r)
               else if c = CHR '','' then
                 (case parse_elements n r of None \<Rightarrow> None | Some (xs, r) \<Rightarrow> Some (x # xs, r))
               else None))"
| "parse_members 0 s = None"
| "parse_members (Suc n) s =
     (case skip_ws s of
        [] \<Rightarrow> None
      | c # r \<Rightarrow>
          if c \<noteq> CHR 0x22 then None
          else (case parse_string [] r of
            None \<Rightarrow> None
          | Some (k, r) \<Rightarrow>
              (case skip_ws r of
                 [] \<Rightarrow> None
               | c # r \<Rightarrow>
                   if c \<noteq> CHR '':'' then None
                   else (case parse_value n r of
                     None \<Rightarrow> None
                   | Some (v, r) \<Rightarrow>
                       (case skip_ws r of
                          [] \<Rightarrow> None
                        | c # r \<Rightarrow>
                            if c = CHR ''}'' then Some ([(k, v)], r)
                            else if c = CHR '','' then
                              (case parse_members n r of None \<Rightarrow> None | Some (kvs, r) \<Rightarrow> Some ((k, v) # kvs, r))
                            else None)))))"

definition json_Unmarshal :: "string \<Rightarrow> json option" where
  "json_Unmarshal s =
     (case parse_value (2 * length s + 1) s of
        None \<Rightarrow> None
      | Some (v, r) \<Rightarrow> if skip_ws r = [] then Some v else None)"

section \<open>Filling structs\<close>

text \<open>The values of the keys that match a field; \<^verbatim>\<open>null\<close> does not set it.\<close>

definition json_field :: "(string \<times> json) list \<Rightarrow> string \<Rightarrow> json option" where
  "json_field kvs name =
     (case rev (filter (\<lambda>(k, v). EqualFold k name \<and> v \<noteq> JNull) kvs) of [] \<Rightarrow> None | (_, v) # _ \<Rightarrow> Some v)"

definition seq_opt :: "'a option list \<Rightarrow> 'a list option" where
  "seq_opt xs = (if list_all (\<lambda>x. x \<noteq> None) xs then Some (map the xs) else None)"

definition decode_string :: "json option \<Rightarrow> string option" where
  "decode_string j = (case j of None \<Rightarrow> Some [] | Some JNull \<Rightarrow> Some [] | Some (JString s) \<Rightarrow> Some s | _ \<Rightarrow> None)"

definition decode_bool :: "json option \<Rightarrow> bool option" where
  "decode_bool j = (case j of None \<Rightarrow> Some False | Some JNull \<Rightarrow> Some False | Some (JBool b) \<Rightarrow> Some b | _ \<Rightarrow> None)"

definition decode_int64 :: "json option \<Rightarrow> int option" where
  "decode_int64 j = (case j of None \<Rightarrow> Some 0 | Some JNull \<Rightarrow> Some 0 | Some (JNumber s) \<Rightarrow> ParseInt s | _ \<Rightarrow> None)"

definition decode_uint64 :: "json option \<Rightarrow> nat option" where
  "decode_uint64 j =
     (case j of None \<Rightarrow> Some 0 | Some JNull \<Rightarrow> Some 0 | Some (JNumber s) \<Rightarrow> ParseUint s 64 | _ \<Rightarrow> None)"

definition decode_list :: "(json option \<Rightarrow> 'a option) \<Rightarrow> json option \<Rightarrow> 'a list option" where
  "decode_list f j =
     (case j of
        None \<Rightarrow> Some []
      | Some JNull \<Rightarrow> Some []
      | Some (JArray xs) \<Rightarrow> seq_opt (map (\<lambda>x. f (Some x)) xs)
      | _ \<Rightarrow> None)"

text \<open>The members of a struct value; a missing or null struct has none.\<close>

definition decode_members :: "json option \<Rightarrow> (string \<times> json) list option" where
  "decode_members j =
     (case j of None \<Rightarrow> Some [] | Some JNull \<Rightarrow> Some [] | Some (JObject kvs) \<Rightarrow> Some kvs | _ \<Rightarrow> None)"

end
