(* ===== verification/Csi_Node.thy ===== *)
theory Csi_Node
  imports Csi_Mount Csi_Controller Go_Json_Decode Rdma_Health
begin

text \<open>
  The CSI node service: \<^verbatim>\<open>nvme.go\<close> (connecting to and disconnecting from NVMe-oF targets) and
  \<^verbatim>\<open>node_server.go\<close> (staging, publishing and their reversal).

  The handlers run commands and look at files through a \<open>host\<close> for the context of the
  request; the clean-up of a failed staging runs under a context of its own, a second host
  over the same world. \<^verbatim>\<open>unmount\<close> repeats until nothing is mounted: it takes fuel, and
  \<open>None\<close> is a run that is still going.
\<close>

section \<open>nvme.go\<close>

record nvme_path =
  np_Name :: string
  np_Transport :: string
  np_Address :: string
  np_State :: string

record NVMESubsystem =
  sy_NQN :: string
  sy_Paths :: "nvme_path list"

definition decode_path :: "json option \<Rightarrow> nvme_path option" where
  "decode_path j =
     (case decode_members j of
        None \<Rightarrow> None
      | Some m \<Rightarrow>
          (case (decode_string (json_field m ''Name''), decode_string (json_field m ''Transport''),
                 decode_string (json_field m ''Address''), decode_string (json_field m ''State'')) of
             (Some n, Some t, Some a, Some s) \<Rightarrow>
               Some \<lparr>np_Name = n, np_Transport = t, np_Address = a, np_State = s\<rparr>
           | _ \<Rightarrow> None))"

definition decode_subsystem :: "json option \<Rightarrow> NVMESubsystem option" where
  "decode_subsystem j =
     (case decode_members j of
        None \<Rightarrow> None
      | Some m \<Rightarrow>
          (case (decode_string (json_field m ''NQN''), decode_list decode_path (json_field m ''Paths'')) of
             (Some n, Some ps) \<Rightarrow> Some \<lparr>sy_NQN = n, sy_Paths = ps\<rparr>
           | _ \<Rightarrow> None))"

text \<open>\<^verbatim>\<open>NVMEHostList\<close>: for every host its subsystems.\<close>

definition decode_host :: "json option \<Rightarrow> NVMESubsystem list option" where
  "decode_host j =
     (case decode_members j of
        None \<Rightarrow> None
      | Some m \<Rightarrow> decode_list decode_subsystem (json_field m ''Subsystems''))"

definition decode_host_list :: "string \<Rightarrow> NVMESubsystem list list option" where
  "decode_host_list s =
     (case json_Unmarshal s of None \<Rightarrow> None | Some j \<Rightarrow> decode_list decode_host (Some j))"

definition live_path :: "nvme_path \<Rightarrow> bool" where
  "live_path p \<longleftrightarrow> np_State p = ''live'' \<and> np_Name p \<noteq> []"

definition deviceByNQN :: "string \<Rightarrow> string \<Rightarrow> error + string" where
  "deviceByNQN out nqn =
     (case decode_host_list out of
        None \<Rightarrow> Inl (Errorf ''failed to parse nvme list-subsys JSON: %v'' [])
      | Some hosts \<Rightarrow>
          (case List.find live_path
                  (concat (map sy_Paths (filter (\<lambda>sys. sy_NQN sys = nqn) (concat hosts)))) of
             None \<Rightarrow> Inl (Errorf ''device for NQN %s not found'' [S nqn])
           | Some p \<Rightarrow> Inr (''/dev/'' @ np_Name p @ ''n1'')))"

definition list_subsys_command :: command where
  "list_subsys_command = Command [''nvme'', ''list-subsys'', ''-o'', ''json'']"

definition GetDeviceByNQN :: "'w host \<Rightarrow> string \<Rightarrow> 'w \<Rightarrow> (error + string) \<times> 'w" where
  "GetDeviceByNQN H nqn w =
     (case h_CombinedOutput H list_subsys_command w of ((out, err), w) \<Rightarrow>
      (case err of
         None \<Rightarrow> (deviceByNQN out nqn, w)
       | Some e \<Rightarrow>
           (case h_CtxErr H w of (c, w) \<Rightarrow>
            (case c of
               Some c \<Rightarrow> (Inl (Wrapf ''nvme list-subsys interrupted: %w'' [] (ContextError c)), w)
             | None \<Rightarrow> (Inl (Errorf ''nvme list-subsys failed: %v, output: %s'' [E e, S out]), w)))))"

definition connect_command :: "string \<Rightarrow> string \<Rightarrow> string \<Rightarrow> string \<Rightarrow> command" where
  "connect_command nqn portalIP portalPort hostNQN =
     Command [''nvme'', ''connect'', ''-t'', ''rdma'', ''-a'', portalIP, ''-s'', portalPort, ''-n'', nqn,
              ''--hostnqn'', hostNQN]"

definition disconnect_command :: "string \<Rightarrow> command" where
  "disconnect_command nqn = Command [''nvme'', ''disconnect'', ''-n'', nqn]"

text \<open>Whether the call made the connection, and its error.\<close>

definition ConnectRDMA ::
  "'w host \<Rightarrow> string \<Rightarrow> string \<Rightarrow> string \<Rightarrow> string \<Rightarrow> 'w \<Rightarrow> (bool \<times> error option) \<times> 'w" where
  "ConnectRDMA H nqn portalIP portalPort hostNQN w =
     (case GetDeviceByNQN H nqn w of (r, w) \<Rightarrow>
      (case r of
         Inr _ \<Rightarrow> ((False, None), w)
       | Inl _ \<Rightarrow>
      (case h_CtxErr H w of (c, w) \<Rightarrow>
      (case c of
         Some c \<Rightarrow> ((False, Some (Wrapf ''inspect existing NVMe connection: %w'' [] (ContextError c))), w)
       | None \<Rightarrow>
      (case h_CombinedOutput H (connect_command nqn portalIP portalPort hostNQN) w of ((out, err), w) \<Rightarrow>
      (case err of
         None \<Rightarrow> ((True, None), w)
       | Some e \<Rightarrow>
      (case h_CtxErr H w of (c, w) \<Rightarrow>
      (case c of
         Some c \<Rightarrow> ((True, Some (Wrapf ''nvme connect interrupted: %w'' [] (ContextError c))), w)
       | None \<Rightarrow>
           if Contains out ''already connected'' then ((False, None), w)
           else (case GetDeviceByNQN H nqn w of (r, w) \<Rightarrow>
                (case r of
                   Inr _ \<Rightarrow> ((False, None), w)
                 | Inl _ \<Rightarrow> ((True, Some (Errorf ''nvme connect failed: %v, output: %s'' [E e, S out])), w)))))))))))"

definition DisconnectRDMA :: "'w host \<Rightarrow> string \<Rightarrow> 'w \<Rightarrow> error option \<times> 'w" where
  "DisconnectRDMA H nqn w =
     (case h_CombinedOutput H (disconnect_command nqn) w of ((out, err), w) \<Rightarrow>
      (case err of
         None \<Rightarrow> (None, w)
       | Some e \<Rightarrow>
      (case h_CtxErr H w of (c, w) \<Rightarrow>
      (case c of
         Some c \<Rightarrow> (Some (Wrapf ''nvme disconnect interrupted: %w'' [] (ContextError c)), w)
       | None \<Rightarrow>
           if Contains out ''no controllers found'' then (None, w)
           else (Some (Errorf ''nvme disconnect failed: %v, output: %s'' [E e, S out]), w)))))"

section \<open>File systems and mounts\<close>

definition probe_command :: "string \<Rightarrow> command" where
  "probe_command source = Command [''blkid'', ''-p'', ''-s'', ''TYPE'', ''-o'', ''value'', source]"

definition probeFilesystem :: "'w host \<Rightarrow> string \<Rightarrow> 'w \<Rightarrow> (error + string) \<times> 'w" where
  "probeFilesystem H source w =
     (case h_CombinedOutput H (probe_command source) w of ((out, err), w) \<Rightarrow>
      (case err of
         None \<Rightarrow> (Inr (normalizeFilesystem out), w)
       | Some e \<Rightarrow>
      (case h_CtxErr H w of (c, w) \<Rightarrow>
      (case c of
         Some c \<Rightarrow> (Inl (Wrapf ''blkid interrupted: %w'' [] (ContextError c)), w)
       | None \<Rightarrow>
           if errors_Is e (ExitError 2) then (Inr [], w)
           else (Inl (Wrapf ''blkid failed: %w, output: %s'' [S (TrimSpace out)] e), w)))))"

definition filesystemFormatCommand :: "string \<Rightarrow> string \<Rightarrow> error + string list" where
  "filesystemFormatCommand source fsType =
     (if fsType = defaultFilesystem then Inr [''mkfs.ext4'', ''-F'', source]
      else if fsType = xfsFilesystem then Inr [''mkfs.xfs'', ''-f'', source]
      else Inl (Errorf ''unsupported filesystem %q'' [S fsType]))"

definition formatFilesystem :: "'w host \<Rightarrow> string \<Rightarrow> string \<Rightarrow> 'w \<Rightarrow> error option \<times> 'w" where
  "formatFilesystem H source fsType w =
     (case filesystemFormatCommand source fsType of
        Inl e \<Rightarrow> (Some e, w)
      | Inr args \<Rightarrow>
      (case h_CombinedOutput H (Command args) w of ((out, err), w) \<Rightarrow>
      (case err of
         None \<Rightarrow> (None, w)
       | Some e \<Rightarrow>
      (case h_CtxErr H w of (c, w) \<Rightarrow>
      (case c of
         Some c \<Rightarrow> (Some (Wrapf ''formatting interrupted: %w'' [] (ContextError c)), w)
       | None \<Rightarrow> (Some (Wrapf ''formatting %s as %s failed: %w, output: %s''
                          [S source, S fsType, S (TrimSpace out)] e), w))))))"

definition ensureFilesystemContext ::
  "(string \<Rightarrow> 'w \<Rightarrow> (error + string) \<times> 'w) \<Rightarrow> (string \<Rightarrow> string \<Rightarrow> 'w \<Rightarrow> error option \<times> 'w) \<Rightarrow>
   string \<Rightarrow> string \<Rightarrow> 'w \<Rightarrow> error option \<times> 'w" where
  "ensureFilesystemContext probe format source requested w =
     (case probe source w of (r, w) \<Rightarrow>
      (case r of
         Inl err \<Rightarrow> (Some (Wrapf ''probing filesystem on %s: %w'' [S source] err), w)
       | Inr detected \<Rightarrow>
           if detected = [] then format source requested w
           else if normalizeFilesystem detected \<noteq> requested
           then (Some (FilesystemMismatch source requested detected), w)
           else (None, w)))"

text \<open>\<^verbatim>\<open>ensureFilesystem\<close> takes a probe and a formatter that ignore the context.\<close>

definition ensureFilesystem ::
  "string \<Rightarrow> string \<Rightarrow> (string \<Rightarrow> 'w \<Rightarrow> (error + string) \<times> 'w) \<Rightarrow>
   (string \<Rightarrow> string \<Rightarrow> 'w \<Rightarrow> error option \<times> 'w) \<Rightarrow> 'w \<Rightarrow> error option \<times> 'w" where
  "ensureFilesystem source requested probe format = ensureFilesystemContext probe format source requested"

definition umount_command :: "string \<Rightarrow> command" where
  "umount_command target = Command [''umount'', target]"

fun unmount :: "nat \<Rightarrow> 'w host \<Rightarrow> string \<Rightarrow> 'w \<Rightarrow> error option option \<times> 'w" where
  "unmount 0 H target w = (None, w)"
| "unmount (Suc fuel) H target w =
     (case h_CtxErr H w of (c, w) \<Rightarrow>
      (case c of
         Some c \<Rightarrow> (Some (Some (Wrapf ''unmount interrupted: %w'' [] (ContextError c))), w)
       | None \<Rightarrow>
      (case csi_isMountPoint H target w of ((mounted, err), w) \<Rightarrow>
      (case err of
         Some e \<Rightarrow> (Some (Some (Wrapf ''checking mount point: %w'' [] e)), w)
       | None \<Rightarrow>
           if \<not> mounted then (Some None, w)
           else (case h_CombinedOutput H (umount_command target) w of ((out, err), w) \<Rightarrow>
      (case err of
         None \<Rightarrow> unmount fuel H target w
       | Some e \<Rightarrow>
      (case h_CtxErr H w of (c, w) \<Rightarrow>
      (case c of
         Some c \<Rightarrow> (Some (Some (Wrapf ''unmount interrupted: %w'' [] (ContextError c))), w)
       | None \<Rightarrow>
           if Contains out ''not mounted'' \<or> Contains out ''no mount point specified''
           then (Some None, w)
           else (Some (Some (Errorf ''unmount failed: %v, output: %s'' [E e, S out])), w)))))))))"

definition mount_command :: "string \<Rightarrow> string \<Rightarrow> string \<Rightarrow> command" where
  "mount_command fsType source target = Command [''mount'', ''-t'', fsType, source, target]"

text \<open>The check after mounting, with the unmount when it fails. The result says whether the
  call mounted something, and its error.\<close>

definition confirm_mount ::
  "nat \<Rightarrow> 'w host \<Rightarrow> string \<Rightarrow> string \<Rightarrow> bool \<times> error option \<Rightarrow> 'w \<Rightarrow> error option option \<times> 'w" where
  "confirm_mount fuel H target msg verified w =
     (case verified of (mounted, err) \<Rightarrow>
      if err \<noteq> None \<or> \<not> mounted
      then (case unmount fuel H target w of (r, w) \<Rightarrow>
           (case r of
              None \<Rightarrow> (None, w)
            | Some _ \<Rightarrow> (Some (Some (MountMismatch (case err of None \<Rightarrow> Errorf msg [] | Some e \<Rightarrow> e))), w)))
      else (Some None, w))"

definition formatAndMount ::
  "nat \<Rightarrow> 'w host \<Rightarrow> string \<Rightarrow> string \<Rightarrow> string \<Rightarrow> 'w \<Rightarrow> (bool \<times> error option) option \<times> 'w" where
  "formatAndMount fuel H source target fsType w =
     (case h_MkdirAll H target w of (err, w) \<Rightarrow>
      (case err of
         Some e \<Rightarrow> (Some (False, Some e), w)
       | None \<Rightarrow>
      (case verifyStagingMount H source target fsType w of ((mounted, err), w) \<Rightarrow>
      (case err of
         Some e \<Rightarrow> (Some (False, Some (MountMismatch e)), w)
       | None \<Rightarrow>
           if mounted then (Some (False, None), w)
           else (case ensureFilesystemContext (probeFilesystem H) (formatFilesystem H) source fsType w of (err, w) \<Rightarrow>
      (case err of
         Some e \<Rightarrow> (Some (False, Some e), w)
       | None \<Rightarrow>
      (case h_CombinedOutput H (mount_command fsType source target) w of ((out, mountErr), w) \<Rightarrow>
      (case mountErr of
         Some e \<Rightarrow>
           (case h_CtxErr H w of (c, w) \<Rightarrow>
            (case c of
               Some c \<Rightarrow> (Some (False, Some (Wrapf ''mount interrupted: %w'' [] (ContextError c))), w)
             | None \<Rightarrow> (Some (False, Some (Errorf ''mount failed: %v, output: %s'' [E e, S out])), w)))
       | None \<Rightarrow>
      (case verifyStagingMount H source target fsType w of (verified, w) \<Rightarrow>
      (case confirm_mount fuel H target ''target is not mounted after mount command succeeded'' verified w of (r, w) \<Rightarrow>
      (case r of
         None \<Rightarrow> (None, w)
       | Some (Some e) \<Rightarrow> (Some (False, Some e), w)
       | Some None \<Rightarrow> (Some (True, None), w))))))))))))"

definition bind_command :: "string \<Rightarrow> string \<Rightarrow> command" where
  "bind_command source target = Command [''mount'', ''--bind'', source, target]"

definition remount_command :: "string \<Rightarrow> command" where
  "remount_command target = Command [''mount'', ''-o'', ''remount,bind,ro'', target]"

text \<open>The second mount of a read-only publication.\<close>

definition remount_readonly ::
  "nat \<Rightarrow> 'w host \<Rightarrow> string \<Rightarrow> 'w \<Rightarrow> error option option \<times> 'w" where
  "remount_readonly fuel H target w =
     (case h_CombinedOutput H (remount_command target) w of ((out, err), w) \<Rightarrow>
      (case err of
         None \<Rightarrow> (Some None, w)
       | Some e \<Rightarrow>
      (case unmount fuel H target w of (r, w) \<Rightarrow>
      (case r of
         None \<Rightarrow> (None, w)
       | Some _ \<Rightarrow>
      (case h_CtxErr H w of (c, w) \<Rightarrow>
      (case c of
         Some c \<Rightarrow> (Some (Some (Wrapf ''read-only bind remount interrupted: %w'' [] (ContextError c))), w)
       | None \<Rightarrow> (Some (Some (Errorf ''read-only bind remount failed: %v, output: %s'' [E e, S out])), w)))))))"

definition publishBindMount ::
  "nat \<Rightarrow> 'w host \<Rightarrow> string \<Rightarrow> string \<Rightarrow> bool \<Rightarrow> 'w \<Rightarrow> error option option \<times> 'w" where
  "publishBindMount fuel H source target readOnly w =
     (case h_MkdirAll H target w of (err, w) \<Rightarrow>
      (case err of
         Some e \<Rightarrow> (Some (Some e), w)
       | None \<Rightarrow>
      (case verifyPublishedMount H source target readOnly w of ((mounted, err), w) \<Rightarrow>
      (case err of
         Some e \<Rightarrow> (Some (Some (MountMismatch e)), w)
       | None \<Rightarrow>
           if mounted then (Some None, w)
           else (case h_CombinedOutput H (bind_command source target) w of ((out, mountErr), w) \<Rightarrow>
      (case mountErr of
         Some e \<Rightarrow>
           (case h_CtxErr H w of (c, w) \<Rightarrow>
            (case c of
               Some c \<Rightarrow> (Some (Some (Wrapf ''bind mount interrupted: %w'' [] (ContextError c))), w)
             | None \<Rightarrow> (Some (Some (Errorf ''bind mount failed: %v, output: %s'' [E e, S out])), w)))
       | None \<Rightarrow>
      (case (if readOnly then remount_readonly fuel H target w else (Some None, w)) of (r, w) \<Rightarrow>
      (case r of
         None \<Rightarrow> (None, w)
       | Some (Some e) \<Rightarrow> (Some (Some e), w)
       | Some None \<Rightarrow>
      (case verifyPublishedMount H source target readOnly w of (verified, w) \<Rightarrow>
         confirm_mount fuel H target ''target is not mounted after bind command succeeded'' verified w)))))))))"

text \<open>Run with the host of the background context.\<close>

definition bindMount :: "nat \<Rightarrow> 'w host \<Rightarrow> string \<Rightarrow> string \<Rightarrow> 'w \<Rightarrow> error option option \<times> 'w" where
  "bindMount fuel H source target = publishBindMount fuel H source target False"

section \<open>The server\<close>

text \<open>The function fields replace the operations in tests; the driver leaves them nil.\<close>

record 'w node_server =
  ns_nodeID :: string
  ns_connectRDMA :: "(string \<Rightarrow> string \<Rightarrow> string \<Rightarrow> string \<Rightarrow> 'w \<Rightarrow> (bool \<times> error option) \<times> 'w) option"
  ns_disconnectRDMA :: "(string \<Rightarrow> 'w \<Rightarrow> error option \<times> 'w) option"
  ns_getDeviceByNQN :: "(string \<Rightarrow> 'w \<Rightarrow> (error + string) \<times> 'w) option"
  ns_pathStat :: "(string \<Rightarrow> 'w \<Rightarrow> (error + nat) \<times> 'w) option"
  ns_mkdirAll :: "(string \<Rightarrow> 'w \<Rightarrow> error option \<times> 'w) option"
  ns_removePath :: "(string \<Rightarrow> 'w \<Rightarrow> error option \<times> 'w) option"
  ns_stageMount :: "(string \<Rightarrow> string \<Rightarrow> string \<Rightarrow> 'w \<Rightarrow> (bool \<times> error option) option \<times> 'w) option"
  ns_publishMount :: "(string \<Rightarrow> string \<Rightarrow> bool \<Rightarrow> 'w \<Rightarrow> error option option \<times> 'w) option"
  ns_unstageMount :: "(string \<Rightarrow> 'w \<Rightarrow> error option option \<times> 'w) option"
  ns_devicePollInterval :: int
  ns_deviceDiscoveryTimeout :: int

text \<open>The node server \<^verbatim>\<open>NewDriver\<close> makes.\<close>

definition new_node_server :: "string \<Rightarrow> 'w node_server" where
  "new_node_server nodeID = \<lparr>ns_nodeID = nodeID, ns_connectRDMA = None, ns_disconnectRDMA = None,
     ns_getDeviceByNQN = None, ns_pathStat = None, ns_mkdirAll = None, ns_removePath = None,
     ns_stageMount = None, ns_publishMount = None, ns_unstageMount = None,
     ns_devicePollInterval = 0, ns_deviceDiscoveryTimeout = 0\<rparr>"

definition ns_connect ::
  "'w node_server \<Rightarrow> 'w host \<Rightarrow> string \<Rightarrow> string \<Rightarrow> string \<Rightarrow> string \<Rightarrow> 'w \<Rightarrow> (bool \<times> error option) \<times> 'w" where
  "ns_connect ns H nqn ip port hostNQN w =
     (case ns_connectRDMA ns of Some f \<Rightarrow> f nqn ip port hostNQN w | None \<Rightarrow> ConnectRDMA H nqn ip port hostNQN w)"

definition ns_disconnect :: "'w node_server \<Rightarrow> 'w host \<Rightarrow> string \<Rightarrow> 'w \<Rightarrow> error option \<times> 'w" where
  "ns_disconnect ns H nqn w =
     (case ns_disconnectRDMA ns of Some f \<Rightarrow> f nqn w | None \<Rightarrow> DisconnectRDMA H nqn w)"

definition ns_findDevice :: "'w node_server \<Rightarrow> 'w host \<Rightarrow> string \<Rightarrow> 'w \<Rightarrow> (error + string) \<times> 'w" where
  "ns_findDevice ns H nqn w =
     (case ns_getDeviceByNQN ns of Some f \<Rightarrow> f nqn w | None \<Rightarrow> GetDeviceByNQN H nqn w)"

definition ns_statPath :: "'w node_server \<Rightarrow> 'w host \<Rightarrow> string \<Rightarrow> 'w \<Rightarrow> (error + nat) \<times> 'w" where
  "ns_statPath ns H path w = (case ns_pathStat ns of Some f \<Rightarrow> f path w | None \<Rightarrow> h_Stat H path w)"

definition ns_createDirectory :: "'w node_server \<Rightarrow> 'w host \<Rightarrow> string \<Rightarrow> 'w \<Rightarrow> error option \<times> 'w" where
  "ns_createDirectory ns H path w =
     (case ns_mkdirAll ns of Some f \<Rightarrow> f path w | None \<Rightarrow> h_MkdirAll H path w)"

definition ns_remove :: "'w node_server \<Rightarrow> 'w host \<Rightarrow> string \<Rightarrow> 'w \<Rightarrow> error option \<times> 'w" where
  "ns_remove ns H path w = (case ns_removePath ns of Some f \<Rightarrow> f path w | None \<Rightarrow> h_Remove H path w)"

definition ns_mountStage ::
  "nat \<Rightarrow> 'w node_server \<Rightarrow> 'w host \<Rightarrow> string \<Rightarrow> string \<Rightarrow> string \<Rightarrow> 'w \<Rightarrow>
   (bool \<times> error option) option \<times> 'w" where
  "ns_mountStage fuel ns H source target filesystem w =
     (case ns_stageMount ns of
        Some f \<Rightarrow> f source target filesystem w
      | None \<Rightarrow> formatAndMount fuel H source target filesystem w)"

definition ns_unmount :: "nat \<Rightarrow> 'w node_server \<Rightarrow> 'w host \<Rightarrow> string \<Rightarrow> 'w \<Rightarrow> error option option \<times> 'w" where
  "ns_unmount fuel ns H target w =
     (case ns_unstageMount ns of Some f \<Rightarrow> f target w | None \<Rightarrow> unmount fuel H target w)"

definition ns_mountPublished ::
  "nat \<Rightarrow> 'w node_server \<Rightarrow> 'w host \<Rightarrow> string \<Rightarrow> string \<Rightarrow> bool \<Rightarrow> 'w \<Rightarrow> error option option \<times> 'w" where
  "ns_mountPublished fuel ns H source target readonly w =
     (case ns_publishMount ns of
        Some f \<Rightarrow> f source target readonly w
      | None \<Rightarrow> publishBindMount fuel H source target readonly w)"

section \<open>Requests\<close>

definition validateNodePath :: "string \<Rightarrow> string \<Rightarrow> error + string" where
  "validateNodePath field path =
     (if path = [] then Inl (Status InvalidArgument ''%s must be provided'' [S field])
      else if char_of (0 :: nat) \<in> set path \<or> \<not> IsAbs path
      then Inl (Status InvalidArgument ''%s must be an absolute path'' [S field])
      else let cleaned = Clean path in
      if cleaned = ''/'' then Inl (Status InvalidArgument ''%s must not be the filesystem root'' [S field])
      else if cleaned \<noteq> path then Inl (Status InvalidArgument ''%s must be canonical'' [S field])
      else Inr cleaned)"

record NodeStageVolumeRequest =
  st_VolumeId :: string
  st_StagingTargetPath :: string
  st_VolumeCapability :: "VolumeCapability option"
  st_VolumeContext :: strmap
  st_PublishContext :: strmap

record validatedNodeStageRequest =
  vs_volumeID :: string
  vs_stagingTargetPath :: string
  vs_nqn :: string
  vs_portalIP :: string
  vs_portalPort :: string
  vs_hostNQN :: string
  vs_filesystem :: string

definition valid_port :: "string \<Rightarrow> int option" where
  "valid_port s = (case ParseInt s of None \<Rightarrow> None | Some p \<Rightarrow> if p < 1 \<or> p > 65535 then None else Some p)"

definition validateNodeStageRequest ::
  "string \<Rightarrow> NodeStageVolumeRequest \<Rightarrow> error + validatedNodeStageRequest" where
  "validateNodeStageRequest nodeID req =
     (if st_VolumeId req = [] then Inl (Status InvalidArgument ''Volume ID must be provided'' [])
      else case validateNodePath ''Staging target path'' (st_StagingTargetPath req) of
        Inl err \<Rightarrow> Inl err
      | Inr stagingTargetPath \<Rightarrow>
     (case validateVolumeCapabilities (st_VolumeContext req) [st_VolumeCapability req] of
        Inl err \<Rightarrow> Inl (Status InvalidArgument ''Invalid volume capability: %v'' [E err])
      | Inr capability \<Rightarrow>
          let nqn = TrimSpace (map_index (st_VolumeContext req) ''nqn'');
              portalIP = TrimSpace (map_index (st_VolumeContext req) ''portalIP'');
              portalPort = TrimSpace (map_index (st_VolumeContext req) ''portalPort'');
              attachedNodeID = TrimSpace (map_index (st_PublishContext req) publishContextNodeID);
              hostNQN = TrimSpace (map_index (st_PublishContext req) publishContextHostNQN);
              attachmentID = TrimSpace (map_index (st_PublishContext req) publishContextAttachmentID) in
          if nqn = [] then Inl (Status InvalidArgument ''Volume context NQN must be provided'' [])
          else case ParseUsableIP portalIP of
            Inl err \<Rightarrow> Inl (Status InvalidArgument ''Volume context portalIP %q is not a usable remote IP'' [S portalIP])
          | Inr _ \<Rightarrow>
         (case valid_port portalPort of
            None \<Rightarrow> Inl (Status InvalidArgument ''Volume context portalPort %q is invalid'' [S portalPort])
          | Some port \<Rightarrow>
              if nodeID = [] \<or> attachedNodeID \<noteq> nodeID
              then Inl (Status FailedPrecondition ''Volume attachment belongs to node %q, not this node %q''
                          [S attachedNodeID, S nodeID])
              else if attachmentID = [] \<or> hostNQN \<noteq> HostNQN nodeID
              then Inl (Status FailedPrecondition ''Volume attachment authorization is missing or invalid'' [])
              else Inr \<lparr>vs_volumeID = st_VolumeId req, vs_stagingTargetPath = stagingTargetPath, vs_nqn = nqn,
                        vs_portalIP = portalIP, vs_portalPort = Itoa port, vs_hostNQN = hostNQN,
                        vs_filesystem = cc_Filesystem capability\<rparr>)))"

definition nodeOperationError :: "'w host \<Rightarrow> string \<Rightarrow> error \<Rightarrow> 'w \<Rightarrow> error \<times> 'w" where
  "nodeOperationError H message err w =
     (case h_CtxErr H w of (c, w) \<Rightarrow>
      (case c of
         Some c \<Rightarrow> (FromContextError c, w)
       | None \<Rightarrow> (Status Internal ''%s: %v'' [S message, E err], w)))"

section \<open>Staging\<close>

fun device_loop ::
  "(string \<Rightarrow> 'w \<Rightarrow> (error + nat) \<times> 'w) \<Rightarrow> string \<Rightarrow> nat \<Rightarrow> wake \<Rightarrow> 'w \<Rightarrow> error option \<times> 'w" where
  "device_loop stat path 0 fin w =
     (case stat path w of (r, w) \<Rightarrow>
      (case r of
         Inr _ \<Rightarrow> (None, w)
       | Inl err \<Rightarrow>
           if \<not> os_IsNotExist err then (Some err, w)
           else (Some (case fin of
                         WakeDone c \<Rightarrow> ContextError c
                       | WakeTimeout \<Rightarrow> Errorf ''timed out waiting for %s'' [S path]), w)))"
| "device_loop stat path (Suc n) fin w =
     (case stat path w of (r, w) \<Rightarrow>
      (case r of
         Inr _ \<Rightarrow> (None, w)
       | Inl err \<Rightarrow>
           if \<not> os_IsNotExist err then (Some err, w) else device_loop stat path n fin w))"

definition waitForDevice :: "'w node_server \<Rightarrow> 'w host \<Rightarrow> string \<Rightarrow> 'w \<Rightarrow> error option \<times> 'w" where
  "waitForDevice ns H path w =
     (let pollInterval = (if ns_devicePollInterval ns \<le> 0 then 500000000 else ns_devicePollInterval ns);
          timeoutDuration = (if ns_deviceDiscoveryTimeout ns \<le> 0 then 5 * second_ns
                             else ns_deviceDiscoveryTimeout ns) in
      case h_Timers H pollInterval timeoutDuration w of (ticks, w) \<Rightarrow>
        device_loop (ns_statPath ns H) path (fst ticks) (snd ticks) w)"

definition is_mismatch :: "error \<Rightarrow> bool" where
  "is_mismatch e \<longleftrightarrow> list_ex (\<lambda>x. case x of FilesystemMismatch _ _ _ \<Rightarrow> True | MountMismatch _ \<Rightarrow> True | _ \<Rightarrow> False)
     (error_chain e)"

text \<open>The staging directory: whether the call made it.\<close>

definition stage_directory :: "'w node_server \<Rightarrow> 'w host \<Rightarrow> string \<Rightarrow> 'w \<Rightarrow> (error + bool) \<times> 'w" where
  "stage_directory ns H path w =
     (case ns_statPath ns H path w of (r, w) \<Rightarrow>
      (case r of
         Inr _ \<Rightarrow> (Inr False, w)
       | Inl statErr \<Rightarrow>
           if \<not> os_IsNotExist statErr
           then (Inl (Status Internal ''Failed to inspect staging target path: %v'' [E statErr]), w)
           else (case ns_createDirectory ns H path w of (err, w) \<Rightarrow>
                (case err of
                   Some e \<Rightarrow> (Inl (Status Internal ''Failed to create staging target path: %v'' [E e]), w)
                 | None \<Rightarrow> (Inr True, w)))))"

text \<open>What is done once the target is connected: whether the call mounted something, and the
  error of the request.\<close>

definition stage_device ::
  "nat \<Rightarrow> 'w node_server \<Rightarrow> 'w host \<Rightarrow> validatedNodeStageRequest \<Rightarrow> 'w \<Rightarrow> (bool \<times> error option) option \<times> 'w" where
  "stage_device fuel ns H stage w =
     (case ns_findDevice ns H (vs_nqn stage) w of (r, w) \<Rightarrow>
      (case r of
         Inl err \<Rightarrow>
           (case nodeOperationError H (''Failed to locate block device for NQN '' @ vs_nqn stage) err w of (e, w) \<Rightarrow>
              (Some (False, Some e), w))
       | Inr devPath \<Rightarrow>
      (case waitForDevice ns H devPath w of (err, w) \<Rightarrow>
      (case err of
         Some err \<Rightarrow>
           (case nodeOperationError H (''Block device '' @ devPath @ '' did not appear'') err w of (e, w) \<Rightarrow>
              (Some (False, Some e), w))
       | None \<Rightarrow>
      (case ns_mountStage fuel ns H devPath (vs_stagingTargetPath stage) (vs_filesystem stage) w of (r, w) \<Rightarrow>
      (case r of
         None \<Rightarrow> (None, w)
       | Some (mountedByCall, None) \<Rightarrow> (Some (mountedByCall, None), w)
       | Some (mountedByCall, Some err) \<Rightarrow>
           if is_mismatch err then (Some (mountedByCall, Some (Status FailedPrecondition ''%s'' [E err])), w)
           else (case nodeOperationError H ''Failed to format and mount'' err w of (e, w) \<Rightarrow>
                   (Some (mountedByCall, Some e), w))))))))"

text \<open>The deferred clean-up; its errors are ignored.\<close>

definition stage_cleanup ::
  "nat \<Rightarrow> 'w node_server \<Rightarrow> 'w host \<Rightarrow> validatedNodeStageRequest \<Rightarrow> bool \<Rightarrow> bool \<Rightarrow> bool \<Rightarrow> 'w \<Rightarrow>
   unit option \<times> 'w" where
  "stage_cleanup fuel ns Hc stage mountedByCall createdConnection createdDirectory w =
     (case (if mountedByCall then ns_unmount fuel ns Hc (vs_stagingTargetPath stage) w else (Some None, w)) of (r, w) \<Rightarrow>
      (case r of
         None \<Rightarrow> (None, w)
       | Some _ \<Rightarrow>
      (case (if createdConnection then ns_disconnect ns Hc (vs_nqn stage) w else (None, w)) of (_, w) \<Rightarrow>
      (case (if createdDirectory then ns_remove ns Hc (vs_stagingTargetPath stage) w else (None, w)) of (_, w) \<Rightarrow>
         (Some (), w)))))"

definition NodeStageVolume ::
  "nat \<Rightarrow> 'w node_server \<Rightarrow> 'w host \<Rightarrow> 'w host \<Rightarrow> NodeStageVolumeRequest \<Rightarrow> 'w \<Rightarrow> error option option \<times> 'w" where
  "NodeStageVolume fuel ns H Hc req w =
     (case validateNodeStageRequest (ns_nodeID ns) req of
        Inl err \<Rightarrow> (Some (Some err), w)
      | Inr stage \<Rightarrow>
     (case stage_directory ns H (vs_stagingTargetPath stage) w of (r, w) \<Rightarrow>
     (case r of
        Inl err \<Rightarrow> (Some (Some err), w)
      | Inr createdDirectory \<Rightarrow>
     (case ns_connect ns H (vs_nqn stage) (vs_portalIP stage) (vs_portalPort stage) (vs_hostNQN stage) w of
        ((createdConnection, err), w) \<Rightarrow>
     (case err of
        Some err \<Rightarrow>
          (case stage_cleanup fuel ns Hc stage False createdConnection createdDirectory w of (r, w) \<Rightarrow>
          (case r of
             None \<Rightarrow> (None, w)
           | Some _ \<Rightarrow>
               (case nodeOperationError H ''Failed to connect to NVMe-oF target'' err w of (e, w) \<Rightarrow>
                  (Some (Some e), w))))
      | None \<Rightarrow>
     (case stage_device fuel ns H stage w of (r, w) \<Rightarrow>
     (case r of
        None \<Rightarrow> (None, w)
      | Some (mountedByCall, None) \<Rightarrow> (Some None, w)
      | Some (mountedByCall, Some e) \<Rightarrow>
          (case stage_cleanup fuel ns Hc stage mountedByCall createdConnection createdDirectory w of (r, w) \<Rightarrow>
          (case r of None \<Rightarrow> (None, w) | Some _ \<Rightarrow> (Some (Some e), w))))))))))"

section \<open>The other handlers\<close>

text \<open>The NQN that a staged volume was connected with, from its handle.\<close>

definition unstage_nqn :: "string \<Rightarrow> error + string" where
  "unstage_nqn volID =
     (case ParseVolumeHandle volID of
        Inl _ \<Rightarrow> Inr (NQN volID)
      | Inr reference \<Rightarrow>
          (case volumeidentity_New (r_Namespace reference) (r_Name reference) (r_UID reference) of
             Inl identityErr \<Rightarrow> Inl (Status InvalidArgument ''Invalid volume identity: %v'' [E identityErr])
           | Inr identity \<Rightarrow> Inr (NQN (id_ExternalID identity))))"

definition NodeUnstageVolume ::
  "nat \<Rightarrow> 'w node_server \<Rightarrow> 'w host \<Rightarrow> string \<Rightarrow> string \<Rightarrow> 'w \<Rightarrow> error option option \<times> 'w" where
  "NodeUnstageVolume fuel ns H volID path w =
     (if volID = [] then (Some (Some (Status InvalidArgument ''Volume ID must be provided'' [])), w)
      else case validateNodePath ''Staging target path'' path of
        Inl err \<Rightarrow> (Some (Some err), w)
      | Inr stagingTargetPath \<Rightarrow>
     (case ns_unmount fuel ns H stagingTargetPath w of (r, w) \<Rightarrow>
     (case r of
        None \<Rightarrow> (None, w)
      | Some (Some err) \<Rightarrow> (Some (Some (Status Internal ''Failed to unmount staging path: %v'' [E err])), w)
      | Some None \<Rightarrow>
     (case unstage_nqn volID of
        Inl err \<Rightarrow> (Some (Some err), w)
      | Inr nqn \<Rightarrow>
     (case ns_disconnect ns H nqn w of (err, w) \<Rightarrow>
     (case err of
        Some err \<Rightarrow> (Some (Some (Status Internal ''Failed to disconnect NVMe target: %v'' [E err])), w)
      | None \<Rightarrow> (Some None, w)))))))"

record NodePublishVolumeRequest =
  pu_VolumeId :: string
  pu_StagingTargetPath :: string
  pu_TargetPath :: string
  pu_VolumeCapability :: "VolumeCapability option"
  pu_Readonly :: bool
  pu_VolumeContext :: strmap

definition is_mount_mismatch :: "error \<Rightarrow> bool" where
  "is_mount_mismatch e \<longleftrightarrow> list_ex (\<lambda>x. case x of MountMismatch _ \<Rightarrow> True | _ \<Rightarrow> False) (error_chain e)"

definition NodePublishVolume ::
  "nat \<Rightarrow> 'w node_server \<Rightarrow> 'w host \<Rightarrow> NodePublishVolumeRequest \<Rightarrow> 'w \<Rightarrow> error option option \<times> 'w" where
  "NodePublishVolume fuel ns H req w =
     (if pu_VolumeId req = [] then (Some (Some (Status InvalidArgument ''Volume ID must be provided'' [])), w)
      else case validateNodePath ''Staging target path'' (pu_StagingTargetPath req) of
        Inl err \<Rightarrow> (Some (Some err), w)
      | Inr source \<Rightarrow>
     (case validateNodePath ''Target path'' (pu_TargetPath req) of
        Inl err \<Rightarrow> (Some (Some err), w)
      | Inr target \<Rightarrow>
     (case validateVolumeCapabilities (pu_VolumeContext req) [pu_VolumeCapability req] of
        Inl err \<Rightarrow> (Some (Some (Status InvalidArgument ''Invalid volume capability: %v'' [E err])), w)
      | Inr _ \<Rightarrow>
     (case ns_mountPublished fuel ns H source target (pu_Readonly req) w of (r, w) \<Rightarrow>
     (case r of
        None \<Rightarrow> (None, w)
      | Some None \<Rightarrow> (Some None, w)
      | Some (Some err) \<Rightarrow>
          if is_mount_mismatch err then (Some (Some (Status FailedPrecondition ''%s'' [E err])), w)
          else (case nodeOperationError H ''Failed to bind mount'' err w of (e, w) \<Rightarrow> (Some (Some e), w)))))))"

definition NodeUnpublishVolume ::
  "nat \<Rightarrow> 'w node_server \<Rightarrow> 'w host \<Rightarrow> string \<Rightarrow> string \<Rightarrow> 'w \<Rightarrow> error option option \<times> 'w" where
  "NodeUnpublishVolume fuel ns H volID path w =
     (if volID = [] then (Some (Some (Status InvalidArgument ''Volume ID must be provided'' [])), w)
      else case validateNodePath ''Target path'' path of
        Inl err \<Rightarrow> (Some (Some err), w)
      | Inr target \<Rightarrow>
     (case ns_unmount fuel ns H target w of (r, w) \<Rightarrow>
     (case r of
        None \<Rightarrow> (None, w)
      | Some (Some err) \<Rightarrow> (Some (Some (Status Internal ''Failed to unmount target path: %v'' [E err])), w)
      | Some None \<Rightarrow> (Some None, w))))"

datatype node_capability = STAGE_UNSTAGE_VOLUME

definition NodeGetCapabilities :: "node_capability list" where
  "NodeGetCapabilities = [STAGE_UNSTAGE_VOLUME]"

definition NodeGetInfo :: "'w node_server \<Rightarrow> string" where
  "NodeGetInfo ns = ns_nodeID ns"

section \<open>What a list of calls shows\<close>

text \<open>A listing of the subsystems named the device for the NQN.\<close>

definition device_seen :: "string \<Rightarrow> string \<Rightarrow> host_event list \<Rightarrow> bool" where
  "device_seen nqn dev t \<longleftrightarrow>
     (\<exists>out. RunEv list_subsys_command out None \<in> set t \<and> deviceByNQN out nqn = Inr dev)"

text \<open>The last command probed the device, right after the target was seen unmounted, and found
  no file system (\<open>blank_seen\<close>) or the requested one (\<open>filesystem_seen\<close>).\<close>

definition blank_seen :: "string \<Rightarrow> string \<Rightarrow> host_event list \<Rightarrow> bool" where
  "blank_seen dev target t \<longleftrightarrow>
     (\<exists>u out. unmounted_seen target u \<and>
        (t = u @ [RunEv (probe_command dev) out None] \<and> normalizeFilesystem out = [] \<or>
         (\<exists>e. t = u @ [RunEv (probe_command dev) out (Some e), CtxErrEv None] \<and> errors_Is e (ExitError 2))))"

definition filesystem_seen :: "string \<Rightarrow> string \<Rightarrow> string \<Rightarrow> host_event list \<Rightarrow> bool" where
  "filesystem_seen dev target fs t \<longleftrightarrow>
     (\<exists>u out. unmounted_seen target u \<and> t = u @ [RunEv (probe_command dev) out None] \<and>
        normalizeFilesystem (normalizeFilesystem out) = fs)"

definition formatted_seen :: "string \<Rightarrow> string \<Rightarrow> string \<Rightarrow> host_event list \<Rightarrow> bool" where
  "formatted_seen dev target fs t \<longleftrightarrow>
     (\<exists>u args out. blank_seen dev target u \<and> filesystemFormatCommand dev fs = Inr args \<and>
        t = u @ [RunEv (Command args) out None])"

text \<open>The target was last seen without a mount, or \<^verbatim>\<open>umount\<close> said that nothing is mounted there.\<close>

definition unmount_confirmed :: "string \<Rightarrow> host_event list \<Rightarrow> bool" where
  "unmount_confirmed target t \<longleftrightarrow> unmounted_seen target t \<or>
     (\<exists>u out e. t = u @ [RunEv (umount_command target) out (Some e), CtxErrEv None] \<and>
        (Contains out ''not mounted'' \<or> Contains out ''no mount point specified''))"

lemma device_seen_mono [evidence]: "device_seen nqn dev t \<Longrightarrow> set t \<subseteq> set t' \<Longrightarrow> device_seen nqn dev t'"
  unfolding device_seen_def by blast

lemma command_kinds [simp]:
  "connect_command n i p h \<noteq> list_subsys_command" "connect_command n i p h \<noteq> disconnect_command n'"
  "connect_command n i p h \<noteq> probe_command d" "connect_command n i p h \<noteq> mount_command f d m"
  "connect_command n i p h \<noteq> umount_command m" "disconnect_command n \<noteq> list_subsys_command"
  by (simp_all add: connect_command_def list_subsys_command_def disconnect_command_def probe_command_def
      mount_command_def umount_command_def Command_def)

lemma format_not_connect [simp]:
  "filesystemFormatCommand d f = Inr args \<Longrightarrow> connect_command n i p h \<noteq> Command args"
  by (auto simp: filesystemFormatCommand_def connect_command_def Command_def split: if_splits)

section \<open>What the node service runs\<close>

text \<open>What staging a volume may do, given the calls made before. Connecting carries the host NQN
  of this node; a connection is closed only when this call asked for it; a device is probed,
  formatted and mounted only when it is the device of the volume's NQN, formatted only when the
  probe just before found it blank, mounted only when it was just formatted or holds the
  requested file system; a target is unmounted only when this call mounted it and a directory
  removed only when this call made it.\<close>

definition stage_command_ok :: "validatedNodeStageRequest \<Rightarrow> host_event list \<Rightarrow> command \<Rightarrow> bool" where
  "stage_command_ok stage u c \<longleftrightarrow>
     (let nqn = vs_nqn stage; target = vs_stagingTargetPath stage; fs = vs_filesystem stage;
          connect = connect_command nqn (vs_portalIP stage) (vs_portalPort stage) (vs_hostNQN stage) in
      c = list_subsys_command \<or> c = connect \<or>
      c = disconnect_command nqn \<and> was_run connect u \<or>
      (\<exists>dev. device_seen nqn dev u \<and>
         (c = probe_command dev \<and> unmounted_seen target u \<or>
          (\<exists>args. filesystemFormatCommand dev fs = Inr args \<and> c = Command args \<and> blank_seen dev target u) \<or>
          c = mount_command fs dev target \<and> (formatted_seen dev target fs u \<or> filesystem_seen dev target fs u) \<or>
          c = umount_command target \<and> succeeded (mount_command fs dev target) u)))"

fun stage_ok :: "validatedNodeStageRequest \<Rightarrow> host_event list \<Rightarrow> host_event \<Rightarrow> bool" where
  "stage_ok stage u (RunEv c _ _) \<longleftrightarrow> stage_command_ok stage u c"
| "stage_ok stage u (MkdirEv p _) \<longleftrightarrow> p = vs_stagingTargetPath stage"
| "stage_ok stage u (RemoveEv p _) \<longleftrightarrow> p = vs_stagingTargetPath stage \<and> MkdirEv p None \<in> set u"
| "stage_ok stage u ev \<longleftrightarrow> is_read ev"

lemma stage_ok_read [intro]: "is_read ev \<Longrightarrow> stage_ok stage u ev"
  by (cases ev) simp_all

lemma stage_commands [intro]:
  "stage_command_ok stage u list_subsys_command"
  "stage_command_ok stage u (connect_command (vs_nqn stage) (vs_portalIP stage) (vs_portalPort stage) (vs_hostNQN stage))"
  "was_run (connect_command (vs_nqn stage) (vs_portalIP stage) (vs_portalPort stage) (vs_hostNQN stage)) u \<Longrightarrow>
   stage_command_ok stage u (disconnect_command (vs_nqn stage))"
  "device_seen (vs_nqn stage) dev u \<Longrightarrow> unmounted_seen (vs_stagingTargetPath stage) u \<Longrightarrow>
   stage_command_ok stage u (probe_command dev)"
  "device_seen (vs_nqn stage) dev u \<Longrightarrow> filesystemFormatCommand dev (vs_filesystem stage) = Inr args \<Longrightarrow>
   blank_seen dev (vs_stagingTargetPath stage) u \<Longrightarrow> stage_command_ok stage u (Command args)"
  "device_seen (vs_nqn stage) dev u \<Longrightarrow>
   formatted_seen dev (vs_stagingTargetPath stage) (vs_filesystem stage) u \<or>
   filesystem_seen dev (vs_stagingTargetPath stage) (vs_filesystem stage) u \<Longrightarrow>
   stage_command_ok stage u (mount_command (vs_filesystem stage) dev (vs_stagingTargetPath stage))"
  "device_seen (vs_nqn stage) dev u \<Longrightarrow>
   succeeded (mount_command (vs_filesystem stage) dev (vs_stagingTargetPath stage)) u \<Longrightarrow>
   stage_command_ok stage u (umount_command (vs_stagingTargetPath stage))"
  unfolding stage_command_ok_def Let_def by blast+

section \<open>The operations, call by call\<close>

lemma GetDeviceByNQN_post:
  assumes "justified (stage_ok stage) t" and "runs_only A t0 t" and "list_subsys_command \<in> A"
  shows "post (GetDeviceByNQN (recording_host H) nqn (w, t))
     (\<lambda>r t'. justified (stage_ok stage) t' \<and> runs_only A t0 t' \<and> set t \<subseteq> set t' \<and>
        (\<forall>dev. r = Inr dev \<longrightarrow> device_seen nqn dev t') \<and>
        (\<forall>c. c \<noteq> list_subsys_command \<longrightarrow> succeeded c t' = succeeded c t))"
  unfolding GetDeviceByNQN_def
  by (intro vcg) (use assms in \<open>auto simp: device_seen_def\<close>)

lemma ConnectRDMA_post:
  assumes "justified (stage_ok stage) t" and "runs_only A t0 t" and "{list_subsys_command, c} \<subseteq> A"
    and "c = connect_command (vs_nqn stage) (vs_portalIP stage) (vs_portalPort stage) (vs_hostNQN stage)"
    and "\<not> succeeded c t"
  shows "post (ConnectRDMA (recording_host H) (vs_nqn stage) (vs_portalIP stage) (vs_portalPort stage) (vs_hostNQN stage) (w, t))
     (\<lambda>r t'. justified (stage_ok stage) t' \<and> runs_only A t0 t' \<and> set t \<subseteq> set t' \<and>
        (fst r \<longrightarrow> was_run c t') \<and> (succeeded c t' \<longrightarrow> fst r))"
  unfolding ConnectRDMA_def
  by (intro vcg post_bindI [OF GetDeviceByNQN_post [where stage = stage and A = A and ?t0.0 = t0]])
     (use assms in \<open>auto simp: was_run_def\<close>)

lemma DisconnectRDMA_post:
  assumes "justified J t" and "\<And>u e. is_read e \<Longrightarrow> J u e" and "runs_only A t0 t" and "disconnect_command nqn \<in> A"
    and "\<And>out e. J t (RunEv (disconnect_command nqn) out e)"
  shows "post (DisconnectRDMA (recording_host H) nqn (w, t))
     (\<lambda>r t'. justified J t' \<and> runs_only A t0 t' \<and> set t \<subseteq> set t' \<and> was_run (disconnect_command nqn) t')"
  unfolding DisconnectRDMA_def
  by (intro vcg) (use assms in auto)

lemma isMountPoint_runs:
  assumes "justified J t" and "\<And>u e. is_read e \<Longrightarrow> J u e" and "runs_only A t0 t"
  shows "post (csi_isMountPoint (recording_host H) target (w, t))
     (\<lambda>r t'. justified J t' \<and> runs_only A t0 t' \<and> (r = (False, None) \<longrightarrow> unmounted_seen target t'))"
  by (rule post_weaken [OF csi_isMountPoint_post])
     (use assms in \<open>auto intro: runs_only_trans runs_only_reads justified_reads\<close>)

lemma unmount_post:
  assumes "\<And>u e. is_read e \<Longrightarrow> J u e" and "umount_command target \<in> A"
    and "\<And>u out e. set t0 \<subseteq> set u \<Longrightarrow> J u (RunEv (umount_command target) out e)"
    and "justified J t" and "runs_only A t0 t"
  shows "post (unmount fuel (recording_host H) target (w, t))
     (\<lambda>r t'. justified J t' \<and> runs_only A t0 t' \<and> (r = Some None \<longrightarrow> unmount_confirmed target t'))"
  using assms(4,5)
proof (induction fuel arbitrary: w t)
  case 0
  then show ?case by (simp add: post_def calls_def)
next
  case (Suc fuel)
  show ?case
    unfolding unmount.simps
    by (intro vcg post_bindI2 [OF isMountPoint_runs [where J = J and A = A and ?t0.0 = t0]] post_weaken [OF Suc.IH])
       (use Suc.prems assms(1-3) in \<open>auto simp: unmount_confirmed_def dest: runs_only_set\<close>)
qed

section \<open>Staging, call by call\<close>

definition stage_connect :: "validatedNodeStageRequest \<Rightarrow> command" where
  "stage_connect stage =
     connect_command (vs_nqn stage) (vs_portalIP stage) (vs_portalPort stage) (vs_hostNQN stage)"

text \<open>The calls \<open>t\<close> are allowed, and since \<open>t0\<close> no connection was asked for.\<close>

definition staging :: "validatedNodeStageRequest \<Rightarrow> host_event list \<Rightarrow> host_event list \<Rightarrow> bool" where
  "staging stage t0 t \<longleftrightarrow> justified (stage_ok stage) t \<and> runs_only (- {stage_connect stage}) t0 t"

lemma device_seen_append: "device_seen nqn dev t \<Longrightarrow> device_seen nqn dev (t @ u)"
  by (rule device_seen_mono) auto

lemma stage_connect_kinds [simp]:
  "stage_connect stage \<noteq> list_subsys_command" "stage_connect stage \<noteq> disconnect_command n"
  "stage_connect stage \<noteq> probe_command d" "stage_connect stage \<noteq> mount_command f d m"
  "stage_connect stage \<noteq> umount_command m"
  "filesystemFormatCommand d f = Inr args \<Longrightarrow> stage_connect stage \<noteq> Command args"
  by (simp_all add: stage_connect_def)

lemmas stage_connect_kinds_sym [simp] = stage_connect_kinds [symmetric]

lemma staging_read: "staging stage t0 t \<Longrightarrow> list_all is_read u \<Longrightarrow> staging stage t0 (t @ u)"
proof -
  assume "staging stage t0 t" "list_all is_read u"
  moreover from this(2) have "reads_after t (t @ u)" by (simp add: reads_after_def)
  ultimately show ?thesis
    unfolding staging_def by (blast intro: justified_reads runs_only_reads runs_only_trans)
qed

lemma staging_reads: "staging stage t0 t \<Longrightarrow> reads_after t t' \<Longrightarrow> staging stage t0 t'"
  unfolding reads_after_def by (blast intro: staging_read)

lemma staging_run:
  "staging stage t0 t \<Longrightarrow> stage_command_ok stage t c \<Longrightarrow> c \<noteq> stage_connect stage \<Longrightarrow>
   staging stage t0 (t @ [RunEv c out e])"
  by (auto simp: staging_def)

lemma staging_run_ctx:
  "staging stage t0 t \<Longrightarrow> stage_command_ok stage t c \<Longrightarrow> c \<noteq> stage_connect stage \<Longrightarrow>
   staging stage t0 (t @ [RunEv c out e, CtxErrEv x])"
  by (auto simp: staging_def)

lemmas staging_intros = staging_read staging_reads staging_run staging_run_ctx

lemma probe_post:
  assumes "staging stage t0 t" and "device_seen (vs_nqn stage) dev t"
    and "unmounted_seen (vs_stagingTargetPath stage) t"
  shows "post (probeFilesystem (recording_host H) dev (w, t))
     (\<lambda>r t'. staging stage t0 t' \<and> set t \<subseteq> set t' \<and>
        (r = Inr [] \<longrightarrow> blank_seen dev (vs_stagingTargetPath stage) t') \<and>
        (\<forall>d. r = Inr d \<longrightarrow> d \<noteq> [] \<longrightarrow> filesystem_seen dev (vs_stagingTargetPath stage) (normalizeFilesystem d) t'))"
  unfolding probeFilesystem_def
  by (intro vcg)
     (use assms in \<open>auto simp: blank_seen_def filesystem_seen_def intro!: staging_run staging_run_ctx\<close>)

lemma format_post:
  assumes "staging stage t0 t" and "device_seen (vs_nqn stage) dev t"
    and "blank_seen dev (vs_stagingTargetPath stage) t"
  shows "post (formatFilesystem (recording_host H) dev (vs_filesystem stage) (w, t))
     (\<lambda>r t'. staging stage t0 t' \<and> set t \<subseteq> set t' \<and>
        (r = None \<longrightarrow> formatted_seen dev (vs_stagingTargetPath stage) (vs_filesystem stage) t'))"
  unfolding formatFilesystem_def
  by (intro vcg)
     (use assms stage_connect_kinds(6) [symmetric] in
       \<open>auto simp: formatted_seen_def intro!: staging_run staging_run_ctx stage_commands(5)\<close>)

lemma ensure_post:
  assumes "staging stage t0 t" and "device_seen (vs_nqn stage) dev t"
    and "unmounted_seen (vs_stagingTargetPath stage) t"
  shows "post (ensureFilesystemContext (probeFilesystem (recording_host H)) (formatFilesystem (recording_host H))
            dev (vs_filesystem stage) (w, t))
     (\<lambda>r t'. staging stage t0 t' \<and> set t \<subseteq> set t' \<and> device_seen (vs_nqn stage) dev t' \<and>
        (r = None \<longrightarrow> formatted_seen dev (vs_stagingTargetPath stage) (vs_filesystem stage) t' \<or>
           filesystem_seen dev (vs_stagingTargetPath stage) (vs_filesystem stage) t'))"
  unfolding ensureFilesystemContext_def
  by (intro vcg post_bindI [OF probe_post [where stage = stage and ?t0.0 = t0]]
        post_weaken [OF format_post [where stage = stage and ?t0.0 = t0]])
     (use assms in \<open>auto intro: device_seen_mono\<close>)

lemma confirm_post:
  assumes "staging stage t0 t" and "device_seen (vs_nqn stage) dev t"
    and "succeeded (mount_command (vs_filesystem stage) dev (vs_stagingTargetPath stage)) t"
  shows "post (confirm_mount fuel (recording_host H) (vs_stagingTargetPath stage) msg v (w, t))
     (\<lambda>r t'. staging stage t0 t' \<and> set t \<subseteq> set t' \<and> (r = Some None \<longrightarrow> v = (True, None) \<and> t' = t))"
proof -
  have u: "post (unmount fuel (recording_host H) (vs_stagingTargetPath stage) (w, t))
      (\<lambda>r t'. staging stage t0 t' \<and> set t \<subseteq> set t')"
    by (rule post_weaken [OF unmount_post [where J = "stage_ok stage" and A = "- {stage_connect stage}" and ?t0.0 = t]])
       (use assms in \<open>auto simp: staging_def intro: runs_only_trans device_seen_mono succeeded_mono
          dest: runs_only_set intro!: stage_commands(7) [where dev = dev]\<close>)
  show ?thesis
    unfolding confirm_mount_def
    by (cases v) (auto intro!: vcg post_bindI [OF u] simp: assms)
qed

lemma verify_post:
  assumes "staging stage t0 t"
  shows "post (verifyStagingMount (recording_host H) dev target fs (w, t))
     (\<lambda>r t'. staging stage t0 t' \<and> set t \<subseteq> set t' \<and> (r = (True, None) \<longrightarrow> staged_seen dev target fs t') \<and>
        (r = (False, None) \<longrightarrow> unmounted_seen target t'))"
  by (rule post_weaken [OF verifyStagingMount_post])
     (use assms in \<open>auto intro: staging_reads dest: reads_after_set\<close>)

definition staged_or_clean :: "validatedNodeStageRequest \<Rightarrow> string \<Rightarrow> (bool \<times> error option) option \<Rightarrow> host_event list \<Rightarrow> bool" where
  "staged_or_clean stage dev r t \<longleftrightarrow>
     (case r of
        None \<Rightarrow> True
      | Some (_, None) \<Rightarrow> staged_seen dev (vs_stagingTargetPath stage) (vs_filesystem stage) t
      | Some (m, Some _) \<Rightarrow> \<not> m)"

lemma staged_or_clean_simps [simp]:
  "staged_or_clean stage dev None t"
  "staged_or_clean stage dev (Some (m, None)) t \<longleftrightarrow>
     staged_seen dev (vs_stagingTargetPath stage) (vs_filesystem stage) t"
  "staged_or_clean stage dev (Some (m, Some e)) t \<longleftrightarrow> \<not> m"
  by (simp_all add: staged_or_clean_def)

lemma checked_mount_post:
  assumes "staging stage t0 t" and "device_seen (vs_nqn stage) dev t"
    and "succeeded (mount_command (vs_filesystem stage) dev (vs_stagingTargetPath stage)) t" and "set t' \<subseteq> set t"
  shows "post (case verifyStagingMount (recording_host H) dev (vs_stagingTargetPath stage) (vs_filesystem stage) (w, t) of
      (verified, w) \<Rightarrow>
      (case confirm_mount fuel (recording_host H) (vs_stagingTargetPath stage) msg verified w of (r, w) \<Rightarrow>
      (case r of
         None \<Rightarrow> (None, w)
       | Some (Some e) \<Rightarrow> (Some (False, Some e), w)
       | Some None \<Rightarrow> (Some (True, None), w))))
     (\<lambda>r u. staging stage t0 u \<and> set t' \<subseteq> set u \<and> staged_or_clean stage dev r u)"
  by (intro post_bindI [OF verify_post [where stage = stage and ?t0.0 = t0]]
        post_bindI [OF confirm_post [where stage = stage and ?t0.0 = t0 and dev = dev]] post_optionI post_retI)
     (use assms in \<open>auto intro: device_seen_mono succeeded_mono\<close>)

lemma formatAndMount_post:
  assumes "staging stage t0 t" and "device_seen (vs_nqn stage) dev t"
  shows "post (formatAndMount fuel (recording_host H) dev (vs_stagingTargetPath stage) (vs_filesystem stage) (w, t))
     (\<lambda>r t'. staging stage t0 t' \<and> set t \<subseteq> set t' \<and> staged_or_clean stage dev r t')"
proof -
  have mk: "staging stage t0 (t @ [MkdirEv (vs_stagingTargetPath stage) r])" for r
    using assms(1) by (auto simp: staging_def)
  show ?thesis
    unfolding formatAndMount_def
    by (intro vcg post_bindI2 [OF verify_post [where stage = stage and ?t0.0 = t0]]
          post_bindI [OF ensure_post [where stage = stage and ?t0.0 = t0]] checked_mount_post)
       (use assms mk in \<open>auto intro!: staging_run staging_run_ctx stage_commands(6) intro: device_seen_append device_seen_mono\<close>)
qed

lemma new_node_server_ops [simp]:
  "ns_nodeID (new_node_server n) = n"
  "ns_connect (new_node_server n) H = ConnectRDMA H" "ns_disconnect (new_node_server n) H = DisconnectRDMA H"
  "ns_findDevice (new_node_server n) H = GetDeviceByNQN H" "ns_statPath (new_node_server n) H = h_Stat H"
  "ns_createDirectory (new_node_server n) H = h_MkdirAll H" "ns_remove (new_node_server n) H = h_Remove H"
  "ns_mountStage fuel (new_node_server n) H = formatAndMount fuel H"
  "ns_unmount fuel (new_node_server n) H = unmount fuel H"
  "ns_mountPublished fuel (new_node_server n) H = publishBindMount fuel H"
  by (simp_all add: fun_eq_iff new_node_server_def ns_connect_def ns_disconnect_def ns_findDevice_def ns_statPath_def
      ns_createDirectory_def ns_remove_def ns_mountStage_def ns_unmount_def ns_mountPublished_def)

lemma device_loop_post:
  "post (device_loop (h_Stat (recording_host H)) path n fin (w, t)) (\<lambda>r t'. reads_after t t')"
proof (induction n arbitrary: w t)
  case 0
  show ?case unfolding device_loop.simps by (intro vcg) (auto simp: reads_after_def)
next
  case (Suc n)
  show ?case
    unfolding device_loop.simps
    by (intro vcg post_weaken [OF Suc.IH]) (auto simp: reads_after_def)
qed

lemma waitForDevice_post:
  "post (waitForDevice (new_node_server n) (recording_host H) path (w, t)) (\<lambda>r t'. reads_after t t')"
  unfolding waitForDevice_def new_node_server_ops by (intro vcg device_loop_post)

lemma nodeOperationError_post:
  "post (nodeOperationError (recording_host H) msg err (w, t)) (\<lambda>r t'. reads_after t t')"
  unfolding nodeOperationError_def by (intro vcg) (auto simp: reads_after_def)

lemma staging_post_reads:
  assumes "staging stage t0 t" and "post p (\<lambda>r t'. reads_after t t')"
  shows "post p (\<lambda>r t'. staging stage t0 t' \<and> set t \<subseteq> set t')"
  by (rule post_weaken [OF assms(2)]) (use assms(1) in \<open>auto intro: staging_reads dest: reads_after_set\<close>)

lemmas staging_waits =
  staging_post_reads [OF _ waitForDevice_post] staging_post_reads [OF _ nodeOperationError_post]

text \<open>Staging succeeds only with the device of the volume mounted as asked, and reports no mount
  of its own when it fails.\<close>

definition stage_result :: "validatedNodeStageRequest \<Rightarrow> (bool \<times> error option) option \<Rightarrow> host_event list \<Rightarrow> bool" where
  "stage_result stage r t \<longleftrightarrow>
     (case r of
        None \<Rightarrow> True
      | Some (_, None) \<Rightarrow> (\<exists>dev. device_seen (vs_nqn stage) dev t \<and>
          staged_seen dev (vs_stagingTargetPath stage) (vs_filesystem stage) t)
      | Some (m, Some _) \<Rightarrow> \<not> m)"

lemma stage_result_simps [simp]:
  "stage_result stage None t"
  "stage_result stage (Some (m, None)) t \<longleftrightarrow> (\<exists>dev. device_seen (vs_nqn stage) dev t \<and>
     staged_seen dev (vs_stagingTargetPath stage) (vs_filesystem stage) t)"
  "stage_result stage (Some (m, Some e)) t \<longleftrightarrow> \<not> m"
  by (simp_all add: stage_result_def)

lemma stage_device_post:
  assumes "staging stage t0 t"
  shows "post (stage_device fuel (new_node_server n) (recording_host H) stage (w, t))
     (\<lambda>r t'. staging stage t0 t' \<and> set t \<subseteq> set t' \<and>
        stage_result stage r t')"
proof -
  have g: "post (GetDeviceByNQN (recording_host H) (vs_nqn stage) (w, t))
     (\<lambda>r t'. staging stage t0 t' \<and> set t \<subseteq> set t' \<and> (\<forall>dev. r = Inr dev \<longrightarrow> device_seen (vs_nqn stage) dev t'))"
    by (rule post_weaken [OF GetDeviceByNQN_post [where stage = stage and ?t0.0 = t0 and A = "- {stage_connect stage}"]])
       (use assms in \<open>auto simp: staging_def\<close>)
  have e: "post (case nodeOperationError (recording_host H) msg err (w, v) of (e, w) \<Rightarrow> (Some (m, Some e), w))
     (\<lambda>r t'. staging stage t0 t' \<and> set t \<subseteq> set t' \<and>
        stage_result stage r t')"
    if "staging stage t0 v" "set t \<subseteq> set v" "\<not> m" for msg err w v m
    by (intro post_bindI [OF staging_waits(2) [where stage = stage and ?t0.0 = t0]] post_retI) (use that in auto)
  have f: "post (case r of
         None \<Rightarrow> (None, (w, v))
       | Some (mountedByCall, None) \<Rightarrow> (Some (mountedByCall, None), (w, v))
       | Some (mountedByCall, Some err) \<Rightarrow>
           if is_mismatch err then (Some (mountedByCall, Some (Status FailedPrecondition ''%s'' [E err])), (w, v))
           else (case nodeOperationError (recording_host H) ''Failed to format and mount'' err (w, v) of (e, w) \<Rightarrow>
                   (Some (mountedByCall, Some e), w)))
     (\<lambda>r t'. staging stage t0 t' \<and> set t \<subseteq> set t' \<and>
        stage_result stage r t')"
    if "staging stage t0 v" "set t \<subseteq> set v" "staged_or_clean stage dev r v" "device_seen (vs_nqn stage) dev v" for r w v dev
    using that by (auto split: option.split intro!: post_retI e)
  show ?thesis
    unfolding stage_device_def new_node_server_ops
    by (intro post_bindI [OF g] post_sumI post_bindI [OF staging_waits(1) [where stage = stage and ?t0.0 = t0]]
          post_optionI e post_bindI [OF formatAndMount_post [where stage = stage and ?t0.0 = t0]] f)
       (auto intro: device_seen_mono)
qed

lemma stage_cleanup_post:
  assumes "justified (stage_ok stage) t" and "created \<Longrightarrow> was_run (stage_connect stage) t"
    and "dir \<Longrightarrow> MkdirEv (vs_stagingTargetPath stage) None \<in> set t"
  shows "post (stage_cleanup fuel (new_node_server n) (recording_host Hc) stage False created dir (w, t))
     (\<lambda>r t'. justified (stage_ok stage) t' \<and> runs_only {disconnect_command (vs_nqn stage)} t t' \<and>
        (created \<longrightarrow> was_run (disconnect_command (vs_nqn stage)) t'))"
proof -
  have d: "post (if created then DisconnectRDMA (recording_host Hc) (vs_nqn stage) (w, t) else (None, (w, t)))
     (\<lambda>r t'. justified (stage_ok stage) t' \<and> runs_only {disconnect_command (vs_nqn stage)} t t' \<and>
        set t \<subseteq> set t' \<and> (created \<longrightarrow> was_run (disconnect_command (vs_nqn stage)) t'))" for w
    by (intro vcg post_weaken [OF DisconnectRDMA_post [where J = "stage_ok stage" and ?t0.0 = t
            and A = "{disconnect_command (vs_nqn stage)}"]])
       (use assms in \<open>auto simp: stage_connect_def\<close>)
  have r: "post (if dir then h_Remove (recording_host Hc) (vs_stagingTargetPath stage) (w, v) else (None, (w, v)))
     (\<lambda>r t'. justified (stage_ok stage) t' \<and> runs_only {disconnect_command (vs_nqn stage)} t t' \<and>
        (created \<longrightarrow> was_run (disconnect_command (vs_nqn stage)) t'))"
    if "justified (stage_ok stage) v" "runs_only {disconnect_command (vs_nqn stage)} t v" "set t \<subseteq> set v"
       "created \<longrightarrow> was_run (disconnect_command (vs_nqn stage)) v" for w v
    by (intro vcg) (use that assms(3) in auto)
  show ?thesis
    unfolding stage_cleanup_def new_node_server_ops if_False prod.case option.case
    by (intro post_bindI [OF d] post_bindI [OF r] post_retI) auto
qed

lemma stage_directory_post:
  assumes "justified (stage_ok stage) t"
  shows "post (stage_directory (new_node_server n) (recording_host H) (vs_stagingTargetPath stage) (w, t))
     (\<lambda>r t'. justified (stage_ok stage) t' \<and> runs_only {} t t' \<and>
        (r = Inr True \<longrightarrow> MkdirEv (vs_stagingTargetPath stage) None \<in> set t'))"
  unfolding stage_directory_def new_node_server_ops
  by (intro vcg) (use assms in auto)

text \<open>What a staging request did: only what is allowed; when it succeeded, the device of the
  volume is mounted as asked; when it failed, a connection that it made was closed again.\<close>

definition stage_calls_ok :: "validatedNodeStageRequest \<Rightarrow> error option option \<Rightarrow> host_event list \<Rightarrow> bool" where
  "stage_calls_ok stage r t \<longleftrightarrow> justified (stage_ok stage) t \<and>
     (case r of
        None \<Rightarrow> True
      | Some None \<Rightarrow> (\<exists>dev. device_seen (vs_nqn stage) dev t \<and>
          staged_seen dev (vs_stagingTargetPath stage) (vs_filesystem stage) t)
      | Some (Some _) \<Rightarrow> succeeded (stage_connect stage) t \<longrightarrow> was_run (disconnect_command (vs_nqn stage)) t)"

lemma stage_calls_ok_simps [simp]:
  "stage_calls_ok stage None t \<longleftrightarrow> justified (stage_ok stage) t"
  "stage_calls_ok stage (Some None) t \<longleftrightarrow> justified (stage_ok stage) t \<and> (\<exists>dev. device_seen (vs_nqn stage) dev t \<and>
     staged_seen dev (vs_stagingTargetPath stage) (vs_filesystem stage) t)"
  "stage_calls_ok stage (Some (Some e)) t \<longleftrightarrow> justified (stage_ok stage) t \<and>
     (succeeded (stage_connect stage) t \<longrightarrow> was_run (disconnect_command (vs_nqn stage)) t)"
  by (simp_all add: stage_calls_ok_def)

lemma stage_failed_post:
  assumes "justified (stage_ok stage) t" and "created \<Longrightarrow> was_run (stage_connect stage) t"
    and "dir \<Longrightarrow> MkdirEv (vs_stagingTargetPath stage) None \<in> set t"
    and "succeeded (stage_connect stage) t \<Longrightarrow> created"
    and "\<And>w v. justified (stage_ok stage) v \<Longrightarrow>
          (succeeded (stage_connect stage) v \<longrightarrow> was_run (disconnect_command (vs_nqn stage)) v) \<Longrightarrow>
          post (g (w, v)) (stage_calls_ok stage)"
  shows "post (case stage_cleanup fuel (new_node_server n) (recording_host Hc) stage False created dir (w, t) of (r, w) \<Rightarrow>
     (case r of None \<Rightarrow> (None, w) | Some _ \<Rightarrow> g w)) (stage_calls_ok stage)"
  by (intro post_bindI [OF stage_cleanup_post] post_optionI post_retI assms(5))
     (use assms in \<open>auto simp: runs_only_succeeded\<close>)

lemma NodeStage_connected_post:
  assumes "justified (stage_ok stage) t" and "created \<Longrightarrow> was_run (stage_connect stage) t"
    and "dir \<Longrightarrow> MkdirEv (vs_stagingTargetPath stage) None \<in> set t"
    and "succeeded (stage_connect stage) t \<Longrightarrow> created"
  shows "post (case stage_device fuel (new_node_server n) (recording_host H) stage (w, t) of (r, w) \<Rightarrow>
     (case r of
        None \<Rightarrow> (None, w)
      | Some (mountedByCall, None) \<Rightarrow> (Some None, w)
      | Some (mountedByCall, Some e) \<Rightarrow>
          (case stage_cleanup fuel (new_node_server n) (recording_host Hc) stage mountedByCall created dir w of (r, w) \<Rightarrow>
          (case r of None \<Rightarrow> (None, w) | Some _ \<Rightarrow> (Some (Some e), w))))) (stage_calls_ok stage)"
proof -
  have "staging stage t t" using assms(1) by (simp add: staging_def)
  moreover have "post (case r of
        None \<Rightarrow> (None, (w, v))
      | Some (mountedByCall, None) \<Rightarrow> (Some None, (w, v))
      | Some (mountedByCall, Some e) \<Rightarrow>
          (case stage_cleanup fuel (new_node_server n) (recording_host Hc) stage mountedByCall created dir (w, v) of (r, w) \<Rightarrow>
          (case r of None \<Rightarrow> (None, w) | Some _ \<Rightarrow> (Some (Some e), w)))) (stage_calls_ok stage)"
    if "staging stage t v" "set t \<subseteq> set v" "stage_result stage r v" for r w v
  proof -
    have "justified (stage_ok stage) v" "succeeded (stage_connect stage) v \<longleftrightarrow> succeeded (stage_connect stage) t"
      "created \<Longrightarrow> was_run (stage_connect stage) v" "dir \<Longrightarrow> MkdirEv (vs_stagingTargetPath stage) None \<in> set v"
      using that(1,2) assms(2,3) by (auto simp: staging_def runs_only_succeeded elim: was_run_mono)
    then show ?thesis
      using that assms by (auto split: option.split intro!: post_retI stage_failed_post)
  qed
  ultimately show ?thesis
    by (intro post_bindI [OF stage_device_post [where ?t0.0 = t]]) auto
qed

text \<open>C3: staging a volume does only what its request allows, in order. It connects with the
  host NQN of this node, formats a device only when that is the device of the volume's NQN,
  the staging path was seen unmounted and a probe just before found no file system on it, and
  mounts it only when it was just formatted or holds the requested file system. When it
  succeeds, the mount table shows the volume's device mounted with that file system and
  writable; when it fails, it has disconnected the connection that it made. A refused request
  touches nothing.\<close>

theorem NodeStageVolume_calls:
  "post (NodeStageVolume fuel (new_node_server nodeID) (recording_host H) (recording_host Hc) req (w, []))
     (\<lambda>r t. case validateNodeStageRequest nodeID req of
        Inl err \<Rightarrow> r = Some (Some err) \<and> t = []
      | Inr stage \<Rightarrow> stage_calls_ok stage r t)"
proof (cases "validateNodeStageRequest nodeID req")
  case (Inl err)
  then show ?thesis by (simp add: NodeStageVolume_def post_def calls_def)
next
  case (Inr stage)
  have e: "post (case nodeOperationError (recording_host H) msg err (w, v) of (e, w) \<Rightarrow> (Some (Some e), w))
      (stage_calls_ok stage)"
    if "justified (stage_ok stage) v" "succeeded (stage_connect stage) v \<longrightarrow> was_run (disconnect_command (vs_nqn stage)) v"
    for msg err w v
    by (intro post_bindI [OF staging_waits(2) [where stage = stage and ?t0.0 = v]] post_retI)
       (use that in \<open>auto simp: staging_def runs_only_succeeded intro: was_run_mono\<close>)
  have c: "post (ConnectRDMA (recording_host H) (vs_nqn stage) (vs_portalIP stage) (vs_portalPort stage) (vs_hostNQN stage) (w, v))
     (\<lambda>r t'. justified (stage_ok stage) t' \<and> set v \<subseteq> set t' \<and> (fst r \<longrightarrow> was_run (stage_connect stage) t') \<and>
        (succeeded (stage_connect stage) t' \<longrightarrow> fst r))"
    if "justified (stage_ok stage) v" "\<not> succeeded (stage_connect stage) v" for w v
    by (rule post_weaken [OF ConnectRDMA_post [where stage = stage and ?t0.0 = v and A = UNIV and c = "stage_connect stage"]])
       (use that in \<open>auto simp: stage_connect_def\<close>)
  show ?thesis
    unfolding NodeStageVolume_def new_node_server_ops Inr sum.case
    by (intro post_bindI [OF stage_directory_post] post_sumI post_bindI2 [OF c] post_optionI
          stage_failed_post e NodeStage_connected_post post_retI)
       (auto simp: runs_only_succeeded)
qed

end
