(* ===== verification/Csi_Publishing.thy ===== *)
theory Csi_Publishing
  imports Csi_Node
begin

text \<open>
  What the node service does when it unstages, publishes and unpublishes a volume, call by
  call, which paths it accepts, and that unmounting ends.
\<close>

section \<open>Unstaging\<close>

text \<open>Unstaging runs \<^verbatim>\<open>umount\<close> on the staging path, and disconnects from the target of the volume
  only when nothing is mounted there any more.\<close>

definition unstage_command_ok :: "string \<Rightarrow> string \<Rightarrow> host_event list \<Rightarrow> command \<Rightarrow> bool" where
  "unstage_command_ok vol target u c \<longleftrightarrow> c = umount_command target \<or>
     (\<exists>nqn. unstage_nqn vol = Inr nqn \<and> c = disconnect_command nqn \<and> unmount_confirmed target u)"

fun unstage_ok :: "string \<Rightarrow> string \<Rightarrow> host_event list \<Rightarrow> host_event \<Rightarrow> bool" where
  "unstage_ok vol target u (RunEv c _ _) \<longleftrightarrow> unstage_command_ok vol target u c"
| "unstage_ok vol target u ev \<longleftrightarrow> is_read ev"

lemma unstage_ok_read [intro]: "is_read ev \<Longrightarrow> unstage_ok vol target u ev"
  by (cases ev) simp_all

text \<open>The last command closed the connection, or found none.\<close>

definition disconnected :: "string \<Rightarrow> host_event list \<Rightarrow> bool" where
  "disconnected nqn t \<longleftrightarrow> (\<exists>u out. t = u @ [RunEv (disconnect_command nqn) out None] \<or>
     (\<exists>e. t = u @ [RunEv (disconnect_command nqn) out (Some e), CtxErrEv None] \<and>
        Contains out ''no controllers found''))"

definition unstage_calls_ok :: "string \<Rightarrow> string \<Rightarrow> error option option \<Rightarrow> host_event list \<Rightarrow> bool" where
  "unstage_calls_ok vol target r t \<longleftrightarrow> justified (unstage_ok vol target) t \<and>
     (r = Some None \<longrightarrow> (\<exists>nqn. unstage_nqn vol = Inr nqn \<and> disconnected nqn t))"

lemma DisconnectRDMA_closed:
  assumes "justified J t" and "\<And>u e. is_read e \<Longrightarrow> J u e"
    and "\<And>out e. J t (RunEv (disconnect_command nqn) out e)"
  shows "post (DisconnectRDMA (recording_host H) nqn (w, t))
     (\<lambda>r t'. justified J t' \<and> (r = None \<longrightarrow> disconnected nqn t'))"
  unfolding DisconnectRDMA_def
  by (intro vcg) (use assms in \<open>auto simp: disconnected_def\<close>)

lemma validateNodePath_Inr: "validateNodePath field path = Inr p \<Longrightarrow> p = path"
  by (auto simp: validateNodePath_def Let_def split: if_splits)

section \<open>Publishing\<close>

text \<open>Publishing binds the staging path to a target that was just seen unmounted, makes the new
  mount read-only only when that is asked, and unmounts only what it mounted.\<close>

definition publish_command_ok :: "string \<Rightarrow> string \<Rightarrow> bool \<Rightarrow> host_event list \<Rightarrow> command \<Rightarrow> bool" where
  "publish_command_ok source target readOnly u c \<longleftrightarrow>
     c = bind_command source target \<and> unmounted_seen target u \<or>
     c = remount_command target \<and> readOnly \<and> succeeded (bind_command source target) u \<or>
     c = umount_command target \<and> succeeded (bind_command source target) u"

fun publish_ok :: "string \<Rightarrow> string \<Rightarrow> bool \<Rightarrow> host_event list \<Rightarrow> host_event \<Rightarrow> bool" where
  "publish_ok source target readOnly u (RunEv c _ _) \<longleftrightarrow> publish_command_ok source target readOnly u c"
| "publish_ok source target readOnly u (MkdirEv p _) \<longleftrightarrow> p = target"
| "publish_ok source target readOnly u ev \<longleftrightarrow> is_read ev"

lemma publish_ok_read [intro]: "is_read ev \<Longrightarrow> publish_ok source target readOnly u ev"
  by (cases ev) simp_all

definition bind_calls_ok :: "string \<Rightarrow> string \<Rightarrow> bool \<Rightarrow> error option option \<Rightarrow> host_event list \<Rightarrow> bool" where
  "bind_calls_ok source target readOnly r t \<longleftrightarrow> justified (publish_ok source target readOnly) t \<and>
     (r = Some None \<longrightarrow> published_seen source target readOnly t)"

lemma verifyPublished_runs:
  assumes "justified (publish_ok source target ro) t"
  shows "post (verifyPublishedMount (recording_host H) source target ro (w, t))
     (\<lambda>r t'. justified (publish_ok source target ro) t' \<and> set t \<subseteq> set t' \<and>
        (r = (True, None) \<longrightarrow> published_seen source target ro t') \<and> (r = (False, None) \<longrightarrow> unmounted_seen target t'))"
  by (rule post_weaken [OF verifyPublishedMount_post])
     (use assms in \<open>auto intro: justified_reads dest: reads_after_set\<close>)

lemma unmount_published:
  assumes "justified (publish_ok source target ro) t" and "succeeded (bind_command source target) t"
  shows "post (unmount fuel (recording_host H) target (w, t))
     (\<lambda>r t'. justified (publish_ok source target ro) t')"
  by (rule post_weaken [OF unmount_post [where J = "publish_ok source target ro" and A = UNIV and ?t0.0 = t]])
     (use assms in \<open>auto simp: publish_command_ok_def intro: succeeded_mono\<close>)

lemma remount_post:
  assumes "justified (publish_ok source target True) t" and "succeeded (bind_command source target) t"
  shows "post (remount_readonly fuel (recording_host H) target (w, t))
     (\<lambda>r t'. justified (publish_ok source target True) t' \<and>
        (r = Some None \<longrightarrow> succeeded (bind_command source target) t'))"
  unfolding remount_readonly_def
  by (intro vcg post_bindI [OF unmount_published [where source = source and ro = True]])
     (use assms in \<open>auto simp: publish_command_ok_def\<close>)

lemma confirm_published:
  assumes "justified (publish_ok source target ro) t" and "succeeded (bind_command source target) t"
    and "v = (True, None) \<longrightarrow> published_seen source target ro t"
  shows "post (confirm_mount fuel (recording_host H) target msg v (w, t)) (bind_calls_ok source target ro)"
  unfolding confirm_mount_def
  by (cases v) (use assms in \<open>auto simp: bind_calls_ok_def
      intro!: vcg post_bindI [OF unmount_published [where source = source and ro = ro]]\<close>)

lemma publishBindMount_post:
  assumes "justified (publish_ok source target ro) t"
  shows "post (publishBindMount fuel (recording_host H) source target ro (w, t)) (bind_calls_ok source target ro)"
proof -
  have ro: "post (if ro then remount_readonly fuel (recording_host H) target (w, t) else (Some None, (w, t)))
     (\<lambda>r t'. justified (publish_ok source target ro) t' \<and>
        (r = Some None \<longrightarrow> succeeded (bind_command source target) t'))"
    if "justified (publish_ok source target ro) t" "succeeded (bind_command source target) t" for w t
    using that remount_post [of source target t] by (cases ro) (auto intro: vcg)
  show ?thesis
    unfolding publishBindMount_def
    by (intro vcg post_bindI2 [OF verifyPublished_runs [where source = source and target = target and ro = ro]]
          post_bindI [OF ro] post_bindI [OF verifyPublished_runs [where source = source and target = target and ro = ro]]
          confirm_published)
       (use assms in \<open>auto simp: publish_command_ok_def bind_calls_ok_def intro: succeeded_mono\<close>)
qed

lemma bind_calls_reads:
  assumes "bind_calls_ok source target ro (Some (Some e)) t" and "reads_after t t'"
  shows "bind_calls_ok source target ro (Some (Some e')) t'"
  using assms by (auto simp: bind_calls_ok_def intro: justified_reads)

section \<open>Unmounting ends\<close>

text \<open>The mounts at a path: each successful \<^verbatim>\<open>umount\<close> takes one away, and looking at the mount
  table and the context adds none.\<close>

definition unmounts :: "'w host \<Rightarrow> string \<Rightarrow> ('w \<Rightarrow> nat) \<Rightarrow> bool" where
  "unmounts H target mounts \<longleftrightarrow>
     (\<forall>w. after (h_CombinedOutput H (umount_command target) w) (\<lambda>r w'. snd r = None \<longrightarrow> mounts w' < mounts w)) \<and>
     (\<forall>w. after (h_CtxErr H w) (\<lambda>r w'. mounts w' \<le> mounts w)) \<and>
     (\<forall>p w. after (h_ReadFile H p w) (\<lambda>r w'. mounts w' \<le> mounts w))"

lemma isMountPoint_mounts:
  assumes "unmounts H target mounts"
  shows "after (csi_isMountPoint H p w) (\<lambda>r w'. mounts w' \<le> mounts w)"
proof -
  obtain r w' where r: "h_ReadFile H ''/proc/self/mountinfo'' w = (r, w')" by force
  then have "mounts w' \<le> mounts w" using assms unfolding unmounts_def after_def by (metis snd_conv)
  with r show ?thesis
    by (auto simp: after_def csi_isMountPoint_def mountAt_def readMountInfo_def split: sum.splits)
qed

lemma unmount_fuel:
  assumes "unmounts H target mounts" and "mounts w < fuel"
  shows "fst (unmount fuel H target w) \<noteq> None"
  using assms(2)
proof (induction fuel arbitrary: w)
  case (Suc fuel)
  obtain c w1 where c: "h_CtxErr H w = (c, w1)" by force
  obtain m e w2 where m: "csi_isMountPoint H target w1 = ((m, e), w2)" by (metis surj_pair)
  obtain out x w3 where u: "h_CombinedOutput H (umount_command target) w2 = ((out, x), w3)" by (metis surj_pair)
  have "mounts w1 \<le> mounts w" and "x = None \<longrightarrow> mounts w3 < mounts w2"
    using assms(1) c u unfolding unmounts_def after_def by (metis fst_conv snd_conv)+
  moreover have "mounts w2 \<le> mounts w1"
    using isMountPoint_mounts [OF assms(1), of target w1] m by (simp add: after_def)
  ultimately have "x = None \<Longrightarrow> fst (unmount fuel H target w3) \<noteq> None"
    using Suc.prems by (intro Suc.IH) simp
  then show ?case
    by (simp add: c m u split: option.split prod.split)
qed simp

section \<open>Properties\<close>

text \<open>C23: unstaging a volume disconnects from the target of that volume, and only once nothing is
  mounted at the staging path any more: the mount table was just read without it, or
  \<^verbatim>\<open>umount\<close> said so. It reports success only when its last command closed the connection or
  found none, and it changes nothing else.\<close>

theorem NodeUnstageVolume_calls:
  "post (NodeUnstageVolume fuel (new_node_server nodeID) (recording_host H) vol path (w, []))
     (unstage_calls_ok vol path)"
  unfolding NodeUnstageVolume_def new_node_server_ops
  by (intro vcg post_bindI [OF unmount_post [where J = "unstage_ok vol path" and A = UNIV and ?t0.0 = "[]"]]
        post_bindI [OF DisconnectRDMA_closed [where J = "unstage_ok vol path"]])
     (auto simp: unstage_calls_ok_def unstage_command_ok_def dest: validateNodePath_Inr)

text \<open>Publishing a volume binds its staging path to the target only when that was just seen
  unmounted, remounts read-only only the mount it made, and takes back only its own mount. It
  succeeds only when the mount table, read last, shows the same file at both paths, read-only
  exactly when that was asked.\<close>

lemma NodePublishVolume_calls:
  "post (NodePublishVolume fuel (new_node_server nodeID) (recording_host H) req (w, []))
     (bind_calls_ok (pu_StagingTargetPath req) (pu_TargetPath req) (pu_Readonly req))"
  unfolding NodePublishVolume_def new_node_server_ops
  by (intro vcg post_bindI [OF publishBindMount_post] post_bindI [OF nodeOperationError_post])
     (auto simp: bind_calls_ok_def dest!: validateNodePath_Inr intro: justified_reads)

text \<open>The path of a volume is accepted exactly when it is absolute and canonical and is not the
  root: one or more elements, each after a slash, none empty, \<^verbatim>\<open>.\<close> or \<^verbatim>\<open>..\<close>, without NUL bytes.
  It is then used as it is.\<close>

lemma validateNodePath_iff:
  "validateNodePath field path = Inr p \<longleftrightarrow>
     p = path \<and> char_of (0 :: nat) \<notin> set path \<and>
     (\<exists>es. es \<noteq> [] \<and> path = ''/'' @ Join es ''/'' \<and> list_all plain_elem es)"
proof
  assume v: "validateNodePath field path = Inr p"
  then have c: "IsAbs path" "Clean path = path" "path \<noteq> ''/''" "p = path" "char_of (0 :: nat) \<notin> set path"
    by (auto simp: validateNodePath_def Let_def split: if_splits)
  obtain es where "Clean path = ''/'' @ Join es ''/''" "\<forall>e \<in> set es. plain_elem e"
    using Clean_abs_elems [OF c(1)] .
  moreover from this c have "es \<noteq> []" by auto
  ultimately show "p = path \<and> char_of (0 :: nat) \<notin> set path \<and>
     (\<exists>es. es \<noteq> [] \<and> path = ''/'' @ Join es ''/'' \<and> list_all plain_elem es)"
    using c by (metis list_all_iff)
next
  assume a: "p = path \<and> char_of (0 :: nat) \<notin> set path \<and>
     (\<exists>es. es \<noteq> [] \<and> path = ''/'' @ Join es ''/'' \<and> list_all plain_elem es)"
  then obtain es where es: "es \<noteq> []" "path = ''/'' @ Join es ''/''" "list_all plain_elem es" by blast
  then have "Clean path = path" using Clean_plain by (metis list_all_iff)
  moreover from es have "path \<noteq> ''/''" by (cases es; cases "tl es") (auto simp: plain_elem_def)
  ultimately show "validateNodePath field path = Inr p"
    using a es(2) by (auto simp: validateNodePath_def Let_def IsAbs_def HasPrefix_def)
qed

text \<open>C24: \<^verbatim>\<open>unmount\<close> returns, whatever is stacked at the path: with every successful \<^verbatim>\<open>umount\<close>
  removing a mount, it goes round at most once more than there are mounts.\<close>

theorem unmount_returns:
  assumes "unmounts H target mounts"
  shows "fst (unmount (Suc (mounts w)) H target w) \<noteq> None"
  by (rule unmount_fuel [OF assms]) simp

text \<open>A host with a stack of mounts at \<^verbatim>\<open>/mnt\<close>: as many as the world says.\<close>

definition stacked_host :: "nat host" where
  "stacked_host = refusing_host\<lparr>
     h_CombinedOutput := (\<lambda>c w. if w = 0 then ((''umount: not mounted'', Some (ExitError 32)), w) else (([], None), w - 1)),
     h_ReadFile := (\<lambda>p w. (Inr (concat (replicate w
       (''36 35 259:1 / /mnt rw,noatime shared:2 - ext4 /dev/nvme1n1 rw'' @ [newline]))), w))\<rparr>"

lemma stacked_host_unmounts: "unmounts stacked_host ''/mnt'' (\<lambda>w. w)"
  by (simp add: unmounts_def after_def stacked_host_def refusing_host_def Let_def)

theorem unmount_returns_witness:
  "unmounts stacked_host ''/mnt'' (\<lambda>w. w) \<and> fst (unmount 3 stacked_host ''/mnt'' 2) \<noteq> None"
  using unmount_returns [OF stacked_host_unmounts, of 2] stacked_host_unmounts
  by (simp only: eval_nat_numeral BitM.simps numeral_One simp_thms)

text \<open>A volume is disconnected by the NQN it was exported under: the handle that the controller
  issues for an object leads unstaging to the NQN of that object's external identifier.\<close>

lemma unstage_nqn_of_handle:
  "case volumeidentity_New ns n u of
     Inl e \<Rightarrow> ns = [] \<or> n = [] \<or> u = []
   | Inr i \<Rightarrow> unstage_nqn (id_VolumeHandle i) = Inr (NQN (id_ExternalID i))"
proof (cases "volumeidentity_New ns n u")
  case (Inl e)
  then show ?thesis by (auto simp: volumeidentity_New_def Let_def split: if_splits)
next
  case (Inr i)
  with New_handle [OF Inr] vh.dec_enc show ?thesis by (simp add: unstage_nqn_def)
qed

end
