(* ===== verification/Go_Paths.thy ===== *)
theory Go_Paths
  imports Go_Strings
begin

text \<open>
  More of the packages \<^verbatim>\<open>strings\<close> and \<^verbatim>\<open>path/filepath\<close> on Unix: cutting at a separator, and the
  directory, the last element and the joining of paths.
\<close>

text \<open>\<^verbatim>\<open>strings.Cut\<close>, and \<^verbatim>\<open>strings.SplitN\<close> with a limit of two.\<close>

fun Cut :: "string \<Rightarrow> string \<Rightarrow> (string \<times> string) option" where
  "Cut [] sep = (if sep = [] then Some ([], []) else None)"
| "Cut (c # s) sep =
     (if HasPrefix (c # s) sep then Some ([], drop (length sep) (c # s))
      else case Cut s sep of None \<Rightarrow> None | Some (a, b) \<Rightarrow> Some (c # a, b))"

definition filepath_Dir :: "string \<Rightarrow> string" where
  "filepath_Dir path = Clean (rev (dropWhile (\<lambda>c. c \<noteq> CHR ''/'') (rev path)))"

definition filepath_Base :: "string \<Rightarrow> string" where
  "filepath_Base path =
     (if path = [] then ''.''
      else let base = rev (takeWhile (\<lambda>c. c \<noteq> CHR ''/'') (dropWhile (\<lambda>c. c = CHR ''/'') (rev path)))
           in if base = [] then ''/'' else base)"

definition filepath_Join :: "string list \<Rightarrow> string" where
  "filepath_Join elems =
     (let es = filter (\<lambda>e. e \<noteq> []) elems in if es = [] then [] else Clean (Join es ''/''))"

lemma Cut_Some: "Cut s sep = Some (a, b) \<Longrightarrow> s = a @ sep @ b"
proof (induction s arbitrary: a)
  case (Cons c s)
  then show ?case
    by (auto simp: HasPrefix_def split: if_splits option.splits) (metis append_eq_conv_conj)
qed (simp split: if_splits)

section \<open>Paths of plain elements\<close>

definition abs_path :: "string list \<Rightarrow> string" where
  "abs_path es = ''/'' @ Join es ''/''"

lemma abs_path_inject:
  assumes "list_all plain_elem es" and "list_all plain_elem fs" and "es \<noteq> []" and "fs \<noteq> []"
  shows "abs_path es = abs_path fs \<longleftrightarrow> es = fs"
proof -
  have "Split (Join xs ''/'') CHR ''/'' = xs" if "list_all plain_elem xs" "xs \<noteq> []" for xs
    by (rule Split_Join) (use that in \<open>auto simp: list_all_iff plain_elem_def\<close>)
  then have "Join es ''/'' = Join fs ''/'' \<longleftrightarrow> es = fs" using assms by metis
  then show ?thesis by (simp add: abs_path_def)
qed

lemma Join_append: "xs \<noteq> [] \<Longrightarrow> ys \<noteq> [] \<Longrightarrow> Join (xs @ ys) sep = Join xs sep @ sep @ Join ys sep"
proof (induction xs)
  case (Cons x xs)
  then show ?case by (cases "xs = []") (simp_all add: Join_Cons)
qed simp

lemma filepath_Join_plain:
  assumes "list_all plain_elem es" and "list_all plain_elem fs" and "es \<noteq> []" and "fs \<noteq> []"
  shows "filepath_Join (abs_path es # fs) = abs_path (es @ fs)"
proof -
  have ne: "filter (\<lambda>e. e \<noteq> []) (abs_path es # fs) = abs_path es # fs"
    using assms(2) by (auto simp: abs_path_def list_all_iff plain_elem_def filter_id_conv)
  have "Join (abs_path es # fs) ''/'' = ''/'' @ Join (es @ fs) ''/''"
    using assms(3,4) by (simp add: Join_Cons Join_append abs_path_def)
  moreover have "Clean (''/'' @ Join (es @ fs) ''/'') = ''/'' @ Join (es @ fs) ''/''"
    by (rule Clean_plain) (use assms(1,2) in \<open>auto simp: list_all_iff\<close>)
  ultimately show ?thesis
    unfolding filepath_Join_def Let_def ne by (simp add: abs_path_def)
qed

end
