(* ===== verification/Csi_Driver.thy ===== *)
theory Csi_Driver
  imports Csi_Publishing Go_Paths
begin

text \<open>
  The CSI driver: \<^verbatim>\<open>driver.go\<close>. \<^verbatim>\<open>NewDriver\<close> makes the three services, \<^verbatim>\<open>listenEndpoint\<close> prepares
  the socket, \<^verbatim>\<open>Run\<close> serves until the context ends. Sockets and the gRPC server are a
  parameter.
\<close>

definition DriverName :: string where
  "DriverName = ''storage.distort.io''"

definition VendorVersion :: string where
  "VendorVersion = ''0.5.0''"

definition DefaultEndpoint :: string where
  "DefaultEndpoint = ''unix:///tmp/csi.sock''"

text \<open>\<open>g_Serve\<close> returns the result of \<^verbatim>\<open>server.Serve\<close>, or \<open>None\<close> when the context ended before.
  \<open>g_GracefulStop\<close> says whether the server stopped within the grace period. \<open>g_Close\<close> closes
  the listener; its error is only logged.\<close>

record 'w grpc =
  g_Listen :: "string \<Rightarrow> string \<Rightarrow> 'w \<Rightarrow> (error + nat) \<times> 'w"
  g_Serve :: "nat \<Rightarrow> 'w \<Rightarrow> error option option \<times> 'w"
  g_GracefulStop :: "int \<Rightarrow> 'w \<Rightarrow> bool \<times> 'w"
  g_Stop :: "'w \<Rightarrow> 'w"
  g_Close :: "nat \<Rightarrow> 'w \<Rightarrow> 'w"

record IdentityServer =
  ids_name :: string
  ids_version :: string

record 'w Driver =
  d_name :: string
  d_nodeID :: string
  d_endpoint :: string
  d_k8sClient :: "'w kube"
  d_ids :: IdentityServer
  d_cs :: "'w controller_server"
  d_ns :: "'w node_server"

text \<open>The clock and the source of UUIDs are those of the Go runtime.\<close>

definition NewDriver ::
  "(int \<Rightarrow> int \<Rightarrow> 'w \<Rightarrow> (nat \<times> wake) \<times> 'w) \<Rightarrow> ('w \<Rightarrow> string \<times> 'w) \<Rightarrow> string \<Rightarrow> string \<Rightarrow> 'w kube \<Rightarrow> 'w Driver" where
  "NewDriver timers uuids nodeID endpoint k8sClient =
     \<lparr>d_name = DriverName, d_nodeID = nodeID, d_endpoint = endpoint, d_k8sClient = k8sClient,
      d_ids = \<lparr>ids_name = DriverName, ids_version = VendorVersion\<rparr>,
      d_cs = \<lparr>cs_k8sClient = k8sClient, cs_partitionReadyPollInterval = 0, cs_partitionReadyTimeout = 0,
              cs_attachmentPollInterval = 0, cs_attachmentReadyTimeout = 0, cs_partitionDeletePollInterval = 0,
              cs_partitionDeleteTimeout = 0, cs_timers = timers, cs_NewUUID = uuids\<rparr>,
      d_ns = new_node_server nodeID\<rparr>"

definition gracefulStopTimeout :: int where
  "gracefulStopTimeout = 10 * second_ns"

text \<open>Removing what is left of an earlier socket.\<close>

definition prepare_socket :: "'w host \<Rightarrow> string \<Rightarrow> 'w \<Rightarrow> error option \<times> 'w" where
  "prepare_socket H addr w =
     (if \<not> IsAbs addr then (Some (Errorf ''unix endpoint path must be absolute: %q'' [S addr]), w)
      else case h_MkdirAll H (filepath_Dir addr) w of (err, w) \<Rightarrow>
      (case err of
         Some e \<Rightarrow> (Some (Wrapf ''create unix socket directory %s: %w'' [S (filepath_Dir addr)] e), w)
       | None \<Rightarrow>
      (case h_Lstat H addr w of (r, w) \<Rightarrow>
      (case r of
         Inl e \<Rightarrow> if os_IsNotExist e then (None, w)
                  else (Some (Wrapf ''inspect existing socket %s: %w'' [S addr] e), w)
       | Inr mode \<Rightarrow>
           if mode \<noteq> ModeSocket then (Some (Errorf ''refusing to remove non-socket path %s'' [S addr]), w)
           else (case h_Remove H addr w of (err, w) \<Rightarrow>
                (case err of
                   Some e \<Rightarrow> (Some (Wrapf ''remove existing socket %s: %w'' [S addr] e), w)
                 | None \<Rightarrow> (None, w)))))))"

definition listenEndpoint :: "'w host \<Rightarrow> 'w grpc \<Rightarrow> string \<Rightarrow> 'w \<Rightarrow> (error + nat) \<times> 'w" where
  "listenEndpoint H G endpoint w =
     (case Cut endpoint ''://'' of
        None \<Rightarrow> (Inl (Errorf ''invalid endpoint format %q'' [S endpoint]), w)
      | Some (protocol, addr) \<Rightarrow>
     (case (if protocol = ''unix'' then prepare_socket H addr w else (None, w)) of (err, w) \<Rightarrow>
     (case err of
        Some e \<Rightarrow> (Inl e, w)
      | None \<Rightarrow>
     (case g_Listen G protocol addr w of (r, w) \<Rightarrow>
     (case r of
        Inl e \<Rightarrow> (Inl (Wrapf ''listen on %s: %w'' [S addr] e), w)
      | Inr listener \<Rightarrow> (Inr listener, w))))))"

text \<open>The listener is closed when \<^verbatim>\<open>Run\<close> returns.\<close>

definition Run :: "'w host \<Rightarrow> 'w grpc \<Rightarrow> 'w Driver \<Rightarrow> 'w \<Rightarrow> error option \<times> 'w" where
  "Run H G d w =
     (case listenEndpoint H G (d_endpoint d) w of (r, w) \<Rightarrow>
      (case r of
         Inl e \<Rightarrow> (Some e, w)
       | Inr listener \<Rightarrow>
      (case g_Serve G listener w of (served, w) \<Rightarrow>
      (case served of
         Some (Some e) \<Rightarrow> (Some (Wrapf ''serve CSI GRPC endpoint: %w'' [] e), g_Close G listener w)
       | Some None \<Rightarrow> (None, g_Close G listener w)
       | None \<Rightarrow>
           (case g_GracefulStop G gracefulStopTimeout w of (stopped, w) \<Rightarrow>
              (None, g_Close G listener (if stopped then w else g_Stop G w)))))))"

section \<open>The identity service\<close>

definition GetPluginInfo :: "IdentityServer \<Rightarrow> error + string \<times> string" where
  "GetPluginInfo ids =
     (if ids_name ids = [] then Inl (Status Unavailable ''Driver name not configured'' [])
      else if ids_version ids = [] then Inl (Status Unavailable ''Driver is missing version'' [])
      else Inr (ids_name ids, ids_version ids))"

datatype plugin_capability = CONTROLLER_SERVICE

definition GetPluginCapabilities :: "plugin_capability list" where
  "GetPluginCapabilities = [CONTROLLER_SERVICE]"

section \<open>Preparing the socket\<close>

text \<open>A file is removed only when it was just seen to be a socket.\<close>

fun socket_ok :: "string \<Rightarrow> host_event list \<Rightarrow> host_event \<Rightarrow> bool" where
  "socket_ok addr u (RemoveEv p _) \<longleftrightarrow> p = addr \<and> (\<exists>v. u = v @ [LstatEv addr (Inr ModeSocket)])"
| "socket_ok addr u (MkdirEv p _) \<longleftrightarrow> p = filepath_Dir addr"
| "socket_ok addr u ev \<longleftrightarrow> is_read ev"

text \<open>Preparing the socket of the driver removes a file only at the path of the endpoint and
  only when the call just before saw a socket there; it succeeds only when nothing was there or
  the socket is removed.\<close>

lemma prepare_socket_post:
  "post (prepare_socket (recording_host H) addr (w, []))
     (\<lambda>r t. justified (socket_ok addr) t \<and>
        (r = None \<longrightarrow> (\<exists>u e. t = u @ [LstatEv addr (Inl e)] \<and> os_IsNotExist e \<or> t = u @ [RemoveEv addr None])))"
  unfolding prepare_socket_def
  by (intro vcg) auto

end
