(* ===== verification/Spdk_Rpc.thy ===== *)
theory Spdk_Rpc
  imports Host Go_Json_Decode
begin

text \<open>
  Calling the SPDK target: \<^verbatim>\<open>plugins/spdk_rpc.go\<close>. A call runs \<^verbatim>\<open>rpc.py\<close> with a time limit of its
  own; its answer is JSON, or a naked text that is quoted first.
\<close>

definition spdkRPCExecutable :: string where
  "spdkRPCExecutable = ''/opt/spdk/scripts/rpc.py''"

definition rpc_command :: "string \<Rightarrow> string list \<Rightarrow> command" where
  "rpc_command method args = Command (spdkRPCExecutable # method # args)"

text \<open>The verb \<^verbatim>\<open>%q\<close> on ASCII text.\<close>

definition hex_nibble :: "nat \<Rightarrow> char" where
  "hex_nibble n = ''0123456789abcdef'' ! n"

definition go_quote_char :: "char \<Rightarrow> string" where
  "go_quote_char c =
     (let n = of_char c :: nat; b = char_of (92 :: nat) in
      if n = 34 \<or> n = 92 then [b, c]
      else if n = 7 then [b, CHR ''a''] else if n = 8 then [b, CHR ''b''] else if n = 12 then [b, CHR ''f'']
      else if n = 10 then [b, CHR ''n''] else if n = 13 then [b, CHR ''r''] else if n = 9 then [b, CHR ''t'']
      else if n = 11 then [b, CHR ''v'']
      else if n < 32 \<or> n = 127 then [b, CHR ''x'', hex_nibble (n div 16), hex_nibble (n mod 16)]
      else [c])"

definition go_quote :: "string \<Rightarrow> string" where
  "go_quote s = [char_of (34 :: nat)] @ concat (map go_quote_char s) @ [char_of (34 :: nat)]"

text \<open>The answer, with a naked text quoted.\<close>

definition rpc_output :: "string \<Rightarrow> string" where
  "rpc_output stdout =
     (let outBytes = TrimSpace stdout in
      if outBytes \<noteq> [] \<and> hd outBytes \<noteq> CHR ''{'' \<and> hd outBytes \<noteq> CHR ''['' \<and> hd outBytes \<noteq> char_of (34 :: nat)
      then go_quote outBytes else outBytes)"

definition run_rpc :: "'w host \<Rightarrow> string \<Rightarrow> string list \<Rightarrow> 'w \<Rightarrow> (error + string) \<times> 'w" where
  "run_rpc H method args w =
     (case h_Output H (rpc_command method args) w of ((outs, err), w) \<Rightarrow>
      (case err of
         None \<Rightarrow> (Inr (fst outs), w)
       | Some e \<Rightarrow>
           (case h_CtxErr H w of (c, w) \<Rightarrow>
            (case c of
               Some c \<Rightarrow> (Inl (Wrapf ''spdk_rpc.py %s interrupted: %w'' [S method] (ContextError c)), w)
             | None \<Rightarrow> (Inl (Errorf ''spdk_rpc.py %s failed: %v Stdout: %s Stderr: %s''
                          [S method, E e, S (fst outs), S (snd outs)]), w)))))"

text \<open>A call whose answer is not looked at (a nil result), and one that decodes it.\<close>

definition CallSPDKRPC_nil :: "'w host \<Rightarrow> string \<Rightarrow> string list \<Rightarrow> 'w \<Rightarrow> error option \<times> 'w" where
  "CallSPDKRPC_nil H method args w = (case run_rpc H method args w of (r, w) \<Rightarrow> (err_of r, w))"

definition rpc_decode :: "(json option \<Rightarrow> 'a option) \<Rightarrow> string \<Rightarrow> error + 'a" where
  "rpc_decode decode stdout =
     (case Option.bind (json_Unmarshal (rpc_output stdout)) (\<lambda>j. decode (Some j)) of
        None \<Rightarrow> Inl (Errorf ''failed to parse SPDK RPC response: %v Output: %s'' [S stdout])
      | Some x \<Rightarrow> Inr x)"

definition CallSPDKRPC ::
  "(json option \<Rightarrow> 'a option) \<Rightarrow> 'w host \<Rightarrow> string \<Rightarrow> string list \<Rightarrow> 'w \<Rightarrow> (error + 'a) \<times> 'w" where
  "CallSPDKRPC decode H method args w =
     (case run_rpc H method args w of (r, w) \<Rightarrow>
      (case r of Inl e \<Rightarrow> (Inl e, w) | Inr stdout \<Rightarrow> (rpc_decode decode stdout, w)))"

section \<open>The calls of a run\<close>

definition rpc_sent :: "string \<Rightarrow> string list \<Rightarrow> host_event list \<Rightarrow> bool" where
  "rpc_sent method args t \<longleftrightarrow> (\<exists>out err e. OutputEv (rpc_command method args) out err e \<in> set t)"

text \<open>The call was answered with this value.\<close>

definition rpc_answer ::
  "(json option \<Rightarrow> 'a option) \<Rightarrow> string \<Rightarrow> string list \<Rightarrow> 'a \<Rightarrow> host_event \<Rightarrow> bool" where
  "rpc_answer decode method args x ev \<longleftrightarrow>
     (\<exists>out err. ev = OutputEv (rpc_command method args) out err None \<and> rpc_decode decode out = Inr x)"

lemma rpc_command_eq [simp]: "rpc_command m a = rpc_command m' a' \<longleftrightarrow> m = m' \<and> a = a'"
  by (simp add: rpc_command_def Command_def)

text \<open>The calls of one RPC: the call, and a look at the context when it failed.\<close>

definition rpc_calls :: "string \<Rightarrow> string list \<Rightarrow> bool \<Rightarrow> host_event list \<Rightarrow> bool" where
  "rpc_calls method args ok u \<longleftrightarrow>
     (\<exists>out err. u = [OutputEv (rpc_command method args) out err None]) \<and> ok \<or>
     (\<exists>out err e c. u = [OutputEv (rpc_command method args) out err (Some e), CtxErrEv c]) \<and> \<not> ok"

lemma run_rpc_post:
  "post (run_rpc (recording_host H) method args (w, t))
     (\<lambda>r t'. (\<forall>stdout. r = Inr stdout \<longrightarrow> (\<exists>err. t' = t @ [OutputEv (rpc_command method args) stdout err None])) \<and>
        (\<forall>e. r = Inl e \<longrightarrow> (\<exists>u. t' = t @ u \<and> rpc_calls method args False u)))"
  unfolding run_rpc_def rpc_calls_def by (intro vcg) auto

lemma CallSPDKRPC_nil_post:
  "post (CallSPDKRPC_nil (recording_host H) method args (w, t))
     (\<lambda>r t'. \<exists>u. t' = t @ u \<and> rpc_calls method args (r = None) u)"
  unfolding CallSPDKRPC_nil_def
  apply (intro vcg post_bindI [OF run_rpc_post])
  subgoal for r w t' by (cases r) (auto simp: rpc_calls_def)
  done

lemma CallSPDKRPC_post:
  "post (CallSPDKRPC decode (recording_host H) method args (w, t))
     (\<lambda>r t'. (\<forall>x. r = Inr x \<longrightarrow> (\<exists>ev. t' = t @ [ev] \<and> rpc_answer decode method args x ev)) \<and>
        (\<forall>e. r = Inl e \<longrightarrow> (\<exists>u ok. t' = t @ u \<and> rpc_calls method args ok u)))"
  unfolding CallSPDKRPC_def
  by (intro vcg post_bindI [OF run_rpc_post]) (auto simp: rpc_answer_def rpc_calls_def)

text \<open>The calls of an operation that only sends RPCs, each of which \<open>A\<close> allows after the calls before.\<close>

definition rpc_ok ::
  "(host_event list \<Rightarrow> string \<Rightarrow> string list \<Rightarrow> bool) \<Rightarrow> host_event list \<Rightarrow> host_event \<Rightarrow> bool" where
  "rpc_ok A t ev \<longleftrightarrow> is_read ev \<or>
     (\<exists>method args out err e. ev = OutputEv (rpc_command method args) out err e \<and> A t method args)"

lemma rpc_ok_simps [simp]:
  "rpc_ok A t (OutputEv (rpc_command method args) out err e) \<longleftrightarrow> A t method args"
  "is_read ev \<Longrightarrow> rpc_ok A t ev"
  by (auto simp: rpc_ok_def)

text \<open>A run that goes on from \<open>t\<close> to \<open>t'\<close> with every call allowed.\<close>

definition went_on ::
  "(host_event list \<Rightarrow> host_event \<Rightarrow> bool) \<Rightarrow> host_event list \<Rightarrow> host_event list \<Rightarrow> bool" where
  "went_on J t t' \<longleftrightarrow> justified J t' \<and> set t \<subseteq> set t'"

lemma went_on_refl [simp]: "went_on J t t \<longleftrightarrow> justified J t"
  by (simp add: went_on_def)

lemma went_on_trans: "went_on J t t' \<Longrightarrow> went_on J t' t'' \<Longrightarrow> went_on J t t''"
  by (auto simp: went_on_def)

lemma went_on_justified: "went_on J t t' \<Longrightarrow> justified J t'"
  by (simp add: went_on_def)

lemma went_on_set [evidence]: "went_on J t t' \<Longrightarrow> set t \<subseteq> set t'"
  by (simp add: went_on_def)

lemma went_on_snoc: "went_on J t t' \<Longrightarrow> J t' ev \<Longrightarrow> went_on J t (t' @ [ev])"
  by (auto simp: went_on_def)

lemma CallSPDKRPC_nil_on:
  assumes "justified J t" and "\<And>out err e. J t (OutputEv (rpc_command method args) out err e)"
    and "\<And>u e. is_read e \<Longrightarrow> J u e"
  shows "post (CallSPDKRPC_nil (recording_host H) method args (w, t))
    (\<lambda>r t'. went_on J t t' \<and> (\<exists>u. t' = t @ u \<and> rpc_calls method args (r = None) u))"
  by (rule post_weaken [OF CallSPDKRPC_nil_post]) (use assms in \<open>auto simp: rpc_calls_def went_on_def\<close>)

lemma CallSPDKRPC_on:
  assumes "justified J t" and "\<And>out err e. J t (OutputEv (rpc_command method args) out err e)"
    and "\<And>u e. is_read e \<Longrightarrow> J u e"
  shows "post (CallSPDKRPC decode (recording_host H) method args (w, t))
    (\<lambda>r t'. went_on J t t' \<and>
       (\<forall>x. r = Inr x \<longrightarrow> (\<exists>ev. t' = t @ [ev] \<and> rpc_answer decode method args x ev)))"
  apply (rule post_weaken [OF CallSPDKRPC_post])
  subgoal for r t'
    by (cases r) (use assms in \<open>auto simp: rpc_calls_def went_on_def rpc_answer_def\<close>)
  done

lemmas CallSPDKRPC_nil_ok = CallSPDKRPC_nil_on [where J = "rpc_ok A" for A, simplified]
lemmas CallSPDKRPC_ok = CallSPDKRPC_on [where J = "rpc_ok A" for A, simplified]

end
