(* ===== verification/Vol_Partition.thy ===== *)
theory Vol_Partition
  imports Host Capacity Go_Paths
begin

text \<open>
  Carving volumes as GPT partitions: \<^verbatim>\<open>plugins/vol_partition.go\<close>, with the identity of a carved
  volume from \<^verbatim>\<open>plugins/interface.go\<close>.

  The manager drives \<^verbatim>\<open>parted\<close> and reads its machine-readable listings; the host is a
  parameter. A mutex per device makes the operations on one device follow each other, which
  is how the state is passed here.
\<close>

section \<open>The code\<close>

record VolumeIdentity =
  vi_BackendVolumeID :: string
  vi_CapacityBytes :: int
  vi_BaseBdev :: string
  vi_VolumeStoreName :: string
  vi_VolumeStoreUUID :: string
  vi_VolumeName :: string
  vi_VolumeUUID :: string

definition partitionAlignmentBytes :: int where
  "partitionAlignmentBytes = 1024 * 1024"

definition partitionPollPeriod :: int where
  "partitionPollPeriod = second_ns"

definition partitionPollCount :: nat where
  "partitionPollCount = 15"

record partedPartition =
  pp_number :: int
  pp_start :: int
  pp_end :: int
  pp_name :: string

record partedExtent =
  px_start :: int
  px_end :: int

definition parted_Name :: string where
  "parted_Name = ''parted''"

definition parted_command :: "string list \<Rightarrow> command" where
  "parted_command args = Command (''parted'' # args)"

definition wipefs_command :: "string \<Rightarrow> command" where
  "wipefs_command devicePath = Command [''wipefs'', ''-a'', devicePath]"

definition runParted :: "'w host \<Rightarrow> string list \<Rightarrow> 'w \<Rightarrow> (error + string) \<times> 'w" where
  "runParted H args w =
     (case h_CombinedOutput H (parted_command args) w of ((out, err), w) \<Rightarrow>
      (case err of
         Some e \<Rightarrow> (Inl (PartedCommandError args (TrimSpace out) e), w)
       | None \<Rightarrow> (Inr out, w)))"

text \<open>The text of the errors that running a command gives.\<close>

fun exec_error_text :: "error \<Rightarrow> string" where
  "exec_error_text (ExitError n) = ''exit status '' @ Itoa n"
| "exec_error_text (ContextError Canceled) = ''context canceled''"
| "exec_error_text (ContextError DeadlineExceeded) = ''context deadline exceeded''"
| "exec_error_text (OSError (OSFailure s)) = s"
| "exec_error_text (OSError NotExist) = ''executable file not found in $PATH''"
| "exec_error_text (ExternalError s) = s"
| "exec_error_text _ = []"

definition unrecognized_label :: "string \<Rightarrow> error \<Rightarrow> bool" where
  "unrecognized_label output err \<longleftrightarrow>
     (let detail = ToLower (output @ '' '' @ exec_error_text err) in
      Contains detail ''unrecognised disk label'' \<or> Contains detail ''unrecognized disk label'')"

definition isUnrecognizedDiskLabel :: "error \<Rightarrow> bool" where
  "isUnrecognizedDiskLabel err =
     (case List.find (\<lambda>e. case e of PartedCommandError _ _ _ \<Rightarrow> True | _ \<Rightarrow> False) (error_chain err) of
        Some (PartedCommandError args output e) \<Rightarrow> unrecognized_label output e
      | _ \<Rightarrow> False)"

definition parseByteField :: "string \<Rightarrow> int option" where
  "parseByteField v = ParseInt (TrimSuffix v ''B'')"

datatype parted_row = RowSkipped | RowFree partedExtent | RowPartition partedPartition | RowError error

definition parse_row :: "string \<Rightarrow> parted_row" where
  "parse_row raw =
     (let line = TrimSpace (TrimSuffix raw '';'') in
      if line = [] \<or> line = ''BYT'' \<or> HasPrefix line ''/'' then RowSkipped
      else let fs = Split line CHR '':'' in
      if length fs = 5 \<and> fs ! 4 = ''free''
      then (case (parseByteField (fs ! 1), parseByteField (fs ! 2)) of
              (Some start, Some end) \<Rightarrow> RowFree \<lparr>px_start = start, px_end = end\<rparr>
            | _ \<Rightarrow> RowError (Errorf ''parse free extent %q'' [S line]))
      else if length fs < 7 then RowError (Errorf ''parse partition table row %q'' [S line])
      else (case (ParseInt (fs ! 0), parseByteField (fs ! 1), parseByteField (fs ! 2)) of
              (Some number, Some start, Some end) \<Rightarrow>
                if number < 1 then RowError (Errorf ''parse partition table row %q'' [S line])
                else RowPartition \<lparr>pp_number = number, pp_start = start, pp_end = end, pp_name = fs ! 5\<rparr>
            | _ \<Rightarrow> RowError (Errorf ''parse partition table row %q'' [S line])))"

fun parse_rows :: "string list \<Rightarrow> error + partedPartition list \<times> partedExtent list" where
  "parse_rows [] = Inr ([], [])"
| "parse_rows (line # lines) =
     (case parse_row line of
        RowSkipped \<Rightarrow> parse_rows lines
      | RowError e \<Rightarrow> Inl e
      | RowFree x \<Rightarrow>
          (case parse_rows lines of Inl e \<Rightarrow> Inl e | Inr (ps, xs) \<Rightarrow> Inr (ps, x # xs))
      | RowPartition p \<Rightarrow>
          (case parse_rows lines of Inl e \<Rightarrow> Inl e | Inr (ps, xs) \<Rightarrow> Inr (p # ps, xs)))"

definition parsePartedTable :: "string \<Rightarrow> error + partedPartition list \<times> partedExtent list" where
  "parsePartedTable output = parse_rows (Split output newline)"

definition print_args :: "string \<Rightarrow> bool \<Rightarrow> string list" where
  "print_args devicePath includeFree =
     [''-m'', ''-s'', devicePath, ''unit'', ''B'', ''print''] @ (if includeFree then [''free''] else [])"

definition readPartedTable ::
  "'w host \<Rightarrow> string \<Rightarrow> bool \<Rightarrow> 'w \<Rightarrow> (error + partedPartition list \<times> partedExtent list) \<times> 'w" where
  "readPartedTable H devicePath includeFree w =
     (case runParted H (print_args devicePath includeFree) w of (r, w) \<Rightarrow>
      (case r of Inl e \<Rightarrow> (Inl e, w) | Inr out \<Rightarrow> (parsePartedTable out, w)))"

definition alignUp :: "int \<Rightarrow> int \<Rightarrow> int" where
  "alignUp v alignment = mul64 (div64 (sub64 (add64 v alignment) 1) alignment) alignment"

definition extent_fits :: "int \<Rightarrow> partedExtent \<Rightarrow> bool" where
  "extent_fits sizeBytes extent \<longleftrightarrow>
     (let start = alignUp (px_start extent) partitionAlignmentBytes in
      start \<le> px_end extent \<and> sub64 sizeBytes 1 \<le> sub64 (px_end extent) start)"

definition selectFreeExtent :: "partedExtent list \<Rightarrow> int \<Rightarrow> error + int \<times> int" where
  "selectFreeExtent extents sizeBytes =
     (if sizeBytes \<le> 0 then Inl (Errorf ''partition size must be positive, got %d'' [D sizeBytes])
      else case List.find (extent_fits sizeBytes) extents of
        Some extent \<Rightarrow>
          (let start = alignUp (px_start extent) partitionAlignmentBytes in
           Inr (start, sub64 (add64 start sizeBytes) 1))
      | None \<Rightarrow> Inl (Errorf ''no free extent can satisfy a %d-byte partition'' [D sizeBytes]))"

function lowest_loop :: "int list \<Rightarrow> int \<Rightarrow> int" where
  "lowest_loop used number = (if number \<in> set used then lowest_loop used (number + 1) else number)"
  by pat_completeness auto
termination
proof (relation "measure (\<lambda>(used, number). card {n \<in> set used. number \<le> n})")
  fix used :: "int list" and number :: int
  assume "number \<in> set used"
  then have "number \<in> {n \<in> set used. number \<le> n}" and "number \<notin> {n \<in> set used. number + 1 \<le> n}" by auto
  then have "{n \<in> set used. number + 1 \<le> n} \<subset> {n \<in> set used. number \<le> n}" by fastforce
  then show "((used, number + 1), used, number) \<in> measure (\<lambda>(used, number). card {n \<in> set used. number \<le> n})"
    by (simp add: psubset_card_mono)
qed simp

declare lowest_loop.simps [simp del]

definition lowestAvailablePartitionNumber :: "partedPartition list \<Rightarrow> int" where
  "lowestAvailablePartitionNumber ps = lowest_loop (map pp_number ps) 1"

definition partitionsNamed :: "partedPartition list \<Rightarrow> string \<Rightarrow> partedPartition list" where
  "partitionsNamed ps name = filter (\<lambda>p. pp_name p = name) ps"

definition partitionCapacity :: "partedPartition \<Rightarrow> error + int" where
  "partitionCapacity p =
     (if pp_start p < 0 \<or> pp_end p < pp_start p
      then Inl (Errorf ''partition p%d has invalid boundaries %dB-%dB'' [D (pp_number p), D (pp_start p), D (pp_end p)])
      else Inr (add64 (sub64 (pp_end p) (pp_start p)) 1))"

definition partitionPath :: "string \<Rightarrow> int \<Rightarrow> string" where
  "partitionPath devicePath number = devicePath @ ''p'' @ Itoa number"

definition partitionNumberFromPath :: "string \<Rightarrow> string \<Rightarrow> error + int" where
  "partitionNumberFromPath devicePath backendVolumeID =
     (let prefix = devicePath @ ''p'' in
      if \<not> HasPrefix backendVolumeID prefix
      then Inl (Errorf ''backend volume %q does not belong to device %q'' [S backendVolumeID, S devicePath])
      else case ParseInt (TrimPrefix backendVolumeID prefix) of
        None \<Rightarrow> Inl (Errorf ''backend volume %q has no valid partition number'' [S backendVolumeID])
      | Some number \<Rightarrow>
          if number < 1 \<or> Clean backendVolumeID \<noteq> backendVolumeID
          then Inl (Errorf ''backend volume %q has no valid partition number'' [S backendVolumeID])
          else Inr number)"

fun wait_attempts :: "'w host \<Rightarrow> string \<Rightarrow> nat \<Rightarrow> 'w \<Rightarrow> error option \<times> 'w" where
  "wait_attempts H path 0 w =
     (Some (Errorf ''partition device %s did not appear after %d attempts'' [S path, D (int partitionPollCount)]), w)"
| "wait_attempts H path (Suc n) w =
     (case h_Stat H path w of (r, w) \<Rightarrow>
      (case r of
         Inr _ \<Rightarrow> (None, w)
       | Inl _ \<Rightarrow>
      (case h_Sleep H partitionPollPeriod w of (c, w) \<Rightarrow>
      (case c of
         Some c \<Rightarrow> (Some (ContextError c), w)
       | None \<Rightarrow> wait_attempts H path n w))))"

definition waitForPartition :: "'w host \<Rightarrow> string \<Rightarrow> 'w \<Rightarrow> error option \<times> 'w" where
  "waitForPartition H path w = wait_attempts H path partitionPollCount w"

section \<open>The volume manager\<close>

definition mklabel_args :: "string \<Rightarrow> string list" where
  "mklabel_args devicePath = [''-s'', devicePath, ''mklabel'', ''gpt'']"

definition parted_SetupStorage :: "'w host \<Rightarrow> string \<Rightarrow> string \<Rightarrow> 'w \<Rightarrow> error option \<times> 'w" where
  "parted_SetupStorage H devicePath deviceName w =
     (case readPartedTable H devicePath False w of (r, w) \<Rightarrow>
      (case r of
         Inr _ \<Rightarrow> (None, w)
       | Inl err \<Rightarrow>
           if \<not> isUnrecognizedDiskLabel err
           then (Some (Wrapf ''inspect partition table on %s: %w'' [S devicePath] err), w)
           else
      (case h_CombinedOutput H (wipefs_command devicePath) w of ((out, err), w) \<Rightarrow>
      (case err of
         Some e \<Rightarrow> (Some (Wrapf ''wipe signatures from %s: %w; output: %s'' [S devicePath, S (TrimSpace out)] e), w)
       | None \<Rightarrow>
      (case runParted H (mklabel_args devicePath) w of (r, w) \<Rightarrow>
      (case r of
         Inl e \<Rightarrow> (Some e, w)
       | Inr _ \<Rightarrow>
      (case readPartedTable H devicePath False w of (r, w) \<Rightarrow>
      (case r of
         Inl e \<Rightarrow> (Some (Wrapf ''verify GPT label on %s: %w'' [S devicePath] e), w)
       | Inr _ \<Rightarrow> (None, w)))))))))"

definition parted_identity :: "string \<Rightarrow> int \<Rightarrow> string \<Rightarrow> VolumeIdentity" where
  "parted_identity path capacityBytes volumeName =
     \<lparr>vi_BackendVolumeID = path, vi_CapacityBytes = capacityBytes, vi_BaseBdev = [], vi_VolumeStoreName = [],
      vi_VolumeStoreUUID = [], vi_VolumeName = volumeName, vi_VolumeUUID = []\<rparr>"

text \<open>Waiting for the device of a partition whose capacity is checked.\<close>

definition present_volume ::
  "'w host \<Rightarrow> string \<Rightarrow> int \<Rightarrow> int \<Rightarrow> string \<Rightarrow> 'w \<Rightarrow> (error + VolumeIdentity) \<times> 'w" where
  "present_volume H devicePath number capacityBytes volumeName w =
     (let path = partitionPath devicePath number in
      case waitForPartition H path w of (err, w) \<Rightarrow>
      (case err of
         Some e \<Rightarrow> (Inl e, w)
       | None \<Rightarrow> (Inr (parted_identity path capacityBytes volumeName), w)))"

definition reuse_partition ::
  "'w host \<Rightarrow> string \<Rightarrow> partedPartition \<Rightarrow> string \<Rightarrow> int \<Rightarrow> 'w \<Rightarrow> (error + VolumeIdentity) \<times> 'w" where
  "reuse_partition H devicePath existing volumeName allocatedBytes w =
     (case partitionCapacity existing of
        Inl e \<Rightarrow> (Inl e, w)
      | Inr capacityBytes \<Rightarrow>
          if capacityBytes \<noteq> allocatedBytes
          then (Inl (Errorf ''existing partition p%d owned by %q has capacity %d bytes, expected %d bytes''
                  [D (pp_number existing), S volumeName, D capacityBytes, D allocatedBytes]), w)
          else present_volume H devicePath (pp_number existing) capacityBytes volumeName w)"

text \<open>The checks of the table after a partition was made.\<close>

definition verify_created ::
  "partedPartition list \<Rightarrow> string \<Rightarrow> int \<Rightarrow> int \<Rightarrow> int \<Rightarrow> int \<Rightarrow> error + int" where
  "verify_created ps volumeName partitionNumber start last_byte allocatedBytes =
     (case partitionsNamed ps volumeName of
        [created] \<Rightarrow>
          if pp_number created \<noteq> partitionNumber
          then Inl (Errorf ''partition-number allocation raced: created p%d for %q, expected reusable p%d''
                  [D (pp_number created), S volumeName, D partitionNumber])
          else if pp_start created \<noteq> start \<or> pp_end created \<noteq> last_byte
          then Inl (Errorf ''partition p%d boundaries are %dB-%dB after creation, expected %dB-%dB''
                  [D partitionNumber, D (pp_start created), D (pp_end created), D start, D last_byte])
          else (case partitionCapacity created of
                  Inl e \<Rightarrow> Inl e
                | Inr capacityBytes \<Rightarrow>
                    if capacityBytes \<noteq> allocatedBytes
                    then Inl (Errorf ''partition p%d capacity is %d bytes after creation, expected %d bytes''
                            [D partitionNumber, D capacityBytes, D allocatedBytes])
                    else Inr capacityBytes)
      | created \<Rightarrow> Inl (Errorf ''partition table contains %d partitions owned by volume %q after creation''
                  [D (int (length created)), S volumeName]))"

definition mkpart_args :: "string \<Rightarrow> string \<Rightarrow> int \<Rightarrow> int \<Rightarrow> string list" where
  "mkpart_args devicePath volumeName start last_byte =
     [''-s'', ''-a'', ''optimal'', devicePath, ''mkpart'', volumeName, Itoa start @ ''B'', Itoa last_byte @ ''B'']"

definition make_partition ::
  "'w host \<Rightarrow> string \<Rightarrow> string \<Rightarrow> partedPartition list \<Rightarrow> partedExtent list \<Rightarrow> int \<Rightarrow> 'w \<Rightarrow>
   (error + VolumeIdentity) \<times> 'w" where
  "make_partition H devicePath volumeName ps freeExtents allocatedBytes w =
     (let partitionNumber = lowestAvailablePartitionNumber ps in
      case selectFreeExtent freeExtents allocatedBytes of
        Inl e \<Rightarrow> (Inl e, w)
      | Inr (start, last_byte) \<Rightarrow>
     (case runParted H (mkpart_args devicePath volumeName start last_byte) w of (r, w) \<Rightarrow>
     (case r of
        Inl e \<Rightarrow> (Inl e, w)
      | Inr _ \<Rightarrow>
     (case readPartedTable H devicePath False w of (r, w) \<Rightarrow>
     (case r of
        Inl e \<Rightarrow> (Inl e, w)
      | Inr table \<Rightarrow>
     (case verify_created (fst table) volumeName partitionNumber start last_byte allocatedBytes of
        Inl e \<Rightarrow> (Inl e, w)
      | Inr capacityBytes \<Rightarrow> present_volume H devicePath partitionNumber capacityBytes volumeName w))))))"

definition parted_CreateVolume ::
  "'w host \<Rightarrow> string \<Rightarrow> string \<Rightarrow> string \<Rightarrow> int \<Rightarrow> 'w \<Rightarrow> (error + VolumeIdentity) \<times> 'w" where
  "parted_CreateVolume H devicePath deviceName volumeName sizeBytes w =
     (case RoundUp sizeBytes of
        Inl e \<Rightarrow> (Inl e, w)
      | Inr allocatedBytes \<Rightarrow>
     (case readPartedTable H devicePath True w of (r, w) \<Rightarrow>
     (case r of
        Inl e \<Rightarrow> (Inl e, w)
      | Inr table \<Rightarrow>
     (case partitionsNamed (fst table) volumeName of
        [] \<Rightarrow> make_partition H devicePath volumeName (fst table) (snd table) allocatedBytes w
      | existing # others \<Rightarrow>
          if others \<noteq> []
          then (Inl (Errorf ''multiple physical partitions claim ownership by volume %q'' [S volumeName]), w)
          else reuse_partition H devicePath existing volumeName allocatedBytes w))))"

text \<open>The partition to delete: \<open>Inr None\<close> when it is already gone.\<close>

definition deletion_target ::
  "partedPartition list \<Rightarrow> string \<Rightarrow> string \<Rightarrow> VolumeIdentity \<Rightarrow> error + partedPartition option" where
  "deletion_target ps devicePath volumeName identity =
     (if vi_BackendVolumeID identity \<noteq> [] then
        (case partitionNumberFromPath devicePath (vi_BackendVolumeID identity) of
           Inl e \<Rightarrow> Inl e
         | Inr number \<Rightarrow>
             (case List.find (\<lambda>p. pp_number p = number) ps of
                None \<Rightarrow> Inr None
              | Some target \<Rightarrow>
                  if pp_name target \<noteq> volumeName
                  then Inl (Errorf ''refusing to delete %s: partition p%d is owned by %q, not %q''
                          [S (vi_BackendVolumeID identity), D number, S (pp_name target), S volumeName])
                  else Inr (Some target)))
      else
        (case partitionsNamed ps volumeName of
           [] \<Rightarrow> Inr None
         | target # others \<Rightarrow>
             if others \<noteq> []
             then Inl (Errorf ''refusing ambiguous deletion: %d partitions are owned by %q''
                     [D (int (length (target # others))), S volumeName])
             else Inr (Some target)))"

definition rm_args :: "string \<Rightarrow> int \<Rightarrow> string list" where
  "rm_args devicePath number = [''-s'', devicePath, ''rm'', Itoa number]"

definition parted_DeleteVolume ::
  "'w host \<Rightarrow> string \<Rightarrow> string \<Rightarrow> string \<Rightarrow> VolumeIdentity \<Rightarrow> 'w \<Rightarrow> error option \<times> 'w" where
  "parted_DeleteVolume H devicePath deviceName volumeName identity w =
     (case readPartedTable H devicePath False w of (r, w) \<Rightarrow>
      (case r of
         Inl e \<Rightarrow> (Some e, w)
       | Inr table \<Rightarrow>
      (case deletion_target (fst table) devicePath volumeName identity of
         Inl e \<Rightarrow> (Some e, w)
       | Inr None \<Rightarrow> (None, w)
       | Inr (Some target) \<Rightarrow>
           (case runParted H (rm_args devicePath (pp_number target)) w of (r, w) \<Rightarrow> (err_of r, w)))))"

section \<open>Free extents\<close>

text \<open>Boundaries of a disk: bytes from zero, with room for the alignment below the largest
  \<^verbatim>\<open>int64\<close>.\<close>

definition extent_ok :: "partedExtent \<Rightarrow> bool" where
  "extent_ok x \<longleftrightarrow> 0 \<le> px_start x \<and> px_start x \<le> MaxInt64 - partitionAlignmentBytes \<and>
     0 \<le> px_end x \<and> px_end x \<le> MaxInt64"

lemma alignUp_exact:
  assumes "0 \<le> v" and "v \<le> MaxInt64 - partitionAlignmentBytes"
  shows "alignUp v partitionAlignmentBytes =
    (v + partitionAlignmentBytes - 1) div partitionAlignmentBytes * partitionAlignmentBytes"
proof -
  let ?q = "(v + partitionAlignmentBytes - 1) div partitionAlignmentBytes * partitionAlignmentBytes"
  have "0 \<le> ?q" and "?q \<le> v + partitionAlignmentBytes - 1"
    using assms(1) by (simp_all add: partitionAlignmentBytes_def)
  with assms have "is_int64 ?q" "is_int64 (v + partitionAlignmentBytes)" "is_int64 (v + partitionAlignmentBytes - 1)"
    by (simp_all add: is_int64_def MinInt64_def MaxInt64_def partitionAlignmentBytes_def)
  with assms show ?thesis
    by (simp add: alignUp_def add64_exact sub64_exact div64_exact mul64_exact partitionAlignmentBytes_def)
qed

lemma ceiling_multiple:
  fixes v a :: int
  assumes "0 < a"
  shows "v \<le> (v + a - 1) div a * a" and "(v + a - 1) div a * a \<le> v + a - 1"
    and "a dvd s \<Longrightarrow> v \<le> s \<Longrightarrow> (v + a - 1) div a * a \<le> s"
proof -
  have "(v + a - 1) div a * a + (v + a - 1) mod a = v + a - 1" by simp
  moreover have "0 \<le> (v + a - 1) mod a" "(v + a - 1) mod a < a" using assms by simp_all
  ultimately show "v \<le> (v + a - 1) div a * a" and le: "(v + a - 1) div a * a \<le> v + a - 1" by linarith+
  show "(v + a - 1) div a * a \<le> s" if s: "a dvd s" "v \<le> s"
  proof (rule ccontr)
    assume "\<not> (v + a - 1) div a * a \<le> s"
    moreover have "a dvd (v + a - 1) div a * a - s" using s(1) by simp
    ultimately have "a \<le> (v + a - 1) div a * a - s" by (intro zdvd_imp_le) simp_all
    with le s(2) show False by simp
  qed
qed

lemma alignUp_least:
  assumes "0 \<le> v" and "v \<le> MaxInt64 - partitionAlignmentBytes"
  shows "partitionAlignmentBytes dvd alignUp v partitionAlignmentBytes"
    and "v \<le> alignUp v partitionAlignmentBytes"
    and "partitionAlignmentBytes dvd s \<Longrightarrow> v \<le> s \<Longrightarrow> alignUp v partitionAlignmentBytes \<le> s"
    and "alignUp v partitionAlignmentBytes \<le> MaxInt64"
proof -
  have pos: "0 < partitionAlignmentBytes" by (simp add: partitionAlignmentBytes_def)
  note c = ceiling_multiple [OF pos]
  show "partitionAlignmentBytes dvd alignUp v partitionAlignmentBytes"
    and "v \<le> alignUp v partitionAlignmentBytes" and "alignUp v partitionAlignmentBytes \<le> MaxInt64"
    using c(1,2) [of v] assms by (simp_all add: alignUp_exact [OF assms])
  show "alignUp v partitionAlignmentBytes \<le> s" if "partitionAlignmentBytes dvd s" "v \<le> s"
    using c(3) [OF that] by (simp add: alignUp_exact [OF assms])
qed

lemma extent_fits_iff:
  assumes "extent_ok x" and "0 < len" and "len \<le> MaxInt64"
  shows "extent_fits len x \<longleftrightarrow> alignUp (px_start x) partitionAlignmentBytes + len - 1 \<le> px_end x"
proof -
  let ?s = "alignUp (px_start x) partitionAlignmentBytes"
  have "0 \<le> ?s" and "?s \<le> MaxInt64"
    using alignUp_least(2,4) [of "px_start x"] assms(1) by (auto simp: extent_ok_def)
  with assms have "is_int64 (len - 1)" "is_int64 (px_end x - ?s)"
    by (auto simp: extent_ok_def is_int64_def MinInt64_def MaxInt64_def)
  with assms(2) show ?thesis by (auto simp: extent_fits_def Let_def sub64_exact)
qed

text \<open>The bytes from \<open>s\<close> to \<open>e\<close> are an aligned part of the extent, of the given len.\<close>

definition carved :: "int \<Rightarrow> int \<Rightarrow> int \<Rightarrow> partedExtent \<Rightarrow> bool" where
  "carved len s e x \<longleftrightarrow> partitionAlignmentBytes dvd s \<and> px_start x \<le> s \<and> e \<le> px_end x \<and> e = s + len - 1"

lemma selectFreeExtent_Inr:
  assumes "list_all extent_ok xs" and "len \<le> MaxInt64" and "selectFreeExtent xs len = Inr (s, e)"
  shows "\<exists>x \<in> set xs. carved len s e x" and "0 < len" and "0 \<le> s"
proof -
  from assms(3) obtain x where x: "0 < len" "List.find (extent_fits len) xs = Some x"
      "s = alignUp (px_start x) partitionAlignmentBytes" "e = sub64 (add64 s len) 1"
    by (auto simp: selectFreeExtent_def Let_def split: if_splits option.splits)
  then have mem: "x \<in> set xs" and fits: "extent_fits len x" by (auto simp: find_Some_iff)
  with assms(1) have ok: "extent_ok x" by (simp add: list_all_iff)
  note al = alignUp_least [of "px_start x"]
  have s: "px_start x \<le> s" "partitionAlignmentBytes dvd s" "0 \<le> s" and le: "s + len - 1 \<le> px_end x"
    using al(1,2) ok fits x(1,3) extent_fits_iff [OF ok x(1) assms(2)] by (auto simp: extent_ok_def)
  have "e = s + len - 1"
  proof (cases "is_int64 (s + len)")
    case True
    with le s x(1,4) show ?thesis
      by (simp add: add64_exact sub64_exact is_int64_def MinInt64_def)
  next
    case False
    with le s x(1) ok have "s + len = MaxInt64 + 1" by (auto simp: is_int64_def MinInt64_def extent_ok_def)
    with x(4) show ?thesis by (simp add: add64_def sub64_def to_int64_def MaxInt64_def)
  qed
  with mem le s show "\<exists>x \<in> set xs. carved len s e x" by (auto simp: carved_def)
  show "0 < len" "0 \<le> s" by fact+
qed

lemma selectFreeExtent_Inl:
  assumes "list_all extent_ok xs" and "0 < len" and "len \<le> MaxInt64" and "selectFreeExtent xs len = Inl err"
    and "x \<in> set xs"
  shows "\<not> carved len s e x"
proof
  assume c: "carved len s e x"
  from assms have ok: "extent_ok x" and no: "\<not> extent_fits len x"
    by (auto simp: selectFreeExtent_def Let_def list_all_iff find_None_iff split: if_splits option.splits)
  have "alignUp (px_start x) partitionAlignmentBytes \<le> s"
    using alignUp_least(3) [of "px_start x" s] ok c by (auto simp: extent_ok_def carved_def)
  with c no extent_fits_iff [OF ok assms(2,3)] show False by (auto simp: carved_def)
qed

section \<open>Partition tables\<close>

definition disjoint :: "partedPartition \<Rightarrow> partedPartition \<Rightarrow> bool" where
  "disjoint p q \<longleftrightarrow> pp_end p < pp_start q \<or> pp_end q < pp_start p"

text \<open>A table: numbers are not used twice and partitions do not overlap.\<close>

fun partitions_ok :: "partedPartition list \<Rightarrow> bool" where
  "partitions_ok [] \<longleftrightarrow> True"
| "partitions_ok (p # ps) \<longleftrightarrow>
     list_all (\<lambda>q. disjoint p q \<and> pp_number p \<noteq> pp_number q) ps \<and> partitions_ok ps"

definition is_free :: "partedPartition list \<Rightarrow> partedExtent \<Rightarrow> bool" where
  "is_free ps x \<longleftrightarrow> extent_ok x \<and> list_all (\<lambda>p. pp_end p < px_start x \<or> px_end x < pp_start p) ps"

lemma lowest_loop_least:
  "k \<le> lowest_loop used k \<and> lowest_loop used k \<notin> set used \<and> {k..<lowest_loop used k} \<subseteq> set used"
proof (induction used k rule: lowest_loop.induct)
  case (1 used k)
  show ?case
  proof (cases "k \<in> set used")
    case True
    have "{k..<lowest_loop used (k + 1)} \<subseteq> insert k {k + 1..<lowest_loop used (k + 1)}" by auto
    with 1 [OF True] True show ?thesis by (subst (1 2 3) lowest_loop.simps) auto
  next
    case False
    then show ?thesis by (simp add: lowest_loop.simps)
  qed
qed

section \<open>What a listing shows\<close>

definition listed ::
  "string \<Rightarrow> bool \<Rightarrow> partedPartition list \<times> partedExtent list \<Rightarrow> host_event \<Rightarrow> bool" where
  "listed dev free table ev \<longleftrightarrow>
     (\<exists>out. ev = RunEv (parted_command (print_args dev free)) out None \<and> parsePartedTable out = Inr table)"

lemma runParted_post:
  "post (runParted (recording_host H) args (w, t))
     (\<lambda>r t'. \<exists>out err. t' = t @ [RunEv (parted_command args) out err] \<and>
        r = (case err of None \<Rightarrow> Inr out | Some e \<Rightarrow> Inl (PartedCommandError args (TrimSpace out) e)))"
  unfolding runParted_def by (intro vcg) auto

text \<open>The call listed the table, with this result.\<close>

definition table_read ::
  "string \<Rightarrow> bool \<Rightarrow> error + partedPartition list \<times> partedExtent list \<Rightarrow> host_event \<Rightarrow> bool" where
  "table_read dev free r ev \<longleftrightarrow>
     (\<exists>out err. ev = RunEv (parted_command (print_args dev free)) out err \<and>
        r = (case err of None \<Rightarrow> parsePartedTable out
                       | Some e \<Rightarrow> Inl (PartedCommandError (print_args dev free) (TrimSpace out) e)))"

lemma table_read_Inr [simp]: "table_read dev free (Inr table) ev \<longleftrightarrow> listed dev free table ev"
  by (auto simp: table_read_def listed_def split: option.splits)

lemma table_read_run:
  assumes "table_read dev free r ev"
  obtains out err where "ev = RunEv (parted_command (print_args dev free)) out err"
  using assms by (auto simp: table_read_def)

lemma readPartedTable_post:
  "post (readPartedTable (recording_host H) dev free (w, t)) (\<lambda>r t'. \<exists>ev. t' = t @ [ev] \<and> table_read dev free r ev)"
  unfolding readPartedTable_def table_read_def
  by (intro vcg post_bindI [OF runParted_post]) (auto split: option.splits)

lemma waitForPartition_post:
  "post (waitForPartition (recording_host H) path (w, t)) (\<lambda>r t'. reads_after t t')"
proof -
  have "post (wait_attempts (recording_host H) path n (w, t)) (\<lambda>r t'. reads_after t t')" for n w t
  proof (induction n arbitrary: w t)
    case 0
    show ?case unfolding wait_attempts.simps by (intro vcg) simp
  next
    case (Suc n)
    show ?case unfolding wait_attempts.simps
      by (intro vcg post_weaken [OF Suc]) (auto simp: reads_after_def)
  qed
  then show ?thesis by (simp add: waitForPartition_def)
qed

lemma present_volume_post:
  "post (present_volume (recording_host H) dev number cap vol (w, t))
     (\<lambda>r t'. reads_after t t' \<and> (\<forall>i. r = Inr i \<longrightarrow> i = parted_identity (partitionPath dev number) cap vol))"
  unfolding present_volume_def Let_def
  by (intro vcg post_bindI [OF waitForPartition_post]) auto

section \<open>What the manager runs\<close>

text \<open>A partition may be made when the listing just before shows none of the volume, at the
  boundaries chosen from the free extents of that listing.\<close>

definition may_carve :: "string \<Rightarrow> string \<Rightarrow> int \<Rightarrow> host_event list \<Rightarrow> command \<Rightarrow> bool" where
  "may_carve dev vol bytes t c \<longleftrightarrow>
     (\<exists>u ev table alloc s e. t = u @ [ev] \<and> listed dev True table ev \<and> partitionsNamed (fst table) vol = [] \<and>
        RoundUp bytes = Inr alloc \<and> selectFreeExtent (snd table) alloc = Inr (s, e) \<and>
        c = parted_command (mkpart_args dev vol s e))"

fun carve_ok :: "string \<Rightarrow> string \<Rightarrow> int \<Rightarrow> host_event list \<Rightarrow> host_event \<Rightarrow> bool" where
  "carve_ok dev vol bytes t (RunEv c _ _) \<longleftrightarrow>
     (\<exists>free. c = parted_command (print_args dev free)) \<or> may_carve dev vol bytes t c"
| "carve_ok dev vol bytes t ev \<longleftrightarrow> is_read ev"

lemma carve_ok_read [intro]: "is_read ev \<Longrightarrow> carve_ok dev vol bytes t ev"
  by (cases ev) simp_all

lemma carve_ok_listing [intro]: "table_read dev free r ev \<Longrightarrow> carve_ok dev vol bytes t ev"
  by (erule table_read_run) auto

lemma carve_ok_listed [intro]: "listed dev free table ev \<Longrightarrow> carve_ok dev vol bytes t ev"
  by (auto simp: listed_def)

text \<open>A listing showed exactly one partition of the volume, of the rounded size.\<close>

definition carved_seen :: "string \<Rightarrow> string \<Rightarrow> int \<Rightarrow> VolumeIdentity \<Rightarrow> host_event list \<Rightarrow> bool" where
  "carved_seen dev vol bytes i t \<longleftrightarrow>
     (\<exists>ev free table p alloc. ev \<in> set t \<and> listed dev free table ev \<and> partitionsNamed (fst table) vol = [p] \<and>
        RoundUp bytes = Inr alloc \<and> partitionCapacity p = Inr alloc \<and>
        i = parted_identity (partitionPath dev (pp_number p)) alloc vol)"

definition carve_calls_ok :: "string \<Rightarrow> string \<Rightarrow> int \<Rightarrow> error + VolumeIdentity \<Rightarrow> host_event list \<Rightarrow> bool" where
  "carve_calls_ok dev vol bytes r t \<longleftrightarrow> justified (carve_ok dev vol bytes) t \<and>
     (\<forall>i. r = Inr i \<longrightarrow> carved_seen dev vol bytes i t)"

lemma carved_seen_mono [evidence]: "carved_seen dev vol bytes i t \<Longrightarrow> set t \<subseteq> set t' \<Longrightarrow> carved_seen dev vol bytes i t'"
  unfolding carved_seen_def by blast

lemma carved_seenI:
  assumes "listed dev free table ev" and "ev \<in> set t"
    and "partitionsNamed (fst table) vol = [p]" and "RoundUp bytes = Inr alloc" and "partitionCapacity p = Inr alloc"
  shows "carved_seen dev vol bytes (parted_identity (partitionPath dev (pp_number p)) alloc vol) t"
  using assms unfolding carved_seen_def by blast

lemma carve_presented:
  assumes "justified (carve_ok dev vol bytes) t"
    and "carved_seen dev vol bytes (parted_identity (partitionPath dev number) cap vol) t"
  shows "post (present_volume (recording_host H) dev number cap vol (w, t)) (carve_calls_ok dev vol bytes)"
  by (rule post_weaken [OF present_volume_post])
     (use assms in \<open>auto simp: carve_calls_ok_def intro: justified_reads carved_seen_mono [OF _ reads_after_set]\<close>)

lemma verify_created_Inr:
  assumes "verify_created ps vol number s e alloc = Inr cap"
  obtains p where "partitionsNamed ps vol = [p]" and "pp_number p = number" and "pp_start p = s" and "pp_end p = e"
    and "partitionCapacity p = Inr alloc" and "cap = alloc"
  using assms that by (auto simp: verify_created_def split: list.splits if_splits sum.splits)

lemma make_partition_post:
  assumes "listed dev True table ev" and "partitionsNamed (fst table) vol = []" and "RoundUp bytes = Inr alloc"
    and "justified (carve_ok dev vol bytes) (t @ [ev])"
  shows "post (make_partition (recording_host H) dev vol (fst table) (snd table) alloc (w, t @ [ev]))
     (carve_calls_ok dev vol bytes)"
proof -
  have mk: "may_carve dev vol bytes (t @ [ev]) (parted_command (mkpart_args dev vol s e))"
    if "selectFreeExtent (snd table) alloc = Inr (s, e)" for s e
    using that assms(1-3) unfolding may_carve_def by blast
  have seen: "carved_seen dev vol bytes (parted_identity (partitionPath dev number) cap vol) u"
    if "listed dev False tab ev'" "ev' \<in> set u" "verify_created (fst tab) vol number s e alloc = Inr cap"
    for u ev' tab number s e cap
    using that(3) carved_seenI [OF that(1,2) _ assms(3)] by (auto elim!: verify_created_Inr)
  show ?thesis
  proof (cases "selectFreeExtent (snd table) alloc")
    case (Inl err)
    show ?thesis
      unfolding make_partition_def Let_def Inl sum.case
      by (intro post_retI) (use assms(4) in \<open>simp add: carve_calls_ok_def\<close>)
  next
    case (Inr x)
    obtain s e where x: "x = (s, e)" by force
    note mk = mk [OF Inr [unfolded x]]
    show ?thesis
      unfolding make_partition_def Let_def Inr x sum.case prod.case
      by (intro vcg post_bindI [OF runParted_post] post_bindI [OF readPartedTable_post] carve_presented)
         (use assms(4) mk in \<open>auto simp: carve_calls_ok_def split: option.splits simp del: split_paired_All split_paired_Ex
              intro: seen\<close>)
  qed
qed

lemma reuse_partition_post:
  assumes "listed dev free table ev" and "partitionsNamed (fst table) vol = [p]" and "RoundUp bytes = Inr alloc"
    and "justified (carve_ok dev vol bytes) t" and "ev \<in> set t"
  shows "post (reuse_partition (recording_host H) dev p vol alloc (w, t)) (carve_calls_ok dev vol bytes)"
proof -
  have "carved_seen dev vol bytes (parted_identity (partitionPath dev (pp_number p)) alloc vol) t"
    if "partitionCapacity p = Inr alloc"
    using assms that unfolding carved_seen_def by blast
  then show ?thesis
    unfolding reuse_partition_def
    by (intro vcg carve_presented) (use assms(4) in \<open>auto simp: carve_calls_ok_def\<close>)
qed

text \<open>A partition is removed only when the listing just before shows that number with the name of
  the volume.\<close>

definition may_remove :: "string \<Rightarrow> string \<Rightarrow> host_event list \<Rightarrow> command \<Rightarrow> bool" where
  "may_remove dev vol t c \<longleftrightarrow>
     (\<exists>u ev table p. t = u @ [ev] \<and> listed dev False table ev \<and> p \<in> set (fst table) \<and> pp_name p = vol \<and>
        c = parted_command (rm_args dev (pp_number p)))"

fun remove_ok :: "string \<Rightarrow> string \<Rightarrow> host_event list \<Rightarrow> host_event \<Rightarrow> bool" where
  "remove_ok dev vol t (RunEv c _ _) \<longleftrightarrow> c = parted_command (print_args dev False) \<or> may_remove dev vol t c"
| "remove_ok dev vol t ev \<longleftrightarrow> is_read ev"

lemma remove_ok_listing [intro]: "table_read dev False r ev \<Longrightarrow> remove_ok dev vol t ev"
  by (erule table_read_run) auto

lemma remove_ok_listed [intro]: "listed dev False table ev \<Longrightarrow> remove_ok dev vol t ev"
  by (auto simp: listed_def)

lemma partitionsNamed_Cons: "partitionsNamed ps vol = p # others \<Longrightarrow> p \<in> set ps \<and> pp_name p = vol"
  unfolding partitionsNamed_def by (drule arg_cong [where f = set]) auto

lemma deletion_target_Some:
  assumes "deletion_target ps dev vol i = Inr (Some p)"
  shows "p \<in> set ps \<and> pp_name p = vol"
proof (cases "vi_BackendVolumeID i = []")
  case True
  with assms have "partitionsNamed ps vol = [p]"
    by (auto simp: deletion_target_def split: list.splits if_splits)
  then show ?thesis by (rule partitionsNamed_Cons)
next
  case False
  with assms obtain number where "List.find (\<lambda>p. pp_number p = number) ps = Some p" and "pp_name p = vol"
    by (auto simp: deletion_target_def split: sum.splits option.splits if_splits)
  then show ?thesis by (auto simp: find_Some_iff)
qed

lemma may_removeI:
  assumes "listed dev False (ps, xs) ev" and "deletion_target ps dev vol i = Inr (Some p)"
  shows "may_remove dev vol [ev] (parted_command (rm_args dev (pp_number p)))"
  using deletion_target_Some [OF assms(2)] assms(1) unfolding may_remove_def
  by (intro exI [of _ "[]"] exI [of _ "(ps, xs)"] exI conjI) auto

text \<open>A device is wiped and labelled only after \<^verbatim>\<open>parted\<close> failed on it because it has no disk label.\<close>

definition unlabelled :: "string \<Rightarrow> host_event \<Rightarrow> bool" where
  "unlabelled dev ev \<longleftrightarrow> (\<exists>out e. ev = RunEv (parted_command (print_args dev False)) out (Some e) \<and>
     unrecognized_label (TrimSpace out) e)"

fun setup_ok :: "string \<Rightarrow> host_event list \<Rightarrow> host_event \<Rightarrow> bool" where
  "setup_ok dev t (RunEv c _ _) \<longleftrightarrow>
     c = parted_command (print_args dev False) \<or>
     c = wipefs_command dev \<and> (\<exists>u ev. t = u @ [ev] \<and> unlabelled dev ev) \<or>
     c = parted_command (mklabel_args dev) \<and>
       (\<exists>u ev out. t = u @ [ev, RunEv (wipefs_command dev) out None] \<and> unlabelled dev ev)"
| "setup_ok dev t ev \<longleftrightarrow> is_read ev"

lemma parse_rows_no_parted:
  "parse_rows ls = Inl e \<Longrightarrow> \<exists>f a. e = Errorf f a"
proof (induction ls)
  case (Cons l ls)
  have "parse_row l = RowError e \<Longrightarrow> \<exists>f a. e = Errorf f a"
    by (auto simp: parse_row_def Let_def split: if_splits option.splits)
  with Cons show ?case by (auto split: parted_row.splits sum.splits)
qed simp

lemma unrecognized_listing:
  assumes "table_read dev False (Inl e) ev" and "isUnrecognizedDiskLabel e"
  shows "unlabelled dev ev"
proof -
  obtain out err where ev: "ev = RunEv (parted_command (print_args dev False)) out err"
      "Inl e = (case err of None \<Rightarrow> parsePartedTable out
                  | Some e' \<Rightarrow> Inl (PartedCommandError (print_args dev False) (TrimSpace out) e'))"
    using assms(1) by (auto simp: table_read_def)
  show ?thesis
  proof (cases err)
    case None
    with ev assms(2) parse_rows_no_parted [of "Split out newline" e] show ?thesis
      by (auto simp: parsePartedTable_def isUnrecognizedDiskLabel_def)
  next
    case (Some e')
    with ev assms(2) show ?thesis by (auto simp: isUnrecognizedDiskLabel_def unlabelled_def)
  qed
qed

lemma setup_ok_listing [intro]: "table_read dev False r ev \<Longrightarrow> setup_ok dev t ev"
  by (erule table_read_run) auto

lemma setup_ok_listed [intro]: "listed dev False table ev \<Longrightarrow> setup_ok dev t ev"
  by (auto simp: listed_def)

section \<open>Properties\<close>

text \<open>C25: whatever the free extents of a disk, a volume gets bytes of exactly its size that start at a
  multiple of the alignment and lie within one free extent; it is refused only when no free
  extent has room for such bytes.\<close>

theorem selectFreeExtent_exact:
  assumes "list_all extent_ok xs" and "0 < bytes" and "bytes \<le> MaxInt64"
  shows "case selectFreeExtent xs bytes of
      Inr (s, e) \<Rightarrow> list_ex (carved bytes s e) xs
    | Inl _ \<Rightarrow> \<not> (\<exists>s e. list_ex (carved bytes s e) xs)"
  using selectFreeExtent_Inr(1) [OF assms(1,3)] selectFreeExtent_Inl [OF assms]
  by (auto simp: list_ex_iff split: sum.splits)

theorem selectFreeExtent_exact_witness:
  "list_all extent_ok [\<lparr>px_start = 17408, px_end = 1048575\<rparr>, \<lparr>px_start = 5242880, px_end = 10485759\<rparr>] \<and>
   selectFreeExtent [\<lparr>px_start = 17408, px_end = 1048575\<rparr>, \<lparr>px_start = 5242880, px_end = 10485759\<rparr>] 4194304
     = Inr (5242880, 9437183) \<and>
   list_ex (carved 4194304 5242880 9437183)
     [\<lparr>px_start = 17408, px_end = 1048575\<rparr>, \<lparr>px_start = 5242880, px_end = 10485759\<rparr>]"
proof -
  let ?xs = "[\<lparr>px_start = 17408, px_end = 1048575\<rparr>, \<lparr>px_start = 5242880, px_end = 10485759\<rparr>]"
  have ok: "list_all extent_ok ?xs" and sel: "selectFreeExtent ?xs 4194304 = Inr (5242880, 9437183)"
    by code_simp+
  with selectFreeExtent_exact [OF ok, of 4194304] show ?thesis by (simp add: MaxInt64_def)
qed

text \<open>C26: carving a partition keeps the table sound: when no two partitions overlap or share a number
  and the free extents lie outside them, the partition with the lowest unused number in the bytes
  chosen from the free extents overlaps none and shares no number.\<close>

theorem new_partition_keeps_table:
  assumes "partitions_ok ps" and "list_all (is_free ps) xs" and "bytes \<le> MaxInt64"
    and "selectFreeExtent xs bytes = Inr (s, e)"
  shows "partitions_ok (\<lparr>pp_number = lowestAvailablePartitionNumber ps, pp_start = s, pp_end = e, pp_name = vol\<rparr> # ps)"
proof -
  have ok: "list_all extent_ok xs" using assms(2) by (auto simp: list_all_iff is_free_def)
  obtain x where x: "x \<in> set xs" "carved bytes s e x"
    using selectFreeExtent_Inr(1) [OF ok assms(3,4)] by blast
  then have "list_all (\<lambda>p. pp_end p < px_start x \<or> px_end x < pp_start p) ps"
    using assms(2) by (auto simp: list_all_iff is_free_def)
  with x(2) have "list_all (\<lambda>p. pp_end p < s \<or> e < pp_start p) ps"
    by (auto simp: list_all_iff carved_def)
  moreover have "lowestAvailablePartitionNumber ps \<notin> pp_number ` set ps"
    using lowest_loop_least [of 1 "map pp_number ps"] by (simp add: lowestAvailablePartitionNumber_def)
  ultimately show ?thesis using assms(1) by (auto simp: disjoint_def list_all_iff)
qed

definition sample_table :: "partedPartition list" where
  "sample_table = [\<lparr>pp_number = 1, pp_start = 1048576, pp_end = 5242879, pp_name = ''vol-a''\<rparr>]"

theorem new_partition_keeps_table_witness:
  "partitions_ok (\<lparr>pp_number = lowestAvailablePartitionNumber sample_table, pp_start = 5242880, pp_end = 9437183,
      pp_name = ''vol-b''\<rparr> # sample_table)"
  by (rule new_partition_keeps_table
        [where xs = "[\<lparr>px_start = 5242880, px_end = 10485759\<rparr>]" and bytes = 4194304]) code_simp+

text \<open>C27: creating a volume makes at most a partition that the listing just before shows to be missing,
  with boundaries chosen from the free extents of that listing, and reports a volume only when a
  listing shows exactly one partition of that name, with the size rounded to allocation units.\<close>

theorem parted_CreateVolume_calls:
  "post (parted_CreateVolume (recording_host H) dev name vol bytes (w, [])) (carve_calls_ok dev vol bytes)"
proof (cases "RoundUp bytes")
  case (Inl err)
  then show ?thesis by (simp add: parted_CreateVolume_def post_def calls_def carve_calls_ok_def)
next
  case (Inr alloc)
  have j: "justified (carve_ok dev vol bytes) [ev]" if "listed dev True table ev" for table ev
    using that by auto
  have mk: "post (make_partition (recording_host H) dev vol (fst table) (snd table) alloc (w, [ev]))
      (carve_calls_ok dev vol bytes)"
    if "listed dev True table ev" "partitionsNamed (fst table) vol = []" for w table ev
    using make_partition_post [OF that Inr, where t = "[]"] j [OF that(1)] by simp
  have re: "post (reuse_partition (recording_host H) dev p vol alloc (w, [ev])) (carve_calls_ok dev vol bytes)"
    if "listed dev True table ev" "partitionsNamed (fst table) vol = [p]" for w table ev p
    by (rule reuse_partition_post [OF that Inr j [OF that(1)]]) simp
  show ?thesis
    unfolding parted_CreateVolume_def Inr sum.case
    by (intro post_bindI [OF readPartedTable_post] post_sumI post_listI post_ifI post_retI)
       (auto simp: carve_calls_ok_def simp del: split_paired_All split_paired_Ex intro: mk re)
qed

text \<open>C28: deleting a volume removes at most the partition whose number the listing just before shows
  under the name of the volume.\<close>

theorem parted_DeleteVolume_calls:
  "post (parted_DeleteVolume (recording_host H) dev name vol i (w, [])) (\<lambda>r t. justified (remove_ok dev vol) t)"
  unfolding parted_DeleteVolume_def
  by (intro vcg post_bindI [OF readPartedTable_post] post_bindI [OF runParted_post])
     (auto intro: may_removeI remove_ok_listed)

text \<open>Preparing a device wipes its signatures and writes a new label only right after \<^verbatim>\<open>parted\<close>
  reported that the device has no disk label: a device with a partition table is never wiped.\<close>

lemma parted_SetupStorage_calls:
  "post (parted_SetupStorage (recording_host H) dev name (w, [])) (\<lambda>r t. justified (setup_ok dev) t)"
  unfolding parted_SetupStorage_def
  by (intro vcg post_bindI [OF readPartedTable_post] post_bindI [OF runParted_post])
     (auto intro: unrecognized_listing)

end
