(* ===== verification/Vol_Lvol.thy ===== *)
theory Vol_Lvol
  imports Spdk_Rpc Vol_Partition
begin

text \<open>
  Carving volumes as SPDK logical volumes: \<^verbatim>\<open>plugins/vol_spdk_lvol.go\<close>.
\<close>

section \<open>The code\<close>

definition mebibyteBytes :: int where
  "mebibyteBytes = 1024 * 1024"

record spdkLvstore =
  ls_UUID :: string
  ls_Name :: string
  ls_BaseBdev :: string

text \<open>\<open>bd_LvolStoreUUID\<close> is \<open>None\<close> when \<^verbatim>\<open>driver_specific.lvol\<close> is missing.\<close>

record spdkBdev =
  bd_Name :: string
  bd_UUID :: string
  bd_Aliases :: "string list"
  bd_BlockSize :: nat
  bd_NumBlocks :: nat
  bd_LvolStoreUUID :: "string option"

definition decode_lvstore :: "json option \<Rightarrow> spdkLvstore option" where
  "decode_lvstore j =
     (case decode_members j of
        None \<Rightarrow> None
      | Some m \<Rightarrow>
          (case (decode_string (json_field m ''uuid''), decode_string (json_field m ''name''),
                 decode_string (json_field m ''base_bdev'')) of
             (Some u, Some n, Some b) \<Rightarrow> Some \<lparr>ls_UUID = u, ls_Name = n, ls_BaseBdev = b\<rparr>
           | _ \<Rightarrow> None))"

definition decode_lvol_details :: "json option \<Rightarrow> string option option" where
  "decode_lvol_details j =
     (case j of
        None \<Rightarrow> Some None
      | Some _ \<Rightarrow>
          (case decode_members j of
             None \<Rightarrow> None
           | Some m \<Rightarrow>
               (case decode_string (json_field m ''lvol_store_uuid'') of None \<Rightarrow> None | Some u \<Rightarrow> Some (Some u))))"

definition decode_bdev :: "json option \<Rightarrow> spdkBdev option" where
  "decode_bdev j =
     (case decode_members j of
        None \<Rightarrow> None
      | Some m \<Rightarrow>
          (case (decode_string (json_field m ''name''), decode_string (json_field m ''uuid''),
                 decode_list decode_string (json_field m ''aliases''), decode_uint64 (json_field m ''block_size''),
                 decode_uint64 (json_field m ''num_blocks''),
                 Option.bind (decode_members (json_field m ''driver_specific''))
                   (\<lambda>d. decode_lvol_details (json_field d ''lvol''))) of
             (Some n, Some u, Some as, Some bs, Some nb, Some l) \<Rightarrow>
               Some \<lparr>bd_Name = n, bd_UUID = u, bd_Aliases = as, bd_BlockSize = bs, bd_NumBlocks = nb,
                     bd_LvolStoreUUID = l\<rparr>
           | _ \<Rightarrow> None))"

definition lvol_Name :: string where
  "lvol_Name = ''spdk-lvol''"

definition listSPDKLvstores :: "'w host \<Rightarrow> 'w \<Rightarrow> (error + spdkLvstore list) \<times> 'w" where
  "listSPDKLvstores H w =
     (case CallSPDKRPC (decode_list decode_lvstore) H ''bdev_lvol_get_lvstores'' [] w of (r, w) \<Rightarrow>
      (case r of
         Inl e \<Rightarrow> (Inl (Wrapf ''failed to list SPDK logical volume stores: %w'' [] e), w)
       | Inr stores \<Rightarrow> (Inr stores, w)))"

definition listSPDKBdevs :: "'w host \<Rightarrow> 'w \<Rightarrow> (error + spdkBdev list) \<times> 'w" where
  "listSPDKBdevs H w =
     (case CallSPDKRPC (decode_list decode_bdev) H ''bdev_get_bdevs'' [] w of (r, w) \<Rightarrow>
      (case r of
         Inl e \<Rightarrow> (Inl (Wrapf ''failed to list SPDK bdevs: %w'' [] e), w)
       | Inr bdevs \<Rightarrow> (Inr bdevs, w)))"

definition lvstoreForBaseBdev :: "spdkLvstore list \<Rightarrow> string \<Rightarrow> error + spdkLvstore" where
  "lvstoreForBaseBdev stores baseBdev =
     (case filter (\<lambda>store. ls_BaseBdev store = baseBdev) stores of
        [store] \<Rightarrow> Inr store
      | matches \<Rightarrow> Inl (Errorf ''found %d SPDK logical volume stores for base bdev %q, want exactly one''
                          [D (int (length matches)), S baseBdev]))"

definition GetLvstoreName :: "'w host \<Rightarrow> string \<Rightarrow> 'w \<Rightarrow> (error + string) \<times> 'w" where
  "GetLvstoreName H deviceName w =
     (case listSPDKLvstores H w of (r, w) \<Rightarrow>
      (case r of
         Inl e \<Rightarrow> (Inl e, w)
       | Inr stores \<Rightarrow>
           (case lvstoreForBaseBdev stores deviceName of Inl e \<Rightarrow> (Inl e, w) | Inr store \<Rightarrow> (Inr (ls_Name store), w))))"

definition lvol_SetupStorage :: "'w host \<Rightarrow> string \<Rightarrow> string \<Rightarrow> 'w \<Rightarrow> error option \<times> 'w" where
  "lvol_SetupStorage H devicePath deviceName w =
     (case listSPDKLvstores H w of (r, w) \<Rightarrow>
      (case r of
         Inl e \<Rightarrow> (Some e, w)
       | Inr stores \<Rightarrow>
           if list_ex (\<lambda>store. ls_BaseBdev store = deviceName) stores then (None, w)
           else CallSPDKRPC_nil H ''bdev_lvol_create_lvstore'' [deviceName, ''lvs_'' @ deviceName] w))"

definition matchingBdevs :: "spdkBdev list \<Rightarrow> (spdkBdev \<Rightarrow> bool) \<Rightarrow> nat list" where
  "matchingBdevs bdevs match = filter (\<lambda>i. match (bdevs ! i)) [0..<length bdevs]"

definition has_alias :: "string \<Rightarrow> spdkBdev \<Rightarrow> bool" where
  "has_alias alias bdev \<longleftrightarrow> bd_Name bdev = alias \<or> alias \<in> set (bd_Aliases bdev)"

definition has_uuid :: "string \<Rightarrow> spdkBdev \<Rightarrow> bool" where
  "has_uuid uuid bdev \<longleftrightarrow> bd_Name bdev = uuid \<or> bd_UUID bdev = uuid"

definition lvolIdentity :: "spdkBdev \<Rightarrow> spdkLvstore \<Rightarrow> string \<Rightarrow> int \<Rightarrow> VolumeIdentity" where
  "lvolIdentity bdev store volumeName capacityBytes =
     \<lparr>vi_BackendVolumeID = ls_Name store @ ''/'' @ volumeName, vi_CapacityBytes = capacityBytes,
      vi_BaseBdev = ls_BaseBdev store, vi_VolumeStoreName = ls_Name store, vi_VolumeStoreUUID = ls_UUID store,
      vi_VolumeName = volumeName, vi_VolumeUUID = (if bd_UUID bdev = [] then bd_Name bdev else bd_UUID bdev)\<rparr>"

definition spdkBdevCapacity :: "spdkBdev \<Rightarrow> error + int" where
  "spdkBdevCapacity bdev =
     (if bd_BlockSize bdev = 0 \<or> bd_NumBlocks bdev = 0
      then Inl (Errorf ''SPDK bdev %q has incomplete capacity metadata'' [S (bd_Name bdev)])
      else if bd_NumBlocks bdev > nat MaxInt64 div bd_BlockSize bdev
      then Inl (Errorf ''SPDK bdev %q capacity overflows int64'' [S (bd_Name bdev)])
      else Inr (to_int64 (int (bd_BlockSize bdev * bd_NumBlocks bdev mod 2 ^ 64))))"

definition findCreatedLvol :: "spdkBdev list \<Rightarrow> string \<Rightarrow> string \<Rightarrow> error + spdkBdev" where
  "findCreatedLvol bdevs alias uuid =
     (case matchingBdevs bdevs (\<lambda>bdev. uuid \<noteq> [] \<and> has_uuid uuid bdev \<or> has_alias alias bdev) of
        [i] \<Rightarrow> Inr (bdevs ! i)
      | matches \<Rightarrow> Inl (Errorf ''found %d SPDK lvol bdevs for alias %q and UUID %q, want exactly one''
                          [D (int (length matches)), S alias, S uuid]))"

text \<open>The checks of a volume that was just made.\<close>

definition created_lvol ::
  "spdkBdev list \<Rightarrow> spdkLvstore \<Rightarrow> string \<Rightarrow> string \<Rightarrow> int \<Rightarrow> error + VolumeIdentity" where
  "created_lvol bdevs store volumeName uuid allocatedBytes =
     (let alias = ls_Name store @ ''/'' @ volumeName in
      case findCreatedLvol bdevs alias uuid of
        Inl e \<Rightarrow> Inl e
      | Inr created \<Rightarrow>
     (case spdkBdevCapacity created of
        Inl e \<Rightarrow> Inl e
      | Inr actualBytes \<Rightarrow>
          if actualBytes \<noteq> allocatedBytes
          then Inl (Errorf ''created SPDK lvol %q has capacity %d bytes, want %d''
                  [S alias, D actualBytes, D allocatedBytes])
          else let identity = lvolIdentity created store volumeName actualBytes in
               Inr (if uuid \<noteq> [] then identity\<lparr>vi_VolumeUUID := uuid\<rparr> else identity)))"

definition make_lvol ::
  "'w host \<Rightarrow> spdkLvstore \<Rightarrow> string \<Rightarrow> int \<Rightarrow> 'w \<Rightarrow> (error + VolumeIdentity) \<times> 'w" where
  "make_lvol H store volumeName allocatedBytes w =
     (let alias = ls_Name store @ ''/'' @ volumeName; sizeMB = div64 allocatedBytes mebibyteBytes in
      case CallSPDKRPC decode_string H ''bdev_lvol_create'' [''-l'', ls_Name store, volumeName, Itoa sizeMB] w of (r, w) \<Rightarrow>
     (case r of
        Inl e \<Rightarrow> (Inl e, w)
      | Inr uuid \<Rightarrow>
     (case listSPDKBdevs H w of (r, w) \<Rightarrow>
     (case r of
        Inl e \<Rightarrow> (Inl (Wrapf ''verify SPDK lvol %q after creation: %w'' [S alias] e), w)
      | Inr bdevs \<Rightarrow> (created_lvol bdevs store volumeName uuid allocatedBytes, w)))))"

definition lvol_CreateVolume ::
  "'w host \<Rightarrow> string \<Rightarrow> string \<Rightarrow> string \<Rightarrow> int \<Rightarrow> 'w \<Rightarrow> (error + VolumeIdentity) \<times> 'w" where
  "lvol_CreateVolume H devicePath deviceName volumeName sizeBytes w =
     (case RoundUp sizeBytes of
        Inl e \<Rightarrow> (Inl e, w)
      | Inr allocatedBytes \<Rightarrow>
     (case listSPDKLvstores H w of (r, w) \<Rightarrow>
     (case r of
        Inl e \<Rightarrow> (Inl e, w)
      | Inr stores \<Rightarrow>
     (case lvstoreForBaseBdev stores deviceName of
        Inl e \<Rightarrow> (Inl e, w)
      | Inr store \<Rightarrow>
          let alias = ls_Name store @ ''/'' @ volumeName in
     (case listSPDKBdevs H w of (r, w) \<Rightarrow>
     (case r of
        Inl e \<Rightarrow> (Inl (Wrapf ''list SPDK bdevs before creating %q: %w'' [S alias] e), w)
      | Inr bdevs \<Rightarrow>
     (case findCreatedLvol bdevs alias [] of
        Inr existing \<Rightarrow>
          (case spdkBdevCapacity existing of
             Inl e \<Rightarrow> (Inl e, w)
           | Inr actualBytes \<Rightarrow>
               if actualBytes \<noteq> allocatedBytes
               then (Inl (Errorf ''existing SPDK lvol %q has capacity %d bytes, want %d''
                       [S alias, D actualBytes, D allocatedBytes]), w)
               else (Inr (lvolIdentity existing store volumeName actualBytes), w))
      | Inl _ \<Rightarrow>
          if length (matchingBdevs bdevs (has_alias alias)) > 1
          then (Inl (Errorf ''multiple SPDK lvol bdevs use alias %q'' [S alias]), w)
          else make_lvol H store volumeName allocatedBytes w)))))))"

section \<open>Deleting a volume\<close>

record lvolSelector =
  sel_name :: string
  sel_matches :: "nat list"

text \<open>The volume name as a last resort: the name of a bdev, an alias, or the end of one.\<close>

definition has_volume_name :: "string \<Rightarrow> spdkBdev \<Rightarrow> bool" where
  "has_volume_name volumeName bdev \<longleftrightarrow> bd_Name bdev = volumeName \<or>
     list_ex (\<lambda>alias. alias = volumeName \<or> HasSuffix alias (''/'' @ volumeName)) (bd_Aliases bdev)"

definition persisted_selectors :: "VolumeIdentity \<Rightarrow> (string \<times> (spdkBdev \<Rightarrow> bool)) list" where
  "persisted_selectors identity =
     (let alias = vi_VolumeStoreName identity @ ''/'' @ vi_VolumeName identity in
      (if vi_VolumeUUID identity \<noteq> [] then [(''lvol UUID'', has_uuid (vi_VolumeUUID identity))] else []) @
      (if vi_BackendVolumeID identity \<noteq> []
       then [(''backend volume ID'', has_alias (vi_BackendVolumeID identity))] else []) @
      (if vi_VolumeStoreName identity \<noteq> [] \<and> vi_VolumeName identity \<noteq> [] \<and> alias \<noteq> vi_BackendVolumeID identity
       then [(''lvstore/name alias'', has_alias alias)] else []))"

definition lvol_selectors :: "string \<Rightarrow> VolumeIdentity \<Rightarrow> (string \<times> (spdkBdev \<Rightarrow> bool)) list" where
  "lvol_selectors volumeName identity =
     (let selectors = persisted_selectors identity in
      if selectors = [] \<and> volumeName \<noteq> [] then [(''logical volume name'', has_volume_name volumeName)]
      else selectors)"

fun selector_loop :: "lvolSelector list \<Rightarrow> nat option \<Rightarrow> bool \<Rightarrow> error + nat option \<times> bool" where
  "selector_loop [] foundIndex missing = Inr (foundIndex, missing)"
| "selector_loop (selector # selectors) foundIndex missing =
     (case sel_matches selector of
        [] \<Rightarrow> selector_loop selectors foundIndex True
      | i # others \<Rightarrow>
          if others \<noteq> []
          then Inl (Errorf ''%s resolves to %d SPDK lvols'' [S (sel_name selector), D (int (length (i # others)))])
          else if foundIndex \<noteq> None \<and> foundIndex \<noteq> Some i
          then Inl (Errorf ''persisted SPDK identifiers resolve to different lvols'' [])
          else selector_loop selectors (Some i) missing)"

definition resolveLvolForDeletion ::
  "spdkBdev list \<Rightarrow> string \<Rightarrow> VolumeIdentity \<Rightarrow> error + spdkBdev option" where
  "resolveLvolForDeletion bdevs volumeName identity =
     (let selectors = map (\<lambda>(name, match). \<lparr>sel_name = name, sel_matches = matchingBdevs bdevs match\<rparr>)
                        (lvol_selectors volumeName identity) in
      if selectors = [] then Inl (Errorf ''SPDK lvol cleanup has no stable identifier'' [])
      else case selector_loop selectors None False of
        Inl e \<Rightarrow> Inl e
      | Inr (None, _) \<Rightarrow> Inr None
      | Inr (Some i, missing) \<Rightarrow>
          if missing
          then Inl (Errorf ''only some persisted SPDK identifiers resolve; refusing unsafe lvol deletion'' [])
          else Inr (Some (bdevs ! i)))"

fun store_loop :: "VolumeIdentity \<Rightarrow> spdkLvstore list \<Rightarrow> spdkLvstore option \<Rightarrow> error + spdkLvstore option" where
  "store_loop identity [] store = Inr store"
| "store_loop identity (s # stores) store =
     (let matchesUUID = (vi_VolumeStoreUUID identity \<noteq> [] \<and> ls_UUID s = vi_VolumeStoreUUID identity);
          matchesName = (vi_VolumeStoreName identity \<noteq> [] \<and> ls_Name s = vi_VolumeStoreName identity) in
      if matchesUUID \<or> matchesName then
        (if (case store of None \<Rightarrow> False | Some x \<Rightarrow> ls_UUID x \<noteq> ls_UUID s)
         then Inl (Errorf ''persisted lvstore identifiers resolve to different stores'' [])
         else store_loop identity stores (Some s))
      else store_loop identity stores store)"

definition validateLvolOwnership :: "spdkBdev \<Rightarrow> spdkLvstore list \<Rightarrow> VolumeIdentity \<Rightarrow> error option" where
  "validateLvolOwnership candidate stores identity =
     (case store_loop identity stores None of
        Inl e \<Rightarrow> Some e
      | Inr None \<Rightarrow>
          if vi_VolumeStoreUUID identity \<noteq> [] \<or> vi_VolumeStoreName identity \<noteq> []
          then Some (Errorf ''persisted SPDK lvstore cannot be resolved while its lvol still exists'' [])
          else None
      | Inr (Some store) \<Rightarrow>
          if vi_VolumeStoreUUID identity \<noteq> [] \<and> ls_UUID store \<noteq> vi_VolumeStoreUUID identity
          then Some (Errorf ''SPDK lvstore UUID does not match persisted identity'' [])
          else if vi_VolumeStoreName identity \<noteq> [] \<and> ls_Name store \<noteq> vi_VolumeStoreName identity
          then Some (Errorf ''SPDK lvstore name does not match persisted identity'' [])
          else if vi_BaseBdev identity \<noteq> [] \<and> ls_BaseBdev store \<noteq> vi_BaseBdev identity
          then Some (Errorf ''SPDK lvstore base bdev %q does not match persisted %q''
                  [S (ls_BaseBdev store), S (vi_BaseBdev identity)])
          else (case bd_LvolStoreUUID candidate of
                  None \<Rightarrow> None
                | Some u \<Rightarrow>
                    if u \<noteq> [] \<and> ls_UUID store \<noteq> u
                    then Some (Errorf ''SPDK lvol belongs to lvstore UUID %q, not %q'' [S u, S (ls_UUID store)])
                    else None))"

text \<open>The verification after the deletion call.\<close>

definition deletion_verdict ::
  "spdkBdev list \<Rightarrow> string \<Rightarrow> VolumeIdentity \<Rightarrow> string \<Rightarrow> error option \<Rightarrow> error option" where
  "deletion_verdict bdevs volumeName identity candidateName deleteErr =
     (case resolveLvolForDeletion bdevs volumeName identity of
        Inl resolveErr \<Rightarrow> Some resolveErr
      | Inr None \<Rightarrow> None
      | Inr (Some _) \<Rightarrow>
          Some (case deleteErr of
                  Some e \<Rightarrow> Wrapf ''delete SPDK lvol %q: %w'' [S candidateName] e
                | None \<Rightarrow> Errorf ''SPDK lvol %q still exists after deletion'' [S candidateName]))"

definition remove_lvol ::
  "'w host \<Rightarrow> string \<Rightarrow> VolumeIdentity \<Rightarrow> spdkBdev \<Rightarrow> 'w \<Rightarrow> error option \<times> 'w" where
  "remove_lvol H volumeName identity candidate w =
     (case CallSPDKRPC_nil H ''bdev_lvol_delete'' [bd_Name candidate] w of (deleteErr, w) \<Rightarrow>
      (case listSPDKBdevs H w of (r, w) \<Rightarrow>
      (case r of
         Inl verifyErr \<Rightarrow> (Some (Wrapf ''verify SPDK lvol absence after deletion: %w'' [] verifyErr), w)
       | Inr bdevs \<Rightarrow> (deletion_verdict bdevs volumeName identity (bd_Name candidate) deleteErr, w))))"

definition lvol_DeleteVolume ::
  "'w host \<Rightarrow> string \<Rightarrow> string \<Rightarrow> string \<Rightarrow> VolumeIdentity \<Rightarrow> 'w \<Rightarrow> error option \<times> 'w" where
  "lvol_DeleteVolume H devicePath deviceName volumeName identity w =
     (case listSPDKLvstores H w of (r, w) \<Rightarrow>
      (case r of
         Inl e \<Rightarrow> (Some e, w)
       | Inr stores \<Rightarrow>
      (case listSPDKBdevs H w of (r, w) \<Rightarrow>
      (case r of
         Inl e \<Rightarrow> (Some (Wrapf ''list SPDK bdevs before deleting %q: %w'' [S volumeName] e), w)
       | Inr bdevs \<Rightarrow>
      (case resolveLvolForDeletion bdevs volumeName identity of
         Inl e \<Rightarrow> (Some e, w)
       | Inr None \<Rightarrow> (None, w)
       | Inr (Some candidate) \<Rightarrow>
      (case validateLvolOwnership candidate stores identity of
         Some e \<Rightarrow> (Some e, w)
       | None \<Rightarrow> remove_lvol H volumeName identity candidate w))))))"

section \<open>Lemmas\<close>

lemma matchingBdevs_single:
  assumes "matchingBdevs bdevs match = [i]"
  shows "i < length bdevs" and "match (bdevs ! i)" and "j < length bdevs \<Longrightarrow> match (bdevs ! j) \<Longrightarrow> j = i"
proof -
  have "set (matchingBdevs bdevs match) = {i}" using assms by simp
  then have m: "{j. j < length bdevs \<and> match (bdevs ! j)} = {i}" by (auto simp: matchingBdevs_def)
  then show "i < length bdevs" "match (bdevs ! i)" by blast+
  show "j < length bdevs \<Longrightarrow> match (bdevs ! j) \<Longrightarrow> j = i" using m by blast
qed

lemma selector_loop_found:
  assumes "selector_loop sels f False = Inr (Some i, False)"
  shows "list_all (\<lambda>s. sel_matches s = [i]) sels \<and> (f \<noteq> None \<longrightarrow> f = Some i)"
proof -
  have missing: "selector_loop sels f True \<noteq> Inr (g, False)" for sels f g
    by (induction sels arbitrary: f) (auto split: list.split)
  show ?thesis
    using assms
  proof (induction sels arbitrary: f)
    case (Cons s sels)
    then show ?case
      using missing by (auto split: list.splits if_splits) fastforce+
  qed simp
qed

lemma selector_loop_Inr:
  "selector_loop sels f False = Inr (Some i, False) \<longleftrightarrow>
     list_all (\<lambda>s. sel_matches s = [i]) sels \<and> (f = Some i \<or> f = None \<and> sels \<noteq> [])"
proof
  show "selector_loop sels f False = Inr (Some i, False)"
    if "list_all (\<lambda>s. sel_matches s = [i]) sels \<and> (f = Some i \<or> f = None \<and> sels \<noteq> [])"
    using that by (induction sels arbitrary: f) auto
qed (use selector_loop_found [of sels f i] in \<open>auto split: option.split\<close>)

text \<open>The volume at position \<open>k\<close> and no other satisfies the condition.\<close>

definition only_match :: "spdkBdev list \<Rightarrow> nat \<Rightarrow> (spdkBdev \<Rightarrow> bool) \<Rightarrow> bool" where
  "only_match bdevs k match \<longleftrightarrow> k < length bdevs \<and> (\<forall>j < length bdevs. match (bdevs ! j) \<longleftrightarrow> j = k)"

lemma matchingBdevs_only: "matchingBdevs bdevs match = [k] \<longleftrightarrow> only_match bdevs k match"
proof
  show "matchingBdevs bdevs match = [k] \<Longrightarrow> only_match bdevs k match"
    using matchingBdevs_single by (auto simp: only_match_def)
next
  assume k: "only_match bdevs k match"
  have "distinct (matchingBdevs bdevs match)" "set (matchingBdevs bdevs match) = {k}"
    using k by (auto simp: matchingBdevs_def only_match_def)
  then show "matchingBdevs bdevs match = [k]"
    by (metis distinct.simps(2) insertI1 list.exhaust list.set(1) list.set_intros(1) list.set_intros(2)
        not_Cons_self2 singletonD empty_iff list.simps(15))
qed

text \<open>The volume that every identifier names, and no other.\<close>

definition resolved :: "spdkBdev list \<Rightarrow> string \<Rightarrow> VolumeIdentity \<Rightarrow> spdkBdev \<Rightarrow> bool" where
  "resolved bdevs vol i b \<longleftrightarrow> lvol_selectors vol i \<noteq> [] \<and>
     (\<exists>k. b = bdevs ! k \<and> list_all (\<lambda>(name, match). only_match bdevs k match) (lvol_selectors vol i))"

lemma resolve_Some: "resolveLvolForDeletion bdevs vol i = Inr (Some b) \<longleftrightarrow> resolved bdevs vol i b"
proof -
  let ?sels = "map (\<lambda>(name, match). \<lparr>sel_name = name, sel_matches = matchingBdevs bdevs match\<rparr>)
    (lvol_selectors vol i)"
  have all: "list_all (\<lambda>s. sel_matches s = [k]) ?sels \<longleftrightarrow>
      list_all (\<lambda>(name, match). only_match bdevs k match) (lvol_selectors vol i)" for k
    by (auto simp: list.pred_map list_all_iff matchingBdevs_only)
  have "resolveLvolForDeletion bdevs vol i = Inr (Some b) \<longleftrightarrow>
      ?sels \<noteq> [] \<and> (\<exists>k. selector_loop ?sels None False = Inr (Some k, False) \<and> b = bdevs ! k)"
    by (auto simp: resolveLvolForDeletion_def Let_def split: sum.splits option.splits if_splits)
  then show ?thesis
    unfolding selector_loop_Inr all by (auto simp: resolved_def)
qed

lemma selector_loop_None:
  "selector_loop sels f m = Inr (None, m') \<Longrightarrow> f = None \<and> list_all (\<lambda>s. sel_matches s = []) sels"
  by (induction sels arbitrary: f m) (fastforce split: list.splits if_splits)+

lemma resolve_None:
  assumes "resolveLvolForDeletion bdevs vol i = Inr None"
  shows "list_all (\<lambda>(name, match). \<not> list_ex match bdevs) (lvol_selectors vol i)"
proof -
  have "list_all (\<lambda>(name, match). matchingBdevs bdevs match = []) (lvol_selectors vol i)"
    using assms selector_loop_None
    by (fastforce simp: resolveLvolForDeletion_def Let_def list_all_iff split: sum.splits option.splits if_splits)
  then show ?thesis
    by (fastforce simp: list_all_iff list_ex_iff matchingBdevs_def filter_empty_conv in_set_conv_nth)
qed

section \<open>What the operations call\<close>

abbreviation stores_listed :: "spdkLvstore list \<Rightarrow> host_event \<Rightarrow> bool" where
  "stores_listed \<equiv> rpc_answer (decode_list decode_lvstore) ''bdev_lvol_get_lvstores'' []"

abbreviation bdevs_listed :: "spdkBdev list \<Rightarrow> host_event \<Rightarrow> bool" where
  "bdevs_listed \<equiv> rpc_answer (decode_list decode_bdev) ''bdev_get_bdevs'' []"

definition is_listing :: "string \<Rightarrow> string list \<Rightarrow> bool" where
  "is_listing method args \<longleftrightarrow> args = [] \<and> (method = ''bdev_lvol_get_lvstores'' \<or> method = ''bdev_get_bdevs'')"

lemma listSPDKLvstores_ok:
  assumes "justified (rpc_ok A) t" and "A t ''bdev_lvol_get_lvstores'' []"
  shows "post (listSPDKLvstores (recording_host H) (w, t))
    (\<lambda>r t'. went_on (rpc_ok A) t t' \<and> (\<forall>x. r = Inr x \<longrightarrow> (\<exists>ev. t' = t @ [ev] \<and> stores_listed x ev)))"
  unfolding listSPDKLvstores_def
  by (intro vcg post_bindI [OF CallSPDKRPC_ok [where A = A, OF assms]]) auto

lemma listSPDKBdevs_ok:
  assumes "justified (rpc_ok A) t" and "A t ''bdev_get_bdevs'' []"
  shows "post (listSPDKBdevs (recording_host H) (w, t))
    (\<lambda>r t'. went_on (rpc_ok A) t t' \<and> (\<forall>x. r = Inr x \<longrightarrow> (\<exists>ev. t' = t @ [ev] \<and> bdevs_listed x ev)))"
  unfolding listSPDKBdevs_def
  by (intro vcg post_bindI [OF CallSPDKRPC_ok [where A = A, OF assms]]) auto

text \<open>A volume may be deleted when the listing of the volumes just before resolves every identifier to it
  alone, and the listed stores show that it belongs to the volume.\<close>

definition may_delete :: "string \<Rightarrow> VolumeIdentity \<Rightarrow> host_event list \<Rightarrow> string \<Rightarrow> string list \<Rightarrow> bool" where
  "may_delete vol i t method args \<longleftrightarrow> is_listing method args \<or>
     (\<exists>bdevs stores b ev. method = ''bdev_lvol_delete'' \<and> args = [bd_Name b] \<and>
        t \<noteq> [] \<and> bdevs_listed bdevs (last t) \<and> ev \<in> set t \<and> stores_listed stores ev \<and>
        resolved bdevs vol i b \<and> validateLvolOwnership b stores i = None)"

lemma may_delete_listing [simp]:
  "may_delete vol i t ''bdev_lvol_get_lvstores'' []" "may_delete vol i t ''bdev_get_bdevs'' []"
  by (simp_all add: may_delete_def is_listing_def)

lemma may_deleteI:
  "resolveLvolForDeletion bdevs vol i = Inr (Some b) \<Longrightarrow> validateLvolOwnership b stores i = None \<Longrightarrow>
   bdevs_listed bdevs ev' \<Longrightarrow> stores_listed stores ev \<Longrightarrow>
   may_delete vol i [ev, ev'] ''bdev_lvol_delete'' [bd_Name b]"
  unfolding may_delete_def resolve_Some by force

text \<open>The last call listed the volumes, and none of them has any of the identifiers.\<close>

definition seen_gone :: "string \<Rightarrow> VolumeIdentity \<Rightarrow> host_event list \<Rightarrow> bool" where
  "seen_gone vol i t \<longleftrightarrow> (\<exists>bdevs. t \<noteq> [] \<and> bdevs_listed bdevs (last t) \<and> lvol_selectors vol i \<noteq> [] \<and>
     list_all (\<lambda>(name, match). \<not> list_ex match bdevs) (lvol_selectors vol i))"

definition lvol_delete_ok :: "string \<Rightarrow> VolumeIdentity \<Rightarrow> error option \<Rightarrow> host_event list \<Rightarrow> bool" where
  "lvol_delete_ok vol i r t \<longleftrightarrow> justified (rpc_ok (may_delete vol i)) t \<and> (r = None \<longrightarrow> seen_gone vol i t)"

lemma resolve_gone:
  assumes "resolveLvolForDeletion bdevs vol i = Inr None" and "bdevs_listed bdevs (last t)" and "t \<noteq> []"
  shows "seen_gone vol i t"
proof -
  have "lvol_selectors vol i \<noteq> []"
    using assms(1) by (auto simp: resolveLvolForDeletion_def)
  with resolve_None [OF assms(1)] assms(2,3) show ?thesis by (auto simp: seen_gone_def)
qed

lemma remove_lvol_ok:
  assumes "justified (rpc_ok (may_delete vol i)) t" and "may_delete vol i t ''bdev_lvol_delete'' [bd_Name b]"
  shows "post (remove_lvol (recording_host H) vol i b (w, t)) (lvol_delete_ok vol i)"
  unfolding remove_lvol_def
  by (intro vcg post_bindI [OF CallSPDKRPC_nil_ok [where A = "may_delete vol i", OF assms]]
        post_bindI [OF listSPDKBdevs_ok [where A = "may_delete vol i"]])
     (auto simp: lvol_delete_ok_def went_on_def deletion_verdict_def resolve_gone
        split: sum.splits option.splits)

text \<open>The capacity is exact: the product is formed only when it fits.\<close>

lemma spdkBdevCapacity_Inr:
  "spdkBdevCapacity b = Inr n \<longleftrightarrow> n = int (bd_BlockSize b) * int (bd_NumBlocks b) \<and> 0 < n \<and> n \<le> MaxInt64"
proof (cases "bd_BlockSize b = 0 \<or> bd_NumBlocks b = 0")
  case False
  let ?s = "bd_BlockSize b" and ?k = "bd_NumBlocks b"
  have fits: "\<not> nat MaxInt64 div ?s < ?k \<longleftrightarrow> ?s * ?k \<le> nat MaxInt64"
    using False by (simp add: less_eq_div_iff_mult_less_eq mult.commute not_less)
  also have "\<dots> \<longleftrightarrow> int ?s * int ?k \<le> MaxInt64"
    by (simp add: le_nat_iff MaxInt64_def flip: of_nat_mult)
  finally have fits: "nat MaxInt64 div ?s < ?k \<longleftrightarrow> \<not> int ?s * int ?k \<le> MaxInt64" by blast
  have "to_int64 (int (?s * ?k mod 2 ^ 64)) = int ?s * int ?k" if "int ?s * int ?k \<le> MaxInt64"
  proof -
    have "int (?s * ?k mod 2 ^ 64) = int ?s * int ?k"
      using that by (simp add: MaxInt64_def zmod_int)
    then show ?thesis using that by (simp add: to_int64_id is_int64_def MinInt64_def)
  qed
  then show ?thesis using False fits by (auto simp: spdkBdevCapacity_def)
qed (auto simp: spdkBdevCapacity_def)

text \<open>The one store on the device, from a listing of the run.\<close>

definition store_seen :: "string \<Rightarrow> spdkLvstore \<Rightarrow> host_event list \<Rightarrow> bool" where
  "store_seen dev store t \<longleftrightarrow> (\<exists>stores. \<exists>ev \<in> set t. stores_listed stores ev \<and>
     filter (\<lambda>s. ls_BaseBdev s = dev) stores = [store])"

lemma store_seen_mono [evidence]: "store_seen dev store t \<Longrightarrow> set t \<subseteq> set t' \<Longrightarrow> store_seen dev store t'"
  by (auto simp: store_seen_def)

definition lvol_alias :: "spdkLvstore \<Rightarrow> string \<Rightarrow> string" where
  "lvol_alias store vol = ls_Name store @ ''/'' @ vol"

text \<open>A volume may be created, with all the bytes allocated to it, on the one store of the device when the
  listing just before has no volume of its name there.\<close>

definition may_create :: "string \<Rightarrow> string \<Rightarrow> int \<Rightarrow> host_event list \<Rightarrow> string \<Rightarrow> string list \<Rightarrow> bool" where
  "may_create dev vol bytes t method args \<longleftrightarrow> is_listing method args \<or>
     (\<exists>bdevs store mb. method = ''bdev_lvol_create'' \<and> args = [''-l'', ls_Name store, vol, Itoa mb] \<and>
        RoundUp bytes = Inr (mb * mebibyteBytes) \<and> store_seen dev store t \<and>
        t \<noteq> [] \<and> bdevs_listed bdevs (last t) \<and> \<not> list_ex (has_alias (lvol_alias store vol)) bdevs)"

definition lvol_seen :: "string \<Rightarrow> string \<Rightarrow> int \<Rightarrow> VolumeIdentity \<Rightarrow> host_event list \<Rightarrow> bool" where
  "lvol_seen dev vol bytes i t \<longleftrightarrow> RoundUp bytes = Inr (vi_CapacityBytes i) \<and> vi_VolumeName i = vol \<and>
     (\<exists>store bdevs b. store_seen dev store t \<and> vi_BackendVolumeID i = lvol_alias store vol \<and>
        vi_BaseBdev i = dev \<and> vi_VolumeStoreName i = ls_Name store \<and> vi_VolumeStoreUUID i = ls_UUID store \<and>
        t \<noteq> [] \<and> bdevs_listed bdevs (last t) \<and> b \<in> set bdevs \<and>
        (has_alias (lvol_alias store vol) b \<or> has_uuid (vi_VolumeUUID i) b) \<and>
        vi_CapacityBytes i = int (bd_BlockSize b) * int (bd_NumBlocks b))"

definition lvol_create_ok ::
  "string \<Rightarrow> string \<Rightarrow> int \<Rightarrow> error + VolumeIdentity \<Rightarrow> host_event list \<Rightarrow> bool" where
  "lvol_create_ok dev vol bytes r t \<longleftrightarrow> justified (rpc_ok (may_create dev vol bytes)) t \<and>
     (\<forall>i. r = Inr i \<longrightarrow> lvol_seen dev vol bytes i t)"

lemma may_create_listing [simp]:
  "may_create dev vol bytes t ''bdev_lvol_get_lvstores'' []" "may_create dev vol bytes t ''bdev_get_bdevs'' []"
  by (simp_all add: may_create_def is_listing_def)

lemma lvstoreForBaseBdev_seen:
  "lvstoreForBaseBdev stores dev = Inr store \<Longrightarrow> stores_listed stores ev \<Longrightarrow> store_seen dev store (t @ [ev])"
  by (auto simp: lvstoreForBaseBdev_def store_seen_def split: list.splits)

lemma findCreatedLvol_Inr:
  assumes "findCreatedLvol bdevs alias uuid = Inr b"
  shows "b \<in> set bdevs" and "has_alias alias b \<or> uuid \<noteq> [] \<and> has_uuid uuid b"
proof -
  obtain k where k: "matchingBdevs bdevs (\<lambda>b. uuid \<noteq> [] \<and> has_uuid uuid b \<or> has_alias alias b) = [k]"
    and b: "b = bdevs ! k"
    using assms by (auto simp: findCreatedLvol_def split: list.splits)
  show "b \<in> set bdevs" using matchingBdevs_single(1) [OF k] b by simp
  show "has_alias alias b \<or> uuid \<noteq> [] \<and> has_uuid uuid b" using matchingBdevs_single(2) [OF k] b by blast
qed

lemma findCreatedLvol_Inl:
  assumes "findCreatedLvol bdevs alias [] = Inl e" and "\<not> 1 < length (matchingBdevs bdevs (has_alias alias))"
  shows "\<not> list_ex (has_alias alias) bdevs"
proof -
  have "matchingBdevs bdevs (has_alias alias) = []"
    using assms by (auto simp: findCreatedLvol_def split: list.splits)
  then show ?thesis
    by (fastforce simp: list_ex_iff matchingBdevs_def filter_empty_conv in_set_conv_nth)
qed

lemma sizeMB_exact:
  assumes "RoundUp bytes = Inr n"
  shows "div64 n mebibyteBytes * mebibyteBytes = n"
proof -
  note n = ru.round_InrD [OF assms] ru.round_le_max [OF assms] ru.max_int64
  have "mebibyteBytes dvd n"
    using n(3) by (rule dvd_trans [rotated]) (simp add: mebibyteBytes_def AllocationUnitBytes_def)
  moreover have "div64 n mebibyteBytes = n div mebibyteBytes"
    using n ru.round_is_int64 [OF assms] by (simp add: div64_exact mebibyteBytes_def)
  ultimately show ?thesis by simp
qed

lemma may_createI:
  assumes "RoundUp bytes = Inr n" and "lvstoreForBaseBdev stores dev = Inr store"
    and "findCreatedLvol bdevs (ls_Name store @ CHR ''/'' # vol) [] = Inl e"
    and "\<not> Suc 0 < length (matchingBdevs bdevs (has_alias (ls_Name store @ CHR ''/'' # vol)))"
    and "stores_listed stores ev" and "bdevs_listed bdevs ev'"
  shows "may_create dev vol bytes [ev, ev'] ''bdev_lvol_create''
    [''-l'', ls_Name store, vol, Itoa (div64 n mebibyteBytes)]"
proof -
  have "store_seen dev store [ev, ev']"
    using lvstoreForBaseBdev_seen [OF assms(2,5), of "[]"] by (auto simp: store_seen_def)
  then show ?thesis
    using sizeMB_exact [OF assms(1)] assms(1,6) findCreatedLvol_Inl [OF assms(3)] assms(4)
    by (force simp: may_create_def lvol_alias_def)
qed

lemma lvol_seenI:
  assumes "lvstoreForBaseBdev stores dev = Inr store" and "stores_listed stores ev" and "ev \<in> set t"
    and "t \<noteq> []" and "bdevs_listed bdevs (last t)"
    and "findCreatedLvol bdevs (ls_Name store @ CHR ''/'' # vol) uuid = Inr b" and "spdkBdevCapacity b = Inr n"
    and "RoundUp bytes = Inr n"
  shows "lvol_seen dev vol bytes
    ((lvolIdentity b store vol n)\<lparr>vi_VolumeUUID := (if uuid \<noteq> [] then uuid
        else if bd_UUID b = [] then bd_Name b else bd_UUID b)\<rparr>) t"
proof -
  have "store_seen dev store t"
    using lvstoreForBaseBdev_seen [OF assms(1,2), of "[]"] assms(2,3) by (auto simp: store_seen_def)
  moreover have "filter (\<lambda>s. ls_BaseBdev s = dev) stores = [store]"
    using assms(1) by (simp add: lvstoreForBaseBdev_def split: list.splits)
  then have "ls_BaseBdev store = dev" by (auto simp: filter_eq_Cons_iff)
  ultimately show ?thesis
    using findCreatedLvol_Inr [OF assms(6)] assms(4,5,7,8)
    by (auto simp: lvol_seen_def lvolIdentity_def lvol_alias_def spdkBdevCapacity_Inr)
qed

lemma lvol_existing_seen:
  assumes "lvstoreForBaseBdev stores dev = Inr store" and "stores_listed stores ev"
    and "bdevs_listed bdevs ev'" and "findCreatedLvol bdevs (ls_Name store @ CHR ''/'' # vol) [] = Inr b"
    and "spdkBdevCapacity b = Inr n" and "RoundUp bytes = Inr n"
  shows "lvol_seen dev vol bytes (lvolIdentity b store vol n) [ev, ev']"
  using lvol_seenI [OF assms(1,2), of "[ev, ev']", OF _ _ _ assms(4-)] assms(3)
  by (simp add: lvolIdentity_def)

lemma lvol_created_seen:
  assumes "lvstoreForBaseBdev stores dev = Inr store" and "stores_listed stores ev"
    and "bdevs_listed bdevs ev'" and "created_lvol bdevs store vol uuid n = Inr i" and "RoundUp bytes = Inr n"
  shows "lvol_seen dev vol bytes i [ev, e1, e2, ev']"
proof -
  obtain b where b: "findCreatedLvol bdevs (ls_Name store @ CHR ''/'' # vol) uuid = Inr b" "spdkBdevCapacity b = Inr n"
    and i: "i = (if uuid \<noteq> [] then (lvolIdentity b store vol n)\<lparr>vi_VolumeUUID := uuid\<rparr> else lvolIdentity b store vol n)"
    using assms(4) by (auto simp: created_lvol_def Let_def split: sum.splits if_splits)
  show ?thesis
    using lvol_seenI [OF assms(1,2), of "[ev, e1, e2, ev']", OF _ _ _ b assms(5)] assms(3)
    unfolding i by (cases "uuid = []") (simp_all add: lvolIdentity_def)
qed

text \<open>C29: creating a volume creates at most one logical volume, on the only store of the device, with
  exactly the bytes allocated to it, and only when the listing just before has no volume of that name
  there; the identity it returns is that of a listed volume of exactly the allocated size.\<close>

theorem lvol_CreateVolume_calls:
  "post (lvol_CreateVolume (recording_host H) path dev vol bytes (w, [])) (lvol_create_ok dev vol bytes)"
  unfolding lvol_CreateVolume_def make_lvol_def
  by (intro vcg post_bindI [OF listSPDKLvstores_ok [where A = "may_create dev vol bytes"]]
        post_bindI [OF listSPDKBdevs_ok [where A = "may_create dev vol bytes"]]
        post_bindI [OF CallSPDKRPC_ok [where A = "may_create dev vol bytes"]])
     (auto simp: lvol_create_ok_def went_on_def
        intro: may_createI lvol_existing_seen lvol_created_seen)

text \<open>C30: deleting a volume sends a deletion only for the logical volume that every known identifier
  names and no other volume has, and whose store agrees with the identity on record; it reports success
  only when the listing it made last has no volume with any of the identifiers.\<close>

theorem lvol_DeleteVolume_calls:
  "post (lvol_DeleteVolume (recording_host H) dev name vol i (w, [])) (lvol_delete_ok vol i)"
  unfolding lvol_DeleteVolume_def
  by (intro vcg post_bindI [OF listSPDKLvstores_ok [where A = "may_delete vol i"]]
        post_bindI [OF listSPDKBdevs_ok [where A = "may_delete vol i"]] remove_lvol_ok)
     (auto simp: lvol_delete_ok_def went_on_def resolve_gone intro: may_deleteI)

end
