(* ===== verification/Spdk_Process.thy ===== *)
theory Spdk_Process
  imports Spdk_Rpc Storage_Options Go_Paths
begin

text \<open>
  The SPDK target process and the devices bound to it, the first part of
  \<^verbatim>\<open>plugins/backend_spdk.go\<close>. The process the agent started itself is the variable
  \<^verbatim>\<open>spdkManagedExit\<close>; here it is an argument and a result, \<open>None\<close> for nil and otherwise the
  handle of the child. Mutexes are left out: each operation runs on its own.
\<close>

section \<open>The core mask\<close>

definition spdk_Name :: string where
  "spdk_Name = ''spdk''"

definition spdkTargetExecutable :: string where
  "spdkTargetExecutable = ''nvmf_tgt''"

record spdkProcessState =
  ps_running :: bool
  ps_coreMask :: string

text \<open>\<^verbatim>\<open>big.Int\<close> with base 16: parsing after the prefix is \<open>core_mask_value\<close>, \<open>hex_text\<close> prints.\<close>

fun hex_text :: "nat \<Rightarrow> string" where
  "hex_text n = (if n < 16 then [hex_nibble n] else hex_text (n div 16) @ [hex_nibble (n mod 16)])"

declare hex_text.simps [simp del]

definition canonicalSPDKCoreMask :: "string \<Rightarrow> error + string" where
  "canonicalSPDKCoreMask coreMask =
     (let coreMask = (if coreMask = [] then ''0x1'' else coreMask) in
      case ValidateSPDKCoreMask coreMask of
        Some e \<Rightarrow> Inl e
      | None \<Rightarrow>
          if drop 2 coreMask = [] \<or> \<not> list_all is_hex_char (drop 2 coreMask)
          then Inl (Errorf ''parse %s %q'' [S SPDKCoreMaskOption, S coreMask])
          else Inr (''0x'' @ hex_text (core_mask_value coreMask)))"

section \<open>The process\<close>

definition pidof_command :: command where
  "pidof_command = Command [''pidof'', ''nvmf_tgt'']"

definition no_process :: spdkProcessState where
  "no_process = \<lparr>ps_running = False, ps_coreMask = []\<rparr>"

definition verified_mask :: "string \<Rightarrow> string \<Rightarrow> error + spdkProcessState" where
  "verified_mask pid coreMask =
     (case canonicalSPDKCoreMask coreMask of
        Inl e \<Rightarrow> Inl (Wrapf ''nvmf_tgt process %s has invalid core mask: %w'' [S pid] e)
      | Inr canonical \<Rightarrow> Inr \<lparr>ps_running = True, ps_coreMask = canonical\<rparr>)"

text \<open>The first argument that sets the core mask decides.\<close>

fun mask_of_args :: "string \<Rightarrow> string list \<Rightarrow> error + spdkProcessState" where
  "mask_of_args pid [] = Inl (Errorf ''running nvmf_tgt process %s has no verifiable core mask'' [S pid])"
| "mask_of_args pid (arg # args) =
     (if arg = ''-m'' \<or> arg = ''--cpumask'' then
        (case args of
           [] \<Rightarrow> Inl (Errorf ''nvmf_tgt process %s has %s without a value'' [S pid, S arg])
         | coreMask # _ \<Rightarrow> verified_mask pid coreMask)
      else if HasPrefix arg ''--cpumask='' then verified_mask pid (TrimPrefix arg ''--cpumask='')
      else mask_of_args pid args)"

definition nul :: char where
  "nul = char_of (0 :: nat)"

definition TrimRight_char :: "string \<Rightarrow> char \<Rightarrow> string" where
  "TrimRight_char s c = rev (dropWhile (\<lambda>d. d = c) (rev s))"

definition exit_code :: "error \<Rightarrow> int option" where
  "exit_code e = (case filter (\<lambda>x. case x of ExitError _ \<Rightarrow> True | _ \<Rightarrow> False) (error_chain e) of
     ExitError n # _ \<Rightarrow> Some n | _ \<Rightarrow> None)"

definition inspectRunningSPDKProcess :: "'w host \<Rightarrow> 'w \<Rightarrow> (error + spdkProcessState) \<times> 'w" where
  "inspectRunningSPDKProcess H w =
     (case h_Output H pidof_command w of ((outs, err), w) \<Rightarrow>
     (case err of
        Some e \<Rightarrow>
          if exit_code e = Some 1 then (Inr no_process, w)
          else (Inl (Wrapf ''inspect running nvmf_tgt process: %w'' [] e), w)
      | None \<Rightarrow>
          let pids = Fields (fst outs) in
          if length pids \<noteq> 1
          then (Inl (Errorf ''expected one running nvmf_tgt process, found %d'' [D (int (length pids))]), w)
          else (case h_ReadFile H (filepath_Join [''/proc'', hd pids, ''cmdline'']) w of (r, w) \<Rightarrow>
               (case r of
                  Inl e \<Rightarrow> (Inl (Wrapf ''read nvmf_tgt process %s command line: %w'' [S (hd pids)] e), w)
                | Inr commandLine \<Rightarrow>
                    (mask_of_args (hd pids) (Split (TrimRight_char commandLine nul) nul), w)))))"

definition ErrProcessDone :: error where
  "ErrProcessDone = ExternalError ''os: process already finished''"

definition errors_Join :: "error list \<Rightarrow> error option" where
  "errors_Join es = (if es = [] then None else Some (Joined es))"

text \<open>\<^verbatim>\<open>stopManagedSPDKProcess\<close> on the process \<open>p\<close>; the handle on record is forgotten when it is that of \<open>p\<close>.\<close>

definition stopManagedSPDKProcess ::
  "'w host \<Rightarrow> nat option \<Rightarrow> nat \<Rightarrow> 'w \<Rightarrow> (error option \<times> nat option) \<times> 'w" where
  "stopManagedSPDKProcess H managed p w =
     (case h_Kill H p w of (killErr, w) \<Rightarrow>
     (case h_Reap H p w of (reaped, w) \<Rightarrow>
        let failures =
              (case killErr of
                 None \<Rightarrow> []
               | Some e \<Rightarrow> if errors_Is e ErrProcessDone then []
                          else [Wrapf ''kill nvmf_tgt after initialization failure: %w'' [] e]) @
              (if reaped then [] else [Errorf ''timed out reaping nvmf_tgt after initialization failure'' []])
        in ((errors_Join failures, if managed = Some p then None else managed), w)))"

definition raiseMemlockLimit :: "'w host \<Rightarrow> 'w \<Rightarrow> error option \<times> 'w" where
  "raiseMemlockLimit H w =
     (case h_Getrlimit H w of (r, w) \<Rightarrow>
     (case r of
        Inl e \<Rightarrow> (Some e, w)
      | Inr limit \<Rightarrow> if fst limit = snd limit then (None, w) else h_Setrlimit H (snd limit) (snd limit) w))"

text \<open>The attempts of \<^verbatim>\<open>waitForSPDKRPC\<close> that are left, with the error of the last one.\<close>

fun rpc_attempts :: "'w host \<Rightarrow> nat \<Rightarrow> error \<Rightarrow> 'w \<Rightarrow> error option \<times> 'w" where
  "rpc_attempts H 0 lastErr w =
     (Some (Wrapf ''nvmf_tgt JSON-RPC was not ready after 30 seconds: %w'' [] lastErr), w)"
| "rpc_attempts H (Suc n) lastErr w =
     (case CallSPDKRPC (decode_list decode_string) H ''rpc_get_methods'' [] w of (r, w) \<Rightarrow>
     (case r of
        Inr _ \<Rightarrow> (None, w)
      | Inl e \<Rightarrow>
     (case h_Sleep H second_ns w of (done, w) \<Rightarrow>
     (case done of
        Some c \<Rightarrow> (Some (Wrapf ''waiting for nvmf_tgt JSON-RPC readiness: %w'' [] (ContextError c)), w)
      | None \<Rightarrow> rpc_attempts H n e w))))"

text \<open>The first attempt always replaces the nil error that the loop starts with.\<close>

definition waitForSPDKRPC :: "'w host \<Rightarrow> 'w \<Rightarrow> error option \<times> 'w" where
  "waitForSPDKRPC H w = rpc_attempts H 30 (Errorf [] []) w"

definition positive_count :: "string \<Rightarrow> nat \<Rightarrow> bool" where
  "positive_count value bits \<longleftrightarrow> (case ParseUint value bits of None \<Rightarrow> False | Some n \<Rightarrow> n \<noteq> 0)"

fun pool_counts :: "strmap \<Rightarrow> error option" where
  "pool_counts [] = None"
| "pool_counts ((name, value) # counts) =
     (if \<not> positive_count value 64 then Some (Errorf ''%s must be a positive integer, got %q'' [S name, S value])
      else pool_counts counts)"

text \<open>The arguments for the buffer pools, \<open>None\<close> when they are not configured. \<open>ord\<close> is the order in
  which Go happens to visit the two counts.\<close>

definition spdkIobufPoolArgs :: "nat list \<Rightarrow> 'w host \<Rightarrow> 'w \<Rightarrow> (error + string list option) \<times> 'w" where
  "spdkIobufPoolArgs ord H w =
     (case h_Getenv H ''SPDK_IOBUF_SMALL_POOL_COUNT'' w of (small, w) \<Rightarrow>
     (case h_Getenv H ''SPDK_IOBUF_LARGE_POOL_COUNT'' w of (large, w) \<Rightarrow>
        if small = [] \<and> large = [] then (Inr None, w)
        else if small = [] \<or> large = []
        then (Inl (Errorf ''SPDK_IOBUF_SMALL_POOL_COUNT and SPDK_IOBUF_LARGE_POOL_COUNT must be set together'' []), w)
        else (case pool_counts (reorder ord [(''SPDK_IOBUF_SMALL_POOL_COUNT'', small),
                                             (''SPDK_IOBUF_LARGE_POOL_COUNT'', large)]) of
                Some e \<Rightarrow> (Inl e, w)
              | None \<Rightarrow> (Inr (Some [''--small-pool-count'', small, ''--large-pool-count'', large]), w))))"

text \<open>The calls that configure a target started with \<^verbatim>\<open>--wait-for-rpc\<close>; the result is the error
  that the start fails with.\<close>

definition configure_pools :: "'w host \<Rightarrow> string list \<Rightarrow> 'w \<Rightarrow> error option \<times> 'w" where
  "configure_pools H iobufArgs w =
     (case waitForSPDKRPC H w of (err, w) \<Rightarrow>
     (case err of
        Some e \<Rightarrow> (Some e, w)
      | None \<Rightarrow>
     (case CallSPDKRPC_nil H ''iobuf_set_options'' iobufArgs w of (err, w) \<Rightarrow>
     (case err of
        Some e \<Rightarrow> (Some (Wrapf ''failed to configure SPDK iobuf pools: %w'' [] e), w)
      | None \<Rightarrow>
     (case CallSPDKRPC_nil H ''framework_start_init'' [] w of (err, w) \<Rightarrow>
     (case err of
        Some e \<Rightarrow> (Some (Wrapf ''failed to start SPDK framework initialization: %w'' [] e), w)
      | None \<Rightarrow>
     (case CallSPDKRPC_nil H ''framework_wait_init'' [] w of (err, w) \<Rightarrow>
     (case err of
        Some e \<Rightarrow> (Some (Wrapf ''SPDK framework initialization failed: %w'' [] e), w)
      | None \<Rightarrow> (None, w)))))))))"

definition initialize_target :: "'w host \<Rightarrow> string list option \<Rightarrow> 'w \<Rightarrow> error option \<times> 'w" where
  "initialize_target H iobufArgs w =
     (case (case iobufArgs of None \<Rightarrow> (None, w) | Some args \<Rightarrow> configure_pools H args w) of (err, w) \<Rightarrow>
     (case err of Some e \<Rightarrow> (Some e, w) | None \<Rightarrow> waitForSPDKRPC H w))"

definition target_arguments :: "string \<Rightarrow> bool \<Rightarrow> string list" where
  "target_arguments requestedMask configureIobufPools =
     [spdkTargetExecutable, ''-m'', requestedMask] @ (if configureIobufPools then [''--wait-for-rpc''] else [])"

text \<open>Starting the target: the child becomes the managed process, and is stopped again when it does
  not come up.\<close>

definition start_target ::
  "nat list \<Rightarrow> 'w host \<Rightarrow> nat option \<Rightarrow> string \<Rightarrow> 'w \<Rightarrow> (error option \<times> nat option) \<times> 'w" where
  "start_target ord H managed requestedMask w =
     (case spdkIobufPoolArgs ord H w of (r, w) \<Rightarrow>
     (case r of
        Inl e \<Rightarrow> ((Some e, managed), w)
      | Inr iobufArgs \<Rightarrow>
     (case raiseMemlockLimit H w of (err, w) \<Rightarrow>
     (case err of
        Some e \<Rightarrow> ((Some (Wrapf ''prepare nvmf_tgt process limits: %w'' [] e), managed), w)
      | None \<Rightarrow>
     (case h_Start H (target_arguments requestedMask (iobufArgs \<noteq> None)) w of (r, w) \<Rightarrow>
     (case r of
        Inl e \<Rightarrow> ((Some (Errorf ''failed to start nvmf_tgt: %v'' [E e]), managed), w)
      | Inr p \<Rightarrow>
     (case initialize_target H iobufArgs w of (err, w) \<Rightarrow>
     (case err of
        None \<Rightarrow> ((None, Some p), w)
      | Some initializationErr \<Rightarrow>
     (case stopManagedSPDKProcess H (Some p) p w of ((cleanupErr, managed), w) \<Rightarrow>
        ((Some (Joined (initializationErr # (case cleanupErr of None \<Rightarrow> [] | Some e \<Rightarrow> [e]))), managed), w))))))))))"

definition forget_exited :: "'w host \<Rightarrow> nat option \<Rightarrow> 'w \<Rightarrow> nat option \<times> 'w" where
  "forget_exited H managed w =
     (case managed of
        None \<Rightarrow> (None, w)
      | Some p \<Rightarrow> (case h_Exited H p w of (exited, w) \<Rightarrow> (if exited then None else Some p, w)))"

definition EnsureSPDKRunning ::
  "nat list \<Rightarrow> 'w host \<Rightarrow> nat option \<Rightarrow> string \<Rightarrow> 'w \<Rightarrow> (error option \<times> nat option) \<times> 'w" where
  "EnsureSPDKRunning ord H managed coreMask w =
     (case canonicalSPDKCoreMask coreMask of
        Inl e \<Rightarrow> ((Some e, managed), w)
      | Inr requestedMask \<Rightarrow>
     (case forget_exited H managed w of (managed, w) \<Rightarrow>
     (case inspectRunningSPDKProcess H w of (r, w) \<Rightarrow>
     (case r of
        Inl e \<Rightarrow> ((Some e, managed), w)
      | Inr process \<Rightarrow>
          if ps_running process then
            (if ps_coreMask process \<noteq> requestedMask
             then ((Some (Errorf ''running nvmf_tgt uses core mask %s, requested %s''
                       [S (ps_coreMask process), S requestedMask]), managed), w)
             else (case waitForSPDKRPC H w of (err, w) \<Rightarrow> ((err, managed), w)))
          else start_target ord H managed requestedMask w))))"

section \<open>Devices\<close>

definition decode_named :: "json option \<Rightarrow> string option" where
  "decode_named j = (case decode_members j of None \<Rightarrow> None | Some m \<Rightarrow> decode_string (json_field m ''name''))"

definition isNVMeControllerAttached :: "'w host \<Rightarrow> string \<Rightarrow> 'w \<Rightarrow> (error + bool) \<times> 'w" where
  "isNVMeControllerAttached H deviceName w =
     (case CallSPDKRPC (decode_list decode_named) H ''bdev_nvme_get_controllers'' [] w of (r, w) \<Rightarrow>
     (case r of Inl e \<Rightarrow> (Inl e, w) | Inr controllers \<Rightarrow> (Inr (deviceName \<in> set controllers), w)))"

definition setup_command :: "string list \<Rightarrow> string \<Rightarrow> command" where
  "setup_command args pciAddress =
     \<lparr>cmd_Env = [''FORCE=1'', ''PCI_ALLOWED='' @ pciAddress], cmd_Args = ''/opt/spdk/scripts/setup.sh'' # args\<rparr>"

text \<open>The attempts of \<^verbatim>\<open>runSPDKSetup\<close> from number \<open>attempt\<close>, \<open>n\<close> of which are left.\<close>

fun setup_attempts :: "'w host \<Rightarrow> string \<Rightarrow> nat \<Rightarrow> int \<Rightarrow> error \<Rightarrow> string \<Rightarrow> 'w \<Rightarrow> error option \<times> 'w" where
  "setup_attempts H pciAddress 0 attempt lastErr lastOutput w =
     (Some (Errorf ''spdk_setup.sh failed after 5 attempts: %v, output: %s'' [E lastErr, S lastOutput]), w)"
| "setup_attempts H pciAddress (Suc n) attempt lastErr lastOutput w =
     (case h_CombinedOutput H (setup_command [] pciAddress) w of ((out, err), w) \<Rightarrow>
     (case err of
        None \<Rightarrow> (None, w)
      | Some e \<Rightarrow>
     (case h_CtxErr H w of (c, w) \<Rightarrow>
     (case c of
        Some c \<Rightarrow> (Some (Wrapf ''spdk_setup.sh interrupted: %w'' [] (ContextError c)), w)
      | None \<Rightarrow>
     (case h_Sleep H (attempt * second_ns) w of (done, w) \<Rightarrow>
     (case done of
        Some c \<Rightarrow> (Some (Wrapf ''spdk_setup.sh interrupted: %w'' [] (ContextError c)), w)
      | None \<Rightarrow> setup_attempts H pciAddress n (attempt + 1) e (TrimSpace out) w))))))"

definition runSPDKSetup :: "'w host \<Rightarrow> string \<Rightarrow> 'w \<Rightarrow> error option \<times> 'w" where
  "runSPDKSetup H pciAddress w = setup_attempts H pciAddress 5 1 (Errorf [] []) [] w"

definition attach_args :: "string \<Rightarrow> string \<Rightarrow> string list" where
  "attach_args deviceName pciAddress = [''-b'', deviceName, ''-t'', ''PCIe'', ''-a'', pciAddress]"

text \<open>An earlier call that timed out may have attached the controller.\<close>

definition attach_controller :: "'w host \<Rightarrow> string \<Rightarrow> string \<Rightarrow> 'w \<Rightarrow> error option \<times> 'w" where
  "attach_controller H pciAddress deviceName w =
     (case CallSPDKRPC_nil H ''bdev_nvme_attach_controller'' (attach_args deviceName pciAddress) w of (err, w) \<Rightarrow>
     (case err of
        None \<Rightarrow> (None, w)
      | Some e \<Rightarrow>
     (case isNVMeControllerAttached H deviceName w of (r, w) \<Rightarrow>
        if r = Inr True then (None, w)
        else (Some (Wrapf ''failed to attach NVMe %s to SPDK: %w'' [S pciAddress] e), w))))"

definition modprobe_command :: "string \<Rightarrow> command" where
  "modprobe_command m = Command [''modprobe'', m]"

definition bind_device :: "'w host \<Rightarrow> string \<Rightarrow> string \<Rightarrow> 'w \<Rightarrow> error option \<times> 'w" where
  "bind_device H pciAddress deviceName w =
     (case h_CombinedOutput H (modprobe_command ''uio_pci_generic'') w of (_, w) \<Rightarrow>
     (case runSPDKSetup H pciAddress w of (err, w) \<Rightarrow>
     (case err of Some e \<Rightarrow> (Some e, w) | None \<Rightarrow> attach_controller H pciAddress deviceName w)))"

definition spdk_SetupDevice ::
  "nat list \<Rightarrow> 'w host \<Rightarrow> nat option \<Rightarrow> string \<Rightarrow> string \<Rightarrow> strmap \<Rightarrow> 'w \<Rightarrow> (error option \<times> nat option) \<times> 'w" where
  "spdk_SetupDevice ord H managed pciAddress deviceName options w =
     (case storageoptions_Validate spdk_Name options of
        Some e \<Rightarrow> ((Some e, managed), w)
      | None \<Rightarrow>
     (case EnsureSPDKRunning ord H managed (map_index options ''spdk-core-mask'') w of ((err, managed), w) \<Rightarrow>
     (case err of
        Some e \<Rightarrow> ((Some e, managed), w)
      | None \<Rightarrow>
     (case isNVMeControllerAttached H deviceName w of (r, w) \<Rightarrow>
        if r = Inr True then ((None, managed), w)
        else
     (case isNVMeControllerAttached H deviceName w of (r, w) \<Rightarrow>
        if r = Inr True then ((None, managed), w)
        else (case bind_device H pciAddress deviceName w of (err, w) \<Rightarrow> ((err, managed), w)))))))"

definition ResetSPDKDevice :: "'w host \<Rightarrow> string \<Rightarrow> 'w \<Rightarrow> error option \<times> 'w" where
  "ResetSPDKDevice H pciAddress w =
     (case h_CombinedOutput H (setup_command [''reset''] pciAddress) w of ((out, err), w) \<Rightarrow>
     (case err of
        None \<Rightarrow> (None, w)
      | Some e \<Rightarrow> (Some (Errorf ''spdk_setup.sh reset failed: %v, output: %s'' [E e, S out]), w)))"

section \<open>Canonical core masks\<close>

lemma hex_nibble_val: "n < 16 \<Longrightarrow> is_hex_char (hex_nibble n) \<and> hex_char_val (hex_nibble n) = n"
proof -
  have "list_all (\<lambda>n. is_hex_char (hex_nibble n) \<and> hex_char_val (hex_nibble n) = n) [0..<16]"
    by code_simp
  then show "n < 16 \<Longrightarrow> ?thesis" by (auto simp: list_all_iff)
qed

abbreviation hex_value :: "string \<Rightarrow> nat" where
  "hex_value s \<equiv> foldl (\<lambda>n c. 16 * n + hex_char_val c) 0 s"

lemma hex_text_facts: "hex_value (hex_text n) = n \<and> list_all is_hex_char (hex_text n) \<and> hex_text n \<noteq> []"
proof (induction n rule: hex_text.induct)
  case (1 n)
  show ?case
  proof (cases "n < 16")
    case True
    then show ?thesis using hex_nibble_val by (simp add: hex_text.simps [of n])
  next
    case False
    then show ?thesis using 1 hex_nibble_val [of "n mod 16"] by (simp add: hex_text.simps [of n])
  qed
qed

lemma hex_value_bound: "list_all is_hex_char s \<Longrightarrow> hex_value s < 16 ^ length s"
proof (induction s rule: rev_induct)
  case (snoc c s)
  have "hex_char_val c < 16"
    using snoc.prems by (auto simp: is_hex_char_def is_digit_def hex_char_val_def Let_def)
  with snoc show ?case by simp
qed simp

lemma hex_text_length: "n < 16 ^ Suc k \<Longrightarrow> length (hex_text n) \<le> Suc k"
proof (induction k arbitrary: n)
  case (Suc k)
  have "n div 16 < 16 ^ Suc k" using Suc.prems by (simp add: div_less_iff_less_mult)
  then show ?case using Suc.IH [of "n div 16"] by (simp add: hex_text.simps [of n])
next
  case 0
  then show ?case by (simp add: hex_text.simps [of n])
qed

text \<open>Printing is a normal form of the masks that denote the same CPUs.\<close>

lemma canonical_of_valid:
  assumes "ValidateSPDKCoreMask a = None"
  shows "canonicalSPDKCoreMask a = Inr (''0x'' @ hex_text (core_mask_value a))"
proof -
  obtain ds where "a = ''0x'' @ ds" "list_all is_hex_char ds" "0 < core_mask_value a"
    using assms by (auto simp: ValidateSPDKCoreMask_iff)
  then show ?thesis
    using assms by (cases ds) (simp_all add: canonicalSPDKCoreMask_def core_mask_value_def)
qed

lemma canonical_valid:
  assumes "ValidateSPDKCoreMask a = None"
  shows "ValidateSPDKCoreMask (''0x'' @ hex_text (core_mask_value a)) = None"
    and "core_mask_value (''0x'' @ hex_text (core_mask_value a)) = core_mask_value a"
proof -
  obtain ds where ds: "a = ''0x'' @ ds" "list_all is_hex_char ds" "length ds \<le> 256" "0 < core_mask_value a"
    using assms by (auto simp: ValidateSPDKCoreMask_iff)
  show v: "core_mask_value (''0x'' @ hex_text (core_mask_value a)) = core_mask_value a"
    using hex_text_facts [of "core_mask_value a"] by (simp only: core_mask_value_def) simp
  have "core_mask_value a < 16 ^ length ds" using hex_value_bound [OF ds(2)] ds(1) by (simp add: core_mask_value_def)
  moreover have "length ds = Suc (length ds - 1)" using ds(1,4) by (cases ds) (simp_all add: core_mask_value_def)
  ultimately have "length (hex_text (core_mask_value a)) \<le> length ds"
    using hex_text_length [of "core_mask_value a" "length ds - 1"] by simp
  with ds(3) have "length (hex_text (core_mask_value a)) \<le> 256" by (rule order_trans [rotated])
  then show "ValidateSPDKCoreMask (''0x'' @ hex_text (core_mask_value a)) = None"
    using hex_text_facts [of "core_mask_value a"] ds(4) v
    by (simp only: ValidateSPDKCoreMask_iff) (rule exI [of _ "hex_text (core_mask_value a)"], simp)
qed

lemma hex_text_inject [simp]: "hex_text m = hex_text n \<longleftrightarrow> m = n"
  by (metis hex_text_facts)

section \<open>Starting the target\<close>

definition no_target_seen :: "host_event list \<Rightarrow> bool" where
  "no_target_seen t \<longleftrightarrow> (\<exists>out err e. OutputEv pidof_command out err (Some e) \<in> set t \<and> exit_code e = Some 1)"

text \<open>A target with this core mask was found running.\<close>

definition target_seen :: "string \<Rightarrow> host_event list \<Rightarrow> bool" where
  "target_seen coreMask t \<longleftrightarrow> (\<exists>out err pid line.
     OutputEv pidof_command out err None \<in> set t \<and> Fields out = [pid] \<and>
     ReadFileEv (filepath_Join [''/proc'', pid, ''cmdline'']) (Inr line) \<in> set t \<and>
     mask_of_args pid (Split (TrimRight_char line nul) nul) = Inr \<lparr>ps_running = True, ps_coreMask = coreMask\<rparr>)"

definition target_started :: "string \<Rightarrow> nat \<Rightarrow> host_event list \<Rightarrow> bool" where
  "target_started coreMask p t \<longleftrightarrow> (\<exists>wait. StartEv (target_arguments coreMask wait) (Inr p) \<in> set t)"

text \<open>The RPC service answered last.\<close>

definition rpc_ready :: "host_event list \<Rightarrow> bool" where
  "rpc_ready t \<longleftrightarrow> t \<noteq> [] \<and>
     (\<exists>methods. rpc_answer (decode_list decode_string) ''rpc_get_methods'' [] methods (last t))"

definition init_methods :: "string set" where
  "init_methods = {''iobuf_set_options'', ''framework_start_init'', ''framework_wait_init''}"

text \<open>What starting a target may do: nothing to a target that runs, and nothing to any process but the
  one just started.\<close>

fun ensure_ok :: "string \<Rightarrow> host_event list \<Rightarrow> host_event \<Rightarrow> bool" where
  "ensure_ok coreMask t (OutputEv c _ _ _) \<longleftrightarrow> c = pidof_command \<or> c = rpc_command ''rpc_get_methods'' [] \<or>
     (\<exists>method args p. c = rpc_command method args \<and> method \<in> init_methods \<and> target_started coreMask p t)"
| "ensure_ok coreMask t (StartEv args _) \<longleftrightarrow> (\<exists>wait. args = target_arguments coreMask wait) \<and> no_target_seen t"
| "ensure_ok coreMask t (KillEv p _) \<longleftrightarrow> target_started coreMask p t"
| "ensure_ok coreMask t (ReapEv p _) \<longleftrightarrow> target_started coreMask p t"
| "ensure_ok coreMask t (SetrlimitEv cur limit _) \<longleftrightarrow> cur = limit"
| "ensure_ok coreMask t ev \<longleftrightarrow> is_read ev"

lemma ensure_ok_read: "is_read ev \<Longrightarrow> ensure_ok coreMask t ev"
  by (cases ev) simp_all

definition ensure_result ::
  "string \<Rightarrow> nat option \<Rightarrow> error option \<times> nat option \<Rightarrow> host_event list \<Rightarrow> bool" where
  "ensure_result coreMask managed r t \<longleftrightarrow>
     (fst r = None \<longrightarrow> rpc_ready t \<and>
        (target_seen coreMask t \<or> (\<exists>p. snd r = Some p \<and> target_started coreMask p t))) \<and>
     (snd r = None \<or> snd r = managed \<or> (\<exists>p. snd r = Some p \<and> fst r = None \<and> target_started coreMask p t))"

text \<open>\<open>J\<close> allows every call that \<open>I\<close> allows.\<close>

definition allows ::
  "(host_event list \<Rightarrow> host_event \<Rightarrow> bool) \<Rightarrow> (host_event list \<Rightarrow> host_event \<Rightarrow> bool) \<Rightarrow> bool" where
  "allows I J \<longleftrightarrow> (\<forall>u ev. I u ev \<longrightarrow> J u ev)"

lemma allowsD: "allows I J \<Longrightarrow> I u ev \<Longrightarrow> J u ev"
  by (simp add: allows_def)

lemma allows_refl [simp]: "allows I I"
  by (simp add: allows_def)

lemma target_seen_mono [evidence]: "target_seen coreMask t \<Longrightarrow> set t \<subseteq> set t' \<Longrightarrow> target_seen coreMask t'"
  unfolding target_seen_def by blast

lemma rpc_attempts_on:
  assumes "allows (ensure_ok coreMask) J" and "justified J t"
  shows "post (rpc_attempts (recording_host H) n e (w, t))
    (\<lambda>r t'. went_on J t t' \<and> (r = None \<longrightarrow> rpc_ready t'))"
  using assms(2)
proof (induction n arbitrary: e w t)
  case (Suc n)
  show ?case
    unfolding rpc_attempts.simps
    by (intro vcg post_bindI [OF CallSPDKRPC_on [where J = J]] post_weaken [OF Suc.IH])
       (use Suc.prems in \<open>auto simp: rpc_ready_def allowsD [OF assms(1)] ensure_ok_read dest: went_on_justified intro: went_on_trans\<close>)
qed (auto intro!: post_retI)

lemma waitForSPDKRPC_on:
  assumes "allows (ensure_ok coreMask) J" and "justified J t"
  shows "post (waitForSPDKRPC (recording_host H) (w, t)) (\<lambda>r t'. went_on J t t' \<and> (r = None \<longrightarrow> rpc_ready t'))"
  unfolding waitForSPDKRPC_def by (rule rpc_attempts_on [OF assms])

lemma target_started_mono [evidence]:
  "target_started coreMask p t \<Longrightarrow> set t \<subseteq> set t' \<Longrightarrow> target_started coreMask p t'"
  by (auto simp: target_started_def)

lemma target_started_append [simp]: "target_started coreMask p t \<Longrightarrow> target_started coreMask p (t @ u)"
  by (auto simp: target_started_def)

lemma init_method_on:
  assumes "allows (ensure_ok coreMask) J" and "justified J t"
    and "target_started coreMask p t" and "method \<in> init_methods"
  shows "post (CallSPDKRPC_nil (recording_host H) method args (w, t)) (\<lambda>r t'. went_on J t t')"
proof -
  have "J t (OutputEv (rpc_command method args) out err e)" for out err e
    by (rule allowsD [OF assms(1)]) (use assms(3,4) in auto)
  then show ?thesis
    by (intro post_weaken [OF CallSPDKRPC_nil_on [where J = J]]) (auto simp: allowsD [OF assms(1)] assms(2) ensure_ok_read)
qed

lemma configure_pools_on:
  assumes "allows (ensure_ok coreMask) J" and "justified J t" and "target_started coreMask p t"
  shows "post (configure_pools (recording_host H) args (w, t)) (\<lambda>r t'. went_on J t t')"
  unfolding configure_pools_def
  by (intro vcg post_bindI [OF waitForSPDKRPC_on [OF assms(1)]] post_bindI [OF init_method_on [OF assms(1)]])
     (use assms(2,3) in \<open>auto simp: init_methods_def dest: went_on_justified
        intro: went_on_trans target_started_mono [OF _ went_on_set]\<close>)

lemma initialize_target_on:
  assumes "allows (ensure_ok coreMask) J" and "justified J t" and "target_started coreMask p t"
  shows "post (initialize_target (recording_host H) args (w, t))
    (\<lambda>r t'. went_on J t t' \<and> (r = None \<longrightarrow> rpc_ready t'))"
proof (cases args)
  case None
  then show ?thesis
    unfolding initialize_target_def using waitForSPDKRPC_on [OF assms(1,2)] by simp
next
  case (Some a)
  show ?thesis
    unfolding initialize_target_def Some option.case
    by (intro vcg post_bindI [OF configure_pools_on [OF assms]] post_weaken [OF waitForSPDKRPC_on [OF assms(1)]])
       (auto dest: went_on_justified intro: went_on_trans)
qed

lemma stopManagedSPDKProcess_on:
  assumes "allows (ensure_ok coreMask) J" and "justified J t" and "target_started coreMask p t"
  shows "post (stopManagedSPDKProcess (recording_host H) (Some p) p (w, t)) (\<lambda>r t'. went_on J t t' \<and> snd r = None)"
  unfolding stopManagedSPDKProcess_def
  by (intro vcg) (use assms(2,3) in \<open>auto simp: went_on_def intro: allowsD [OF assms(1)]\<close>)

lemma spdkIobufPoolArgs_reads:
  "post (spdkIobufPoolArgs ord (recording_host H) (w, t)) (\<lambda>r t'. reads_after t t')"
  unfolding spdkIobufPoolArgs_def by (intro vcg) (simp_all add: reads_after_def)

lemma raiseMemlockLimit_on:
  assumes "allows (ensure_ok coreMask) J" and "justified J t"
  shows "post (raiseMemlockLimit (recording_host H) (w, t)) (\<lambda>r t'. went_on J t t')"
  unfolding raiseMemlockLimit_def by (intro vcg) (use assms(2) in \<open>auto simp: went_on_def intro: allowsD [OF assms(1)]\<close>)

lemma no_target_seen_mono [evidence]: "no_target_seen t \<Longrightarrow> set t \<subseteq> set t' \<Longrightarrow> no_target_seen t'"
  by (auto simp: no_target_seen_def)

lemma went_on_reads:
  "justified J t \<Longrightarrow> reads_after t t' \<Longrightarrow> (\<And>u ev. is_read ev \<Longrightarrow> J u ev) \<Longrightarrow> went_on J t t'"
  by (auto simp: went_on_def intro: justified_reads dest: reads_after_set)

lemma verified_mask_running: "verified_mask pid coreMask = Inr s \<Longrightarrow> ps_running s"
  by (auto simp: verified_mask_def split: sum.splits)

lemma mask_of_args_running: "mask_of_args pid args = Inr s \<Longrightarrow> ps_running s"
proof (induction args)
  case (Cons a args)
  then show ?case
    using verified_mask_running by (simp only: mask_of_args.simps split: if_splits list.splits) blast+
qed simp

lemma target_seenI:
  assumes "length (Fields out) = Suc 0"
    and "mask_of_args (hd (Fields out)) (Split (TrimRight_char line nul) nul) = Inr s"
  shows "ps_running s" and "target_seen (ps_coreMask s) (t @ [OutputEv pidof_command out err None,
    ReadFileEv (filepath_Join [''/proc'', hd (Fields out), ''cmdline'']) (Inr line)])"
proof -
  show r: "ps_running s" using assms(2) by (rule mask_of_args_running)
  have "Fields out = [hd (Fields out)]" using assms(1) by (cases "Fields out") simp_all
  moreover have "s = \<lparr>ps_running = True, ps_coreMask = ps_coreMask s\<rparr>" using r by simp
  ultimately show "target_seen (ps_coreMask s) (t @ [OutputEv pidof_command out err None,
      ReadFileEv (filepath_Join [''/proc'', hd (Fields out), ''cmdline'']) (Inr line)])"
    using assms(2) unfolding target_seen_def
    by (intro exI [of _ out] exI [of _ err] exI [of _ "hd (Fields out)"] exI [of _ line]) simp
qed

lemma inspectRunningSPDKProcess_on:
  assumes "allows (ensure_ok coreMask) J" and "justified J t"
  shows "post (inspectRunningSPDKProcess (recording_host H) (w, t))
    (\<lambda>r t'. went_on J t t' \<and> (\<forall>s. r = Inr s \<longrightarrow>
       (if ps_running s then target_seen (ps_coreMask s) t' else no_target_seen t')))"
proof -
  have pid: "J t (OutputEv pidof_command out err e)" for out err e by (rule allowsD [OF assms(1)]) simp
  have rd: "J u ev" if "is_read ev" for u ev using allowsD [OF assms(1)] ensure_ok_read that by blast
  have none: "no_target_seen (t @ [OutputEv pidof_command out err (Some e)])" if "exit_code e = Some 1" for out err e
    using that by (auto simp: no_target_seen_def)
  show ?thesis
    unfolding inspectRunningSPDKProcess_def
    by (intro vcg) (simp_all add: went_on_def assms(2) pid rd none no_process_def target_seenI subset_insertI2)
qed

lemma ensure_result_error:
  "ensure_result coreMask managed (Some e, managed) t" "ensure_result coreMask managed (Some e, None) t"
  by (simp_all add: ensure_result_def)

lemma start_target_on:
  assumes "allows (ensure_ok coreMask) J" and "justified J t" and "no_target_seen t"
  shows "post (start_target ord (recording_host H) managed coreMask (w, t))
    (\<lambda>r t'. went_on J t t' \<and> ensure_result coreMask managed r t')"
proof -
  have rd: "J u ev" if "is_read ev" for u ev using allowsD [OF assms(1)] ensure_ok_read that by blast
  have on: "went_on J t u" if "reads_after t u" for u
    using went_on_reads [OF assms(2) that rd] .
  have start: "went_on J t (v @ [StartEv (target_arguments coreMask b) r])" if "reads_after t u" "went_on J u v" for u v b r
  proof (rule went_on_snoc)
    show v: "went_on J t v" using on that went_on_trans by blast
    show "J v (StartEv (target_arguments coreMask b) r)"
      using no_target_seen_mono [OF assms(3) went_on_set [OF v]] by (intro allowsD [OF assms(1)]) auto
  qed
  have started: "target_started coreMask p (v @ [StartEv (target_arguments coreMask b) (Inr p)])" for v b p
    by (auto simp: target_started_def)
  have init: "post (initialize_target (recording_host H) args (w, v @ [StartEv (target_arguments coreMask b) (Inr p)]))
      (\<lambda>r t'. went_on J t t' \<and> target_started coreMask p t' \<and> (r = None \<longrightarrow> rpc_ready t'))"
    if "reads_after t u" "went_on J u v" for u v b p w args
    by (rule post_weaken [OF initialize_target_on [OF assms(1) went_on_justified [OF start [OF that]] started]])
       (use start [OF that] started went_on_trans target_started_mono [OF started went_on_set] in blast)+
  show ?thesis
    unfolding start_target_def
    apply (intro vcg post_bindI [OF spdkIobufPoolArgs_reads] post_bindI [OF raiseMemlockLimit_on [OF assms(1)]])
       apply (simp add: on ensure_result_error)
      apply (rule went_on_justified, erule on)
     apply (simp add: start ensure_result_error)
    subgoal premises prems for r w u args err w' v r' w'' p
      unfolding \<open>r' = Inr p\<close>
      by (intro vcg post_bindI [OF init [OF prems(1,3)]] post_bindI2 [OF stopManagedSPDKProcess_on [OF assms(1)]])
         (auto simp: ensure_result_def dest: went_on_justified intro: went_on_trans)
    subgoal using on went_on_trans ensure_result_error by blast
    done
qed

lemma EnsureSPDKRunning_on:
  assumes "canonicalSPDKCoreMask coreMask = Inr m" and "allows (ensure_ok m) J" and "justified J t"
  shows "post (EnsureSPDKRunning ord (recording_host H) managed coreMask (w, t))
    (\<lambda>r t'. went_on J t t' \<and> ensure_result m managed r t')"
proof -
  have forget: "post (forget_exited (recording_host H) managed (w, t))
      (\<lambda>r t'. went_on J t t' \<and> (r = None \<or> r = managed))"
    unfolding forget_exited_def
    by (intro vcg) (use assms(3) in \<open>auto simp: went_on_def intro: allowsD [OF assms(2)]\<close>)
  show ?thesis
    unfolding EnsureSPDKRunning_def assms(1) sum.case
    by (intro vcg post_bindI [OF forget] post_bindI [OF inspectRunningSPDKProcess_on [OF assms(2)]]
          post_bindI [OF waitForSPDKRPC_on [OF assms(2)]] post_weaken [OF start_target_on [OF assms(2)]])
       (auto simp: ensure_result_def went_on_def intro: target_seen_mono)
qed

text \<open>The outcome of \<^verbatim>\<open>EnsureSPDKRunning\<close>: an invalid mask is refused before anything is done.\<close>

definition ensure_calls_ok ::
  "string \<Rightarrow> nat option \<Rightarrow> error option \<times> nat option \<Rightarrow> host_event list \<Rightarrow> bool" where
  "ensure_calls_ok coreMask managed r t \<longleftrightarrow>
     (case canonicalSPDKCoreMask coreMask of
        Inl e \<Rightarrow> r = (Some e, managed) \<and> t = []
      | Inr m \<Rightarrow> justified (ensure_ok m) t \<and> ensure_result m managed r t)"

section \<open>Properties\<close>

text \<open>The target is started only with the requested core mask, and only right after no target was
  found running; no process is killed but the one just started. Success means that the RPC service
  answered last, and that a target with exactly the requested mask was seen or started; the process on
  record afterwards is the one from before or one that was started and came up.\<close>

lemma EnsureSPDKRunning_calls:
  "post (EnsureSPDKRunning ord (recording_host H) managed coreMask (w, [])) (ensure_calls_ok coreMask managed)"
proof (cases "canonicalSPDKCoreMask coreMask")
  case (Inl e)
  then show ?thesis unfolding EnsureSPDKRunning_def Inl sum.case by (intro vcg) (simp add: ensure_calls_ok_def Inl)
next
  case (Inr m)
  show ?thesis
    by (rule post_weaken [OF EnsureSPDKRunning_on [OF Inr allows_refl justified_Nil]])
       (simp add: ensure_calls_ok_def Inr went_on_def)
qed

text \<open>A valid core mask has a canonical form that denotes the same CPUs and is its own canonical form,
  and two valid masks have the same canonical form exactly when they denote the same CPUs: the comparison
  with the mask of a running target is one of CPU sets, whatever the case and the leading zeros.\<close>

lemma canonicalSPDKCoreMask_normal_form:
  assumes "ValidateSPDKCoreMask a = None" and "ValidateSPDKCoreMask b = None"
  shows "\<exists>m n. canonicalSPDKCoreMask a = Inr m \<and> canonicalSPDKCoreMask b = Inr n \<and>
    core_mask_value m = core_mask_value a \<and> canonicalSPDKCoreMask m = Inr m \<and>
    (m = n \<longleftrightarrow> core_mask_value a = core_mask_value b)"
  using canonical_of_valid [OF assms(1)] canonical_of_valid [OF assms(2)] canonical_valid [OF assms(1)]
    canonical_of_valid [OF canonical_valid(1) [OF assms(1)]]
  by simp

end
