(* ===== verification/Host_Access.thy ===== *)
theory Host_Access
  imports Host
begin

text \<open>
  The contract of \<^verbatim>\<open>ReconcileHostAccess\<close> in \<^verbatim>\<open>plugins/interface.go\<close>: the requested host becomes
  the only one authorized for a subsystem, and old hosts are revoked before it is authorized.

  The abstract state is who may connect: whether any host may, and the set of the authorized hosts.
  A backend says which calls show that state, and what each call does to it.
\<close>

type_synonym access = "bool \<times> string set"

text \<open>Fewer hosts may connect.\<close>

definition narrower :: "access \<Rightarrow> access \<Rightarrow> bool" where
  "narrower a b \<longleftrightarrow> (fst a \<longrightarrow> fst b) \<and> snd a \<subseteq> snd b"

lemma narrower_refl [simp]: "narrower a a"
  by (simp add: narrower_def)

lemma narrower_trans: "narrower a b \<Longrightarrow> narrower b c \<Longrightarrow> narrower a c"
  by (auto simp: narrower_def)

definition access_after :: "(host_event \<Rightarrow> access \<Rightarrow> access) \<Rightarrow> access \<Rightarrow> host_event list \<Rightarrow> access" where
  "access_after eff s t = foldl (\<lambda>s ev. eff ev s) s t"

lemma access_after_simps [simp]:
  "access_after eff s [] = s"
  "access_after eff s (ev # t) = access_after eff (eff ev s) t"
  "access_after eff s (t @ u) = access_after eff (access_after eff s t) u"
  by (simp_all add: access_after_def)

text \<open>Every call takes access away, or gives it to the hosts \<open>g\<close> when nobody has it.\<close>

fun access_steps :: "(host_event \<Rightarrow> access \<Rightarrow> access) \<Rightarrow> string set \<Rightarrow> access \<Rightarrow> host_event list \<Rightarrow> bool" where
  "access_steps eff g s [] \<longleftrightarrow> True"
| "access_steps eff g s (ev # t) \<longleftrightarrow>
     (narrower (eff ev s) s \<or> s = (False, {}) \<and> eff ev s = (False, g)) \<and> access_steps eff g (eff ev s) t"

lemma access_steps_append [simp]:
  "access_steps eff g s (t @ u) \<longleftrightarrow> access_steps eff g s t \<and> access_steps eff g (access_after eff s t) u"
  by (induction t arbitrary: s) auto

definition unchanging :: "(host_event \<Rightarrow> access \<Rightarrow> access) \<Rightarrow> host_event list \<Rightarrow> bool" where
  "unchanging eff t \<longleftrightarrow> (\<forall>ev \<in> set t. \<forall>s. eff ev s = s)"

lemma unchanging_simps [simp]:
  "unchanging eff []"
  "unchanging eff (ev # t) \<longleftrightarrow> (\<forall>s. eff ev s = s) \<and> unchanging eff t"
  "unchanging eff (t @ u) \<longleftrightarrow> unchanging eff t \<and> unchanging eff u"
  by (auto simp: unchanging_def)

lemma unchanging_access [simp]:
  "unchanging eff t \<Longrightarrow> access_after eff s t = s" "unchanging eff t \<Longrightarrow> access_steps eff g s t"
  by (induction t arbitrary: s) auto

text \<open>A run of \<^verbatim>\<open>ReconcileHostAccess\<close>: it sees the state \<open>s\<close> and goes on with steps of the kind above, to
  the requested access if it succeeds; or it fails without a change.\<close>

definition reconciled ::
  "(access \<Rightarrow> host_event list \<Rightarrow> bool) \<Rightarrow> (host_event \<Rightarrow> access \<Rightarrow> access) \<Rightarrow> string set \<Rightarrow>
   error option \<Rightarrow> host_event list \<Rightarrow> bool" where
  "reconciled seen eff g r t \<longleftrightarrow>
     r \<noteq> None \<and> unchanging eff t \<or>
     (\<exists>u v s. t = u @ v \<and> unchanging eff u \<and> seen s u \<and> access_steps eff g s v \<and>
        (r = None \<longrightarrow> access_after eff s v = (False, g)))"

text \<open>What a client relies on: a run either fails and changes nothing, or it first reads, without changing
  anything, which hosts may connect; then after every call they are some of those that were read, or only the
  requested one, and a run that succeeds leaves exactly the requested one.\<close>

definition exclusive_access ::
  "(access \<Rightarrow> host_event list \<Rightarrow> bool) \<Rightarrow> (host_event \<Rightarrow> access \<Rightarrow> access) \<Rightarrow> string set \<Rightarrow>
   error option \<Rightarrow> host_event list \<Rightarrow> bool" where
  "exclusive_access seen eff g r t \<longleftrightarrow>
     r \<noteq> None \<and> unchanging eff t \<or>
     (\<exists>s u v. t = u @ v \<and> unchanging eff u \<and> seen s u \<and>
        (\<forall>a b. t = a @ b \<longrightarrow> narrower (access_after eff s a) s \<or> narrower (access_after eff s a) (False, g)) \<and>
        (r = None \<longrightarrow> access_after eff s t = (False, g)))"

lemma access_steps_within:
  assumes "access_steps eff g s u"
  shows "narrower (access_after eff s u) s \<or> narrower (access_after eff s u) (False, g)"
  using assms
proof (induction u rule: rev_induct)
  case (snoc ev u)
  let ?a = "access_after eff s u"
  have "narrower ?a s \<or> narrower ?a (False, g)" using snoc by simp
  moreover have "narrower (eff ev ?a) ?a \<or> eff ev ?a = (False, g)" using snoc.prems by auto
  ultimately show ?case by (auto intro: narrower_trans)
qed simp

text \<open>The calls after \<open>t0\<close> changed the access from \<open>s\<close> to \<open>s'\<close>, step by step.\<close>

definition led ::
  "(host_event \<Rightarrow> access \<Rightarrow> access) \<Rightarrow> string set \<Rightarrow> access \<Rightarrow> host_event list \<Rightarrow> access \<Rightarrow> host_event list \<Rightarrow> bool" where
  "led eff g s t0 s' t \<longleftrightarrow> (\<exists>v. t = t0 @ v \<and> access_steps eff g s v \<and> access_after eff s v = s')"

lemma led_refl [simp]: "led eff g s t0 s t0"
  by (simp add: led_def)

lemma reconciled_failed: "unchanging eff t \<Longrightarrow> reconciled seen eff g (Some e) t"
  by (simp add: reconciled_def)

lemma reconciled_led:
  assumes "unchanging eff t0" and "seen s t0" and "led eff g s t0 s' t" and "r = None \<Longrightarrow> s' = (False, g)"
  shows "reconciled seen eff g r t"
  using assms unfolding reconciled_def led_def by blast

locale access_control =
  fixes valid :: "string \<Rightarrow> string \<Rightarrow> bool"
    and key :: "string \<Rightarrow> string \<Rightarrow> string"
    and seen :: "string \<Rightarrow> access \<Rightarrow> host_event list \<Rightarrow> bool"
    and eff :: "string \<Rightarrow> host_event \<Rightarrow> access \<Rightarrow> access"
    and reconcile :: "('w, host_event) traced host \<Rightarrow> string \<Rightarrow> string \<Rightarrow> ('w, host_event) traced \<Rightarrow>
      error option \<times> ('w, host_event) traced"
  assumes reconciles: "valid nqn host \<Longrightarrow> post (reconcile (recording_host H) nqn host (w, []))
    (reconciled (seen nqn) (eff nqn) (if host = [] then {} else {key nqn host}))"
begin

lemma exclusive:
  assumes "valid nqn host"
  shows "post (reconcile (recording_host H) nqn host (w, []))
    (exclusive_access (seen nqn) (eff nqn) (if host = [] then {} else {key nqn host}))"
proof (rule post_weaken [OF reconciles [OF assms]])
  fix r t
  let ?g = "if host = [] then {} else {key nqn host}" and ?eff = "eff nqn"
  assume "reconciled (seen nqn) ?eff ?g r t"
  then consider "r \<noteq> None" "unchanging ?eff t"
    | u v s where "t = u @ v" "unchanging ?eff u" "seen nqn s u" "access_steps ?eff ?g s v"
        "r = None \<longrightarrow> access_after ?eff s v = (False, ?g)"
    unfolding reconciled_def by blast
  then show "exclusive_access (seen nqn) ?eff ?g r t"
  proof cases
    case 1
    then show ?thesis unfolding exclusive_access_def by simp
  next
    case (2 u v s)
    have "access_steps ?eff ?g s t" using 2 by simp
    then have "narrower (access_after ?eff s a) s \<or> narrower (access_after ?eff s a) (False, ?g)"
      if "t = a @ b" for a b
      using that access_steps_within [of ?eff ?g s a] by simp
    with 2 show ?thesis unfolding exclusive_access_def by (intro disjI2 exI [of _ s] exI [of _ u] exI [of _ v]) auto
  qed
qed

end

end
