(* ===== verification/Backend_Spdk.thy ===== *)
theory Backend_Spdk
  imports Spdk_Process Volume_Identity Host_Access
begin

text \<open>
  Exporting volumes with SPDK: the second part of \<^verbatim>\<open>plugins/backend_spdk.go\<close>. The theorems
  say what an export changes, and that access is granted only after every stale host was removed.
\<close>

text \<open>\<^verbatim>\<open>IsExportObservationError\<close> of \<^verbatim>\<open>plugins/interface.go\<close>: the state of an export could not be
  observed, so that it must not be changed.\<close>

fun is_observation_error :: "error \<Rightarrow> bool" where
  "is_observation_error (ExportObservationError _) = True"
| "is_observation_error _ = False"

definition IsExportObservationError :: "error \<Rightarrow> bool" where
  "IsExportObservationError err = list_ex is_observation_error (error_chain err)"

section \<open>Transport and subsystems\<close>

definition spdkNVMfTransportArgs :: "'w host \<Rightarrow> 'w \<Rightarrow> (error + string list) \<times> 'w" where
  "spdkNVMfTransportArgs H w =
     (let args = [''-t'', ''RDMA'', ''-u'', ''8192'', ''-i'', ''131072'', ''-c'', ''8192''] in
      case h_Getenv H ''SPDK_NVMF_MAX_SRQ_DEPTH'' w of (maxSRQDepth, w) \<Rightarrow>
        if maxSRQDepth = [] then (Inr args, w)
        else if \<not> positive_count maxSRQDepth 32
        then (Inl (Errorf ''SPDK_NVMF_MAX_SRQ_DEPTH must be a positive integer, got %q'' [S maxSRQDepth]), w)
        else (Inr (args @ [''-s'', maxSRQDepth]), w))"

definition decode_transport :: "json option \<Rightarrow> string option" where
  "decode_transport j = (case decode_members j of None \<Rightarrow> None | Some m \<Rightarrow> decode_string (json_field m ''trtype''))"

definition EnsureNVMeTransport :: "'w host \<Rightarrow> 'w \<Rightarrow> error option \<times> 'w" where
  "EnsureNVMeTransport H w =
     (case spdkNVMfTransportArgs H w of (r, w) \<Rightarrow>
     (case r of
        Inl e \<Rightarrow> (Some e, w)
      | Inr args \<Rightarrow>
     (case CallSPDKRPC (decode_list decode_transport) H ''nvmf_get_transports'' [] w of (r, w) \<Rightarrow>
     (case r of
        Inl e \<Rightarrow> (Some (Wrapf ''failed to list SPDK NVMe-oF transports: %w'' [] e), w)
      | Inr transports \<Rightarrow>
          if list_ex (\<lambda>trtype. EqualFold trtype ''RDMA'') transports then (None, w)
          else (case CallSPDKRPC_nil H ''nvmf_create_transport'' args w of (err, w) \<Rightarrow>
               (case err of
                  Some e \<Rightarrow> (Some (Wrapf ''failed to create SPDK RDMA transport: %w'' [] e), w)
                | None \<Rightarrow> (None, w)))))))"

record spdk_namespace =
  ns_Name :: string
  ns_BdevName :: string

record spdk_listener =
  la_Trtype :: string
  la_Traddr :: string
  la_Trsvcid :: string

record spdkSubsystem =
  ss_NQN :: string
  ss_Namespaces :: "spdk_namespace list"
  ss_ListenAddresses :: "spdk_listener list"

definition decode_namespace :: "json option \<Rightarrow> spdk_namespace option" where
  "decode_namespace j =
     (case decode_members j of
        None \<Rightarrow> None
      | Some m \<Rightarrow>
          (case (decode_string (json_field m ''name''), decode_string (json_field m ''bdev_name'')) of
             (Some n, Some b) \<Rightarrow> Some \<lparr>ns_Name = n, ns_BdevName = b\<rparr>
           | _ \<Rightarrow> None))"

definition decode_listener :: "json option \<Rightarrow> spdk_listener option" where
  "decode_listener j =
     (case decode_members j of
        None \<Rightarrow> None
      | Some m \<Rightarrow>
          (case (decode_string (json_field m ''trtype''), decode_string (json_field m ''traddr''),
                 decode_string (json_field m ''trsvcid'')) of
             (Some t, Some a, Some s) \<Rightarrow> Some \<lparr>la_Trtype = t, la_Traddr = a, la_Trsvcid = s\<rparr>
           | _ \<Rightarrow> None))"

definition decode_subsystem_export :: "json option \<Rightarrow> spdkSubsystem option" where
  "decode_subsystem_export j =
     (case decode_members j of
        None \<Rightarrow> None
      | Some m \<Rightarrow>
          (case (decode_string (json_field m ''nqn''), decode_list decode_namespace (json_field m ''namespaces''),
                 decode_list decode_listener (json_field m ''listen_addresses'')) of
             (Some n, Some ns, Some ls) \<Rightarrow> Some \<lparr>ss_NQN = n, ss_Namespaces = ns, ss_ListenAddresses = ls\<rparr>
           | _ \<Rightarrow> None))"

record bdev_identity =
  bi_Name :: string
  bi_UUID :: string
  bi_Aliases :: "string list"

definition decode_bdev_identity :: "json option \<Rightarrow> bdev_identity option" where
  "decode_bdev_identity j =
     (case decode_members j of
        None \<Rightarrow> None
      | Some m \<Rightarrow>
          (case (decode_string (json_field m ''name''), decode_string (json_field m ''uuid''),
                 decode_list decode_string (json_field m ''aliases'')) of
             (Some n, Some u, Some as) \<Rightarrow> Some \<lparr>bi_Name = n, bi_UUID = u, bi_Aliases = as\<rparr>
           | _ \<Rightarrow> None))"

text \<open>The names of the backing bdev, \<open>None\<close> when there is none; a Go set is a HOL set.\<close>

definition identities_of :: "string \<Rightarrow> bdev_identity list \<Rightarrow> string set option" where
  "identities_of blockPath bdevs =
     (if bdevs = [] then None
      else Some (set (blockPath # concat (map (\<lambda>b. bi_Name b # bi_UUID b # bi_Aliases b) bdevs)) - {[]}))"

definition spdkBdevIdentities :: "'w host \<Rightarrow> string \<Rightarrow> 'w \<Rightarrow> (error + string set option) \<times> 'w" where
  "spdkBdevIdentities H blockPath w =
     (case CallSPDKRPC (decode_list decode_bdev_identity) H ''bdev_get_bdevs'' [''-b'', blockPath] w of (r, w) \<Rightarrow>
     (case r of
        Inl e \<Rightarrow> (Inl (Wrapf ''resolve SPDK backing bdev %s: %w'' [S blockPath] e), w)
      | Inr bdevs \<Rightarrow> (Inr (identities_of blockPath bdevs), w)))"

definition findSubsystem :: "'w host \<Rightarrow> string \<Rightarrow> 'w \<Rightarrow> (error + spdkSubsystem option) \<times> 'w" where
  "findSubsystem H nqn w =
     (case CallSPDKRPC (decode_list decode_subsystem_export) H ''nvmf_get_subsystems'' [] w of (r, w) \<Rightarrow>
     (case r of Inl e \<Rightarrow> (Inl e, w) | Inr subsystems \<Rightarrow> (Inr (find (\<lambda>s. ss_NQN s = nqn) subsystems), w)))"

section \<open>Exports\<close>

text \<open>The state of an export with its detail.\<close>

datatype spdkExportInspection =
  spdkExportHealthy | spdkExportMissing error | spdkExportMismatch error | spdkExportObservationUnavailable error

definition uses_bdev :: "string set \<Rightarrow> spdkSubsystem \<Rightarrow> bool" where
  "uses_bdev ids s \<longleftrightarrow> list_ex (\<lambda>n. ns_Name n \<in> ids \<or> ns_BdevName n \<in> ids) (ss_Namespaces s)"

definition listens_on :: "string \<Rightarrow> int \<Rightarrow> spdkSubsystem \<Rightarrow> bool" where
  "listens_on portalIP portalPort s \<longleftrightarrow>
     list_ex (\<lambda>l. EqualFold (la_Trtype l) ''RDMA'' \<and> la_Traddr l = portalIP \<and> la_Trsvcid l = Itoa portalPort)
       (ss_ListenAddresses s)"

definition inspect_subsystem ::
  "'w host \<Rightarrow> string \<Rightarrow> string \<Rightarrow> string \<Rightarrow> int \<Rightarrow> 'w \<Rightarrow> spdkExportInspection \<times> 'w" where
  "inspect_subsystem H nqn blockPath portalIP portalPort w =
     (case findSubsystem H nqn w of (r, w) \<Rightarrow>
     (case r of
        Inl e \<Rightarrow> (spdkExportObservationUnavailable (Wrapf ''list SPDK subsystems: %w'' [] e), w)
      | Inr found \<Rightarrow>
     (case found of
        None \<Rightarrow> (spdkExportMissing (Errorf ''SPDK subsystem %s is missing'' [S nqn]), w)
      | Some subsystem \<Rightarrow>
     (case spdkBdevIdentities H blockPath w of (r, w) \<Rightarrow>
     (case r of
        Inl e \<Rightarrow> (spdkExportObservationUnavailable e, w)
      | Inr bdev \<Rightarrow>
     (case bdev of
        None \<Rightarrow> (spdkExportMismatch (Errorf ''SPDK backing bdev %s is missing'' [S blockPath]), w)
      | Some ids \<Rightarrow>
          if \<not> uses_bdev ids subsystem
          then (spdkExportMismatch (Errorf ''SPDK subsystem %s does not use backing bdev %s'' [S nqn, S blockPath]), w)
          else if \<not> listens_on portalIP portalPort subsystem
          then (spdkExportMismatch (Errorf ''SPDK subsystem %s has no RDMA listener on %s:%d''
                  [S nqn, S portalIP, D portalPort]), w)
          else (spdkExportHealthy, w)))))))"

definition inspectExport ::
  "nat list \<Rightarrow> 'w host \<Rightarrow> nat option \<Rightarrow> string \<Rightarrow> string \<Rightarrow> string \<Rightarrow> int \<Rightarrow> strmap \<Rightarrow> 'w \<Rightarrow>
   (spdkExportInspection \<times> nat option) \<times> 'w" where
  "inspectExport ord H managed nqn blockPath portalIP portalPort options w =
     (case EnsureSPDKRunning ord H managed (map_index options SPDKCoreMaskOption) w of ((err, managed), w) \<Rightarrow>
     (case err of
        Some e \<Rightarrow> ((spdkExportObservationUnavailable e, managed), w)
      | None \<Rightarrow>
     (case inspect_subsystem H nqn blockPath portalIP portalPort w of (i, w) \<Rightarrow> ((i, managed), w))))"

definition spdk_CheckExport ::
  "nat list \<Rightarrow> 'w host \<Rightarrow> nat option \<Rightarrow> string \<Rightarrow> string \<Rightarrow> string \<Rightarrow> int \<Rightarrow> strmap \<Rightarrow> 'w \<Rightarrow>
   (error option \<times> nat option) \<times> 'w" where
  "spdk_CheckExport ord H managed nqn blockPath portalIP portalPort options w =
     (case inspectExport ord H managed nqn blockPath portalIP portalPort options w of ((inspection, managed), w) \<Rightarrow>
        ((case inspection of
            spdkExportHealthy \<Rightarrow> None
          | spdkExportObservationUnavailable e \<Rightarrow> Some (ExportObservationError e)
          | spdkExportMissing e \<Rightarrow> Some e
          | spdkExportMismatch e \<Rightarrow> Some e, managed), w))"

definition listener_args :: "string \<Rightarrow> string \<Rightarrow> int \<Rightarrow> string list" where
  "listener_args nqn portalIP portalPort = [nqn, ''-t'', ''RDMA'', ''-a'', portalIP, ''-s'', Itoa portalPort]"

text \<open>A new subsystem; it is deleted again when it cannot be completed.\<close>

definition build_export ::
  "'w host \<Rightarrow> string \<Rightarrow> string \<Rightarrow> string \<Rightarrow> int \<Rightarrow> 'w \<Rightarrow> (error + string) \<times> 'w" where
  "build_export H nqn blockPath portalIP portalPort w =
     (case EnsureNVMeTransport H w of (err, w) \<Rightarrow>
     (case err of
        Some e \<Rightarrow> (Inl e, w)
      | None \<Rightarrow>
     (case CallSPDKRPC_nil H ''nvmf_create_subsystem'' [nqn, ''-s'', ''distort''] w of (err, w) \<Rightarrow>
     (case err of
        Some e \<Rightarrow> (Inl (Wrapf ''failed to create SPDK subsystem %s: %w'' [S nqn] e), w)
      | None \<Rightarrow>
     (case CallSPDKRPC_nil H ''nvmf_subsystem_add_ns'' [nqn, blockPath] w of (err, w) \<Rightarrow>
     (case err of
        Some e \<Rightarrow>
          (case CallSPDKRPC_nil H ''nvmf_delete_subsystem'' [nqn] w of (_, w) \<Rightarrow>
             (Inl (Wrapf ''failed to add namespace %s to subsystem: %w'' [S blockPath] e), w))
      | None \<Rightarrow>
     (case CallSPDKRPC_nil H ''nvmf_subsystem_add_listener'' (listener_args nqn portalIP portalPort) w of (err, w) \<Rightarrow>
     (case err of
        Some e \<Rightarrow>
          (case CallSPDKRPC_nil H ''nvmf_delete_subsystem'' [nqn] w of (_, w) \<Rightarrow>
             (Inl (Wrapf ''failed to add RDMA listener to subsystem: %w'' [] e), w))
      | None \<Rightarrow> (Inr nqn, w)))))))))"

definition spdk_ExportVolume ::
  "nat list \<Rightarrow> 'w host \<Rightarrow> nat option \<Rightarrow> string \<Rightarrow> string \<Rightarrow> string \<Rightarrow> int \<Rightarrow> strmap \<Rightarrow> 'w \<Rightarrow>
   ((error + string) \<times> nat option) \<times> 'w" where
  "spdk_ExportVolume ord H managed volumeName blockPath portalIP portalPort options w =
     (let nqn = NQN volumeName in
      case inspectExport ord H managed nqn blockPath portalIP portalPort options w of ((inspection, managed), w) \<Rightarrow>
     (case inspection of
        spdkExportHealthy \<Rightarrow> ((Inr nqn, managed), w)
      | spdkExportObservationUnavailable e \<Rightarrow> ((Inl (ExportObservationError e), managed), w)
      | spdkExportMissing e \<Rightarrow>
          (case build_export H nqn blockPath portalIP portalPort w of (r, w) \<Rightarrow> ((r, managed), w))
      | spdkExportMismatch e \<Rightarrow>
          (case CallSPDKRPC_nil H ''nvmf_delete_subsystem'' [nqn] w of (err, w) \<Rightarrow>
          (case err of
             Some e \<Rightarrow> ((Inl (Wrapf ''replace unhealthy SPDK subsystem %s: %w'' [S nqn] e), managed), w)
           | None \<Rightarrow>
               (case build_export H nqn blockPath portalIP portalPort w of (r, w) \<Rightarrow> ((r, managed), w))))))"

section \<open>Access\<close>

record subsystemRecord =
  sr_NQN :: string
  sr_AllowAnyHost :: bool
  sr_Hosts :: "string list"

definition decode_nqn :: "json option \<Rightarrow> string option" where
  "decode_nqn j = (case decode_members j of None \<Rightarrow> None | Some m \<Rightarrow> decode_string (json_field m ''nqn''))"

definition decode_subsystem_access :: "json option \<Rightarrow> subsystemRecord option" where
  "decode_subsystem_access j =
     (case decode_members j of
        None \<Rightarrow> None
      | Some m \<Rightarrow>
          (case (decode_string (json_field m ''nqn''), decode_bool (json_field m ''allow_any_host''),
                 decode_list decode_nqn (json_field m ''hosts'')) of
             (Some n, Some a, Some hs) \<Rightarrow> Some \<lparr>sr_NQN = n, sr_AllowAnyHost = a, sr_Hosts = hs\<rparr>
           | _ \<Rightarrow> None))"

definition access_exact :: "bool \<Rightarrow> string list \<Rightarrow> string \<Rightarrow> bool" where
  "access_exact allowAny hosts hostNQN \<longleftrightarrow>
     \<not> allowAny \<and> length hosts \<le> 1 \<and> (if hostNQN = [] then hosts = [] else hosts = [hostNQN])"

fun remove_hosts :: "'w host \<Rightarrow> string \<Rightarrow> string list \<Rightarrow> 'w \<Rightarrow> error option \<times> 'w" where
  "remove_hosts H nqn [] w = (None, w)"
| "remove_hosts H nqn (host # hosts) w =
     (case h_CtxErr H w of (c, w) \<Rightarrow>
     (case c of
        Some c \<Rightarrow> (Some (ContextError c), w)
      | None \<Rightarrow>
     (case CallSPDKRPC_nil H ''nvmf_subsystem_remove_host'' [nqn, host] w of (err, w) \<Rightarrow>
     (case err of
        Some e \<Rightarrow> (Some (Wrapf ''disconnect and remove stale host %s from %s: %w'' [S host, S nqn] e), w)
      | None \<Rightarrow> remove_hosts H nqn hosts w))))"

definition restrict_access :: "'w host \<Rightarrow> string \<Rightarrow> bool \<Rightarrow> 'w \<Rightarrow> error option \<times> 'w" where
  "restrict_access H nqn allowAny w =
     (if \<not> allowAny then (None, w)
      else (case CallSPDKRPC_nil H ''nvmf_subsystem_allow_any_host'' [nqn, ''-d''] w of (err, w) \<Rightarrow>
           (case err of
              Some e \<Rightarrow> (Some (Wrapf ''disable unrestricted host access for %s: %w'' [S nqn] e), w)
            | None \<Rightarrow> (None, w))))"

definition grant_host :: "'w host \<Rightarrow> string \<Rightarrow> string \<Rightarrow> 'w \<Rightarrow> error option \<times> 'w" where
  "grant_host H nqn hostNQN w =
     (if hostNQN = [] then (None, w)
      else (case CallSPDKRPC_nil H ''nvmf_subsystem_add_host'' [nqn, hostNQN] w of (err, w) \<Rightarrow>
           (case err of
              Some e \<Rightarrow> (Some (Wrapf ''authorize host %s for %s: %w'' [S hostNQN, S nqn] e), w)
            | None \<Rightarrow> (None, w))))"

definition change_access :: "'w host \<Rightarrow> subsystemRecord \<Rightarrow> string \<Rightarrow> string \<Rightarrow> 'w \<Rightarrow> error option \<times> 'w" where
  "change_access H current nqn hostNQN w =
     (case restrict_access H nqn (sr_AllowAnyHost current) w of (err, w) \<Rightarrow>
     (case err of
        Some e \<Rightarrow> (Some e, w)
      | None \<Rightarrow>
     (case remove_hosts H nqn (sr_Hosts current) w of (err, w) \<Rightarrow>
     (case err of Some e \<Rightarrow> (Some e, w) | None \<Rightarrow> grant_host H nqn hostNQN w))))"

definition spdk_ReconcileHostAccess :: "'w host \<Rightarrow> string \<Rightarrow> string \<Rightarrow> 'w \<Rightarrow> error option \<times> 'w" where
  "spdk_ReconcileHostAccess H nqn hostNQN w =
     (case h_CtxErr H w of (c, w) \<Rightarrow>
     (case c of
        Some c \<Rightarrow> (Some (ContextError c), w)
      | None \<Rightarrow>
     (case CallSPDKRPC (decode_list decode_subsystem_access) H ''nvmf_get_subsystems'' [] w of (r, w) \<Rightarrow>
     (case r of
        Inl e \<Rightarrow> (Some (Wrapf ''list SPDK subsystems before reconciling host access: %w'' [] e), w)
      | Inr subsystems \<Rightarrow>
     (case find (\<lambda>s. sr_NQN s = nqn) subsystems of
        None \<Rightarrow> (Some (Errorf ''SPDK subsystem %s does not exist'' [S nqn]), w)
      | Some current \<Rightarrow>
          if access_exact (sr_AllowAnyHost current) (sr_Hosts current) hostNQN then (None, w)
          else change_access H current nqn hostNQN w)))))"

section \<open>Unexporting\<close>

definition subsystemExists :: "'w host \<Rightarrow> string \<Rightarrow> 'w \<Rightarrow> (error + bool) \<times> 'w" where
  "subsystemExists H nqn w =
     (case CallSPDKRPC (decode_list decode_nqn) H ''nvmf_get_subsystems'' [] w of (r, w) \<Rightarrow>
     (case r of
        Inl e \<Rightarrow> (Inl (Wrapf ''failed to list SPDK NVMe-oF subsystems: %w'' [] e), w)
      | Inr subsystems \<Rightarrow> (Inr (nqn \<in> set subsystems), w)))"

definition spdk_UnexportVolume :: "'w host \<Rightarrow> string \<Rightarrow> 'w \<Rightarrow> error option \<times> 'w" where
  "spdk_UnexportVolume H nqn w =
     (case subsystemExists H nqn w of (r, w) \<Rightarrow>
     (case r of
        Inl e \<Rightarrow> (Some e, w)
      | Inr found \<Rightarrow>
          if \<not> found then (None, w)
          else
     (case CallSPDKRPC_nil H ''nvmf_delete_subsystem'' [nqn] w of (deleteErr, w) \<Rightarrow>
     (case subsystemExists H nqn w of (r, w) \<Rightarrow>
     (case r of
        Inl verifyErr \<Rightarrow> (Some (Wrapf ''verify SPDK subsystem %s absence: %w'' [S nqn] verifyErr), w)
      | Inr found \<Rightarrow>
          if found
          then (Some (case deleteErr of
                        Some e \<Rightarrow> Wrapf ''failed to delete SPDK subsystem %s: %w'' [S nqn] e
                      | None \<Rightarrow> Errorf ''SPDK subsystem %s still exists after deletion'' [S nqn]), w)
          else (None, w))))))"

section \<open>Access is exclusive\<close>

text \<open>What an RPC does to the access of the subsystem \<open>nqn\<close>, as the SPDK documentation describes it. A
  call that failed may still have been carried out: it is counted as giving access, never as taking it.\<close>

definition spdk_access_effect :: "string \<Rightarrow> host_event \<Rightarrow> access \<Rightarrow> access" where
  "spdk_access_effect nqn ev s =
     (case ev of
        OutputEv c out err e \<Rightarrow>
          if \<exists>h. c = rpc_command ''nvmf_subsystem_add_host'' [nqn, h]
          then (fst s, insert (last (cmd_Args c)) (snd s))
          else if e \<noteq> None then s
          else if c = rpc_command ''nvmf_subsystem_allow_any_host'' [nqn, ''-d''] then (False, snd s)
          else if \<exists>h. c = rpc_command ''nvmf_subsystem_remove_host'' [nqn, h]
          then (fst s, snd s - {last (cmd_Args c)})
          else s
      | _ \<Rightarrow> s)"

lemma spdk_access_effect_simps [simp]:
  "spdk_access_effect nqn (OutputEv (rpc_command ''nvmf_subsystem_add_host'' [nqn, h]) out err e) s = (fst s, insert h (snd s))"
  "spdk_access_effect nqn (OutputEv (rpc_command ''nvmf_subsystem_remove_host'' [nqn, h]) out err None) s = (fst s, snd s - {h})"
  "spdk_access_effect nqn (OutputEv (rpc_command ''nvmf_subsystem_allow_any_host'' [nqn, ''-d'']) out err None) s = (False, snd s)"
  "spdk_access_effect nqn (OutputEv (rpc_command ''nvmf_subsystem_remove_host'' [nqn, h]) out err (Some x)) s = s"
  "spdk_access_effect nqn (OutputEv (rpc_command ''nvmf_subsystem_allow_any_host'' [nqn, ''-d'']) out err (Some x)) s = s"
  "spdk_access_effect nqn (OutputEv (rpc_command ''nvmf_get_subsystems'' []) out err e) s = s"
  "spdk_access_effect nqn (CtxErrEv c) s = s"
  by (auto simp: spdk_access_effect_def rpc_command_def Command_def)

definition spdk_access_seen :: "string \<Rightarrow> access \<Rightarrow> host_event list \<Rightarrow> bool" where
  "spdk_access_seen nqn s t \<longleftrightarrow> t \<noteq> [] \<and> (\<exists>subsystems current.
     rpc_answer (decode_list decode_subsystem_access) ''nvmf_get_subsystems'' [] subsystems (last t) \<and>
     find (\<lambda>x. sr_NQN x = nqn) subsystems = Some current \<and> s = (sr_AllowAnyHost current, set (sr_Hosts current)))"

abbreviation spdk_led :: "string \<Rightarrow> string set \<Rightarrow> access \<Rightarrow> host_event list \<Rightarrow> access \<Rightarrow> host_event list \<Rightarrow> bool" where
  "spdk_led nqn \<equiv> led (spdk_access_effect nqn)"

lemma restrict_access_led:
  assumes "spdk_led nqn g s t0 (allowAny, hs) t"
  shows "post (restrict_access (recording_host H) nqn allowAny (w, t))
    (\<lambda>r t'. spdk_led nqn g s t0 (r \<noteq> None \<and> allowAny, hs) t')"
  unfolding restrict_access_def
  by (intro vcg post_bindI [OF CallSPDKRPC_nil_post])
     (use assms in \<open>auto simp: rpc_calls_def led_def narrower_def\<close>)

lemma remove_hosts_led:
  assumes "spdk_led nqn g s t0 (False, hs) t"
  shows "post (remove_hosts (recording_host H) nqn hosts (w, t))
    (\<lambda>r t'. \<exists>hs'. spdk_led nqn g s t0 (False, hs') t' \<and> (r = None \<longrightarrow> hs' = hs - set hosts))"
  using assms
proof (induction hosts arbitrary: hs t w)
  case (Cons h hosts)
  show ?case
    unfolding remove_hosts.simps
  proof (intro vcg post_bindI [OF CallSPDKRPC_nil_post], goal_cases)
    case (1 c w err w' t')
    then have "spdk_led nqn g s t0 (False, hs - {h}) t'"
      using Cons.prems by (auto simp: rpc_calls_def led_def narrower_def)
    from Cons.IH [OF this] show ?case by (rule post_weaken) (auto simp: insert_Diff_if)
  qed (use Cons.prems in \<open>auto simp: rpc_calls_def led_def narrower_def\<close>)
qed (auto intro!: post_retI)

lemma grant_host_led:
  assumes "spdk_led nqn g s t0 (False, {}) t" and "g = (if host = [] then {} else {host})"
  shows "post (grant_host (recording_host H) nqn host (w, t))
    (\<lambda>r t'. \<exists>s'. spdk_led nqn g s t0 s' t' \<and> (r = None \<longrightarrow> s' = (False, g)))"
  unfolding grant_host_def
  by (intro vcg post_bindI [OF CallSPDKRPC_nil_post])
     (use assms in \<open>auto simp: rpc_calls_def led_def narrower_def\<close>)

lemma change_access_led:
  assumes "g = (if host = [] then {} else {host})"
  shows "post (change_access (recording_host H) current nqn host (w, t))
    (\<lambda>r t'. \<exists>s'. spdk_led nqn g (sr_AllowAnyHost current, set (sr_Hosts current)) t s' t' \<and>
       (r = None \<longrightarrow> s' = (False, g)))"
  unfolding change_access_def
  by (intro vcg post_bindI [OF restrict_access_led [where g = g, OF led_refl]] post_bindI [OF remove_hosts_led]
        post_weaken [OF grant_host_led [OF _ assms]]) auto

lemma spdk_access_listed:
  assumes "rpc_answer (decode_list decode_subsystem_access) ''nvmf_get_subsystems'' [] subsystems ev"
  shows "unchanging (spdk_access_effect nqn) [CtxErrEv c, ev]"
    and "find (\<lambda>x. sr_NQN x = nqn) subsystems = Some current \<Longrightarrow>
      spdk_access_seen nqn (sr_AllowAnyHost current, set (sr_Hosts current)) [CtxErrEv c, ev]"
  using assms by (auto simp: spdk_access_seen_def rpc_answer_def)

lemma access_exact_iff: "access_exact allowAny hosts host \<Longrightarrow> (allowAny, set hosts) = (False, if host = [] then {} else {host})"
  by (auto simp: access_exact_def split: if_splits)

lemma spdk_reconciles:
  "post (spdk_ReconcileHostAccess (recording_host H) nqn host (w, []))
     (reconciled (spdk_access_seen nqn) (spdk_access_effect nqn) (if host = [] then {} else {host}))"
  unfolding spdk_ReconcileHostAccess_def
proof (intro vcg post_bindI [OF CallSPDKRPC_post] post_weaken [OF change_access_led [OF refl]], goal_cases)
  case (3 c w r w' t subsystems current)
  then obtain ev where ev: "t = [CtxErrEv c, ev]"
    "rpc_answer (decode_list decode_subsystem_access) ''nvmf_get_subsystems'' [] subsystems ev"
    by auto
  show ?case
    unfolding ev(1)
    by (rule reconciled_led [where seen = "spdk_access_seen nqn", OF spdk_access_listed(1) [OF ev(2)]
          spdk_access_listed(2) [OF ev(2) 3(4)] led_refl])
       (rule access_exact_iff [OF 3(5)])
next
  case (4 c w r w' t subsystems current r' t')
  then obtain ev s' where ev: "t = [CtxErrEv c, ev]"
    "rpc_answer (decode_list decode_subsystem_access) ''nvmf_get_subsystems'' [] subsystems ev"
    and s': "spdk_led nqn (if host = [] then {} else {host}) (sr_AllowAnyHost current, set (sr_Hosts current)) t s' t'"
      "r' = None \<longrightarrow> s' = (False, if host = [] then {} else {host})"
    by auto
  show ?case
    by (rule reconciled_led [where seen = "spdk_access_seen nqn", OF spdk_access_listed(1) [OF ev(2)]
          spdk_access_listed(2) [OF ev(2) 4(4)] s'(1) [unfolded ev(1)]])
       (use s'(2) in simp)
qed (auto simp: rpc_calls_def rpc_answer_def intro: reconciled_failed)

interpretation spdk_access: access_control "\<lambda>nqn host. True" "\<lambda>nqn host. host" spdk_access_seen
  spdk_access_effect spdk_ReconcileHostAccess
  by unfold_locales (rule spdk_reconciles)

section \<open>Deleting an export\<close>

definition unexport_allowed :: "string \<Rightarrow> host_event list \<Rightarrow> string \<Rightarrow> string list \<Rightarrow> bool" where
  "unexport_allowed nqn t method args \<longleftrightarrow>
     method = ''nvmf_get_subsystems'' \<and> args = [] \<or> method = ''nvmf_delete_subsystem'' \<and> args = [nqn]"

definition subsystem_gone :: "string \<Rightarrow> host_event list \<Rightarrow> bool" where
  "subsystem_gone nqn t \<longleftrightarrow> t \<noteq> [] \<and>
     (\<exists>nqns. rpc_answer (decode_list decode_nqn) ''nvmf_get_subsystems'' [] nqns (last t) \<and> nqn \<notin> set nqns)"

definition unexport_ok :: "string \<Rightarrow> error option \<Rightarrow> host_event list \<Rightarrow> bool" where
  "unexport_ok nqn r t \<longleftrightarrow>
     justified (rpc_ok (unexport_allowed nqn)) t \<and> (r = None \<longrightarrow> subsystem_gone nqn t)"

lemma subsystemExists_on:
  assumes "justified (rpc_ok (unexport_allowed nqn)) t"
  shows "post (subsystemExists (recording_host H) nqn (w, t))
    (\<lambda>r t'. justified (rpc_ok (unexport_allowed nqn)) t' \<and> (r = Inr False \<longrightarrow> subsystem_gone nqn t'))"
  unfolding subsystemExists_def
  by (intro vcg post_bindI [OF CallSPDKRPC_ok [where A = "unexport_allowed nqn", OF assms]])
     (auto simp: unexport_allowed_def subsystem_gone_def dest: went_on_justified)

section \<open>Making an export\<close>

definition rpc_done :: "string \<Rightarrow> string list \<Rightarrow> host_event list \<Rightarrow> bool" where
  "rpc_done method args t \<longleftrightarrow> (\<exists>out err. OutputEv (rpc_command method args) out err None \<in> set t)"

lemma rpc_done_mono [evidence]: "rpc_done method args t \<Longrightarrow> set t \<subseteq> set t' \<Longrightarrow> rpc_done method args t'"
  by (auto simp: rpc_done_def)

lemma rpc_done_snoc [simp]: "rpc_done method args (t @ [OutputEv (rpc_command method args) out err None])"
  unfolding rpc_done_def by force

text \<open>The run listed the subsystem \<open>nqn\<close> as \<open>s\<close> (\<open>None\<close> when it is missing), and the names of the bdev.\<close>

definition subsystem_seen :: "string \<Rightarrow> spdkSubsystem option \<Rightarrow> host_event list \<Rightarrow> bool" where
  "subsystem_seen nqn s t \<longleftrightarrow> (\<exists>ev \<in> set t. \<exists>subsystems. find (\<lambda>x. ss_NQN x = nqn) subsystems = s \<and>
     rpc_answer (decode_list decode_subsystem_export) ''nvmf_get_subsystems'' [] subsystems ev)"

definition bdev_seen :: "string \<Rightarrow> string set option \<Rightarrow> host_event list \<Rightarrow> bool" where
  "bdev_seen path ids t \<longleftrightarrow> (\<exists>ev \<in> set t. \<exists>bdevs. identities_of path bdevs = ids \<and>
     rpc_answer (decode_list decode_bdev_identity) ''bdev_get_bdevs'' [''-b'', path] bdevs ev)"

lemma seen_mono [evidence]:
  "subsystem_seen nqn s t \<Longrightarrow> set t \<subseteq> set t' \<Longrightarrow> subsystem_seen nqn s t'"
  "bdev_seen path ids t \<Longrightarrow> set t \<subseteq> set t' \<Longrightarrow> bdev_seen path ids t'"
  by (auto simp: subsystem_seen_def bdev_seen_def)

definition healthy_seen :: "string \<Rightarrow> string \<Rightarrow> string \<Rightarrow> int \<Rightarrow> host_event list \<Rightarrow> bool" where
  "healthy_seen nqn path ip port t \<longleftrightarrow> (\<exists>s ids. subsystem_seen nqn (Some s) t \<and> bdev_seen path (Some ids) t \<and>
     uses_bdev ids s \<and> listens_on ip port s)"

definition mismatch_seen :: "string \<Rightarrow> string \<Rightarrow> string \<Rightarrow> int \<Rightarrow> host_event list \<Rightarrow> bool" where
  "mismatch_seen nqn path ip port t \<longleftrightarrow> (\<exists>s. subsystem_seen nqn (Some s) t \<and>
     (bdev_seen path None t \<or> (\<exists>ids. bdev_seen path (Some ids) t \<and> \<not> uses_bdev ids s) \<or> \<not> listens_on ip port s))"

fun inspected :: "string \<Rightarrow> string \<Rightarrow> string \<Rightarrow> int \<Rightarrow> spdkExportInspection \<Rightarrow> host_event list \<Rightarrow> bool" where
  "inspected nqn path ip port spdkExportHealthy t \<longleftrightarrow> healthy_seen nqn path ip port t"
| "inspected nqn path ip port (spdkExportMissing e) t \<longleftrightarrow> subsystem_seen nqn None t"
| "inspected nqn path ip port (spdkExportMismatch e) t \<longleftrightarrow> mismatch_seen nqn path ip port t"
| "inspected nqn path ip port (spdkExportObservationUnavailable e) t \<longleftrightarrow> True"

definition export_read :: "string \<Rightarrow> string \<Rightarrow> string list \<Rightarrow> bool" where
  "export_read path method args \<longleftrightarrow>
     args = [] \<and> (method = ''nvmf_get_subsystems'' \<or> method = ''nvmf_get_transports'') \<or>
     method = ''bdev_get_bdevs'' \<and> args = [''-b'', path]"

definition export_change ::
  "string \<Rightarrow> string \<Rightarrow> string \<Rightarrow> int \<Rightarrow> host_event list \<Rightarrow> string \<Rightarrow> string list \<Rightarrow> bool" where
  "export_change nqn path ip port t method args \<longleftrightarrow>
     method = ''nvmf_create_transport'' \<or>
     method = ''nvmf_delete_subsystem'' \<and> args = [nqn] \<and>
       (mismatch_seen nqn path ip port t \<or> rpc_done ''nvmf_create_subsystem'' [nqn, ''-s'', ''distort''] t) \<or>
     method = ''nvmf_create_subsystem'' \<and> args = [nqn, ''-s'', ''distort''] \<and>
       (subsystem_seen nqn None t \<or> rpc_done ''nvmf_delete_subsystem'' [nqn] t) \<or>
     method = ''nvmf_subsystem_add_ns'' \<and> args = [nqn, path] \<and>
       rpc_done ''nvmf_create_subsystem'' [nqn, ''-s'', ''distort''] t \<or>
     method = ''nvmf_subsystem_add_listener'' \<and> args = listener_args nqn ip port \<and>
       rpc_done ''nvmf_subsystem_add_ns'' [nqn, path] t"

text \<open>The calls of \<^verbatim>\<open>ExportVolume\<close>: starting the target, looking, and the changes above. \<open>look_ok\<close> leaves
  the changes out.\<close>

definition look_ok :: "string \<Rightarrow> string \<Rightarrow> host_event list \<Rightarrow> host_event \<Rightarrow> bool" where
  "look_ok m path t ev \<longleftrightarrow> ensure_ok m t ev \<or> rpc_ok (\<lambda>t. export_read path) t ev"

definition export_ok ::
  "string \<Rightarrow> string \<Rightarrow> string \<Rightarrow> string \<Rightarrow> int \<Rightarrow> host_event list \<Rightarrow> host_event \<Rightarrow> bool" where
  "export_ok m nqn path ip port t ev \<longleftrightarrow> look_ok m path t ev \<or> rpc_ok (export_change nqn path ip port) t ev"

lemma export_ok_simps:
  "export_read path method args \<Longrightarrow> look_ok m path t (OutputEv (rpc_command method args) out err e)"
  "export_change nqn path ip port t method args \<Longrightarrow>
   export_ok m nqn path ip port t (OutputEv (rpc_command method args) out err e)"
  "look_ok m path t ev \<Longrightarrow> export_ok m nqn path ip port t ev"
  "is_read ev \<Longrightarrow> look_ok m path t ev"
  by (simp_all add: look_ok_def export_ok_def)

lemma allows_look [simp]: "allows (ensure_ok m) (look_ok m path)"
  by (simp add: allows_def look_ok_def)

lemma findSubsystem_on:
  assumes "justified (look_ok m path) t"
  shows "post (findSubsystem (recording_host H) nqn (w, t))
    (\<lambda>r t'. went_on (look_ok m path) t t' \<and> (\<forall>s. r = Inr s \<longrightarrow> subsystem_seen nqn s t'))"
  unfolding findSubsystem_def
  by (intro vcg post_bindI [OF CallSPDKRPC_on [where J = "look_ok m path"]])
     (use assms in \<open>auto simp: export_ok_simps export_read_def subsystem_seen_def\<close>)

lemma spdkBdevIdentities_on:
  assumes "justified (look_ok m path) t"
  shows "post (spdkBdevIdentities (recording_host H) path (w, t))
    (\<lambda>r t'. went_on (look_ok m path) t t' \<and> (\<forall>ids. r = Inr ids \<longrightarrow> bdev_seen path ids t'))"
  unfolding spdkBdevIdentities_def
  by (intro vcg post_bindI [OF CallSPDKRPC_on [where J = "look_ok m path"]])
     (use assms in \<open>auto simp: export_ok_simps export_read_def bdev_seen_def\<close>)

lemma inspect_subsystem_on:
  assumes "justified (look_ok m path) t"
  shows "post (inspect_subsystem (recording_host H) nqn path ip port (w, t))
    (\<lambda>i t'. went_on (look_ok m path) t t' \<and> inspected nqn path ip port i t')"
  unfolding inspect_subsystem_def
  by (intro vcg post_bindI [OF findSubsystem_on] post_bindI [OF spdkBdevIdentities_on [where m = m]])
     (use assms in \<open>auto simp: mismatch_seen_def healthy_seen_def dest: went_on_justified
        intro: went_on_trans seen_mono [OF _ went_on_set]\<close>)

lemma inspectExport_on:
  assumes "canonicalSPDKCoreMask (map_index options SPDKCoreMaskOption) = Inr m"
  shows "post (inspectExport ord (recording_host H) managed nqn path ip port options (w, []))
    (\<lambda>r t'. justified (look_ok m path) t' \<and> inspected nqn path ip port (fst r) t')"
  unfolding inspectExport_def
  by (intro vcg post_bindI2 [OF EnsureSPDKRunning_on [OF assms allows_look [where path = path] justified_Nil]]
        post_bindI [OF inspect_subsystem_on])
     (auto simp: went_on_def)

text \<open>The errors of an RPC are not observation errors.\<close>

definition plain_failure :: "error \<Rightarrow> bool" where
  "plain_failure e \<longleftrightarrow> \<not> IsExportObservationError e"

lemma plain_failure_simps [simp]:
  "plain_failure (Errorf f as)"
  "plain_failure (Wrapf f as e) \<longleftrightarrow> plain_failure e"
  "plain_failure (ContextError c)"
  by (simp_all add: plain_failure_def IsExportObservationError_def)

lemma not_observation: "IsExportObservationError e \<longleftrightarrow> \<not> plain_failure e"
  by (simp add: plain_failure_def)

lemma run_rpc_plain: "post (run_rpc (recording_host H) method args (w, t)) (\<lambda>r t'. \<forall>e. r = Inl e \<longrightarrow> plain_failure e)"
  unfolding run_rpc_def by (intro vcg) auto

lemma CallSPDKRPC_nil_plain:
  "post (CallSPDKRPC_nil (recording_host H) method args (w, t)) (\<lambda>r t'. \<forall>e. r = Some e \<longrightarrow> plain_failure e)"
  unfolding CallSPDKRPC_nil_def
  by (intro vcg post_bindI [OF run_rpc_plain]) (auto simp: err_of_def split: sum.splits)

lemma CallSPDKRPC_plain:
  "post (CallSPDKRPC decode (recording_host H) method args (w, t)) (\<lambda>r t'. \<forall>e. r = Inl e \<longrightarrow> plain_failure e)"
  unfolding CallSPDKRPC_def
  by (intro vcg post_bindI [OF run_rpc_plain]) (auto simp: rpc_decode_def split: option.splits)

lemma EnsureNVMeTransport_plain:
  "post (EnsureNVMeTransport (recording_host H) (w, t)) (\<lambda>r t'. \<forall>e. r = Some e \<longrightarrow> plain_failure e)"
  unfolding EnsureNVMeTransport_def spdkNVMfTransportArgs_def Let_def
  apply (rule post_bindI [where R = "\<lambda>r t'. \<forall>e. r = Inl e \<longrightarrow> plain_failure e"])
   apply (intro vcg; simp)
  by (intro vcg post_bindI [OF CallSPDKRPC_plain] post_bindI [OF CallSPDKRPC_nil_plain]) auto

lemma build_export_plain:
  "post (build_export (recording_host H) nqn path ip port (w, t)) (\<lambda>r t'. \<forall>e. r = Inl e \<longrightarrow> plain_failure e)"
  unfolding build_export_def
  by (intro vcg post_bindI [OF EnsureNVMeTransport_plain] post_bindI [OF CallSPDKRPC_nil_plain]) auto

lemma export_rpc_on:
  assumes "went_on (export_ok m nqn path ip port) t0 t" and "export_change nqn path ip port t method args"
  shows "post (CallSPDKRPC_nil (recording_host H) method args (w, t))
    (\<lambda>r t'. went_on (export_ok m nqn path ip port) t0 t' \<and> (\<forall>m a. rpc_done m a t \<longrightarrow> rpc_done m a t') \<and>
       (r = None \<longrightarrow> rpc_done method args t'))"
  by (rule post_weaken [OF CallSPDKRPC_nil_on [where J = "export_ok m nqn path ip port"]])
     (use assms in \<open>auto simp: export_ok_simps rpc_calls_def dest: went_on_justified
        intro: went_on_trans rpc_done_mono\<close>)

lemma EnsureNVMeTransport_on:
  assumes "justified (export_ok m nqn path ip port) t"
  shows "post (EnsureNVMeTransport (recording_host H) (w, t)) (\<lambda>r t'. went_on (export_ok m nqn path ip port) t t')"
proof -
  have args: "post (spdkNVMfTransportArgs (recording_host H) (w, t)) (\<lambda>r t'. went_on (export_ok m nqn path ip port) t t')"
    unfolding spdkNVMfTransportArgs_def
    by (intro vcg) (use assms in \<open>auto simp: export_ok_simps went_on_def\<close>)
  show ?thesis
    unfolding EnsureNVMeTransport_def
    by (intro vcg post_bindI [OF args] post_bindI [OF CallSPDKRPC_on [where J = "export_ok m nqn path ip port"]]
          post_bindI [OF export_rpc_on [where ?t0.0 = t]])
       (auto simp: export_ok_simps export_read_def export_change_def dest: went_on_justified intro: went_on_trans)
qed

lemma build_export_on:
  assumes "justified (export_ok m nqn path ip port) t"
    and "subsystem_seen nqn None t \<or> rpc_done ''nvmf_delete_subsystem'' [nqn] t"
  shows "post (build_export (recording_host H) nqn path ip port (w, t))
    (\<lambda>r t'. went_on (export_ok m nqn path ip port) t t' \<and>
       (\<forall>n. r = Inr n \<longrightarrow> n = nqn \<and> rpc_done ''nvmf_subsystem_add_listener'' (listener_args nqn ip port) t'))"
  unfolding build_export_def
  by (intro vcg post_bindI [OF EnsureNVMeTransport_on] post_bindI [OF export_rpc_on [where ?t0.0 = t]])
     (use assms in \<open>auto simp: export_change_def intro: seen_mono [OF _ went_on_set] rpc_done_mono [OF _ went_on_set]\<close>)

text \<open>The outcome of \<^verbatim>\<open>ExportVolume\<close>: success means that the export was seen healthy or was made; a state
  that could not be observed was not changed.\<close>

definition export_result ::
  "string \<Rightarrow> string \<Rightarrow> string \<Rightarrow> string \<Rightarrow> int \<Rightarrow> error + string \<Rightarrow> host_event list \<Rightarrow> bool" where
  "export_result m nqn path ip port r t \<longleftrightarrow>
     justified (export_ok m nqn path ip port) t \<and>
     (\<forall>n. r = Inr n \<longrightarrow> n = nqn \<and> (healthy_seen nqn path ip port t \<or>
        rpc_done ''nvmf_subsystem_add_listener'' (listener_args nqn ip port) t)) \<and>
     (\<forall>e. r = Inl e \<longrightarrow> IsExportObservationError e \<longrightarrow> justified (look_ok m path) t)"

definition export_calls_ok ::
  "string \<Rightarrow> string \<Rightarrow> string \<Rightarrow> int \<Rightarrow> strmap \<Rightarrow> error + string \<Rightarrow> host_event list \<Rightarrow> bool" where
  "export_calls_ok vol path ip port options r t \<longleftrightarrow>
     (case canonicalSPDKCoreMask (map_index options SPDKCoreMaskOption) of
        Inl e \<Rightarrow> r = Inl (ExportObservationError e) \<and> t = []
      | Inr m \<Rightarrow> export_result m (NQN vol) path ip port r t)"

lemma build_export_result:
  assumes "justified (export_ok m nqn path ip port) t"
    and "subsystem_seen nqn None t \<or> rpc_done ''nvmf_delete_subsystem'' [nqn] t"
  shows "post (build_export (recording_host H) nqn path ip port (w, t)) (export_result m nqn path ip port)"
  by (rule post_weaken [OF post_conjI [OF build_export_on [OF assms] build_export_plain]])
     (auto simp: export_result_def went_on_def plain_failure_def)

lemma justified_export: "justified (look_ok m path) t \<Longrightarrow> justified (export_ok m nqn path ip port) t"
  by (erule justified_mono) (rule export_ok_simps)

lemma post_inspectionI [vcg]:
  "(i = spdkExportHealthy \<Longrightarrow> post a Q) \<Longrightarrow> (\<And>e. i = spdkExportMissing e \<Longrightarrow> post (b e) Q) \<Longrightarrow>
   (\<And>e. i = spdkExportMismatch e \<Longrightarrow> post (c e) Q) \<Longrightarrow> (\<And>e. i = spdkExportObservationUnavailable e \<Longrightarrow> post (d e) Q) \<Longrightarrow>
   post (case i of spdkExportHealthy \<Rightarrow> a | spdkExportMissing e \<Rightarrow> b e | spdkExportMismatch e \<Rightarrow> c e |
     spdkExportObservationUnavailable e \<Rightarrow> d e) Q"
  by (cases i) simp_all

lemma spdk_ExportVolume_on:
  assumes "canonicalSPDKCoreMask (map_index options SPDKCoreMaskOption) = Inr m"
  shows "post (spdk_ExportVolume ord (recording_host H) managed vol path ip port options (w, []))
    (\<lambda>r t. export_result m (NQN vol) path ip port (fst r) t)"
proof -
  note on = export_rpc_on [where ?t0.0 = t and t = t and m = m for t, simplified]
  show ?thesis
    unfolding spdk_ExportVolume_def Let_def
    by (intro vcg post_bindI2 [OF inspectExport_on [OF assms]] post_bindI [OF build_export_result]
          post_bindI [OF post_conjI [OF on CallSPDKRPC_nil_plain]])
       (auto simp: export_result_def export_change_def not_observation dest: went_on_justified intro: justified_export)
qed

section \<open>Properties\<close>

text \<open>C6: \<^verbatim>\<open>ReconcileHostAccess\<close> of the SPDK backend either fails and changes nothing, or it first reads,
  without a change, which hosts may connect to the subsystem. From there on, after every call the hosts that may connect
  are some of those that were read, or only the requested one; and when it succeeds, exactly the requested host may
  connect, or nobody when none was requested.\<close>

theorem spdk_access_exclusive:
  "post (spdk_ReconcileHostAccess (recording_host H) nqn host (w, []))
     (exclusive_access (spdk_access_seen nqn) (spdk_access_effect nqn) (if host = [] then {} else {host}))"
  by (rule spdk_access.exclusive [OF TrueI])

text \<open>Unexporting deletes no other subsystem, and reports success only when the subsystem was missing
  from the listing it made last.\<close>

lemma spdk_UnexportVolume_calls:
  "post (spdk_UnexportVolume (recording_host H) nqn (w, [])) (unexport_ok nqn)"
  unfolding spdk_UnexportVolume_def
  by (intro vcg post_bindI [OF subsystemExists_on [where nqn = nqn]]
        post_bindI [OF CallSPDKRPC_nil_ok [where A = "unexport_allowed nqn"]])
     (auto simp: unexport_ok_def unexport_allowed_def dest: went_on_justified)

text \<open>C33: exporting a volume changes only the subsystem of the volume: it is deleted only when the run saw
  it broken or made it itself, created only when it was missing or deleted, and completed in order.
  Success returns the NQN of the volume, with the export seen healthy or the listener added; when the
  state could not be observed, no subsystem was changed.\<close>

theorem spdk_ExportVolume_calls:
  "post (spdk_ExportVolume ord (recording_host H) managed vol path ip port options (w, []))
     (\<lambda>r t. export_calls_ok vol path ip port options (fst r) t)"
proof (cases "canonicalSPDKCoreMask (map_index options SPDKCoreMaskOption)")
  case (Inl e)
  then show ?thesis
    by (simp add: spdk_ExportVolume_def inspectExport_def EnsureSPDKRunning_def export_calls_ok_def post_def calls_def)
next
  case (Inr m)
  show ?thesis
    by (rule post_weaken [OF spdk_ExportVolume_on [OF Inr]]) (simp add: export_calls_ok_def Inr)
qed

end
