(* ===== verification/Backend_Kernel.thy ===== *)
theory Backend_Kernel
  imports Spdk_Process Rdma_Health Volume_Identity Host_Access
begin

text \<open>
  Exporting volumes with the NVMe target of the Linux kernel, configured through \<^verbatim>\<open>configfs\<close>:
  \<^verbatim>\<open>plugins/backend_kernel.go\<close>. The modes of created files and log messages are left out.
\<close>

section \<open>Files of the target\<close>

definition kernel_Name :: string where
  "kernel_Name = ''kernel''"

text \<open>An error that is none: a file to remove is missing, or one to make exists.\<close>

definition ignore_missing :: "error option \<Rightarrow> error option" where
  "ignore_missing err = (case err of Some e \<Rightarrow> if os_IsNotExist e then None else Some e | None \<Rightarrow> None)"

definition ignore_existing :: "error option \<Rightarrow> error option" where
  "ignore_existing err = (case err of Some e \<Rightarrow> if os_IsExist e then None else Some e | None \<Rightarrow> None)"

definition kernel_SetupDevice :: "'w host \<Rightarrow> string \<Rightarrow> string \<Rightarrow> strmap \<Rightarrow> 'w \<Rightarrow> error option \<times> 'w" where
  "kernel_SetupDevice H pciAddress deviceName options w =
     (case storageoptions_Validate kernel_Name options of
        Some e \<Rightarrow> (Some e, w)
      | None \<Rightarrow>
     (case ResetSPDKDevice H pciAddress w of (err, w) \<Rightarrow>
     (case err of
        Some e \<Rightarrow> (Some (Wrapf ''bind device %s to kernel NVMe driver: %w'' [S deviceName] e), w)
      | None \<Rightarrow> (None, w))))"

definition nvmetPath :: string where
  "nvmetPath = ''/sys/kernel/config/nvmet''"

definition mounts_target :: "string \<Rightarrow> string \<Rightarrow> bool" where
  "mounts_target target line \<longleftrightarrow> (let fields = Fields line in length fields \<ge> 5 \<and> Clean (fields ! 4) = target)"

definition isMountPoint :: "'w host \<Rightarrow> string \<Rightarrow> 'w \<Rightarrow> bool \<times> 'w" where
  "isMountPoint H target w =
     (let found = (\<lambda>data. list_ex (mounts_target (Clean target)) (Split data newline)) in
      case h_ReadFile H ''/proc/self/mountinfo'' w of (r, w) \<Rightarrow>
     (case r of
        Inr data \<Rightarrow> (found data, w)
      | Inl _ \<Rightarrow>
     (case h_ReadFile H ''/proc/mounts'' w of (r, w) \<Rightarrow>
     (case r of Inr data \<Rightarrow> (found data, w) | Inl _ \<Rightarrow> (False, w)))))"

definition kernelPortID :: string where
  "kernelPortID = ''1''"

definition kernelAddressFamily :: "string \<Rightarrow> error + string" where
  "kernelAddressFamily portalIP =
     (case ParseUsableIP portalIP of
        Inl e \<Rightarrow> Inl (Wrapf ''invalid kernel NVMe-oF portal IP: %w'' [] e)
      | Inr ip \<Rightarrow> if To4 ip \<noteq> None then Inr ''ipv4'' else Inr ''ipv6'')"

definition configValue :: "'w host \<Rightarrow> string \<Rightarrow> 'w \<Rightarrow> (error + string) \<times> 'w" where
  "configValue H path w =
     (case h_ReadFile H path w of (r, w) \<Rightarrow>
     (case r of Inl e \<Rightarrow> (Inl e, w) | Inr value \<Rightarrow> (Inr (TrimSpace value), w)))"

definition configValueMatches :: "'w host \<Rightarrow> string \<Rightarrow> string \<Rightarrow> 'w \<Rightarrow> bool \<times> 'w" where
  "configValueMatches H path expected w =
     (case configValue H path w of (r, w) \<Rightarrow> (case r of Inl _ \<Rightarrow> (False, w) | Inr actual \<Rightarrow> (actual = expected, w)))"

definition link_target :: "string \<Rightarrow> string \<Rightarrow> string" where
  "link_target linkPath target = (if IsAbs target then target else filepath_Join [filepath_Dir linkPath, target])"

definition kernelLinkMatches :: "'w host \<Rightarrow> string \<Rightarrow> string \<Rightarrow> 'w \<Rightarrow> bool \<times> 'w" where
  "kernelLinkMatches H linkPath subsystemPath w =
     (case h_Readlink H linkPath w of (r, w) \<Rightarrow>
     (case r of
        Inl _ \<Rightarrow> (False, w)
      | Inr target \<Rightarrow> (Clean (link_target linkPath target) = Clean subsystemPath, w)))"

definition create_link :: "'w host \<Rightarrow> string \<Rightarrow> string \<Rightarrow> 'w \<Rightarrow> error option \<times> 'w" where
  "create_link H linkPath subsystemPath w =
     (case h_MkdirAll H (filepath_Dir linkPath) w of (err, w) \<Rightarrow>
     (case err of
        Some e \<Rightarrow> (Some (Wrapf ''create kernel target link directory: %w'' [] e), w)
      | None \<Rightarrow>
     (case h_Symlink H subsystemPath linkPath w of (err, w) \<Rightarrow>
     (case err of
        Some e \<Rightarrow> (Some (Wrapf ''link subsystem to kernel target port: %w'' [] e), w)
      | None \<Rightarrow> (None, w)))))"

definition ensureKernelSubsystemLink :: "'w host \<Rightarrow> string \<Rightarrow> string \<Rightarrow> 'w \<Rightarrow> error option \<times> 'w" where
  "ensureKernelSubsystemLink H linkPath subsystemPath w =
     (case kernelLinkMatches H linkPath subsystemPath w of (matches, w) \<Rightarrow>
        if matches then (None, w)
        else
     (case h_Lstat H linkPath w of (r, w) \<Rightarrow>
     (case r of
        Inr mode \<Rightarrow>
          if mode \<noteq> ModeSymlink
          then (Some (Errorf ''kernel target link %s exists but is not a symlink'' [S linkPath]), w)
          else (case h_Remove H linkPath w of (err, w) \<Rightarrow>
               (case err of
                  Some e \<Rightarrow> (Some (Wrapf ''remove incorrect kernel target link %s: %w'' [S linkPath] e), w)
                | None \<Rightarrow> create_link H linkPath subsystemPath w))
      | Inl e \<Rightarrow>
          if \<not> os_IsNotExist e
          then (Some (Wrapf ''inspect kernel target link %s: %w'' [S linkPath] e), w)
          else create_link H linkPath subsystemPath w)))"

section \<open>The port\<close>

record kernelPortLink =
  pl_path :: string
  pl_target :: string

fun restoreKernelPortLinks :: "'w host \<Rightarrow> kernelPortLink list \<Rightarrow> 'w \<Rightarrow> error option \<times> 'w" where
  "restoreKernelPortLinks H [] w = (None, w)"
| "restoreKernelPortLinks H (link # links) w =
     (case h_Symlink H (pl_target link) (pl_path link) w of (err, w) \<Rightarrow>
     (case err of
        Some e \<Rightarrow>
          if \<not> os_IsExist e then (Some (Wrapf ''restore kernel target link %s: %w'' [S (pl_path link)] e), w)
          else restoreKernelPortLinks H links w
      | None \<Rightarrow> restoreKernelPortLinks H links w))"

definition port_path :: string where
  "port_path = filepath_Join [nvmetPath, ''ports'', kernelPortID]"

definition desired_port :: "string \<Rightarrow> string \<Rightarrow> int \<Rightarrow> strmap" where
  "desired_port addressFamily portalIP portalPort =
     [(''addr_adrfam'', addressFamily), (''addr_trtype'', ''rdma''), (''addr_trsvcid'', Itoa portalPort),
      (''addr_traddr'', portalIP)]"

fun values_match :: "'w host \<Rightarrow> strmap \<Rightarrow> 'w \<Rightarrow> bool \<times> 'w" where
  "values_match H [] w = (True, w)"
| "values_match H ((name, value) # desired) w =
     (case configValueMatches H (filepath_Join [port_path, name]) value w of (ok, w) \<Rightarrow>
        if \<not> ok then (False, w) else values_match H desired w)"

fun read_links :: "'w host \<Rightarrow> string \<Rightarrow> string list \<Rightarrow> 'w \<Rightarrow> (error + kernelPortLink list) \<times> 'w" where
  "read_links H linksPath [] w = (Inr [], w)"
| "read_links H linksPath (entry # entries) w =
     (let path = filepath_Join [linksPath, entry] in
      case h_Readlink H path w of (r, w) \<Rightarrow>
     (case r of
        Inl e \<Rightarrow> (Inl (Wrapf ''read kernel target port link %s: %w'' [S path] e), w)
      | Inr target \<Rightarrow>
     (case read_links H linksPath entries w of (r, w) \<Rightarrow>
     (case r of
        Inl e \<Rightarrow> (Inl e, w)
      | Inr links \<Rightarrow> (Inr (\<lparr>pl_path = path, pl_target = target\<rparr> # links), w)))))"

fun remove_links :: "'w host \<Rightarrow> kernelPortLink list \<Rightarrow> 'w \<Rightarrow> error option \<times> 'w" where
  "remove_links H [] w = (None, w)"
| "remove_links H (link # links) w =
     (case h_Remove H (pl_path link) w of (err, w) \<Rightarrow>
     (case err of
        Some e \<Rightarrow> (Some (Wrapf ''disconnect kernel target port link %s: %w'' [S (pl_path link)] e), w)
      | None \<Rightarrow> remove_links H links w))"

fun write_port :: "'w host \<Rightarrow> strmap \<Rightarrow> 'w \<Rightarrow> error option \<times> 'w" where
  "write_port H [] w = (None, w)"
| "write_port H ((name, value) # desired) w =
     (case h_WriteFile H (filepath_Join [port_path, name]) value w of (err, w) \<Rightarrow>
     (case err of
        Some e \<Rightarrow> (Some (Wrapf ''configure kernel target port %s: %w'' [S name] e), w)
      | None \<Rightarrow> write_port H desired w))"

text \<open>Writing the port, with the links restored in any case.\<close>

definition rewrite_port :: "'w host \<Rightarrow> kernelPortLink list \<Rightarrow> strmap \<Rightarrow> 'w \<Rightarrow> error option \<times> 'w" where
  "rewrite_port H links desired w =
     (case write_port H desired w of (retErr, w) \<Rightarrow>
     (case restoreKernelPortLinks H links w of (err, w) \<Rightarrow>
        (if retErr = None \<and> err \<noteq> None then err else retErr, w)))"

text \<open>\<open>ord\<close> is the order in which Go visits the desired values.\<close>

definition ensureKernelPort :: "nat list \<Rightarrow> 'w host \<Rightarrow> string \<Rightarrow> int \<Rightarrow> 'w \<Rightarrow> error option \<times> 'w" where
  "ensureKernelPort ord H portalIP portalPort w =
     (case kernelAddressFamily portalIP of
        Inl e \<Rightarrow> (Some e, w)
      | Inr addressFamily \<Rightarrow>
          let linksPath = filepath_Join [port_path, ''subsystems''];
              desired = desired_port addressFamily portalIP portalPort in
     (case h_MkdirAll H linksPath w of (err, w) \<Rightarrow>
     (case err of
        Some e \<Rightarrow> (Some (Wrapf ''create kernel target port: %w'' [] e), w)
      | None \<Rightarrow>
     (case values_match H (reorder ord desired) w of (configured, w) \<Rightarrow>
        if configured then (None, w)
        else
     (case h_ReadDir H linksPath w of (r, w) \<Rightarrow>
     (case r of
        Inl e \<Rightarrow> (Some (Wrapf ''list kernel target port links: %w'' [] e), w)
      | Inr entries \<Rightarrow>
     (case read_links H linksPath entries w of (r, w) \<Rightarrow>
     (case r of
        Inl e \<Rightarrow> (Some e, w)
      | Inr links \<Rightarrow>
     (case remove_links H links w of (err, w) \<Rightarrow>
     (case err of Some e \<Rightarrow> (Some e, w) | None \<Rightarrow> rewrite_port H links desired w))))))))))"

section \<open>The namespace\<close>

definition disable_stale :: "'w host \<Rightarrow> string \<Rightarrow> string \<Rightarrow> 'w \<Rightarrow> error option \<times> 'w" where
  "disable_stale H name enablePath w =
     (case h_Stat H enablePath w of (r, w) \<Rightarrow>
     (case r of
        Inr _ \<Rightarrow>
          (case h_WriteFile H enablePath ''0'' w of (err, w) \<Rightarrow>
          (case err of
             Some e \<Rightarrow> (Some (Wrapf ''disable stale kernel target namespace %s: %w'' [S name] e), w)
           | None \<Rightarrow> (None, w)))
      | Inl e \<Rightarrow>
          if \<not> os_IsNotExist e
          then (Some (Wrapf ''inspect stale kernel target namespace %s: %w'' [S name] e), w)
          else (None, w)))"

fun remove_stale :: "'w host \<Rightarrow> string \<Rightarrow> string list \<Rightarrow> 'w \<Rightarrow> error option \<times> 'w" where
  "remove_stale H namespacesPath [] w = (None, w)"
| "remove_stale H namespacesPath (name # names) w =
     (if name = ''1'' then remove_stale H namespacesPath names w
      else
        let stalePath = filepath_Join [namespacesPath, name] in
     (case disable_stale H name (filepath_Join [stalePath, ''enable'']) w of (err, w) \<Rightarrow>
     (case err of
        Some e \<Rightarrow> (Some e, w)
      | None \<Rightarrow>
     (case h_Remove H stalePath w of (err, w) \<Rightarrow>
     (case err of
        Some e \<Rightarrow>
          if \<not> os_IsNotExist e
          then (Some (Wrapf ''remove stale kernel target namespace %s: %w'' [S name] e), w)
          else remove_stale H namespacesPath names w
      | None \<Rightarrow> remove_stale H namespacesPath names w)))))"

definition write_namespace :: "'w host \<Rightarrow> string \<Rightarrow> string \<Rightarrow> 'w \<Rightarrow> error option \<times> 'w" where
  "write_namespace H namespacePath blockPath w =
     (let devicePath = filepath_Join [namespacePath, ''device_path''];
          enablePath = filepath_Join [namespacePath, ''enable''] in
      case h_MkdirAll H namespacePath w of (err, w) \<Rightarrow>
     (case err of
        Some e \<Rightarrow> (Some (Wrapf ''create kernel target namespace: %w'' [] e), w)
      | None \<Rightarrow>
     (case h_WriteFile H enablePath ''0'' w of (err, w) \<Rightarrow>
     (case err of
        Some e \<Rightarrow> (Some (Wrapf ''disable kernel target namespace before repair: %w'' [] e), w)
      | None \<Rightarrow>
     (case h_WriteFile H devicePath blockPath w of (err, w) \<Rightarrow>
     (case err of
        Some e \<Rightarrow> (Some (Wrapf ''set kernel target namespace device path: %w'' [] e), w)
      | None \<Rightarrow>
     (case h_WriteFile H enablePath ''1'' w of (err, w) \<Rightarrow>
     (case err of
        Some e \<Rightarrow> (Some (Wrapf ''enable kernel target namespace: %w'' [] e), w)
      | None \<Rightarrow> (None, w)))))))))"

text \<open>The test that the namespace is as wanted stops at the first condition that fails.\<close>

definition namespace_exact :: "'w host \<Rightarrow> string list \<Rightarrow> string \<Rightarrow> string \<Rightarrow> 'w \<Rightarrow> bool \<times> 'w" where
  "namespace_exact H entries namespacePath blockPath w =
     (if \<not> (length entries = 1 \<and> hd entries = ''1'') then (False, w)
      else
     (case configValueMatches H (filepath_Join [namespacePath, ''device_path'']) blockPath w of (ok, w) \<Rightarrow>
        if \<not> ok then (False, w)
        else configValueMatches H (filepath_Join [namespacePath, ''enable'']) ''1'' w))"

definition repair_namespace ::
  "'w host \<Rightarrow> string \<Rightarrow> string \<Rightarrow> string \<Rightarrow> string list \<Rightarrow> 'w \<Rightarrow> error option \<times> 'w" where
  "repair_namespace H namespacesPath linkPath blockPath entries w =
     (case h_Remove H linkPath w of (err, w) \<Rightarrow>
     (case ignore_missing err of
        Some e \<Rightarrow> (Some (Wrapf ''disconnect kernel target namespace before repair: %w'' [] e), w)
      | None \<Rightarrow>
     (case remove_stale H namespacesPath entries w of (err, w) \<Rightarrow>
     (case err of
        Some e \<Rightarrow> (Some e, w)
      | None \<Rightarrow> write_namespace H (filepath_Join [namespacesPath, ''1'']) blockPath w))))"

definition ensureKernelNamespace :: "'w host \<Rightarrow> string \<Rightarrow> string \<Rightarrow> string \<Rightarrow> 'w \<Rightarrow> error option \<times> 'w" where
  "ensureKernelNamespace H subsystemPath linkPath blockPath w =
     (let namespacesPath = filepath_Join [subsystemPath, ''namespaces''] in
      case h_MkdirAll H namespacesPath w of (err, w) \<Rightarrow>
     (case err of
        Some e \<Rightarrow> (Some (Wrapf ''create kernel target namespaces directory: %w'' [] e), w)
      | None \<Rightarrow>
     (case h_ReadDir H namespacesPath w of (r, w) \<Rightarrow>
     (case r of
        Inl e \<Rightarrow> (Some (Wrapf ''list kernel target namespaces: %w'' [] e), w)
      | Inr entries \<Rightarrow>
     (case namespace_exact H entries (filepath_Join [namespacesPath, ''1'']) blockPath w of (exact, w) \<Rightarrow>
        if exact then (None, w) else repair_namespace H namespacesPath linkPath blockPath entries w)))))"

section \<open>Exports\<close>

definition mount_configfs_command :: command where
  "mount_configfs_command = Command [''mount'', ''-t'', ''configfs'', ''none'', ''/sys/kernel/config'']"

fun load_modules :: "'w host \<Rightarrow> string list \<Rightarrow> 'w \<Rightarrow> error option \<times> 'w" where
  "load_modules H [] w = (None, w)"
| "load_modules H (m # ms) w =
     (case h_CombinedOutput H (modprobe_command m) w of ((_, err), w) \<Rightarrow>
     (case err of
        Some e \<Rightarrow> (Some (Wrapf ''load kernel module %s: %w'' [S m] e), w)
      | None \<Rightarrow> load_modules H ms w))"

definition mount_configfs :: "'w host \<Rightarrow> 'w \<Rightarrow> error option \<times> 'w" where
  "mount_configfs H w =
     (case isMountPoint H ''/sys/kernel/config'' w of (mounted, w) \<Rightarrow>
        if mounted then (None, w)
        else (case h_CombinedOutput H mount_configfs_command w of ((_, err), w) \<Rightarrow>
             (case err of
                Some e \<Rightarrow> (Some (Wrapf ''mount configfs: %w'' [] e), w)
              | None \<Rightarrow> (None, w))))"

definition ensureKernelConfigFS :: "'w host \<Rightarrow> 'w \<Rightarrow> error option \<times> 'w" where
  "ensureKernelConfigFS H w =
     (case h_Stat H nvmetPath w of (r, w) \<Rightarrow>
     (case r of
        Inr _ \<Rightarrow> (None, w)
      | Inl e \<Rightarrow>
          if \<not> os_IsNotExist e then (Some (Wrapf ''inspect kernel NVMe target configfs: %w'' [] e), w)
          else
     (case load_modules H [''nvmet'', ''nvmet-rdma''] w of (err, w) \<Rightarrow>
     (case err of
        Some e \<Rightarrow> (Some e, w)
      | None \<Rightarrow>
     (case mount_configfs H w of (err, w) \<Rightarrow>
     (case err of
        Some e \<Rightarrow> (Some e, w)
      | None \<Rightarrow>
     (case h_Stat H nvmetPath w of (r, w) \<Rightarrow>
     (case r of
        Inl e \<Rightarrow> (Some (Wrapf ''kernel NVMe target configfs is unavailable after setup: %w'' [] e), w)
      | Inr _ \<Rightarrow> (None, w)))))))))"

definition subsystem_path :: "string \<Rightarrow> string" where
  "subsystem_path nqn = filepath_Join [nvmetPath, ''subsystems'', nqn]"

definition link_path :: "string \<Rightarrow> string" where
  "link_path nqn = filepath_Join [nvmetPath, ''ports'', kernelPortID, ''subsystems'', nqn]"

definition allow_any_path :: "string \<Rightarrow> string" where
  "allow_any_path nqn = filepath_Join [subsystem_path nqn, ''attr_allow_any_host'']"

definition namespace_path :: "string \<Rightarrow> string" where
  "namespace_path nqn = filepath_Join [subsystem_path nqn, ''namespaces'', ''1'']"

definition required_values :: "string \<Rightarrow> string \<Rightarrow> string \<Rightarrow> string \<Rightarrow> int \<Rightarrow> strmap" where
  "required_values addressFamily nqn blockPath portalIP portalPort =
     [(allow_any_path nqn, ''0''),
      (filepath_Join [namespace_path nqn, ''device_path''], blockPath),
      (filepath_Join [namespace_path nqn, ''enable''], ''1''),
      (filepath_Join [port_path, ''addr_adrfam''], addressFamily),
      (filepath_Join [port_path, ''addr_trtype''], ''rdma''),
      (filepath_Join [port_path, ''addr_trsvcid''], Itoa portalPort),
      (filepath_Join [port_path, ''addr_traddr''], portalIP)]"

fun check_values :: "'w host \<Rightarrow> strmap \<Rightarrow> 'w \<Rightarrow> error option \<times> 'w" where
  "check_values H [] w = (None, w)"
| "check_values H ((path, expected) # required) w =
     (case configValue H path w of (r, w) \<Rightarrow>
     (case r of
        Inl e \<Rightarrow> (Some (Wrapf ''read kernel export state %s: %w'' [S path] e), w)
      | Inr actual \<Rightarrow>
          if actual \<noteq> expected
          then (Some (Errorf ''kernel export state %s is %q, want %q'' [S path, S actual, S expected]), w)
          else check_values H required w))"

definition check_structure :: "'w host \<Rightarrow> string \<Rightarrow> 'w \<Rightarrow> error option \<times> 'w" where
  "check_structure H nqn w =
     (case h_ReadDir H (filepath_Join [subsystem_path nqn, ''namespaces'']) w of (r, w) \<Rightarrow>
     (case r of
        Inl e \<Rightarrow> (Some (Wrapf ''list kernel export namespaces: %w'' [] e), w)
      | Inr namespaces \<Rightarrow>
          if length namespaces \<noteq> 1 \<or> hd namespaces \<noteq> ''1''
          then (Some (Errorf ''kernel subsystem %s must expose exactly namespace 1'' [S nqn]), w)
          else
     (case kernelLinkMatches H (filepath_Join [port_path, ''subsystems'', nqn]) (subsystem_path nqn) w of (ok, w) \<Rightarrow>
        if \<not> ok
        then (Some (Errorf ''kernel subsystem %s is not linked to port %s'' [S nqn, S kernelPortID]), w)
        else (None, w))))"

definition kernel_CheckExport ::
  "nat list \<Rightarrow> 'w host \<Rightarrow> string \<Rightarrow> string \<Rightarrow> string \<Rightarrow> int \<Rightarrow> strmap \<Rightarrow> 'w \<Rightarrow> error option \<times> 'w" where
  "kernel_CheckExport ord H nqn blockPath portalIP portalPort options w =
     (case h_CtxErr H w of (c, w) \<Rightarrow>
     (case c of
        Some c \<Rightarrow> (Some (ContextError c), w)
      | None \<Rightarrow>
     (case storageoptions_Validate kernel_Name options of
        Some e \<Rightarrow> (Some e, w)
      | None \<Rightarrow>
     (case kernelAddressFamily portalIP of
        Inl e \<Rightarrow> (Some e, w)
      | Inr addressFamily \<Rightarrow>
     (case check_values H (reorder ord (required_values addressFamily nqn blockPath portalIP portalPort)) w of (err, w) \<Rightarrow>
     (case err of Some e \<Rightarrow> (Some e, w) | None \<Rightarrow> check_structure H nqn w))))))"

text \<open>The steps that make an export, after the arguments were checked.\<close>

definition repair_export ::
  "nat list \<Rightarrow> 'w host \<Rightarrow> string \<Rightarrow> string \<Rightarrow> string \<Rightarrow> int \<Rightarrow> 'w \<Rightarrow> error option \<times> 'w" where
  "repair_export ord H nqn blockPath portalIP portalPort w =
     (case h_MkdirAll H (subsystem_path nqn) w of (err, w) \<Rightarrow>
     (case err of
        Some e \<Rightarrow> (Some (Wrapf ''create kernel target subsystem %s: %w'' [S nqn] e), w)
      | None \<Rightarrow>
     (case h_WriteFile H (allow_any_path nqn) ''0'' w of (err, w) \<Rightarrow>
     (case err of
        Some e \<Rightarrow> (Some (Wrapf ''disable unrestricted host access: %w'' [] e), w)
      | None \<Rightarrow>
     (case ensureKernelNamespace H (subsystem_path nqn) (link_path nqn) blockPath w of (err, w) \<Rightarrow>
     (case err of
        Some e \<Rightarrow> (Some e, w)
      | None \<Rightarrow>
     (case ensureKernelPort ord H portalIP portalPort w of (err, w) \<Rightarrow>
     (case err of
        Some e \<Rightarrow> (Some e, w)
      | None \<Rightarrow> ensureKernelSubsystemLink H (link_path nqn) (subsystem_path nqn) w))))))))"

text \<open>\<open>ord\<close> and \<open>ord'\<close> are the orders in which the two loops over a map run.\<close>

definition kernel_ExportVolume ::
  "nat list \<Rightarrow> nat list \<Rightarrow> 'w host \<Rightarrow> string \<Rightarrow> string \<Rightarrow> string \<Rightarrow> int \<Rightarrow> strmap \<Rightarrow> 'w \<Rightarrow> (error + string) \<times> 'w" where
  "kernel_ExportVolume ord ord' H volumeName blockPath portalIP portalPort options w =
     (let nqn = NQN volumeName in
      case h_CtxErr H w of (c, w) \<Rightarrow>
     (case c of
        Some c \<Rightarrow> (Inl (ContextError c), w)
      | None \<Rightarrow>
     (case storageoptions_Validate kernel_Name options of
        Some e \<Rightarrow> (Inl e, w)
      | None \<Rightarrow>
     (case kernelAddressFamily portalIP of
        Inl e \<Rightarrow> (Inl e, w)
      | Inr _ \<Rightarrow>
          if portalPort < 1 \<or> portalPort > 65535
          then (Inl (Errorf ''kernel NVMe-oF portal port %d is invalid'' [D portalPort]), w)
          else if TrimSpace blockPath = [] then (Inl (Errorf ''kernel NVMe-oF block path is empty'' []), w)
          else
     (case ensureKernelConfigFS H w of (err, w) \<Rightarrow>
     (case err of
        Some e \<Rightarrow> (Inl e, w)
      | None \<Rightarrow>
     (case repair_export ord H nqn blockPath portalIP portalPort w of (err, w) \<Rightarrow>
     (case err of
        Some e \<Rightarrow> (Inl e, w)
      | None \<Rightarrow>
     (case kernel_CheckExport ord' H nqn blockPath portalIP portalPort options w of (err, w) \<Rightarrow>
     (case err of
        Some e \<Rightarrow> (Inl (Wrapf ''verify repaired kernel export %s: %w'' [S nqn] e), w)
      | None \<Rightarrow> (Inr nqn, w)))))))))))"

section \<open>Access\<close>

definition allowed_hosts_path :: "string \<Rightarrow> string" where
  "allowed_hosts_path nqn = filepath_Join [subsystem_path nqn, ''allowed_hosts'']"

definition kernel_access_exact :: "string \<Rightarrow> string list \<Rightarrow> string \<Rightarrow> bool" where
  "kernel_access_exact allowAny entries hostNQN \<longleftrightarrow>
     TrimSpace allowAny = ''0'' \<and> length entries \<le> 1 \<and>
     (if hostNQN = [] then length entries = 0 else length entries = 1 \<and> hd entries = hostNQN)"

fun remove_allowed :: "'w host \<Rightarrow> string \<Rightarrow> string list \<Rightarrow> 'w \<Rightarrow> error option \<times> 'w" where
  "remove_allowed H nqn [] w = (None, w)"
| "remove_allowed H nqn (entry # entries) w =
     (case h_Remove H (filepath_Join [allowed_hosts_path nqn, entry]) w of (err, w) \<Rightarrow>
     (case ignore_missing err of
        Some e \<Rightarrow> (Some (Wrapf ''remove stale host %s from %s: %w'' [S entry, S nqn] e), w)
      | None \<Rightarrow> remove_allowed H nqn entries w))"

definition authorize_host :: "'w host \<Rightarrow> string \<Rightarrow> string \<Rightarrow> 'w \<Rightarrow> error option \<times> 'w" where
  "authorize_host H nqn hostNQN w =
     (if hostNQN = [] then (None, w)
      else
        let hostPath = filepath_Join [nvmetPath, ''hosts'', hostNQN] in
     (case h_Mkdir H hostPath w of (err, w) \<Rightarrow>
     (case ignore_existing err of
        Some e \<Rightarrow> (Some (Wrapf ''create NVMe target host %s: %w'' [S hostNQN] e), w)
      | None \<Rightarrow>
     (case h_Symlink H hostPath (filepath_Join [allowed_hosts_path nqn, hostNQN]) w of (err, w) \<Rightarrow>
     (case ignore_existing err of
        Some e \<Rightarrow> (Some (Wrapf ''authorize host %s for %s: %w'' [S hostNQN, S nqn] e), w)
      | None \<Rightarrow> (None, w))))))"

definition replace_hosts :: "'w host \<Rightarrow> string \<Rightarrow> string \<Rightarrow> string list \<Rightarrow> 'w \<Rightarrow> error option \<times> 'w" where
  "replace_hosts H nqn hostNQN entries w =
     (case h_Remove H (link_path nqn) w of (err, w) \<Rightarrow>
     (case ignore_missing err of
        Some e \<Rightarrow> (Some (Wrapf ''disconnect subsystem %s before changing host access: %w'' [S nqn] e), w)
      | None \<Rightarrow>
     (case h_WriteFile H (allow_any_path nqn) ''0'' w of (err, w) \<Rightarrow>
     (case err of
        Some e \<Rightarrow> (Some (Wrapf ''disable unrestricted host access for %s: %w'' [S nqn] e), w)
      | None \<Rightarrow>
     (case remove_allowed H nqn entries w of (err, w) \<Rightarrow>
     (case err of
        Some e \<Rightarrow> (Some e, w)
      | None \<Rightarrow>
     (case h_CtxErr H w of (c, w) \<Rightarrow>
     (case c of
        Some c \<Rightarrow> (Some (ContextError c), w)
      | None \<Rightarrow>
     (case authorize_host H nqn hostNQN w of (err, w) \<Rightarrow>
     (case err of
        Some e \<Rightarrow> (Some e, w)
      | None \<Rightarrow>
     (case h_Symlink H (subsystem_path nqn) (link_path nqn) w of (err, w) \<Rightarrow>
     (case ignore_existing err of
        Some e \<Rightarrow> (Some (Wrapf ''reconnect subsystem %s after changing host access: %w'' [S nqn] e), w)
      | None \<Rightarrow> (None, w)))))))))))))"

definition kernel_ReconcileHostAccess :: "'w host \<Rightarrow> string \<Rightarrow> string \<Rightarrow> 'w \<Rightarrow> error option \<times> 'w" where
  "kernel_ReconcileHostAccess H nqn hostNQN w =
     (case h_CtxErr H w of (c, w) \<Rightarrow>
     (case c of
        Some c \<Rightarrow> (Some (ContextError c), w)
      | None \<Rightarrow>
     (case h_ReadFile H (allow_any_path nqn) w of (r, w) \<Rightarrow>
     (case r of
        Inl e \<Rightarrow> (Some (Wrapf ''read unrestricted host policy for %s: %w'' [S nqn] e), w)
      | Inr allowAny \<Rightarrow>
     (case h_ReadDir H (allowed_hosts_path nqn) w of (r, w) \<Rightarrow>
     (case r of
        Inl e \<Rightarrow> (Some (Wrapf ''list allowed hosts for %s: %w'' [S nqn] e), w)
      | Inr entries \<Rightarrow>
          if kernel_access_exact allowAny entries hostNQN
          then ensureKernelSubsystemLink H (link_path nqn) (subsystem_path nqn) w
          else replace_hosts H nqn hostNQN entries w))))))"

section \<open>Unexporting\<close>

definition remove_subsystem :: "'w host \<Rightarrow> string \<Rightarrow> 'w \<Rightarrow> error option \<times> 'w" where
  "remove_subsystem H nqn w =
     (case h_Remove H (filepath_Join [port_path, ''subsystems'', nqn]) w of (err, w) \<Rightarrow>
     (case ignore_missing err of
        Some e \<Rightarrow> (Some (Wrapf ''failed to remove port symlink: %w'' [] e), w)
      | None \<Rightarrow>
     (case h_WriteFile H (filepath_Join [namespace_path nqn, ''enable'']) ''0'' w of (err, w) \<Rightarrow>
     (case ignore_missing err of
        Some e \<Rightarrow> (Some (Wrapf ''failed to disable namespace: %w'' [] e), w)
      | None \<Rightarrow>
     (case h_Remove H (namespace_path nqn) w of (err, w) \<Rightarrow>
     (case ignore_missing err of
        Some e \<Rightarrow> (Some (Wrapf ''failed to remove namespace: %w'' [] e), w)
      | None \<Rightarrow>
     (case h_Remove H (subsystem_path nqn) w of (err, w) \<Rightarrow>
     (case ignore_missing err of
        Some e \<Rightarrow> (Some (Wrapf ''failed to remove subsystem: %w'' [] e), w)
      | None \<Rightarrow> (None, w)))))))))"

definition kernel_UnexportVolume :: "'w host \<Rightarrow> string \<Rightarrow> 'w \<Rightarrow> error option \<times> 'w" where
  "kernel_UnexportVolume H nqn w =
     (case h_Stat H (subsystem_path nqn) w of (r, w) \<Rightarrow>
     (case r of
        Inl e \<Rightarrow>
          if os_IsNotExist e then (None, w)
          else (Some (Wrapf ''inspect kernel target subsystem before unexport: %w'' [] e), w)
      | Inr _ \<Rightarrow>
     (case kernel_ReconcileHostAccess H nqn [] w of (err, w) \<Rightarrow>
     (case err of
        Some e \<Rightarrow> (Some (Wrapf ''revoke kernel target host access before unexport: %w'' [] e), w)
      | None \<Rightarrow> remove_subsystem H nqn w))))"

section \<open>The paths are distinct\<close>

abbreviation nvmet_elems :: "string list" where
  "nvmet_elems \<equiv> [''sys'', ''kernel'', ''config'', ''nvmet'']"

lemma nvmetPath_abs: "nvmetPath = abs_path nvmet_elems"
  by (simp add: nvmetPath_def abs_path_def)

lemma nvmet_Join: "list_all plain_elem es \<Longrightarrow> es \<noteq> [] \<Longrightarrow> filepath_Join (nvmetPath # es) = abs_path (nvmet_elems @ es)"
  unfolding nvmetPath_abs by (rule filepath_Join_plain) (simp_all add: plain_elem_def)

lemma literal_elems [simp]:
  "plain_elem ''subsystems''" "plain_elem ''ports''" "plain_elem ''1''" "plain_elem ''allowed_hosts''"
  "plain_elem ''sys''" "plain_elem ''kernel''" "plain_elem ''config''" "plain_elem ''nvmet''"
  "plain_elem ''attr_allow_any_host''"
  by (simp_all add: plain_elem_def)

lemma subsystem_path_abs:
  "plain_elem nqn \<Longrightarrow> subsystem_path nqn = abs_path (nvmet_elems @ [''subsystems'', nqn])"
  unfolding subsystem_path_def by (rule nvmet_Join) simp_all

lemma link_path_abs:
  "plain_elem nqn \<Longrightarrow> link_path nqn = abs_path (nvmet_elems @ [''ports'', ''1'', ''subsystems'', nqn])"
  unfolding link_path_def kernelPortID_def by (rule nvmet_Join) simp_all

definition host_key :: "string \<Rightarrow> string \<Rightarrow> string" where
  "host_key nqn host = filepath_Join [allowed_hosts_path nqn, host]"

lemma host_key_abs:
  assumes "plain_elem nqn" and "plain_elem host"
  shows "host_key nqn host = abs_path (nvmet_elems @ [''subsystems'', nqn, ''allowed_hosts'', host])"
proof -
  have "allowed_hosts_path nqn = abs_path ((nvmet_elems @ [''subsystems'', nqn]) @ [''allowed_hosts''])"
    unfolding allowed_hosts_path_def subsystem_path_abs [OF assms(1)]
    by (rule filepath_Join_plain) (use assms in simp_all)
  then show ?thesis
    unfolding host_key_def
    using filepath_Join_plain [of "nvmet_elems @ [''subsystems'', nqn, ''allowed_hosts'']" "[host]"] assms by simp
qed

lemma host_key_not_link: "plain_elem nqn \<Longrightarrow> plain_elem host \<Longrightarrow> host_key nqn host \<noteq> link_path nqn"
  by (simp add: host_key_abs link_path_abs abs_path_inject)

text \<open>The authorized hosts are told apart by their files.\<close>

lemma host_key_inject: "plain_elem nqn \<Longrightarrow> plain_elem h \<Longrightarrow> plain_elem h' \<Longrightarrow> host_key nqn h = host_key nqn h' \<longleftrightarrow> h = h'"
  by (simp add: host_key_abs abs_path_inject)

section \<open>Access is exclusive\<close>

text \<open>What a call does to the access of the subsystem \<open>nqn\<close>, whose hosts are named by their files. A call
  that failed is counted as giving access, never as taking it; so is every link but that to the port.\<close>

fun kernel_access_effect :: "string \<Rightarrow> host_event \<Rightarrow> access \<Rightarrow> access" where
  "kernel_access_effect nqn (RemoveEv p r) s = (fst s, if ignore_missing r = None then snd s - {p} else snd s)"
| "kernel_access_effect nqn (WriteFileEv p d r) s =
     (if p = allow_any_path nqn then TrimSpace d \<noteq> ''0'' \<or> r \<noteq> None \<and> fst s else fst s, snd s)"
| "kernel_access_effect nqn (SymlinkEv tgt p r) s = (fst s, if p = link_path nqn then snd s else insert p (snd s))"
| "kernel_access_effect nqn ev s = s"

definition kernel_access :: "string \<Rightarrow> string \<Rightarrow> string list \<Rightarrow> access" where
  "kernel_access nqn allowAny entries = (TrimSpace allowAny \<noteq> ''0'', host_key nqn ` set entries)"

definition kernel_access_seen :: "string \<Rightarrow> access \<Rightarrow> host_event list \<Rightarrow> bool" where
  "kernel_access_seen nqn s t \<longleftrightarrow> (\<exists>allowAny entries. ReadFileEv (allow_any_path nqn) (Inr allowAny) \<in> set t \<and>
     ReadDirEv (allowed_hosts_path nqn) (Inr entries) \<in> set t \<and> s = kernel_access nqn allowAny entries)"

definition kernel_names :: "string \<Rightarrow> string \<Rightarrow> bool" where
  "kernel_names nqn host \<longleftrightarrow> plain_elem nqn \<and> (host = [] \<or> plain_elem host)"

definition kernel_granted :: "string \<Rightarrow> string \<Rightarrow> string set" where
  "kernel_granted nqn host = (if host = [] then {} else {host_key nqn host})"

lemma kernel_exact:
  "kernel_access_exact allowAny entries host \<Longrightarrow> kernel_access nqn allowAny entries = (False, kernel_granted nqn host)"
  by (cases entries) (auto simp: kernel_access_exact_def kernel_access_def kernel_granted_def split: if_splits)

lemma link_not_granted: "kernel_names nqn host \<Longrightarrow> link_path nqn \<notin> kernel_granted nqn host"
  using host_key_not_link [of nqn host] by (auto simp: kernel_names_def kernel_granted_def)

abbreviation kernel_led :: "string \<Rightarrow> string set \<Rightarrow> access \<Rightarrow> host_event list \<Rightarrow> access \<Rightarrow> host_event list \<Rightarrow> bool" where
  "kernel_led nqn \<equiv> led (kernel_access_effect nqn)"

text \<open>Keeping the link to the port does not change who may connect.\<close>

lemma kernelLinkMatches_reads:
  "post (kernelLinkMatches (recording_host H) l s (w, t)) (\<lambda>r t'. reads_after t t')"
  unfolding kernelLinkMatches_def by (intro vcg) (simp_all add: reads_after_def)

lemma read_effect: "is_read ev \<Longrightarrow> kernel_access_effect nqn ev s = s"
  by (cases ev) simp_all

lemma reads_unchanging: "reads_after t t' \<Longrightarrow> \<exists>u. t' = t @ u \<and> unchanging (kernel_access_effect nqn) u"
  by (auto simp: reads_after_def unchanging_def list_all_iff read_effect)

lemma reads_led: "kernel_led nqn g s t0 s' t \<Longrightarrow> reads_after t t' \<Longrightarrow> kernel_led nqn g s t0 s' t'"
  by (drule reads_unchanging [where nqn = nqn]) (auto simp: led_def)

lemma create_link_led:
  assumes "kernel_led nqn g s t0 s' t"
  shows "post (create_link (recording_host H) (link_path nqn) (subsystem_path nqn) (w, t))
    (\<lambda>r t'. kernel_led nqn g s t0 s' t')"
  unfolding create_link_def
  by (intro vcg) (use assms in \<open>auto simp: led_def\<close>)

lemma led_read: "kernel_led nqn g s t0 s' t \<Longrightarrow> is_read ev \<Longrightarrow> kernel_led nqn g s t0 s' (t @ [ev])"
  by (auto simp: led_def read_effect)

lemma led_remove_link:
  "kernel_led nqn g s t0 (a, hs) t \<Longrightarrow> link_path nqn \<notin> hs \<Longrightarrow>
   kernel_led nqn g s t0 (a, hs) (t @ [LstatEv p m, RemoveEv (link_path nqn) r])"
  by (auto simp: led_def)

lemma led_link:
  "kernel_led nqn g s t0 s' t \<Longrightarrow> kernel_led nqn g s t0 s' (t @ [SymlinkEv tgt (link_path nqn) r])"
  by (auto simp: led_def)

lemma TrimSpace_0 [simp]: "TrimSpace ''0'' = ''0''"
  by (simp add: TrimSpace_def is_space_def)

lemma ensureKernelSubsystemLink_led:
  assumes "kernel_led nqn g s t0 (a, hs) t" and "link_path nqn \<notin> hs"
  shows "post (ensureKernelSubsystemLink (recording_host H) (link_path nqn) (subsystem_path nqn) (w, t))
    (\<lambda>r t'. kernel_led nqn g s t0 (a, hs) t')"
  unfolding ensureKernelSubsystemLink_def
  by (intro vcg post_bindI [OF kernelLinkMatches_reads] create_link_led)
     (use assms(2) reads_led [OF assms(1)] in \<open>auto intro: led_read led_remove_link\<close>)

lemma remove_allowed_led:
  assumes "kernel_led nqn g s t0 (False, hs) t"
  shows "post (remove_allowed (recording_host H) nqn entries (w, t))
    (\<lambda>r t'. \<exists>hs'. kernel_led nqn g s t0 (False, hs') t' \<and> (r = None \<longrightarrow> hs' = hs - host_key nqn ` set entries))"
  using assms
proof (induction entries arbitrary: hs t w)
  case (Cons e entries)
  show ?case
    unfolding remove_allowed.simps host_key_def [symmetric]
  proof (intro vcg, goal_cases)
    case (1 r w)
    have "kernel_led nqn g s t0 (False, hs - {host_key nqn e}) (t @ [RemoveEv (host_key nqn e) r])"
      using Cons.prems 1 by (auto simp: led_def narrower_def)
    from Cons.IH [OF this] show ?case by (rule post_weaken) auto
  qed (use Cons.prems in \<open>auto simp: led_def narrower_def\<close>)
qed (auto intro!: post_retI)

lemma authorize_host_led:
  assumes "kernel_led nqn (kernel_granted nqn host) s t0 (False, {}) t" and "kernel_names nqn host"
  shows "post (authorize_host (recording_host H) nqn host (w, t))
    (\<lambda>r t'. \<exists>s'. kernel_led nqn (kernel_granted nqn host) s t0 s' t' \<and> (r = None \<longrightarrow> s' = (False, kernel_granted nqn host)))"
proof (cases "host = []")
  case True
  then show ?thesis using assms(1) by (auto simp: authorize_host_def kernel_granted_def intro!: post_retI)
next
  case False
  then have "host_key nqn host \<noteq> link_path nqn" using assms(2) host_key_not_link by (auto simp: kernel_names_def)
  then show ?thesis
    using False assms(1) unfolding authorize_host_def Let_def host_key_def [symmetric]
    by (simp only: if_False) (intro vcg, auto simp: led_def kernel_granted_def)
qed

lemma replace_hosts_led:
  assumes "kernel_names nqn host"
  shows "post (replace_hosts (recording_host H) nqn host entries (w, t))
    (\<lambda>r t'. \<exists>s'. kernel_led nqn (kernel_granted nqn host) (kernel_access nqn allowAny entries) t s' t' \<and>
       (r = None \<longrightarrow> s' = (False, kernel_granted nqn host)))"
proof -
  let ?g = "kernel_granted nqn host" and ?s = "kernel_access nqn allowAny entries"
  have dis: "\<exists>s'. kernel_led nqn ?g ?s t s' (t @ [RemoveEv (link_path nqn) r])" for r
    by (auto simp: led_def narrower_def)
  have off: "kernel_led nqn ?g ?s t (r' \<noteq> None \<and> TrimSpace allowAny \<noteq> ''0'', host_key nqn ` set entries - {link_path nqn})
      (t @ [RemoveEv (link_path nqn) r, WriteFileEv (allow_any_path nqn) ''0'' r'])" if "ignore_missing r = None" for r r'
    using that by (auto simp: led_def narrower_def kernel_access_def)
  have off_failed: "\<exists>s'. kernel_led nqn ?g ?s t s' (t @ [RemoveEv (link_path nqn) r, WriteFileEv (allow_any_path nqn) ''0'' r'])"
    if "ignore_missing r = None" for r r'
    using off [OF that] by blast
  have none: "host_key nqn ` set entries - {link_path nqn} - host_key nqn ` set entries = {}" by blast
  have ctx: "\<exists>s'. kernel_led nqn ?g ?s t s' (u @ [CtxErrEv c])" if "kernel_led nqn ?g ?s t s' u" for s' u c
    using led_read [OF that, of "CtxErrEv c"] by (intro exI) simp
  show ?thesis
    unfolding replace_hosts_def
    by (intro vcg post_bindI [OF remove_allowed_led [where g = ?g and s = ?s and ?t0.0 = t
            and hs = "host_key nqn ` set entries - {link_path nqn}"]]
          post_bindI [OF authorize_host_led [OF _ assms, where s = ?s and ?t0.0 = t]])
       (use dis off [where r' = None] off_failed ctx in
        \<open>auto simp: none simp del: split_paired_Ex intro: led_read led_link\<close>)
qed

lemma kernel_seen_calls:
  "kernel_access_seen nqn (kernel_access nqn allowAny entries)
     [CtxErrEv c, ReadFileEv (allow_any_path nqn) (Inr allowAny), ReadDirEv (allowed_hosts_path nqn) (Inr entries)]"
  by (auto simp: kernel_access_seen_def)

lemma kernel_reconciles:
  assumes "kernel_names nqn host"
  shows "post (kernel_ReconcileHostAccess (recording_host H) nqn host (w, []))
    (reconciled (kernel_access_seen nqn) (kernel_access_effect nqn) (kernel_granted nqn host))"
proof -
  let ?t = "\<lambda>allowAny entries. [CtxErrEv None, ReadFileEv (allow_any_path nqn) (Inr allowAny),
    ReadDirEv (allowed_hosts_path nqn) (Inr entries)]"
  have exact: "post (ensureKernelSubsystemLink (recording_host H) (link_path nqn) (subsystem_path nqn) (w, ?t allowAny entries))
      (reconciled (kernel_access_seen nqn) (kernel_access_effect nqn) (kernel_granted nqn host))"
    if "kernel_access_exact allowAny entries host" for w allowAny entries
    by (rule post_weaken [OF ensureKernelSubsystemLink_led [where g = "kernel_granted nqn host" and a = False,
            OF led_refl link_not_granted [OF assms]]],
        rule reconciled_led [where seen = "kernel_access_seen nqn",
          OF _ kernel_seen_calls [where c = None and allowAny = allowAny and entries = entries]])
       (simp_all add: kernel_exact [OF that])
  have replace: "post (replace_hosts (recording_host H) nqn host entries (w, ?t allowAny entries))
      (reconciled (kernel_access_seen nqn) (kernel_access_effect nqn) (kernel_granted nqn host))" for w allowAny entries
    by (rule post_weaken [OF replace_hosts_led [OF assms, where allowAny = allowAny]], elim exE conjE,
        rule reconciled_led [where seen = "kernel_access_seen nqn", OF _ kernel_seen_calls]) simp_all
  show ?thesis
    unfolding kernel_ReconcileHostAccess_def
    by (intro vcg) (use exact replace in \<open>auto intro: reconciled_failed\<close>)
qed

interpretation kernel_target: access_control kernel_names host_key kernel_access_seen kernel_access_effect
  kernel_ReconcileHostAccess
  by unfold_locales (rule kernel_reconciles [unfolded kernel_granted_def])

section \<open>The order of revoking and connecting\<close>

definition removed_link :: "string \<Rightarrow> host_event list \<Rightarrow> bool" where
  "removed_link nqn t \<longleftrightarrow> (\<exists>r. RemoveEv (link_path nqn) r \<in> set t \<and> ignore_missing r = None) \<and>
     list_all (\<lambda>ev. case ev of SymlinkEv _ p _ \<Rightarrow> p \<noteq> link_path nqn | _ \<Rightarrow> True) t"

text \<open>Access changes only while the subsystem is not linked to its port.\<close>

fun disconnected_ok :: "string \<Rightarrow> host_event list \<Rightarrow> host_event \<Rightarrow> bool" where
  "disconnected_ok nqn t (RemoveEv p r) \<longleftrightarrow> p = link_path nqn \<or> removed_link nqn t"
| "disconnected_ok nqn t (SymlinkEv tgt p r) \<longleftrightarrow> p = link_path nqn \<and> tgt = subsystem_path nqn \<or> removed_link nqn t"
| "disconnected_ok nqn t (WriteFileEv p d r) \<longleftrightarrow> removed_link nqn t"
| "disconnected_ok nqn t (MkdirEv p r) \<longleftrightarrow> p = filepath_Dir (link_path nqn) \<or> removed_link nqn t"
| "disconnected_ok nqn t ev \<longleftrightarrow> is_read ev"

lemma disconnected_read: "is_read ev \<Longrightarrow> disconnected_ok nqn t ev"
  by (cases ev) simp_all

lemma removed_link_snoc:
  "removed_link nqn t \<Longrightarrow> (case ev of SymlinkEv _ p _ \<Rightarrow> p \<noteq> link_path nqn | _ \<Rightarrow> True) \<Longrightarrow> removed_link nqn (t @ [ev])"
  by (auto simp: removed_link_def)

lemma ensureKernelSubsystemLink_order:
  assumes "justified (disconnected_ok nqn) t"
  shows "post (ensureKernelSubsystemLink (recording_host H) (link_path nqn) (subsystem_path nqn) (w, t))
    (\<lambda>r t'. justified (disconnected_ok nqn) t')"
  unfolding ensureKernelSubsystemLink_def create_link_def
  by (intro vcg post_bindI [OF kernelLinkMatches_reads])
     (auto dest: justified_reads [OF _ assms disconnected_read])

lemma remove_allowed_order:
  assumes "justified (disconnected_ok nqn) t" and "removed_link nqn t"
  shows "post (remove_allowed (recording_host H) nqn entries (w, t))
    (\<lambda>r t'. justified (disconnected_ok nqn) t' \<and> removed_link nqn t')"
  using assms
proof (induction entries arbitrary: t w)
  case (Cons e entries)
  then show ?case
    unfolding remove_allowed.simps by (intro vcg Cons.IH) (auto intro: removed_link_snoc)
qed (auto intro!: post_retI)

lemma authorize_host_order:
  assumes "justified (disconnected_ok nqn) t" and "removed_link nqn t"
  shows "post (authorize_host (recording_host H) nqn host (w, t)) (\<lambda>r t'. justified (disconnected_ok nqn) t')"
  unfolding authorize_host_def
  by (intro vcg) (use assms in \<open>auto dest: removed_link_snoc [where ev = "MkdirEv _ _"]\<close>)

lemma replace_hosts_order:
  assumes "justified (disconnected_ok nqn) t" and "list_all is_read t"
  shows "post (replace_hosts (recording_host H) nqn host entries (w, t)) (\<lambda>r t'. justified (disconnected_ok nqn) t')"
proof -
  have removed: "removed_link nqn (t @ [RemoveEv (link_path nqn) r])" if "ignore_missing r = None" for r
  proof -
    have "case ev of SymlinkEv _ p _ \<Rightarrow> p \<noteq> link_path nqn | _ \<Rightarrow> True" if "is_read ev" for ev
      using that by (cases ev) simp_all
    with assms(2) that show ?thesis by (auto simp: removed_link_def list_all_iff)
  qed
  show ?thesis
    unfolding replace_hosts_def
    by (intro vcg post_bindI [OF remove_allowed_order] post_bindI [OF authorize_host_order])
       (use assms(1) removed in \<open>auto intro: removed_link_snoc [where t = "_ @ [RemoveEv _ _]", simplified] removed_link_snoc\<close>)
qed

section \<open>What a check of an export shows\<close>

definition value_read :: "string \<Rightarrow> string \<Rightarrow> host_event \<Rightarrow> bool" where
  "value_read path value ev \<longleftrightarrow> (\<exists>raw. ev = ReadFileEv path (Inr raw) \<and> TrimSpace raw = value)"

definition value_seen :: "host_event list \<Rightarrow> string \<times> string \<Rightarrow> bool" where
  "value_seen t = (\<lambda>(path, value). list_ex (value_read path value) t)"

text \<open>The link leads to the subsystem.\<close>

definition link_read :: "string \<Rightarrow> string \<Rightarrow> host_event \<Rightarrow> bool" where
  "link_read link subsystem ev \<longleftrightarrow>
     (\<exists>target. ev = ReadlinkEv link (Inr target) \<and> Clean (link_target link target) = Clean subsystem)"

definition structure_seen :: "string \<Rightarrow> host_event list \<Rightarrow> bool" where
  "structure_seen nqn t \<longleftrightarrow> ReadDirEv (filepath_Join [subsystem_path nqn, ''namespaces'']) (Inr [''1'']) \<in> set t \<and>
     list_ex (link_read (filepath_Join [port_path, ''subsystems'', nqn]) (subsystem_path nqn)) t"

definition kernel_export_seen :: "string \<Rightarrow> string \<Rightarrow> string \<Rightarrow> int \<Rightarrow> host_event list \<Rightarrow> bool" where
  "kernel_export_seen nqn path ip port t \<longleftrightarrow>
     (\<exists>family. kernelAddressFamily ip = Inr family \<and> list_all (value_seen t) (required_values family nqn path ip port)) \<and>
     structure_seen nqn t"

lemma configValue_post:
  "post (configValue (recording_host H) path (w, t))
     (\<lambda>r t'. \<exists>ev. t' = t @ [ev] \<and> is_read ev \<and> (\<forall>x. r = Inr x \<longrightarrow> value_read path x ev))"
  unfolding configValue_def by (intro vcg) (auto simp: value_read_def)

lemma values_seen_Cons: "list_all (value_seen v) required \<Longrightarrow> list_all (value_seen (ev # v)) required"
  by (auto simp: value_seen_def list_all_iff)

lemma value_seen_first: "value_read path x ev \<Longrightarrow> value_seen (ev # v) (path, x)"
  by (simp add: value_seen_def)

lemma check_values_post:
  "post (check_values (recording_host H) required (w, t))
     (\<lambda>r t'. \<exists>v. t' = t @ v \<and> list_all is_read v \<and> (r = None \<longrightarrow> list_all (value_seen v) required))"
proof (induction required arbitrary: w t)
  case (Cons pv required)
  obtain path expected where pv: "pv = (path, expected)" by (cases pv)
  show ?case
    unfolding pv check_values.simps
    by (intro vcg post_bindI [OF configValue_post] post_weaken [OF Cons.IH])
       (auto intro: values_seen_Cons value_seen_first)
qed (auto intro!: post_retI)

lemma kernelLinkMatches_post:
  "post (kernelLinkMatches (recording_host H) link subsystem (w, t))
     (\<lambda>r t'. \<exists>ev. t' = t @ [ev] \<and> is_read ev \<and> (r \<longrightarrow> link_read link subsystem ev))"
  unfolding kernelLinkMatches_def by (intro vcg) (auto simp: link_read_def)

lemma check_structure_post:
  "post (check_structure (recording_host H) nqn (w, t))
     (\<lambda>r t'. \<exists>v. t' = t @ v \<and> list_all is_read v \<and> (r = None \<longrightarrow> structure_seen nqn v))"
proof -
  have one: "xs = [''1'']" if "length xs = Suc 0" "hd xs = ''1''" for xs :: "string list"
    using that by (cases xs) auto
  show ?thesis
    unfolding check_structure_def
    by (intro vcg post_bindI [OF kernelLinkMatches_post]) (auto simp: structure_seen_def dest!: one)
qed

lemma kernel_export_seenI:
  assumes "kernelAddressFamily ip = Inr family" and "list_all (value_seen u) (required_values family nqn path ip port)"
    and "structure_seen nqn v"
  shows "kernel_export_seen nqn path ip port (x # u @ v)"
proof -
  have "list_all (value_seen (x # u @ v)) (required_values family nqn path ip port)"
    using assms(2) by (auto simp: value_seen_def list_all_iff)
  with assms show ?thesis by (auto simp: kernel_export_seen_def structure_seen_def)
qed

lemma kernel_CheckExport_post:
  "post (kernel_CheckExport ord (recording_host H) nqn path ip port options (w, t))
     (\<lambda>r t'. \<exists>v. t' = t @ v \<and> list_all is_read v \<and> (r = None \<longrightarrow> kernel_export_seen nqn path ip port v))"
  unfolding kernel_CheckExport_def
  by (intro vcg post_bindI [OF check_values_post] post_weaken [OF check_structure_post])
     (auto intro: kernel_export_seenI)

text \<open>The last calls only look, and show the export complete.\<close>

definition export_verified :: "string \<Rightarrow> string \<Rightarrow> string \<Rightarrow> int \<Rightarrow> host_event list \<Rightarrow> bool" where
  "export_verified nqn path ip port t \<longleftrightarrow>
     (\<exists>u v. t = u @ v \<and> list_all is_read v \<and> kernel_export_seen nqn path ip port v)"

definition kernel_export_ok :: "string \<Rightarrow> string \<Rightarrow> string \<Rightarrow> int \<Rightarrow> strmap \<Rightarrow> error + string \<Rightarrow> host_event list \<Rightarrow> bool" where
  "kernel_export_ok vol path ip port options r t \<longleftrightarrow>
     (\<forall>n. r = Inr n \<longrightarrow> n = NQN vol \<and> options = [] \<and> 1 \<le> port \<and> port \<le> 65535 \<and> TrimSpace path \<noteq> [] \<and>
        export_verified n path ip port t)"

lemma kernel_no_options: "storageoptions_Validate kernel_Name options = None \<Longrightarrow> options = []"
  by (cases options; cases "hd options") (simp_all add: storageoptions_Validate_def kernel_Name_def)

section \<open>The links of a port that is rewritten\<close>

definition links_removed :: "host_event list \<Rightarrow> bool" where
  "links_removed t \<longleftrightarrow> (\<forall>p tgt. ReadlinkEv p (Inr tgt) \<in> set t \<longrightarrow> RemoveEv p None \<in> set t)"

definition links_restored :: "host_event list \<Rightarrow> bool" where
  "links_restored t \<longleftrightarrow> (\<forall>p. RemoveEv p None \<in> set t \<longrightarrow>
     (\<exists>tgt r. ReadlinkEv p (Inr tgt) \<in> set t \<and> SymlinkEv tgt p r \<in> set t \<and> ignore_existing r = None))"

text \<open>A link is removed only after its target was read, made only to that target, and the port is written
  only to the wanted values and only while it has no links.\<close>

fun port_step_ok :: "strmap \<Rightarrow> host_event list \<Rightarrow> host_event \<Rightarrow> bool" where
  "port_step_ok desired t (RemoveEv p r) \<longleftrightarrow> (\<exists>tgt. ReadlinkEv p (Inr tgt) \<in> set t)"
| "port_step_ok desired t (SymlinkEv tgt p r) \<longleftrightarrow> ReadlinkEv p (Inr tgt) \<in> set t"
| "port_step_ok desired t (WriteFileEv p d r) \<longleftrightarrow> links_removed t \<and>
     list_ex (\<lambda>(name, value). p = filepath_Join [port_path, name] \<and> d = value) desired"
| "port_step_ok desired t (MkdirEv p r) \<longleftrightarrow> p = filepath_Join [port_path, ''subsystems'']"
| "port_step_ok desired t ev \<longleftrightarrow> is_read ev"

lemma port_step_read: "is_read ev \<Longrightarrow> port_step_ok desired t ev"
  by (cases ev) simp_all

definition link_known :: "host_event list \<Rightarrow> kernelPortLink \<Rightarrow> bool" where
  "link_known t l \<longleftrightarrow> ReadlinkEv (pl_path l) (Inr (pl_target l)) \<in> set t"

lemma read_links_post:
  "post (read_links (recording_host H) linksPath entries (w, t))
     (\<lambda>r t'. reads_after t t' \<and> (\<forall>links. r = Inr links \<longrightarrow> list_all (link_known t') links \<and>
        (\<forall>p tgt. ReadlinkEv p (Inr tgt) \<in> set t' \<longrightarrow> ReadlinkEv p (Inr tgt) \<in> set t \<or> p \<in> pl_path ` set links)))"
proof (induction entries arbitrary: w t)
  case (Cons e entries)
  show ?case
    unfolding read_links.simps
    by (intro vcg post_bindI [OF Cons.IH])
       (auto simp: link_known_def reads_after_def image_iff)
qed (auto intro!: post_retI)

lemma links_known_mono: "list_all (link_known t) links \<Longrightarrow> set t \<subseteq> set t' \<Longrightarrow> list_all (link_known t') links"
  by (auto simp: list_all_iff link_known_def)

text \<open>The links of \<open>t\<close> are exactly \<open>links\<close>, and every removal so far is of one of them.\<close>

definition links_of :: "kernelPortLink list \<Rightarrow> host_event list \<Rightarrow> bool" where
  "links_of links t \<longleftrightarrow> list_all (link_known t) links \<and>
     (\<forall>p tgt. ReadlinkEv p (Inr tgt) \<in> set t \<longrightarrow> p \<in> pl_path ` set links)"

lemma links_of_snoc:
  "links_of links t \<Longrightarrow> (\<And>p r. ev \<noteq> ReadlinkEv p r) \<Longrightarrow> links_of links (t @ [ev])"
  by (auto simp: links_of_def list_all_iff link_known_def)

lemma remove_links_post:
  assumes "justified (port_step_ok desired) t" and "links_of links t" and "set rest \<subseteq> set links"
  shows "post (remove_links (recording_host H) rest (w, t))
    (\<lambda>r t'. justified (port_step_ok desired) t' \<and> links_of links t' \<and> set t \<subseteq> set t' \<and>
       (r = None \<longrightarrow> (\<forall>l \<in> set rest. RemoveEv (pl_path l) None \<in> set t')))"
  using assms
proof (induction rest arbitrary: w t)
  case (Cons l rest)
  have "port_step_ok desired t (RemoveEv (pl_path l) r)" for r
    using Cons.prems(2,3) by (auto simp: links_of_def list_all_iff link_known_def)
  with Cons.prems show ?case
    unfolding remove_links.simps
    by (intro vcg post_weaken [OF Cons.IH]) (auto intro: links_of_snoc)
qed (auto intro!: post_retI)

lemma write_port_post:
  assumes "justified (port_step_ok desired) t" and "links_of links t" and "links_removed t"
    and "set rest \<subseteq> set desired"
  shows "post (write_port (recording_host H) rest (w, t))
    (\<lambda>r t'. justified (port_step_ok desired) t' \<and> links_of links t')"
  using assms
proof (induction rest arbitrary: w t)
  case (Cons nv rest)
  obtain name v where nv: "nv = (name, v)" by (cases nv)
  have "port_step_ok desired t (WriteFileEv (filepath_Join [port_path, name]) v r)" for r
    using Cons.prems(3,4) by (auto simp: nv list_ex_iff)
  moreover have "links_removed (t @ [WriteFileEv p d r])" for p d r
    using Cons.prems(3) by (auto simp: links_removed_def)
  ultimately show ?case
    using Cons.prems unfolding nv write_port.simps
    by (intro vcg post_weaken [OF Cons.IH]) (auto intro: links_of_snoc)
qed (auto intro!: post_retI)

definition restored :: "host_event list \<Rightarrow> kernelPortLink \<Rightarrow> bool" where
  "restored t l \<longleftrightarrow> (\<exists>r. SymlinkEv (pl_target l) (pl_path l) r \<in> set t \<and> ignore_existing r = None)"

lemma restoreKernelPortLinks_post:
  assumes "justified (port_step_ok desired) t" and "links_of links t" and "set rest \<subseteq> set links"
  shows "post (restoreKernelPortLinks (recording_host H) rest (w, t))
    (\<lambda>r t'. justified (port_step_ok desired) t' \<and> links_of links t' \<and> set t \<subseteq> set t' \<and>
       (r = None \<longrightarrow> list_all (restored t') rest))"
  using assms
proof (induction rest arbitrary: w t)
  case (Cons l rest)
  have "port_step_ok desired t (SymlinkEv (pl_target l) (pl_path l) r)" for r
    using Cons.prems(2,3) by (auto simp: links_of_def list_all_iff link_known_def)
  with Cons.prems show ?case
    unfolding restoreKernelPortLinks.simps
    by (intro vcg post_weaken [OF Cons.IH])
       (auto intro: links_of_snoc simp: restored_def ignore_existing_def)
qed (auto intro!: post_retI)

text \<open>So far the run only made the directory of the links and read files and directories.\<close>

definition quiet :: "host_event list \<Rightarrow> bool" where
  "quiet t \<longleftrightarrow> (\<exists>r v. t = MkdirEv (filepath_Join [port_path, ''subsystems'']) r # v \<and>
     list_all (\<lambda>ev. \<exists>p x y. ev = ReadFileEv p x \<or> ev = ReadDirEv p y) v)"

lemma quietD:
  assumes "quiet t"
  shows "justified (port_step_ok d) t" and "links_restored t" and "ReadlinkEv p x \<notin> set t"
proof -
  obtain r v where t: "t = [MkdirEv (filepath_Join [port_path, ''subsystems'']) r] @ v"
    and v: "list_all (\<lambda>ev. \<exists>p x y. ev = ReadFileEv p x \<or> ev = ReadDirEv p y) v"
    using assms by (auto simp: quiet_def)
  have "list_all is_read v" using v by (auto simp: list_all_iff)
  then show "justified (port_step_ok d) t"
    using justified_reads [of "[MkdirEv (filepath_Join [port_path, ''subsystems'']) r]" t] t port_step_read
    by (simp add: reads_after_def)
  show "links_restored t" "ReadlinkEv p x \<notin> set t" using v by (auto simp: t links_restored_def list_all_iff)
qed

lemma quiet_snoc: "quiet t \<Longrightarrow> quiet (t @ [ReadDirEv p y])" "quiet t \<Longrightarrow> quiet (t @ [ReadFileEv p x])"
  by (auto simp: quiet_def)

lemma configValueMatches_quiet:
  assumes "quiet t" shows "post (configValueMatches (recording_host H) p v (w, t)) (\<lambda>r t'. quiet t')"
  unfolding configValueMatches_def configValue_def
  by (rule post_bindI [where R = "\<lambda>r t'. quiet t'"]; intro vcg) (auto intro: quiet_snoc assms)

lemma values_match_quiet:
  "quiet t \<Longrightarrow> post (values_match (recording_host H) desired (w, t)) (\<lambda>r t'. quiet t')"
proof (induction desired arbitrary: w t)
  case (Cons nv desired)
  obtain name v where nv: "nv = (name, v)" by (cases nv)
  show ?case
    unfolding nv values_match.simps
    by (intro vcg post_bindI [OF configValueMatches_quiet [OF Cons.prems]] Cons.IH) auto
qed (auto intro!: post_retI)

lemma read_links_quiet:
  assumes "quiet t"
  shows "post (read_links (recording_host H) linksPath entries (w, t))
    (\<lambda>r t'. justified (port_step_ok d) t' \<and> (\<forall>links. r = Inr links \<longrightarrow> links_of links t'))"
  by (rule post_weaken [OF read_links_post])
     (use quietD [OF assms] in \<open>auto simp: links_of_def port_step_read intro: justified_reads\<close>)

definition port_calls_ok :: "string \<Rightarrow> int \<Rightarrow> error option \<Rightarrow> host_event list \<Rightarrow> bool" where
  "port_calls_ok ip port r t \<longleftrightarrow>
     (case kernelAddressFamily ip of
        Inl e \<Rightarrow> r = Some e \<and> t = []
      | Inr family \<Rightarrow> justified (port_step_ok (desired_port family ip port)) t \<and> (r = None \<longrightarrow> links_restored t))"

lemma links_removedI:
  "links_of links t \<Longrightarrow> (\<forall>l \<in> set links. RemoveEv (pl_path l) None \<in> set t) \<Longrightarrow> links_removed t"
  by (force simp: links_of_def links_removed_def)

lemma removed_known:
  assumes "justified (port_step_ok desired) t" and "RemoveEv p None \<in> set t"
  shows "\<exists>tgt. ReadlinkEv p (Inr tgt) \<in> set t"
proof -
  obtain u v where "t = u @ RemoveEv p None # v" using assms(2) by (auto simp: in_set_conv_decomp)
  with justifiedD [of "port_step_ok desired" u "RemoveEv p None" v] assms(1) show ?thesis by auto
qed

lemma links_restoredI:
  assumes "justified (port_step_ok desired) t" and "links_of links t" and "list_all (restored t) links"
  shows "links_restored t"
  unfolding links_restored_def
proof (intro allI impI)
  fix p
  assume "RemoveEv p None \<in> set t"
  then obtain tgt where "ReadlinkEv p (Inr tgt) \<in> set t" using removed_known [OF assms(1)] by blast
  then obtain l where "l \<in> set links" "p = pl_path l" using assms(2) by (auto simp: links_of_def)
  then show "\<exists>tgt r. ReadlinkEv p (Inr tgt) \<in> set t \<and> SymlinkEv tgt p r \<in> set t \<and> ignore_existing r = None"
    using assms(2,3) by (auto simp: links_of_def list_all_iff link_known_def restored_def)
qed

lemma rewrite_port_post:
  assumes "justified (port_step_ok desired) t" and "links_of links t" and "links_removed t"
  shows "post (rewrite_port (recording_host H) links desired (w, t))
    (\<lambda>r t'. justified (port_step_ok desired) t' \<and> (r = None \<longrightarrow> links_restored t'))"
  unfolding rewrite_port_def
  by (intro vcg post_bindI [OF write_port_post [OF assms subset_refl]]
        post_bindI [OF restoreKernelPortLinks_post [where links = links and desired = desired]])
     (auto intro: links_restoredI)

section \<open>Properties\<close>

text \<open>C5: \<^verbatim>\<open>ReconcileHostAccess\<close> of the kernel backend either fails and changes nothing, or it first reads,
  without a change, which hosts may connect to the subsystem. From there on, after every call the hosts that may connect
  are some of those that were read, or only the requested one; and when it succeeds, exactly the requested host may
  connect, or nobody when none was requested. The names of the subsystem
  and the host must be plain file names.\<close>

theorem kernel_access_exclusive:
  assumes "kernel_names nqn host"
  shows "post (kernel_ReconcileHostAccess (recording_host H) nqn host (w, []))
    (exclusive_access (kernel_access_seen nqn) (kernel_access_effect nqn) (if host = [] then {} else {host_key nqn host}))"
  by (rule kernel_target.exclusive [OF assms])

text \<open>A target that any host may use and that lists two others; every change succeeds.\<close>

definition open_target :: "unit host" where
  "open_target = refusing_host\<lparr>h_ReadFile := (\<lambda>p w. (Inr ''1'', w)), h_ReadDir := (\<lambda>p w. (Inr [''a'', ''b''], w)),
     h_Remove := (\<lambda>p w. (None, w)), h_WriteFile := (\<lambda>p d w. (None, w)), h_Mkdir := (\<lambda>p w. (None, w)),
     h_Symlink := (\<lambda>t l w. (None, w))\<rparr>"

theorem kernel_access_exclusive_witness:
  "fst (kernel_ReconcileHostAccess (recording_host open_target) ''nqn.x'' ''h'' ((), [])) = None \<and>
   post (kernel_ReconcileHostAccess (recording_host open_target) ''nqn.x'' ''h'' ((), []))
     (exclusive_access (kernel_access_seen ''nqn.x'') (kernel_access_effect ''nqn.x'')
       (if ''h'' = [] then {} else {host_key ''nqn.x'' ''h''}))"
proof
  show "fst (kernel_ReconcileHostAccess (recording_host open_target) ''nqn.x'' ''h'' ((), [])) = None"
    by code_simp
  show "post (kernel_ReconcileHostAccess (recording_host open_target) ''nqn.x'' ''h'' ((), []))
     (exclusive_access (kernel_access_seen ''nqn.x'') (kernel_access_effect ''nqn.x'')
       (if ''h'' = [] then {} else {host_key ''nqn.x'' ''h''}))"
    by (rule kernel_access_exclusive) (simp add: kernel_names_def plain_elem_def)
qed

text \<open>The kernel backend changes who may connect only while the subsystem is not linked to its port,
  so that the connections of a revoked host are gone before another host is let in.\<close>

lemma kernel_access_order:
  "post (kernel_ReconcileHostAccess (recording_host H) nqn host (w, [])) (\<lambda>r t. justified (disconnected_ok nqn) t)"
  unfolding kernel_ReconcileHostAccess_def
  by (intro vcg ensureKernelSubsystemLink_order replace_hosts_order) simp_all

text \<open>C31: the kernel backend reports a volume exported only under its NQN, for a valid port and no options,
  and only when the calls it made last show the subsystem closed to other hosts, its only namespace on
  the given device and enabled, the port on the given address, and the link between them.\<close>

theorem kernel_ExportVolume_verified:
  "post (kernel_ExportVolume ord ord' (recording_host H) vol path ip port options (w, []))
     (kernel_export_ok vol path ip port options)"
proof -
  have any: "post p (\<lambda>r t. True)" for p :: "error option \<times> ('w, host_event) traced"
    by (simp add: post_def)
  have ver: "export_verified nqn path ip port (u @ v)" if "list_all is_read v" "kernel_export_seen nqn path ip port v" for nqn u v
    using that by (auto simp: export_verified_def)
  show ?thesis
    unfolding kernel_ExportVolume_def
    by (intro vcg post_bindI [OF any] post_bindI [OF kernel_CheckExport_post])
       (auto simp: kernel_export_ok_def ver dest: kernel_no_options)
qed

text \<open>C32: while the kernel port is rewritten for new addresses, a link of the port is removed only after its
  target was read, the port is written only while it has no links, and when the operation succeeds
  every link it removed leads to its old target again: no export of another volume is lost.\<close>

theorem ensureKernelPort_calls:
  "post (ensureKernelPort ord (recording_host H) ip port (w, [])) (port_calls_ok ip port)"
proof (cases "kernelAddressFamily ip")
  case (Inl e)
  then show ?thesis unfolding ensureKernelPort_def Inl sum.case by (intro vcg) (simp add: port_calls_ok_def Inl)
next
  case (Inr family)
  let ?d = "desired_port family ip port"
  have start: "quiet ([] @ [MkdirEv (filepath_Join [port_path, ''subsystems'']) r])" for r
    by (simp add: quiet_def)
  have ok: "port_calls_ok ip port r t \<longleftrightarrow> justified (port_step_ok ?d) t \<and> (r = None \<longrightarrow> links_restored t)" for r t
    by (simp add: port_calls_ok_def Inr)
  show ?thesis
    unfolding ensureKernelPort_def Inr sum.case Let_def ok [abs_def]
    by (intro vcg post_bindI [OF values_match_quiet [OF start]] post_bindI [OF read_links_quiet [where d = ?d]]
          post_bindI [OF remove_links_post [where desired = ?d, OF _ _ subset_refl]]
          rewrite_port_post)
       (auto simp: quietD [OF start, simplified] intro: quietD quiet_snoc links_removedI)
qed

end
