(* ===== verification/Nvme_Discovery.thy ===== *)
theory Nvme_Discovery
  imports Spdk_Process Capacity Go_Encoding
begin

text \<open>
  Finding the NVMe devices of a node: \<^verbatim>\<open>internal/agent/nvme_discovery.go\<close>.

  Devices bound to the kernel are read from sysfs, devices bound to SPDK from the listing of its
  block devices; a policy from the environment leaves devices out. A discovery returns what it found
  together with the errors it met, so its result is a pair. An entry of the kernel is one step of the
  loop: \<open>Inl\<close> an error to report, \<open>Inr None\<close> an entry to pass over, \<open>Inr (Some d)\<close> a device.

  The lemmas show that a discovery only looks, and what every device it returns has been checked for;
  and that the capacity a device is advertised with is exact in 64 bits.
\<close>

section \<open>Devices and the policy\<close>

record HardwareNVMe =
  hw_Name :: string
  hw_PCIAddress :: string
  hw_SerialNumber :: string
  hw_Model :: string
  hw_TotalBytes :: int
  hw_NUMANode :: int

text \<open>The regular expression \<^verbatim>\<open>^[0-9a-f]{4}:[0-9a-f]{2}:[0-9a-f]{2}\.[0-7]$\<close>.\<close>

definition pciAddressPattern :: "string \<Rightarrow> bool" where
  "pciAddressPattern s \<longleftrightarrow> length s = 12 \<and>
     list_all is_hex_lower (take 4 s) \<and> s ! 4 = CHR '':'' \<and>
     list_all is_hex_lower (take 2 (drop 5 s)) \<and> s ! 7 = CHR '':'' \<and>
     list_all is_hex_lower (take 2 (drop 8 s)) \<and> s ! 10 = CHR ''.'' \<and>
     is_digit (s ! 11) \<and> digit_val (s ! 11) \<le> 7"

definition validateHardwareNVMe :: "HardwareNVMe \<Rightarrow> error option" where
  "validateHardwareNVMe device =
     (if TrimSpace (hw_Name device) = [] then Some (Errorf ''device name is empty'' [])
      else if TrimSpace (hw_SerialNumber device) = [] then Some (Errorf ''serial number is empty'' [])
      else if \<not> pciAddressPattern (ToLower (TrimSpace (hw_PCIAddress device)))
      then Some (Errorf ''PCI address %q is invalid'' [S (hw_PCIAddress device)])
      else if hw_TotalBytes device \<le> 0
      then Some (Errorf ''capacity must be positive, got %d'' [D (hw_TotalBytes device)])
      else None)"

definition sysClassNVMe :: string where
  "sysClassNVMe = ''/sys/class/nvme''"

definition sysClassBlock :: string where
  "sysClassBlock = ''/sys/class/block''"

definition unsafeMountInspectionEnv :: string where
  "unsafeMountInspectionEnv = ''NVME_ALLOW_UNSAFE_MOUNT_INSPECTION''"

definition primaryNamespaceID :: int where
  "primaryNamespaceID = 1"

definition managedCapacityPercent :: int where
  "managedCapacityPercent = 99"

text \<open>The two sets of addresses are lists, read for membership only.\<close>

record discoveryPolicy =
  dp_allowed :: "string list"
  dp_excluded :: "string list"
  dp_unsafeMountInspection :: bool

fun pci_addresses :: "string \<Rightarrow> string list \<Rightarrow> error + string list" where
  "pci_addresses name [] = Inr []"
| "pci_addresses name (raw # raws) =
     (let address = ToLower (TrimSpace raw) in
      if address = [] \<or> \<not> pciAddressPattern address
      then Inl (Errorf ''%s contains invalid PCI address %q'' [S name, S raw])
      else case pci_addresses name raws of Inl e \<Rightarrow> Inl e | Inr result \<Rightarrow> Inr (address # result))"

definition parsePCIAddressSet :: "string \<Rightarrow> string \<Rightarrow> error + string list" where
  "parsePCIAddressSet name value =
     (if TrimSpace value = [] then Inr [] else pci_addresses name (Split value CHR '',''))"

text \<open>\<^verbatim>\<open>strconv.ParseBool\<close>, and the error of a number or truth value that does not parse.\<close>

definition ParseBool :: "string \<Rightarrow> bool option" where
  "ParseBool s =
     (if s \<in> {''1'', ''t'', ''T'', ''true'', ''TRUE'', ''True''} then Some True
      else if s \<in> {''0'', ''f'', ''F'', ''false'', ''FALSE'', ''False''} then Some False
      else None)"

definition strconv_error :: "string \<Rightarrow> string \<Rightarrow> error" where
  "strconv_error func s = Errorf ''strconv.%s: parsing %q'' [S func, S s]"

definition currentDiscoveryPolicy :: "'w host \<Rightarrow> 'w \<Rightarrow> (error + discoveryPolicy) \<times> 'w" where
  "currentDiscoveryPolicy H w =
     (case h_Getenv H ''NVME_ALLOWED_DEVICES'' w of (v, w) \<Rightarrow>
     (case parsePCIAddressSet ''NVME_ALLOWED_DEVICES'' v of
        Inl e \<Rightarrow> (Inl e, w)
      | Inr allowed \<Rightarrow>
     (case h_Getenv H ''NVME_EXCLUDE_DEVICES'' w of (v, w) \<Rightarrow>
     (case parsePCIAddressSet ''NVME_EXCLUDE_DEVICES'' v of
        Inl e \<Rightarrow> (Inl e, w)
      | Inr excluded \<Rightarrow>
     (case h_Getenv H unsafeMountInspectionEnv w of (v, w) \<Rightarrow>
        if v = [] then (Inr \<lparr>dp_allowed = allowed, dp_excluded = excluded, dp_unsafeMountInspection = False\<rparr>, w)
        else (case ParseBool v of
                None \<Rightarrow> (Inl (Wrapf ''%s must be a boolean: %w'' [S unsafeMountInspectionEnv]
                              (strconv_error ''ParseBool'' v)), w)
              | Some unsafe \<Rightarrow>
                  (Inr \<lparr>dp_allowed = allowed, dp_excluded = excluded, dp_unsafeMountInspection = unsafe\<rparr>, w)))))))"

definition permits :: "discoveryPolicy \<Rightarrow> string \<Rightarrow> bool" where
  "permits p pciAddress =
     (let address = ToLower (TrimSpace pciAddress) in
      if address \<in> set (dp_excluded p) then False
      else if dp_allowed p = [] then True
      else address \<in> set (dp_allowed p))"

section \<open>Capacity\<close>

definition checkedCapacityBytes :: "string \<Rightarrow> int \<Rightarrow> int \<Rightarrow> error + int" where
  "checkedCapacityBytes name numBlocks blockSize =
     (if numBlocks \<le> 0 \<or> blockSize \<le> 0
      then Inl (Errorf ''%s has invalid capacity metadata: %d blocks of %d bytes'' [S name, D numBlocks, D blockSize])
      else if numBlocks > div64 MaxInt64 blockSize then Inl (Errorf ''%s capacity overflows int64'' [S name])
      else Inr (mul64 numBlocks blockSize))"

definition allocatableNamespaceBytes :: "string \<Rightarrow> int \<Rightarrow> error + int" where
  "allocatableNamespaceBytes name rawBytes =
     (if rawBytes \<le> 0 then Inl (Errorf ''%s has invalid raw capacity %d'' [S name, D rawBytes])
      else let usableBytes = add64 (mul64 (div64 rawBytes 100) managedCapacityPercent)
                               (div64 (mul64 (rem64 rawBytes 100) managedCapacityPercent) 100);
               usableBytes = mul64 (div64 usableBytes AllocationUnitBytes) AllocationUnitBytes
           in if usableBytes \<le> 0
              then Inl (Errorf ''%s has no allocatable capacity after metadata reservation'' [S name])
              else Inr usableBytes)"

definition calculatePrimaryNamespaceBytes :: "'w host \<Rightarrow> string \<Rightarrow> 'w \<Rightarrow> (error + int) \<times> 'w" where
  "calculatePrimaryNamespaceBytes H nvmeName w =
     (let namespaceName = nvmeName @ ''n'' @ Itoa primaryNamespaceID in
      case h_ReadFile H (filepath_Join [sysClassBlock, namespaceName, ''size'']) w of (r, w) \<Rightarrow>
     (case r of
        Inl e \<Rightarrow> (Inl e, w)
      | Inr b \<Rightarrow>
     (case ParseInt (TrimSpace b) of
        None \<Rightarrow> (Inl (strconv_error ''ParseInt'' (TrimSpace b)), w)
      | Some blocks \<Rightarrow>
     (case checkedCapacityBytes namespaceName blocks 512 of
        Inl e \<Rightarrow> (Inl e, w)
      | Inr rawBytes \<Rightarrow> (allocatableNamespaceBytes namespaceName rawBytes, w)))))"

section \<open>Devices bound to the kernel\<close>

definition lsblk_command :: "string \<Rightarrow> command" where
  "lsblk_command bName = Command [''lsblk'', ''/dev/'' @ bName, ''-n'', ''-o'', ''MOUNTPOINT'']"

fun namespaces_mounted :: "'w host \<Rightarrow> string \<Rightarrow> string list \<Rightarrow> 'w \<Rightarrow> (error + bool) \<times> 'w" where
  "namespaces_mounted H devName [] w = (Inr False, w)"
| "namespaces_mounted H devName (bName # entries) w =
     (if \<not> HasPrefix bName (devName @ ''n'') then namespaces_mounted H devName entries w
      else case h_Output H (lsblk_command bName) w of ((outs, err), w) \<Rightarrow>
       (case err of
          Some e \<Rightarrow> (Inl (Wrapf ''lsblk namespace %s: %w'' [S bName] e), w)
        | None \<Rightarrow>
            if list_ex (\<lambda>line. TrimSpace line \<noteq> []) (Split (fst outs) newline) then (Inr True, w)
            else namespaces_mounted H devName entries w))"

definition inspectDeviceMounts :: "'w host \<Rightarrow> string \<Rightarrow> 'w \<Rightarrow> (error + bool) \<times> 'w" where
  "inspectDeviceMounts H devName w =
     (case h_ReadDir H sysClassBlock w of (r, w) \<Rightarrow>
      (case r of Inl e \<Rightarrow> (Inl e, w) | Inr entries \<Rightarrow> namespaces_mounted H devName entries w))"

text \<open>An optional attribute in sysfs: its text, or a default when it cannot be read.\<close>

definition sysfs_text :: "'w host \<Rightarrow> string \<Rightarrow> string \<Rightarrow> string \<Rightarrow> 'w \<Rightarrow> string \<times> 'w" where
  "sysfs_text H devPath attr deflt w =
     (case h_ReadFile H (filepath_Join [devPath, attr]) w of (r, w) \<Rightarrow>
      (case r of Inl e \<Rightarrow> (deflt, w) | Inr b \<Rightarrow> (TrimSpace b, w)))"

text \<open>From the policy on: the mounts, the capacity and the checks of one device.\<close>

definition admit_device ::
  "'w host \<Rightarrow> discoveryPolicy \<Rightarrow> HardwareNVMe \<Rightarrow> 'w \<Rightarrow> (error + HardwareNVMe option) \<times> 'w" where
  "admit_device H policy hwDev w =
     (let devName = hw_Name hwDev;
          admit = (\<lambda>w. case calculatePrimaryNamespaceBytes H devName w of (r, w) \<Rightarrow>
            (case r of
               Inl e \<Rightarrow> (Inl (Wrapf ''calculate capacity for %s: %w'' [S devName] e), w)
             | Inr totalBytes \<Rightarrow>
                 (let hwDev = hwDev\<lparr>hw_TotalBytes := totalBytes\<rparr> in
                  case validateHardwareNVMe hwDev of
                    Some e \<Rightarrow> (Inl (Wrapf ''validate %s: %w'' [S devName] e), w)
                  | None \<Rightarrow> (Inr (Some hwDev), w))))
      in if \<not> permits policy (hw_PCIAddress hwDev) then (Inr None, w)
         else case inspectDeviceMounts H devName w of (r, w) \<Rightarrow>
           (case r of
              Inl e \<Rightarrow> if \<not> dp_unsafeMountInspection policy
                       then (Inl (Wrapf ''inspect mount state for %s: %w'' [S devName] e), w) else admit w
            | Inr mounted \<Rightarrow> if mounted then (Inr None, w) else admit w))"

definition kernel_device ::
  "'w host \<Rightarrow> discoveryPolicy \<Rightarrow> string \<Rightarrow> 'w \<Rightarrow> (error + HardwareNVMe option) \<times> 'w" where
  "kernel_device H policy devName w =
     (if \<not> HasPrefix devName ''nvme'' then (Inr None, w)
      else let devPath = filepath_Join [sysClassNVMe, devName] in
      case sysfs_text H devPath ''transport'' ''pcie'' w of (transport, w) \<Rightarrow>
        if transport \<noteq> ''pcie'' then (Inr None, w)
        else case sysfs_text H devPath ''model'' [] w of (model, w) \<Rightarrow>
       (case h_ReadFile H (filepath_Join [devPath, ''serial'']) w of (r, w) \<Rightarrow>
       (case r of
          Inl e \<Rightarrow> (Inl (Wrapf ''read serial for %s: %w'' [S devName] e), w)
        | Inr serial \<Rightarrow>
       (case sysfs_text H devPath ''numa_node'' [] w of (numa, w) \<Rightarrow>
       (case h_Readlink H (filepath_Join [devPath, ''device'']) w of (r, w) \<Rightarrow>
       (case r of
          Inl e \<Rightarrow> (Inl (Wrapf ''resolve PCI address for %s: %w'' [S devName] e), w)
        | Inr link \<Rightarrow>
            admit_device H policy
              \<lparr>hw_Name = devName, hw_PCIAddress = ToLower (filepath_Base link), hw_SerialNumber = TrimSpace serial,
               hw_Model = model, hw_TotalBytes = 0,
               hw_NUMANode = (case ParseInt numa of None \<Rightarrow> 0 | Some n \<Rightarrow> n)\<rparr> w))))))"

text \<open>The two lists a discovery collects.\<close>

definition collect :: "error + HardwareNVMe option \<Rightarrow> HardwareNVMe list \<times> error list \<Rightarrow> HardwareNVMe list \<times> error list" where
  "collect r acc =
     (case r of
        Inl e \<Rightarrow> (fst acc, e # snd acc)
      | Inr None \<Rightarrow> acc
      | Inr (Some d) \<Rightarrow> (d # fst acc, snd acc))"

fun kernel_devices ::
  "'w host \<Rightarrow> discoveryPolicy \<Rightarrow> string list \<Rightarrow> 'w \<Rightarrow> (HardwareNVMe list \<times> error list) \<times> 'w" where
  "kernel_devices H policy [] w = (([], []), w)"
| "kernel_devices H policy (entry # entries) w =
     (case kernel_device H policy entry w of (r, w) \<Rightarrow>
      case kernel_devices H policy entries w of (acc, w) \<Rightarrow> (collect r acc, w))"

definition discoverKernelNVMeWithPolicy ::
  "'w host \<Rightarrow> discoveryPolicy \<Rightarrow> 'w \<Rightarrow> (HardwareNVMe list \<times> error option) \<times> 'w" where
  "discoverKernelNVMeWithPolicy H policy w =
     (case h_ReadDir H sysClassNVMe w of (r, w) \<Rightarrow>
     (case r of
        Inl e \<Rightarrow> (([], if os_IsNotExist e then None else Some e), w)
      | Inr entries \<Rightarrow>
          (case kernel_devices H policy entries w of ((ds, es), w) \<Rightarrow> ((ds, errors_Join es), w))))"

definition discoverKernelNVMe :: "'w host \<Rightarrow> 'w \<Rightarrow> (HardwareNVMe list \<times> error option) \<times> 'w" where
  "discoverKernelNVMe H w =
     (case currentDiscoveryPolicy H w of (r, w) \<Rightarrow>
      (case r of Inl e \<Rightarrow> (([], Some e), w) | Inr policy \<Rightarrow> discoverKernelNVMeWithPolicy H policy w))"

section \<open>Devices bound to SPDK\<close>

record spdkNVMeNamespace =
  sn_PCIAddress :: string
  sn_ModelNumber :: string
  sn_SerialNumber :: string
  sn_ID :: int

text \<open>\<open>sb_NVMe\<close> is the list of \<^verbatim>\<open>driver_specific\<close>, empty when that is missing.\<close>

record SpdkBdev =
  sb_Name :: string
  sb_ProductName :: string
  sb_BlockSize :: int
  sb_NumBlocks :: int
  sb_UUID :: string
  sb_NVMe :: "spdkNVMeNamespace list"

definition decode_nvme_namespace :: "json option \<Rightarrow> spdkNVMeNamespace option" where
  "decode_nvme_namespace j =
     Option.bind (decode_members j) (\<lambda>m.
     Option.bind (decode_string (json_field m ''pci_address'')) (\<lambda>pci.
     Option.bind (decode_members (json_field m ''ctrlr_data'')) (\<lambda>c.
     Option.bind (decode_string (json_field c ''model_number'')) (\<lambda>model.
     Option.bind (decode_string (json_field c ''serial_number'')) (\<lambda>serial.
     Option.bind (decode_members (json_field m ''ns_data'')) (\<lambda>n.
     Option.bind (decode_int64 (json_field n ''id'')) (\<lambda>nid.
     Some \<lparr>sn_PCIAddress = pci, sn_ModelNumber = model, sn_SerialNumber = serial, sn_ID = nid\<rparr>)))))))"

definition decode_hardware_bdev :: "json option \<Rightarrow> SpdkBdev option" where
  "decode_hardware_bdev j =
     Option.bind (decode_members j) (\<lambda>m.
     Option.bind (decode_string (json_field m ''name'')) (\<lambda>name.
     Option.bind (decode_string (json_field m ''product_name'')) (\<lambda>product.
     Option.bind (decode_int64 (json_field m ''block_size'')) (\<lambda>bsize.
     Option.bind (decode_int64 (json_field m ''num_blocks'')) (\<lambda>blocks.
     Option.bind (decode_string (json_field m ''uuid'')) (\<lambda>uuid.
     Option.bind (decode_members (json_field m ''driver_specific'')) (\<lambda>d.
     Option.bind (decode_list decode_nvme_namespace (json_field d ''nvme'')) (\<lambda>nss.
     Some \<lparr>sb_Name = name, sb_ProductName = product, sb_BlockSize = bsize, sb_NumBlocks = blocks,
           sb_UUID = uuid, sb_NVMe = nss\<rparr>))))))))"

definition spdk_device :: "discoveryPolicy \<Rightarrow> SpdkBdev \<Rightarrow> error + HardwareNVMe option" where
  "spdk_device policy bdev =
     (case sb_NVMe bdev of
        [] \<Rightarrow> Inr None
      | namespace # _ \<Rightarrow>
          if sn_ID namespace = 0
          then Inl (Errorf ''SPDK bdev %s is missing its NVMe namespace ID'' [S (sb_Name bdev)])
          else if sn_ID namespace \<noteq> primaryNamespaceID then Inr None
          else case checkedCapacityBytes (sb_Name bdev) (sb_NumBlocks bdev) (sb_BlockSize bdev) of
            Inl e \<Rightarrow> Inl e
          | Inr capacityBytes \<Rightarrow>
         (case allocatableNamespaceBytes (sb_Name bdev) capacityBytes of
            Inl e \<Rightarrow> Inl e
          | Inr capacityBytes \<Rightarrow>
              (let hwDev = \<lparr>hw_Name = sb_Name bdev, hw_PCIAddress = ToLower (TrimSpace (sn_PCIAddress namespace)),
                     hw_SerialNumber = TrimSpace (sn_SerialNumber namespace),
                     hw_Model = TrimSpace (sn_ModelNumber namespace),
                     hw_TotalBytes = capacityBytes, hw_NUMANode = -1\<rparr>
               in if \<not> permits policy (hw_PCIAddress hwDev) then Inr None
                  else case validateHardwareNVMe hwDev of
                    Some e \<Rightarrow> Inl (Wrapf ''validate SPDK bdev %s: %w'' [S (sb_Name bdev)] e)
                  | None \<Rightarrow> Inr (Some hwDev))))"

definition hardwareFromSPDKBdevs :: "SpdkBdev list \<Rightarrow> discoveryPolicy \<Rightarrow> HardwareNVMe list \<times> error option" where
  "hardwareFromSPDKBdevs bdevs policy =
     (case foldr (\<lambda>bdev. collect (spdk_device policy bdev)) bdevs ([], []) of (ds, es) \<Rightarrow> (ds, errors_Join es))"

definition discoverSPDKNVMeWithPolicy ::
  "'w host \<Rightarrow> discoveryPolicy \<Rightarrow> 'w \<Rightarrow> (HardwareNVMe list \<times> error option) \<times> 'w" where
  "discoverSPDKNVMeWithPolicy H policy w =
     (case h_CombinedOutput H pidof_command w of ((out, err), w) \<Rightarrow>
        if err \<noteq> None then (([], None), w)
        else case CallSPDKRPC (decode_list decode_hardware_bdev) H ''bdev_get_bdevs'' [] w of (r, w) \<Rightarrow>
          (case r of Inl e \<Rightarrow> (([], Some e), w) | Inr bdevs \<Rightarrow> (hardwareFromSPDKBdevs bdevs policy, w)))"

section \<open>Both together\<close>

text \<open>One of the two loops of \<^verbatim>\<open>DiscoverNVMe\<close>: the devices it appends and the serials seen after it.\<close>

fun append_unseen :: "HardwareNVMe list \<Rightarrow> string list \<Rightarrow> HardwareNVMe list \<times> string list" where
  "append_unseen [] seenSerials = ([], seenSerials)"
| "append_unseen (d # ds) seenSerials =
     (let serial = ToLower (TrimSpace (hw_SerialNumber d)) in
      if serial \<noteq> [] \<and> serial \<notin> set seenSerials
      then (case append_unseen ds (serial # seenSerials) of (rest, seen) \<Rightarrow> (d # rest, seen))
      else append_unseen ds seenSerials)"

definition DiscoverNVMe :: "'w host \<Rightarrow> 'w \<Rightarrow> (HardwareNVMe list \<times> error option) \<times> 'w" where
  "DiscoverNVMe H w =
     (case currentDiscoveryPolicy H w of (r, w) \<Rightarrow>
     (case r of
        Inl e \<Rightarrow> (([], Some e), w)
      | Inr policy \<Rightarrow>
     (case discoverKernelNVMeWithPolicy H policy w of ((kernelDevs, kernelErr), w) \<Rightarrow>
     (case append_unseen kernelDevs [] of (fromKernel, seenSerials) \<Rightarrow>
     (case discoverSPDKNVMeWithPolicy H policy w of ((spdkDevs, spdkErr), w) \<Rightarrow>
     (case append_unseen spdkDevs seenSerials of (fromSPDK, _) \<Rightarrow>
        ((fromKernel @ fromSPDK,
          if kernelErr \<noteq> None \<or> spdkErr \<noteq> None then Some (NVMeDiscoveryError kernelErr spdkErr) else None), w)))))))"

section \<open>Capacity is exact\<close>

lemma checkedCapacityBytes_Inr:
  assumes "is_int64 numBlocks" and "is_int64 blockSize"
  shows "checkedCapacityBytes name numBlocks blockSize = Inr c \<longleftrightarrow>
    0 < numBlocks \<and> 0 < blockSize \<and> c = numBlocks * blockSize \<and> numBlocks * blockSize \<le> MaxInt64"
proof (cases "0 < numBlocks \<and> 0 < blockSize")
  case True
  have d: "div64 MaxInt64 blockSize = MaxInt64 div blockSize"
    using True by (intro div64_exact) (simp_all add: is_int64_def MinInt64_def MaxInt64_def)
  have "numBlocks \<le> MaxInt64 div blockSize \<longleftrightarrow> numBlocks * blockSize \<le> MaxInt64" (is "?l = ?r")
  proof
    assume ?l
    then have "numBlocks * blockSize \<le> MaxInt64 div blockSize * blockSize" using True by (simp add: mult_right_mono)
    also have "\<dots> \<le> MaxInt64" using True div_mult_mod_eq [of MaxInt64 blockSize] pos_mod_sign [of blockSize MaxInt64] by linarith
    finally show ?r .
  next
    assume ?r
    then show ?l using zdiv_mono1 [of "numBlocks * blockSize" MaxInt64 blockSize] True by simp
  qed
  moreover have "mul64 numBlocks blockSize = numBlocks * blockSize" if "numBlocks * blockSize \<le> MaxInt64"
    using that True by (intro mul64_exact) (simp add: is_int64_def MinInt64_def order_trans [of _ 0])
  ultimately show ?thesis using True by (auto simp: checkedCapacityBytes_def d)
qed (auto simp: checkedCapacityBytes_def)

text \<open>Ninety-nine hundredths, without an intermediate value outside 64 bits.\<close>

lemma percent_split:
  fixes a :: int
  assumes "0 \<le> a"
  shows "a div 100 * 99 + a mod 100 * 99 div 100 = a * 99 div 100"
proof -
  have "a * 99 = a mod 100 * 99 + (a div 100 * 99) * 100" using div_mult_mod_eq [of a 100] by linarith
  moreover have "(a mod 100 * 99 + (a div 100 * 99) * 100) div 100 = a div 100 * 99 + a mod 100 * 99 div 100"
    by (rule div_mult_self1) simp
  ultimately show ?thesis by presburger
qed

lemma allocatableNamespaceBytes_Inr:
  assumes "is_int64 raw"
  shows "allocatableNamespaceBytes name raw = Inr c \<longleftrightarrow>
    0 < c \<and> c = raw * 99 div 100 div AllocationUnitBytes * AllocationUnitBytes"
proof (cases "0 < raw")
  case True
  let ?u = "raw * 99 div 100"
  have raw: "raw \<le> 9223372036854775807" using assms by (simp add: is_int64_def MaxInt64_def)
  have u: "0 \<le> ?u" "?u \<le> raw" using True by auto
  have i: "is_int64 x" if "0 \<le> x" "x \<le> 9223372036854775807" for x
    using that by (simp add: is_int64_def MinInt64_def MaxInt64_def)
  have parts: "raw div 100 * 99 \<le> raw" "raw mod 100 * 99 \<le> 9801" using True by linarith+
  have split: "add64 (mul64 (div64 raw 100) 99) (div64 (mul64 (rem64 raw 100) 99) 100) = ?u"
    using True raw u parts percent_split [of raw]
    by (simp add: div64_exact rem64_exact mul64_exact add64_exact i assms)
  have "mul64 (div64 ?u AllocationUnitBytes) AllocationUnitBytes = ?u div AllocationUnitBytes * AllocationUnitBytes"
  proof -
    have "?u div 4194304 * 4194304 \<le> ?u" "0 \<le> ?u div 4194304" using u by linarith+
    then show ?thesis using u raw by (simp add: AllocationUnitBytes_def div64_exact mul64_exact i)
  qed
  then show ?thesis
    using True split by (auto simp: allocatableNamespaceBytes_def managedCapacityPercent_def Let_def)
next
  case False
  then have "raw * 99 div 100 div AllocationUnitBytes \<le> 0"
    by (simp add: AllocationUnitBytes_def)
  then show ?thesis
    using False by (auto simp: allocatableNamespaceBytes_def AllocationUnitBytes_def)
qed

section \<open>A discovery only looks\<close>

definition looks :: "host_event \<Rightarrow> bool" where
  "looks ev \<longleftrightarrow> is_read ev \<or> (\<exists>out e. ev = RunEv pidof_command out e) \<or>
     (\<exists>b out err e. ev = OutputEv (lsblk_command b) out err e) \<or>
     (\<exists>out err e. ev = OutputEv (rpc_command ''bdev_get_bdevs'' []) out err e)"

definition looked :: "host_event list \<Rightarrow> host_event list \<Rightarrow> bool" where
  "looked t t' \<longleftrightarrow> (\<exists>u. t' = t @ u \<and> list_all looks u)"

lemma looked_refl [simp]: "looked t t"
  by (simp add: looked_def)

lemma looked_snoc [intro]: "looked t t' \<Longrightarrow> looks ev \<Longrightarrow> looked t (t' @ [ev])"
  by (auto simp: looked_def)

lemma looked_trans: "looked t t' \<Longrightarrow> looked t' t'' \<Longrightarrow> looked t t''"
  by (auto simp: looked_def)

lemma looked_from: "looked (t @ [ev]) t' \<Longrightarrow> looks ev \<Longrightarrow> looked t t'"
  by (auto simp: looked_def)

lemma looked_set [evidence]: "looked t t' \<Longrightarrow> set t \<subseteq> set t'"
  by (auto simp: looked_def)

lemma looks_simps [simp]:
  "is_read ev \<Longrightarrow> looks ev" "looks (RunEv pidof_command out e)" "looks (OutputEv (lsblk_command b) out err e)"
  "looks (OutputEv (rpc_command ''bdev_get_bdevs'' []) out err e)"
  by (auto simp: looks_def)

text \<open>Nothing was mounted on the namespaces of a controller.\<close>

definition namespace_unmounted :: "host_event list \<Rightarrow> string \<Rightarrow> bool" where
  "namespace_unmounted t b \<longleftrightarrow> (\<exists>out err. OutputEv (lsblk_command b) out err None \<in> set t \<and>
     list_all (\<lambda>line. TrimSpace line = []) (Split out newline))"

definition unmounted_seen :: "string \<Rightarrow> host_event list \<Rightarrow> bool" where
  "unmounted_seen devName t \<longleftrightarrow> (\<exists>names. ReadDirEv sysClassBlock (Inr names) \<in> set t \<and>
     list_all (\<lambda>b. HasPrefix b (devName @ ''n'') \<longrightarrow> namespace_unmounted t b) names)"

lemma namespace_unmounted_mono [evidence]: "namespace_unmounted t b \<Longrightarrow> set t \<subseteq> set t' \<Longrightarrow> namespace_unmounted t' b"
  by (auto simp: namespace_unmounted_def)

lemma unmounted_seen_mono [evidence]: "unmounted_seen dev t \<Longrightarrow> set t \<subseteq> set t' \<Longrightarrow> unmounted_seen dev t'"
  by (auto simp: unmounted_seen_def list_all_iff intro: namespace_unmounted_mono)

lemma namespaces_mounted_post:
  "post (namespaces_mounted (recording_host H) devName names (w, t))
     (\<lambda>r t'. looked t t' \<and> (r = Inr False \<longrightarrow>
        list_all (\<lambda>b. HasPrefix b (devName @ ''n'') \<longrightarrow> namespace_unmounted t' b) names))"
proof (induction names arbitrary: w t)
  case (Cons b names)
  have blank: "namespace_unmounted t' b"
    if "looked (t @ [OutputEv (lsblk_command b) out err None]) t'" "\<not> list_ex (\<lambda>l. TrimSpace l \<noteq> []) (Split out newline)"
    for out err t'
    using looked_set [OF that(1)] that(2) by (auto simp: namespace_unmounted_def list_all_iff list_ex_iff)
  show ?case
    unfolding namespaces_mounted.simps
    by (intro vcg post_weaken [OF Cons.IH]) (auto dest: blank looked_from)
qed (auto intro!: vcg)

lemma inspectDeviceMounts_post:
  "post (inspectDeviceMounts (recording_host H) devName (w, t))
     (\<lambda>r t'. looked t t' \<and> (r = Inr False \<longrightarrow> unmounted_seen devName t'))"
proof -
  have seen: "unmounted_seen devName t'"
    if "looked (t @ [ReadDirEv sysClassBlock (Inr names)]) t'"
      "list_all (\<lambda>b. HasPrefix b (devName @ ''n'') \<longrightarrow> namespace_unmounted t' b) names" for names t'
    using looked_set [OF that(1)] that(2) by (auto simp: unmounted_seen_def)
  show ?thesis
    unfolding inspectDeviceMounts_def
    by (intro vcg post_weaken [OF namespaces_mounted_post])
       (auto dest: seen looked_from)
qed

lemma advertised_units:
  assumes "is_int64 b" and "is_int64 n" and "checkedCapacityBytes name n b = Inr raw"
    and "allocatableNamespaceBytes name raw = Inr c"
  shows "AllocationUnitBytes dvd c"
proof -
  have "0 < raw" "raw \<le> MaxInt64"
    using checkedCapacityBytes_Inr [OF assms(2,1)] assms(3) by (auto simp: zero_less_mult_iff)
  then have "is_int64 raw" by (simp add: is_int64_def MinInt64_def)
  then show ?thesis using allocatableNamespaceBytes_Inr [of raw name c] assms(4) by simp
qed

lemma ParseInt_is_int64: "ParseInt s = Some b \<Longrightarrow> is_int64 b"
  by (auto simp: ParseInt_def Let_def split: option.splits if_splits prod.splits)

lemma calculatePrimaryNamespaceBytes_post:
  "post (calculatePrimaryNamespaceBytes (recording_host H) devName (w, t)) (\<lambda>r t'. looked t t' \<and>
     (\<forall>c. r = Inr c \<longrightarrow> AllocationUnitBytes dvd c))"
proof -
  have i: "is_int64 512" by (simp add: is_int64_def MinInt64_def MaxInt64_def)
  show ?thesis
    unfolding calculatePrimaryNamespaceBytes_def Let_def
    by (intro vcg) (auto intro: advertised_units [OF i ParseInt_is_int64])
qed

lemma sysfs_text_post: "post (sysfs_text (recording_host H) p a d (w, t)) (\<lambda>r t'. looked t t')"
  unfolding sysfs_text_def by (intro vcg) auto

text \<open>What a discovery has checked of a device, under the policy it read.\<close>

definition device_safe :: "discoveryPolicy \<Rightarrow> HardwareNVMe \<Rightarrow> bool" where
  "device_safe policy d \<longleftrightarrow> validateHardwareNVMe d = None \<and> permits policy (hw_PCIAddress d) \<and>
     AllocationUnitBytes dvd hw_TotalBytes d"

definition kernel_checked :: "discoveryPolicy \<Rightarrow> host_event list \<Rightarrow> HardwareNVMe \<Rightarrow> bool" where
  "kernel_checked policy t d \<longleftrightarrow> device_safe policy d \<and>
     (dp_unsafeMountInspection policy \<or> unmounted_seen (hw_Name d) t)"

lemma kernel_checked_mono [evidence]: "kernel_checked policy t d \<Longrightarrow> set t \<subseteq> set t' \<Longrightarrow> kernel_checked policy t' d"
  by (auto simp: kernel_checked_def intro: unmounted_seen_mono)

lemma admit_device_post:
  "post (admit_device (recording_host H) policy hwDev (w, t))
     (\<lambda>r t'. looked t t' \<and> (\<forall>d. r = Inr (Some d) \<longrightarrow> kernel_checked policy t' d))"
  unfolding admit_device_def Let_def
  by (intro vcg post_bindI [OF inspectDeviceMounts_post] post_bindI [OF calculatePrimaryNamespaceBytes_post])
     (auto simp: kernel_checked_def device_safe_def intro: looked_trans unmounted_seen_mono dest: looked_set)

lemma kernel_device_post:
  "post (kernel_device (recording_host H) policy devName (w, t))
     (\<lambda>r t'. looked t t' \<and> (\<forall>d. r = Inr (Some d) \<longrightarrow> kernel_checked policy t' d))"
  unfolding kernel_device_def Let_def
  by (intro vcg post_bindI [OF sysfs_text_post] post_weaken [OF admit_device_post])
     (auto simp: looked_def)

lemma kernel_devices_post:
  "post (kernel_devices (recording_host H) policy entries (w, t))
     (\<lambda>r t'. looked t t' \<and> list_all (kernel_checked policy t') (fst r))"
proof (induction entries arbitrary: w t)
  case (Cons entry entries)
  show ?case
    unfolding kernel_devices.simps
    by (intro vcg post_bindI [OF kernel_device_post] post_bindI [OF Cons.IH])
       (auto simp: collect_def split: sum.split option.split intro: looked_trans kernel_checked_mono dest: looked_set)
qed (auto intro!: vcg)

lemma discoverKernelNVMeWithPolicy_post:
  "post (discoverKernelNVMeWithPolicy (recording_host H) policy (w, t))
     (\<lambda>r t'. looked t t' \<and> list_all (kernel_checked policy t') (fst r))"
  unfolding discoverKernelNVMeWithPolicy_def
  by (intro vcg post_bindI2 [OF kernel_devices_post]) (auto dest: looked_from)

text \<open>SPDK listed the device as the first namespace of a controller.\<close>

definition listed_by_spdk :: "host_event list \<Rightarrow> HardwareNVMe \<Rightarrow> bool" where
  "listed_by_spdk t d \<longleftrightarrow> (\<exists>bdevs ev b ns nss.
     rpc_answer (decode_list decode_hardware_bdev) ''bdev_get_bdevs'' [] bdevs ev \<and> ev \<in> set t \<and>
     b \<in> set bdevs \<and> sb_NVMe b = ns # nss \<and> sn_ID ns = primaryNamespaceID \<and> hw_Name d = sb_Name b \<and>
     hw_SerialNumber d = TrimSpace (sn_SerialNumber ns))"

definition bdev_sizes_ok :: "SpdkBdev \<Rightarrow> bool" where
  "bdev_sizes_ok b \<longleftrightarrow> is_int64 (sb_NumBlocks b) \<and> is_int64 (sb_BlockSize b)"

lemma decode_int64_is_int64: "decode_int64 j = Some i \<Longrightarrow> is_int64 i"
  by (auto simp: decode_int64_def split: option.splits json.splits dest: ParseInt_is_int64)

lemma decode_hardware_bdev_sizes: "decode_hardware_bdev j = Some b \<Longrightarrow> bdev_sizes_ok b"
  by (auto simp: decode_hardware_bdev_def bdev_sizes_ok_def Option.bind_eq_Some_conv dest: decode_int64_is_int64)

lemma decode_list_mem: "decode_list f j = Some xs \<Longrightarrow> x \<in> set xs \<Longrightarrow> \<exists>j'. f j' = Some x"
  by (force simp: decode_list_def seq_opt_def list_all_iff split: option.splits json.splits if_splits)

lemma rpc_answer_bdevs_sizes:
  assumes "rpc_answer (decode_list decode_hardware_bdev) m a bdevs ev"
  shows "list_all bdev_sizes_ok bdevs"
proof -
  obtain j where "decode_list decode_hardware_bdev (Some j) = Some bdevs"
    using assms by (auto simp: rpc_answer_def rpc_decode_def split: option.splits bind_splits)
  then show ?thesis by (auto simp: list_all_iff dest!: decode_list_mem intro: decode_hardware_bdev_sizes)
qed

lemma spdk_device_Some:
  assumes "spdk_device policy bdev = Inr (Some d)" and "bdev_sizes_ok bdev"
  shows "device_safe policy d \<and> (\<exists>ns nss. sb_NVMe bdev = ns # nss \<and> sn_ID ns = primaryNamespaceID \<and>
    hw_Name d = sb_Name bdev \<and> hw_SerialNumber d = TrimSpace (sn_SerialNumber ns))"
  using assms
  by (auto simp: spdk_device_def device_safe_def bdev_sizes_ok_def Let_def
      split: list.splits if_splits sum.splits option.splits intro: advertised_units)

lemma hardwareFromSPDKBdevs_mem:
  "d \<in> set (fst (hardwareFromSPDKBdevs bdevs policy)) \<Longrightarrow> \<exists>b \<in> set bdevs. spdk_device policy b = Inr (Some d)"
proof -
  have "d \<in> set (fst (foldr (\<lambda>b. collect (spdk_device policy b)) bs ([], []))) \<Longrightarrow>
      \<exists>b \<in> set bs. spdk_device policy b = Inr (Some d)" for bs
    by (induction bs) (auto simp: collect_def split: sum.splits option.splits)
  then show "d \<in> set (fst (hardwareFromSPDKBdevs bdevs policy)) \<Longrightarrow> ?thesis"
    by (simp add: hardwareFromSPDKBdevs_def split: prod.splits)
qed

lemma discoverSPDKNVMeWithPolicy_post:
  "post (discoverSPDKNVMeWithPolicy (recording_host H) policy (w, t))
     (\<lambda>r t'. looked t t' \<and> list_all (\<lambda>d. device_safe policy d \<and> listed_by_spdk t' d) (fst r))"
proof -
  have listed: "device_safe policy d \<and> listed_by_spdk u d"
    if ev: "rpc_answer (decode_list decode_hardware_bdev) ''bdev_get_bdevs'' [] bdevs ev"
      and d: "d \<in> set (fst (hardwareFromSPDKBdevs bdevs policy))" and u: "ev \<in> set u" for u ev bdevs d
  proof -
    obtain b where b: "b \<in> set bdevs" "spdk_device policy b = Inr (Some d)"
      using hardwareFromSPDKBdevs_mem [OF d] by blast
    moreover have "bdev_sizes_ok b" using rpc_answer_bdevs_sizes [OF ev] b(1) by (auto simp: list_all_iff)
    ultimately show ?thesis using spdk_device_Some [OF b(2)] ev u by (fastforce simp: listed_by_spdk_def)
  qed
  have rpc: "post (CallSPDKRPC (decode_list decode_hardware_bdev) (recording_host H) ''bdev_get_bdevs'' [] (w', t'))
      (\<lambda>r t''. looked t' t'' \<and> (\<forall>x. r = Inr x \<longrightarrow>
        (\<exists>ev. t'' = t' @ [ev] \<and> rpc_answer (decode_list decode_hardware_bdev) ''bdev_get_bdevs'' [] x ev)))" for w' t'
    apply (rule post_weaken [OF CallSPDKRPC_post])
    subgoal for r t'' by (cases r) (auto simp: looked_def rpc_calls_def rpc_answer_def)
    done
  show ?thesis
    unfolding discoverSPDKNVMeWithPolicy_def
    by (intro vcg post_bindI [OF rpc]) (auto simp: list_all_iff dest: looked_from listed [where u = "t @ [RunEv pidof_command out None, ev]" for out ev])
qed

section \<open>The policy and the whole\<close>

definition policy_read :: "discoveryPolicy \<Rightarrow> host_event list \<Rightarrow> bool" where
  "policy_read policy t \<longleftrightarrow> (\<exists>a x u.
     GetenvEv ''NVME_ALLOWED_DEVICES'' a \<in> set t \<and> parsePCIAddressSet ''NVME_ALLOWED_DEVICES'' a = Inr (dp_allowed policy) \<and>
     GetenvEv ''NVME_EXCLUDE_DEVICES'' x \<in> set t \<and> parsePCIAddressSet ''NVME_EXCLUDE_DEVICES'' x = Inr (dp_excluded policy) \<and>
     GetenvEv unsafeMountInspectionEnv u \<in> set t \<and>
     dp_unsafeMountInspection policy = (u \<noteq> [] \<and> ParseBool u = Some True))"

lemma policy_readI:
  "parsePCIAddressSet ''NVME_ALLOWED_DEVICES'' a = Inr al \<Longrightarrow> parsePCIAddressSet ''NVME_EXCLUDE_DEVICES'' x = Inr ex \<Longrightarrow>
   unsafe = (u \<noteq> [] \<and> ParseBool u = Some True) \<Longrightarrow> GetenvEv ''NVME_ALLOWED_DEVICES'' a \<in> set t \<Longrightarrow>
   GetenvEv ''NVME_EXCLUDE_DEVICES'' x \<in> set t \<Longrightarrow> GetenvEv unsafeMountInspectionEnv u \<in> set t \<Longrightarrow>
   policy_read \<lparr>dp_allowed = al, dp_excluded = ex, dp_unsafeMountInspection = unsafe\<rparr> t"
  by (auto simp: policy_read_def)

lemma currentDiscoveryPolicy_post:
  "post (currentDiscoveryPolicy (recording_host H) (w, t))
     (\<lambda>r t'. looked t t' \<and> (\<forall>p. r = Inr p \<longrightarrow> policy_read p t'))"
  unfolding currentDiscoveryPolicy_def by (intro vcg) (auto simp: looked_def intro: policy_readI)

lemma policy_read_mono [evidence]: "policy_read p t \<Longrightarrow> set t \<subseteq> set t' \<Longrightarrow> policy_read p t'"
  unfolding policy_read_def by blast

definition serial_key :: "HardwareNVMe \<Rightarrow> string" where
  "serial_key d = ToLower (TrimSpace (hw_SerialNumber d))"

lemma append_unseen_spec:
  "append_unseen ds seen = (ds', seen') \<Longrightarrow>
     set ds' \<subseteq> set ds \<and> distinct (map serial_key ds') \<and> serial_key ` set ds' \<inter> set seen = {} \<and>
     set seen' = set seen \<union> serial_key ` set ds'"
proof (induction ds seen arbitrary: ds' seen' rule: append_unseen.induct)
  case (2 d ds seen)
  show ?case
  proof (cases "serial_key d \<noteq> [] \<and> serial_key d \<notin> set seen")
    case True
    obtain r s where rs: "append_unseen ds (serial_key d # seen) = (r, s)" by (cases "append_unseen ds (serial_key d # seen)")
    with True 2(3) have "ds' = d # r" "seen' = s" by (simp_all add: serial_key_def Let_def)
    with 2(1) [OF refl True [unfolded serial_key_def] rs [unfolded serial_key_def], folded serial_key_def] True
    show ?thesis by auto
  next
    case False
    with 2(3) have "append_unseen ds seen = (ds', seen')" by (auto simp: serial_key_def Let_def)
    with 2(2) [OF refl False [unfolded serial_key_def]] show ?thesis by auto
  qed
qed simp

definition discovery_ok :: "HardwareNVMe list \<times> error option \<Rightarrow> host_event list \<Rightarrow> bool" where
  "discovery_ok r t \<longleftrightarrow> list_all looks t \<and> distinct (map serial_key (fst r)) \<and>
     (fst r \<noteq> [] \<longrightarrow> (\<exists>policy. policy_read policy t \<and>
        list_all (\<lambda>d. device_safe policy d \<and>
          (dp_unsafeMountInspection policy \<or> unmounted_seen (hw_Name d) t \<or> listed_by_spdk t d)) (fst r)))"

text \<open>A pair that no call returned.\<close>

lemma post_caseI: "(\<And>a b. p = (a, b) \<Longrightarrow> post (f a b) Q) \<Longrightarrow> post (case p of (a, b) \<Rightarrow> f a b) Q"
  by (cases p) simp

section \<open>Properties\<close>

text \<open>C36: a discovery only looks: it reads files, directories, links and the environment, lists mounts and block
  devices and asks for the SPDK process. The devices it returns have distinct serial numbers; each has a name,
  a serial number, a PCI address that the policy just read permits and a capacity in whole allocation units, and
  it is either listed by SPDK or was seen without mounted file systems, unless the policy waives that.\<close>

theorem DiscoverNVMe_safe:
  "post (DiscoverNVMe (recording_host H) (w, [])) discovery_ok"
proof -
  have all: "discovery_ok (ks @ ss, err) t"
    if "append_unseen kds [] = (ks, seen)" "append_unseen sds seen = (ss, seen')" "policy_read policy t0" "looked [] t0"
      "looked t0 t1" "list_all (kernel_checked policy t1) kds"
      "looked t1 t" "list_all (\<lambda>d. device_safe policy d \<and> listed_by_spdk t d) sds"
    for kds ks seen sds ss seen' policy t0 t1 t err
  proof -
    note k = append_unseen_spec [OF that(1)] and s = append_unseen_spec [OF that(2)]
    have t: "policy_read policy t" "list_all looks t"
      using that(3,4,5,7) looked_trans [OF looked_trans [OF that(4,5)] that(7)]
      by (auto simp: looked_def intro: policy_read_mono)
    have "kernel_checked policy t d" if "d \<in> set ks" for d
      using that k \<open>list_all (kernel_checked policy t1) kds\<close> looked_set [OF \<open>looked t1 t\<close>]
      by (auto simp: list_all_iff intro: kernel_checked_mono)
    then have "list_all (\<lambda>d. device_safe policy d \<and>
        (dp_unsafeMountInspection policy \<or> unmounted_seen (hw_Name d) t \<or> listed_by_spdk t d)) (ks @ ss)"
      using s that(8) by (auto simp: list_all_iff kernel_checked_def)
    moreover have "distinct (map serial_key (ks @ ss))" using k s by (auto simp: disjoint_iff)
    ultimately show ?thesis using t unfolding discovery_ok_def fst_conv by blast
  qed
  show ?thesis
    unfolding DiscoverNVMe_def
    apply (intro vcg post_bindI [OF currentDiscoveryPolicy_post] post_bindI2 [OF discoverKernelNVMeWithPolicy_post])
     apply (auto simp: discovery_ok_def looked_def) [1]
    apply (rule post_caseI, intro post_bindI2 [OF discoverSPDKNVMeWithPolicy_post], rule post_caseI, intro vcg)
    apply (simp only: fst_conv sum.inject all_simps simp_thms, elim conjE, rule all, assumption+)
    done
qed

text \<open>C37: the capacity a device is advertised with is ninety-nine hundredths of its namespace, rounded down to whole
  allocation units, without overflow; it is refused exactly when the sizes are not positive, when the
  namespace is larger than 64 bits can say, or when no unit is left.\<close>

theorem advertised_capacity_exact:
  assumes "is_int64 numBlocks" and "is_int64 blockSize"
  shows "(\<exists>raw. checkedCapacityBytes name numBlocks blockSize = Inr raw \<and> allocatableNamespaceBytes name raw = Inr c) \<longleftrightarrow>
    0 < numBlocks \<and> 0 < blockSize \<and> numBlocks * blockSize \<le> MaxInt64 \<and> 0 < c \<and>
    c = numBlocks * blockSize * 99 div 100 div AllocationUnitBytes * AllocationUnitBytes"
proof -
  have "is_int64 (numBlocks * blockSize)"
    if "0 < numBlocks" "0 < blockSize" "numBlocks * blockSize \<le> MaxInt64"
    using that(3) mult_pos_pos [OF that(1,2)] unfolding is_int64_def MinInt64_def by linarith
  then show ?thesis
    unfolding checkedCapacityBytes_Inr [OF assms] using allocatableNamespaceBytes_Inr by blast
qed

theorem advertised_capacity_exact_witness:
  "\<exists>raw. checkedCapacityBytes ''nvme0n1'' 2097152 512 = Inr raw \<and>
     allocatableNamespaceBytes ''nvme0n1'' raw = Inr 1061158912"
proof -
  have i: "is_int64 2097152" "is_int64 512" by (simp_all add: is_int64_def MinInt64_def MaxInt64_def)
  show ?thesis
    unfolding advertised_capacity_exact [OF i] by (simp add: AllocationUnitBytes_def MaxInt64_def)
qed

end
