(* ===== verification/Plugins.thy ===== *)
theory Plugins
  imports Vol_Lvol Backend_Spdk Backend_Kernel Nvme_Discovery
begin

text \<open>
  The plugins of the agent as values: \<^verbatim>\<open>plugins/interface.go\<close>.

  An interface value is a record of its methods. \<open>tb_CheckExport\<close> is \<open>None\<close> for a backend that is not an
  \<^verbatim>\<open>ExportHealthChecker\<close>. The two registries are association lists from names; a registration of nil
  panics, which is \<open>None\<close>. \<open>agent_registry\<close> is what the \<^verbatim>\<open>init\<close> functions of the package leave, over a
  world that holds the SPDK process on record beside the machine.

  A volume manager promises that a volume it reports has an identifier and exactly the rounded size:
  the locale \<open>volume_carver\<close>, interpreted on both managers. \<open>recording_agent\<close> lists the calls of plugins
  among those of the cluster.
\<close>

section \<open>The interfaces\<close>

record 'w TargetBackend =
  tb_Name :: string
  tb_SetupDevice :: "string \<Rightarrow> string \<Rightarrow> strmap \<Rightarrow> 'w \<Rightarrow> error option \<times> 'w"
  tb_ExportVolume :: "string \<Rightarrow> string \<Rightarrow> string \<Rightarrow> int \<Rightarrow> strmap \<Rightarrow> 'w \<Rightarrow> (error + string) \<times> 'w"
  tb_UnexportVolume :: "string \<Rightarrow> 'w \<Rightarrow> error option \<times> 'w"
  tb_ReconcileHostAccess :: "string \<Rightarrow> string \<Rightarrow> 'w \<Rightarrow> error option \<times> 'w"
  tb_CheckExport :: "(string \<Rightarrow> string \<Rightarrow> string \<Rightarrow> int \<Rightarrow> strmap \<Rightarrow> 'w \<Rightarrow> error option \<times> 'w) option"

record 'w VolumeManager =
  vm_Name :: string
  vm_SetupStorage :: "string \<Rightarrow> string \<Rightarrow> 'w \<Rightarrow> error option \<times> 'w"
  vm_CreateVolume :: "string \<Rightarrow> string \<Rightarrow> string \<Rightarrow> int \<Rightarrow> 'w \<Rightarrow> (error + VolumeIdentity) \<times> 'w"
  vm_DeleteVolume :: "string \<Rightarrow> string \<Rightarrow> string \<Rightarrow> VolumeIdentity \<Rightarrow> 'w \<Rightarrow> error option \<times> 'w"

record 'w registry =
  rg_backends :: "(string \<times> 'w TargetBackend) list"
  rg_volumeManagers :: "(string \<times> 'w VolumeManager) list"

definition RegisterTargetBackend :: "'w TargetBackend option \<Rightarrow> 'w registry \<Rightarrow> 'w registry option" where
  "RegisterTargetBackend b rg =
     (case b of
        None \<Rightarrow> None
      | Some b \<Rightarrow> Some (rg\<lparr>rg_backends := (tb_Name b, b) # filter (\<lambda>(k, _). k \<noteq> tb_Name b) (rg_backends rg)\<rparr>))"

definition GetTargetBackend :: "'w registry \<Rightarrow> string \<Rightarrow> error + 'w TargetBackend" where
  "GetTargetBackend rg name =
     (case map_of (rg_backends rg) name of
        None \<Rightarrow> Inl (Errorf ''target backend %q not found'' [S name])
      | Some b \<Rightarrow> Inr b)"

definition RegisterVolumeManager :: "'w VolumeManager option \<Rightarrow> 'w registry \<Rightarrow> 'w registry option" where
  "RegisterVolumeManager vm rg =
     (case vm of
        None \<Rightarrow> None
      | Some vm \<Rightarrow>
          Some (rg\<lparr>rg_volumeManagers := (vm_Name vm, vm) # filter (\<lambda>(k, _). k \<noteq> vm_Name vm) (rg_volumeManagers rg)\<rparr>))"

definition GetVolumeManager :: "'w registry \<Rightarrow> string \<Rightarrow> error + 'w VolumeManager" where
  "GetVolumeManager rg name =
     (case map_of (rg_volumeManagers rg) name of
        None \<Rightarrow> Inl (Errorf ''volume manager %q not found'' [S name])
      | Some vm \<Rightarrow> Inr vm)"

section \<open>The plugins of the package\<close>

text \<open>The world of the agent: that of the machine, and the SPDK process on record.\<close>

type_synonym 'w node_world = "'w \<times> nat option"

definition on_host :: "('w \<Rightarrow> 'r \<times> 'w) \<Rightarrow> 'w node_world \<Rightarrow> 'r \<times> 'w node_world" where
  "on_host f s = (case s of (w, managed) \<Rightarrow> case f w of (r, w) \<Rightarrow> (r, (w, managed)))"

definition on_process ::
  "(nat option \<Rightarrow> 'w \<Rightarrow> ('r \<times> nat option) \<times> 'w) \<Rightarrow> 'w node_world \<Rightarrow> 'r \<times> 'w node_world" where
  "on_process f s = (case s of (w, managed) \<Rightarrow> case f managed w of ((r, managed), w) \<Rightarrow> (r, (w, managed)))"

definition SPDKBackend :: "nat list \<Rightarrow> 'w host \<Rightarrow> 'w node_world TargetBackend" where
  "SPDKBackend ord H = \<lparr>tb_Name = spdk_Name,
     tb_SetupDevice = (\<lambda>pci dev opts. on_process (\<lambda>managed. spdk_SetupDevice ord H managed pci dev opts)),
     tb_ExportVolume = (\<lambda>vol path ip port opts. on_process (\<lambda>managed. spdk_ExportVolume ord H managed vol path ip port opts)),
     tb_UnexportVolume = (\<lambda>nqn. on_host (spdk_UnexportVolume H nqn)),
     tb_ReconcileHostAccess = (\<lambda>nqn hostNQN. on_host (spdk_ReconcileHostAccess H nqn hostNQN)),
     tb_CheckExport = Some (\<lambda>nqn path ip port opts. on_process (\<lambda>managed. spdk_CheckExport ord H managed nqn path ip port opts))\<rparr>"

definition KernelBackend :: "nat list \<Rightarrow> 'w host \<Rightarrow> 'w node_world TargetBackend" where
  "KernelBackend ord H = \<lparr>tb_Name = kernel_Name,
     tb_SetupDevice = (\<lambda>pci dev opts. on_host (kernel_SetupDevice H pci dev opts)),
     tb_ExportVolume = (\<lambda>vol path ip port opts. on_host (kernel_ExportVolume ord ord H vol path ip port opts)),
     tb_UnexportVolume = (\<lambda>nqn. on_host (kernel_UnexportVolume H nqn)),
     tb_ReconcileHostAccess = (\<lambda>nqn hostNQN. on_host (kernel_ReconcileHostAccess H nqn hostNQN)),
     tb_CheckExport = Some (\<lambda>nqn path ip port opts. on_host (kernel_CheckExport ord H nqn path ip port opts))\<rparr>"

definition PartedVolumeManager :: "'w host \<Rightarrow> 'w node_world VolumeManager" where
  "PartedVolumeManager H = \<lparr>vm_Name = parted_Name,
     vm_SetupStorage = (\<lambda>path dev. on_host (parted_SetupStorage H path dev)),
     vm_CreateVolume = (\<lambda>path dev vol bytes. on_host (parted_CreateVolume H path dev vol bytes)),
     vm_DeleteVolume = (\<lambda>path dev vol identity. on_host (parted_DeleteVolume H path dev vol identity))\<rparr>"

definition SPDKLvolManager :: "'w host \<Rightarrow> 'w node_world VolumeManager" where
  "SPDKLvolManager H = \<lparr>vm_Name = lvol_Name,
     vm_SetupStorage = (\<lambda>path dev. on_host (lvol_SetupStorage H path dev)),
     vm_CreateVolume = (\<lambda>path dev vol bytes. on_host (lvol_CreateVolume H path dev vol bytes)),
     vm_DeleteVolume = (\<lambda>path dev vol identity. on_host (lvol_DeleteVolume H path dev vol identity))\<rparr>"

text \<open>The \<^verbatim>\<open>init\<close> functions, in the order of the files.\<close>

definition agent_registry :: "nat list \<Rightarrow> 'w host \<Rightarrow> 'w node_world registry option" where
  "agent_registry ord H =
     Option.bind (RegisterTargetBackend (Some (KernelBackend ord H)) \<lparr>rg_backends = [], rg_volumeManagers = []\<rparr>) (\<lambda>rg.
     Option.bind (RegisterTargetBackend (Some (SPDKBackend ord H)) rg) (\<lambda>rg.
     Option.bind (RegisterVolumeManager (Some (PartedVolumeManager H)) rg) (\<lambda>rg.
     RegisterVolumeManager (Some (SPDKLvolManager H)) rg)))"

section \<open>Registering and looking up\<close>

text \<open>What a client of a registry relies on: the last registration under a name is found, and others stay.\<close>

locale name_registry =
  fixes reg :: "'b option \<Rightarrow> 'r \<Rightarrow> 'r option" and find_plugin :: "'r \<Rightarrow> string \<Rightarrow> error + 'b" and plugin_name :: "'b \<Rightarrow> string"
  assumes reg_total: "reg (Some b) rg \<noteq> None"
    and find_same: "reg (Some b) rg = Some rg' \<Longrightarrow> find_plugin rg' (plugin_name b) = Inr b"
    and find_other: "reg (Some b) rg = Some rg' \<Longrightarrow> n \<noteq> plugin_name b \<Longrightarrow> find_plugin rg' n = find_plugin rg n"
begin

lemma find_registered_both:
  assumes "reg (Some a) rg = Some rg'" and "reg (Some b) rg' = Some rg''" and "plugin_name a \<noteq> plugin_name b"
  shows "find_plugin rg'' (plugin_name a) = Inr a" and "find_plugin rg'' (plugin_name b) = Inr b"
  using find_same [OF assms(1)] find_same [OF assms(2)] find_other [OF assms(2) assms(3)] by simp_all

end

interpretation backend_registry: name_registry RegisterTargetBackend GetTargetBackend tb_Name
  by unfold_locales (auto simp: RegisterTargetBackend_def GetTargetBackend_def map_of_filter_key)

interpretation manager_registry: name_registry RegisterVolumeManager GetVolumeManager vm_Name
  by unfold_locales (auto simp: RegisterVolumeManager_def GetVolumeManager_def map_of_filter_key)

lemma agent_registry_plugins:
  "\<exists>rg. agent_registry ord H = Some rg \<and>
     GetTargetBackend rg ''kernel'' = Inr (KernelBackend ord H) \<and> GetTargetBackend rg ''spdk'' = Inr (SPDKBackend ord H) \<and>
     GetVolumeManager rg ''parted'' = Inr (PartedVolumeManager H) \<and> GetVolumeManager rg ''spdk-lvol'' = Inr (SPDKLvolManager H)"
  by (simp add: agent_registry_def RegisterTargetBackend_def RegisterVolumeManager_def GetTargetBackend_def
      GetVolumeManager_def KernelBackend_def SPDKBackend_def PartedVolumeManager_def SPDKLvolManager_def
      kernel_Name_def spdk_Name_def parted_Name_def lvol_Name_def)

section \<open>What a volume manager promises\<close>

text \<open>A volume that is reported has an identifier, the given name, and exactly the rounded size.\<close>

definition carved_exactly :: "string \<Rightarrow> int \<Rightarrow> error + VolumeIdentity \<Rightarrow> bool" where
  "carved_exactly vol bytes r \<longleftrightarrow> (\<forall>i. r = Inr i \<longrightarrow>
     vi_BackendVolumeID i \<noteq> [] \<and> vi_VolumeName i = vol \<and> RoundUp bytes = Inr (vi_CapacityBytes i))"

lemma carved_exactlyD:
  assumes "carved_exactly vol bytes (Inr i)"
  shows "vi_BackendVolumeID i \<noteq> []" "vi_VolumeName i = vol" "RoundUp bytes = Inr (vi_CapacityBytes i)"
  using assms by (simp_all add: carved_exactly_def)

locale volume_carver =
  fixes create :: "'w host \<Rightarrow> string \<Rightarrow> string \<Rightarrow> string \<Rightarrow> int \<Rightarrow> 'w \<Rightarrow> (error + VolumeIdentity) \<times> 'w"
  assumes carves: "carved_exactly vol bytes (fst (create H path dev vol bytes w))"
begin

text \<open>The bytes reported hold the requested ones, in whole allocation units, and fit in 64 bits.\<close>

lemma capacity_sufficient:
  assumes "fst (create H path dev vol bytes w) = Inr i"
  shows "bytes \<le> vi_CapacityBytes i" "AllocationUnitBytes dvd vi_CapacityBytes i" "is_int64 (vi_CapacityBytes i)"
proof -
  have r: "RoundUp bytes = Inr (vi_CapacityBytes i)"
    by (rule carved_exactlyD(3) [where vol = vol]) (use carves [of vol bytes H path dev w] assms in simp)
  show "bytes \<le> vi_CapacityBytes i" "AllocationUnitBytes dvd vi_CapacityBytes i" "is_int64 (vi_CapacityBytes i)"
    using ru.round_InrD [OF r] ru.round_is_int64 [OF r] by auto
qed

end

lemma present_volume_carves:
  assumes "RoundUp bytes = Inr n"
  shows "carved_exactly vol bytes (fst (present_volume H path number n vol w))"
  using assms
  by (auto simp: carved_exactly_def present_volume_def parted_identity_def partitionPath_def Let_def
      split: prod.splits option.splits)

lemma carved_exactly_Inl [simp]: "carved_exactly vol bytes (Inl e)"
  by (simp add: carved_exactly_def)

lemma verify_created_bytes: "verify_created ps vol number s l bytes = Inr c \<Longrightarrow> c = bytes"
  by (auto simp: verify_created_def split: list.splits if_splits sum.splits)

interpretation parted: volume_carver parted_CreateVolume
proof
  fix vol :: string and bytes :: int and H :: "'a host" and path dev :: string and w :: 'a
  show "carved_exactly vol bytes (fst (parted_CreateVolume H path dev vol bytes w))"
    by (auto simp: parted_CreateVolume_def make_partition_def reuse_partition_def Let_def present_volume_carves
        split: prod.split sum.split list.split dest: verify_created_bytes)
qed

lemma lvolIdentity_carves:
  "RoundUp bytes = Inr n \<Longrightarrow> carved_exactly vol bytes (Inr (lvolIdentity b store vol n))"
  by (simp add: carved_exactly_def lvolIdentity_def)

lemma created_lvol_carves:
  "RoundUp bytes = Inr n \<Longrightarrow> carved_exactly vol bytes (created_lvol bdevs store vol uuid n)"
  by (auto simp: carved_exactly_def created_lvol_def lvolIdentity_def Let_def split: sum.splits)

interpretation lvol: volume_carver lvol_CreateVolume
proof
  fix vol :: string and bytes :: int and H :: "'a host" and path dev :: string and w :: 'a
  show "carved_exactly vol bytes (fst (lvol_CreateVolume H path dev vol bytes w))"
    by (auto simp: lvol_CreateVolume_def make_lvol_def Let_def lvolIdentity_carves created_lvol_carves
        split: prod.split sum.split)
qed

section \<open>Recording the calls of plugins\<close>

datatype plugin_event =
  SetupDeviceEv string string string strmap "error option"
| ExportEv string string string string int strmap "error + string"
| UnexportEv string string "error option"
| AccessEv string string string "error option"
| CheckEv string string string string int strmap "error option"
| SetupStorageEv string string string "error option"
| CreateVolumeEv string string string string int "error + VolumeIdentity"
| DeleteVolumeEv string string string string VolumeIdentity "error option"
| DiscoverEv "HardwareNVMe list" "error option"

type_synonym agent_event = "plugin_event event"

definition recording_backend :: "'w TargetBackend \<Rightarrow> ('w, agent_event) traced TargetBackend" where
  "recording_backend b = \<lparr>tb_Name = tb_Name b,
     tb_SetupDevice = (\<lambda>pci dev opts. record_call (\<lambda>r. Other (SetupDeviceEv (tb_Name b) pci dev opts r)) (tb_SetupDevice b pci dev opts)),
     tb_ExportVolume = (\<lambda>vol path ip port opts.
       record_call (\<lambda>r. Other (ExportEv (tb_Name b) vol path ip port opts r)) (tb_ExportVolume b vol path ip port opts)),
     tb_UnexportVolume = (\<lambda>nqn. record_call (\<lambda>r. Other (UnexportEv (tb_Name b) nqn r)) (tb_UnexportVolume b nqn)),
     tb_ReconcileHostAccess = (\<lambda>nqn h. record_call (\<lambda>r. Other (AccessEv (tb_Name b) nqn h r)) (tb_ReconcileHostAccess b nqn h)),
     tb_CheckExport = map_option (\<lambda>check nqn path ip port opts.
       record_call (\<lambda>r. Other (CheckEv (tb_Name b) nqn path ip port opts r)) (check nqn path ip port opts)) (tb_CheckExport b)\<rparr>"

definition recording_manager :: "'w VolumeManager \<Rightarrow> ('w, agent_event) traced VolumeManager" where
  "recording_manager vm = \<lparr>vm_Name = vm_Name vm,
     vm_SetupStorage = (\<lambda>path dev. record_call (\<lambda>r. Other (SetupStorageEv (vm_Name vm) path dev r)) (vm_SetupStorage vm path dev)),
     vm_CreateVolume = (\<lambda>path dev vol bytes.
       record_call (\<lambda>r. Other (CreateVolumeEv (vm_Name vm) path dev vol bytes r)) (vm_CreateVolume vm path dev vol bytes)),
     vm_DeleteVolume = (\<lambda>path dev vol i.
       record_call (\<lambda>r. Other (DeleteVolumeEv (vm_Name vm) path dev vol i r)) (vm_DeleteVolume vm path dev vol i))\<rparr>"

definition recording_registry :: "'w registry \<Rightarrow> ('w, agent_event) traced registry" where
  "recording_registry rg = \<lparr>rg_backends = map (\<lambda>(n, b). (n, recording_backend b)) (rg_backends rg),
     rg_volumeManagers = map (\<lambda>(n, vm). (n, recording_manager vm)) (rg_volumeManagers rg)\<rparr>"

lemma recording_names [simp]: "tb_Name (recording_backend b) = tb_Name b" "vm_Name (recording_manager vm) = vm_Name vm"
  by (simp_all add: recording_backend_def recording_manager_def)

lemma recording_check: "tb_CheckExport (recording_backend b) = map_option (\<lambda>check nqn path ip port opts.
       record_call (\<lambda>r. Other (CheckEv (tb_Name b) nqn path ip port opts r)) (check nqn path ip port opts)) (tb_CheckExport b)"
  by (simp add: recording_backend_def)

lemma recording_registry_find:
  "GetTargetBackend (recording_registry rg) n = map_sum id recording_backend (GetTargetBackend rg n)"
  "GetVolumeManager (recording_registry rg) n = map_sum id recording_manager (GetVolumeManager rg n)"
  by (simp_all add: GetTargetBackend_def GetVolumeManager_def recording_registry_def map_of_map split: option.split)

lemma plugin_calls [vcg]:
  "(\<And>r w. post (g r (w, t @ [Other (SetupDeviceEv (tb_Name b) pci dev opts r)])) Q) \<Longrightarrow>
   post (case tb_SetupDevice (recording_backend b) pci dev opts (w, t) of (r, s) \<Rightarrow> g r s) Q"
  "(\<And>r w. post (g1 r (w, t @ [Other (ExportEv (tb_Name b) vol path ip port opts r)])) Q) \<Longrightarrow>
   post (case tb_ExportVolume (recording_backend b) vol path ip port opts (w, t) of (r, s) \<Rightarrow> g1 r s) Q"
  "(\<And>r w. post (g r (w, t @ [Other (UnexportEv (tb_Name b) nqn r)])) Q) \<Longrightarrow>
   post (case tb_UnexportVolume (recording_backend b) nqn (w, t) of (r, s) \<Rightarrow> g r s) Q"
  "(\<And>r w. post (g r (w, t @ [Other (AccessEv (tb_Name b) nqn h r)])) Q) \<Longrightarrow>
   post (case tb_ReconcileHostAccess (recording_backend b) nqn h (w, t) of (r, s) \<Rightarrow> g r s) Q"
  "(\<And>r w. post (g r (w, t @ [Other (SetupStorageEv (vm_Name vm) path dev r)])) Q) \<Longrightarrow>
   post (case vm_SetupStorage (recording_manager vm) path dev (w, t) of (r, s) \<Rightarrow> g r s) Q"
  "(\<And>r w. post (g2 r (w, t @ [Other (CreateVolumeEv (vm_Name vm) path dev vol bytes r)])) Q) \<Longrightarrow>
   post (case vm_CreateVolume (recording_manager vm) path dev vol bytes (w, t) of (r, s) \<Rightarrow> g2 r s) Q"
  "(\<And>r w. post (g r (w, t @ [Other (DeleteVolumeEv (vm_Name vm) path dev vol i r)])) Q) \<Longrightarrow>
   post (case vm_DeleteVolume (recording_manager vm) path dev vol i (w, t) of (r, s) \<Rightarrow> g r s) Q"
  "(\<And>r w. post (g3 r (w, t @ [ev r])) Q) \<Longrightarrow> post (case record_call ev f (w, t) of (r, s) \<Rightarrow> g3 r s) Q"
  by (simp_all add: recording_backend_def recording_manager_def record_call_def split: prod.splits)

end
