(* ===== verification/Agent_Partitions.thy ===== *)
theory Agent_Partitions
  imports Plugins Placement_Auth Rdma_Health Volume_Identity
begin

text \<open>
  The agent of a storage node: \<^verbatim>\<open>internal/agent/partition_manager.go\<close>.

  The manager reconciles the partitions assigned to its node: it carves and exports a volume, keeps the
  export and the hosts that may reach it as they should be, and takes both down again. Its environment is
  the record \<open>agent\<close>: the client of the cluster, the registry of plugins, the discovery of devices
  (\<^verbatim>\<open>discoverProvisioningNVMe\<close> is a variable of the source) and the name of the node, all over one
  world. A method that changes the partition it was given returns it.
\<close>

section \<open>Constants and identities\<close>

definition partitionFinalizer :: string where
  "partitionFinalizer = ''storage.distort.io/partition-cleanup''"

definition claimAuthorizationCondition :: string where
  "claimAuthorizationCondition = ''ClaimAuthorized''"

definition placementNotAuthorizedReason :: string where
  "placementNotAuthorizedReason = ''PlacementNotAuthorized''"

definition partitionProvisioningCondition :: string where
  "partitionProvisioningCondition = ''ProvisioningReady''"

definition spdkTargetBackend :: string where
  "spdkTargetBackend = ''spdk''"

definition exportedHealthInterval :: int where
  "exportedHealthInterval = 15 * second_ns"

definition partitionRetryInterval :: int where
  "partitionRetryInterval = 5 * second_ns"

definition partitionHasTerminalFailure :: "'z apimachinery_scheme \<Rightarrow> NVMePartition \<Rightarrow> bool" where
  "partitionHasTerminalFailure K p =
     (case FindStatusCondition K (pst_Conditions (p_status p)) partitionProvisioningCondition of
        None \<Rightarrow> False
      | Some condition \<Rightarrow> cond_Status condition = ConditionFalse \<and>
          cond_ObservedGeneration condition = om_Generation (p_meta p) \<and>
          HasPrefix (cond_Reason condition) ''Terminal'')"

definition identitiesForPartition :: "NVMePartition \<Rightarrow> string \<times> string" where
  "identitiesForPartition p =
     (let derived = volumeidentity_New (p_Namespace p) (p_Name p) (p_UID p);
          externalID =
            (if pst_ExternalID (p_status p) \<noteq> [] then pst_ExternalID (p_status p)
             else case ExternalIDFromNQN (pst_NQN (p_status p)) of (legacyID, ok) \<Rightarrow>
               if ok then legacyID
               else (case derived of Inr d \<Rightarrow> id_ExternalID d | Inl _ \<Rightarrow> p_Name p));
          volumeID =
            (if pst_VolumeID (p_status p) \<noteq> [] then pst_VolumeID (p_status p)
             else (case derived of Inr d \<Rightarrow> id_VolumeHandle d | Inl _ \<Rightarrow> []))
      in (externalID, volumeID))"

definition backendVolumeIdentity :: "NVMePartitionStatus \<Rightarrow> VolumeIdentity" where
  "backendVolumeIdentity status =
     \<lparr>vi_BackendVolumeID = pst_BackendVolumeID status, vi_CapacityBytes = pst_AllocatedCapacity status,
      vi_BaseBdev = pst_SPDKBaseBdev status, vi_VolumeStoreName = pst_SPDKLvstoreName status,
      vi_VolumeStoreUUID = pst_SPDKLvstoreUUID status, vi_VolumeName = pst_SPDKLvolName status,
      vi_VolumeUUID = pst_SPDKLvolUUID status\<rparr>"

record 'w agent =
  ag_kube :: "'w kube"
  ag_plugins :: "'w registry"
  ag_DiscoverNVMe :: "'w \<Rightarrow> (HardwareNVMe list \<times> error option) \<times> 'w"
  ag_NodeName :: string

section \<open>Attachments\<close>

definition attachmentForPartition ::
  "'w agent \<Rightarrow> NVMePartition \<Rightarrow> 'w \<Rightarrow> (error + NVMeVolumeAttachment option) \<times> 'w" where
  "attachmentForPartition A p w =
     (case Get (attachments (ag_kube A)) (p_Namespace p, attachment_Name (p_UID p)) w of (r, w) \<Rightarrow>
      (case r of
         Inl err \<Rightarrow> (if IsNotFound err then Inr None else Inl err, w)
       | Inr a \<Rightarrow> (Inr (Some a), w)))"

definition setAttachmentCondition ::
  "'w agent \<Rightarrow> nname \<Rightarrow> string \<Rightarrow> ConditionStatus \<Rightarrow> string \<Rightarrow> message \<Rightarrow> 'w \<Rightarrow> error option \<times> 'w" where
  "setAttachmentCondition A key attachmentID conditionStatus reason msg w =
     (let K = ag_kube A in
      case Get (attachments K) key w of (r, w) \<Rightarrow>
      (case r of
         Inl err \<Rightarrow> (IgnoreNotFound err, w)
       | Inr latest \<Rightarrow>
           (case set_condition K (ast_Conditions (a_status latest))
                   (mk_Condition AccessReadyCondition conditionStatus (om_Generation (a_meta latest)) reason msg) w of
              (conditions, w) \<Rightarrow>
                (case StatusPatch (attachments K) latest
                        (latest\<lparr>a_status := \<lparr>ast_ObservedAttachmentID = (if conditionStatus = ConditionTrue then attachmentID else []),
                           ast_Conditions = conditions\<rparr>\<rparr>) w of
                   (r, w) \<Rightarrow> (err_of r, w)))))"

definition attachment_valid :: "'z apimachinery_scheme \<Rightarrow> NVMePartition \<Rightarrow> NVMeVolumeAttachment \<Rightarrow> bool" where
  "attachment_valid K p a \<longleftrightarrow> not_deleting (a_meta a) \<and> ContainsFinalizer K (a_meta a) attachment_Finalizer \<and>
     vr_Name (as_VolumeRef (a_spec a)) = p_Name p \<and> vr_UID (as_VolumeRef (a_spec a)) = p_UID p \<and>
     as_HostNQN (a_spec a) = HostNQN (as_NodeID (a_spec a))"

definition remove_attachment_finalizer :: "'w agent \<Rightarrow> NVMeVolumeAttachment \<Rightarrow> 'w \<Rightarrow> error option \<times> 'w" where
  "remove_attachment_finalizer A a w =
     (let K = ag_kube A in
      if ContainsFinalizer K (a_meta a) attachment_Finalizer
      then (case Patch (attachments K) a (a\<lparr>a_meta := RemoveFinalizer K (a_meta a) attachment_Finalizer\<rparr>) w of
              (r, w) \<Rightarrow> (err_of r, w))
      else (None, w))"

definition reconcileAttachmentAccess ::
  "'w agent \<Rightarrow> NVMePartition \<Rightarrow> 'w TargetBackend \<Rightarrow> 'w \<Rightarrow> error option \<times> 'w" where
  "reconcileAttachmentAccess A p backend w =
     (let K = ag_kube A in
      case attachmentForPartition A p w of (r, w) \<Rightarrow>
      (case r of
         Inl err \<Rightarrow> (Some err, w)
       | Inr attachment \<Rightarrow>
           (let desiredHost = (case attachment of
                  None \<Rightarrow> [] | Some a \<Rightarrow> if attachment_valid K p a then as_HostNQN (a_spec a) else [])
            in case tb_ReconcileHostAccess backend (pst_NQN (p_status p)) desiredHost w of (err, w) \<Rightarrow>
            (case err of
               Some e \<Rightarrow>
                 (case attachment of
                    None \<Rightarrow> (Some e, w)
                  | Some a \<Rightarrow>
                      if not_deleting (a_meta a)
                      then (case setAttachmentCondition A (object_key (a_meta a)) (as_AttachmentID (a_spec a))
                                   ConditionFalse ''TargetAccessFailed'' (ErrorText e) w of
                              (_, w) \<Rightarrow> (Some e, w))
                      else (Some e, w))
             | None \<Rightarrow>
                 (case attachment of
                    None \<Rightarrow> (None, w)
                  | Some a \<Rightarrow>
                      if \<not> not_deleting (a_meta a) then remove_attachment_finalizer A a w
                      else if \<not> attachment_valid K p a
                      then setAttachmentCondition A (object_key (a_meta a)) (as_AttachmentID (a_spec a)) ConditionFalse
                             ''AttachmentIdentityInvalid''
                             (Text ''Attachment volume or host identity does not match the partition'') w
                      else setAttachmentCondition A (object_key (a_meta a)) (as_AttachmentID (a_spec a)) ConditionTrue
                             ''TargetAccessAuthorized''
                             (Text ''Provider target exclusively authorizes the attached node host NQN'') w)))))"

definition releaseAttachmentAfterUnexport :: "'w agent \<Rightarrow> NVMePartition \<Rightarrow> 'w \<Rightarrow> error option \<times> 'w" where
  "releaseAttachmentAfterUnexport A p w =
     (let K = ag_kube A in
      case attachmentForPartition A p w of (r, w) \<Rightarrow>
      (case r of
         Inl err \<Rightarrow> (Some err, w)
       | Inr None \<Rightarrow> (None, w)
       | Inr (Some a) \<Rightarrow>
           if not_deleting (a_meta a)
           then (case Delete (attachments K) a w of (r, w) \<Rightarrow>
                 if (case r of Inl err \<Rightarrow> \<not> IsNotFound err | Inr _ \<Rightarrow> False) then (err_of r, w)
                 else (case Get (attachments K) (object_key (a_meta a)) w of (r, w) \<Rightarrow>
                       (case r of
                          Inl err \<Rightarrow> (IgnoreNotFound err, w)
                        | Inr a \<Rightarrow> remove_attachment_finalizer A a w)))
           else remove_attachment_finalizer A a w))"

section \<open>Status updates\<close>

text \<open>The function passed may set conditions, which reads the clock.\<close>

definition updatePartitionStatus ::
  "'w agent \<Rightarrow> nname \<Rightarrow> (NVMePartitionStatus \<Rightarrow> 'w \<Rightarrow> NVMePartitionStatus \<times> 'w) \<Rightarrow> 'w \<Rightarrow> error option \<times> 'w" where
  "updatePartitionStatus A key updateFn w =
     (let K = ag_kube A in
      case Get (partitions K) key w of (r, w) \<Rightarrow>
      (case r of
         Inl err \<Rightarrow> (Some err, w)
       | Inr latest \<Rightarrow>
           (case updateFn (p_status latest) w of (status, w) \<Rightarrow>
            (case StatusPatch (partitions K) latest (latest\<lparr>p_status := status\<rparr>) w of (r, w) \<Rightarrow> (err_of r, w)))))"

definition updateDeviceStatus ::
  "'w agent \<Rightarrow> nname \<Rightarrow> (NVMeDeviceStatus \<Rightarrow> NVMeDeviceStatus) \<Rightarrow> 'w \<Rightarrow> error option \<times> 'w" where
  "updateDeviceStatus A key updateFn w =
     (let K = ag_kube A in
      case Get (devices K) key w of (r, w) \<Rightarrow>
      (case r of
         Inl err \<Rightarrow> (Some err, w)
       | Inr latest \<Rightarrow>
           (case StatusPatch (devices K) latest (latest\<lparr>d_status := updateFn (d_status latest)\<rparr>) w of
              (r, w) \<Rightarrow> (err_of r, w))))"

text \<open>A status with one condition set, as most updates do.\<close>

definition with_condition ::
  "'w agent \<Rightarrow> Condition \<Rightarrow> NVMePartitionStatus \<Rightarrow> 'w \<Rightarrow> NVMePartitionStatus \<times> 'w" where
  "with_condition A c status w =
     (case set_condition (ag_kube A) (pst_Conditions status) c w of
        (conditions, w) \<Rightarrow> (status\<lparr>pst_Conditions := conditions\<rparr>, w))"

section \<open>Authorization\<close>

definition rdmaEndpoint :: "'w agent \<Rightarrow> 'w \<Rightarrow> (error + string) \<times> 'w" where
  "rdmaEndpoint A w =
     (let K = ag_kube A in
      case Get (rdmanodes K) ([], ag_NodeName A) w of (r, w) \<Rightarrow>
      (case r of
         Inl err \<Rightarrow> (Inl (Wrapf ''resolve RDMAStorageNode %s: %w'' [S (ag_NodeName A)] err), w)
       | Inr node \<Rightarrow>
           (case Now K w of (now, w) \<Rightarrow>
            (case rdmahealth_Validate K node now of
               Some err \<Rightarrow> (Inl err, w)
             | None \<Rightarrow> (Inr (ns_RDMAIP (n_spec node)), w)))))"

definition claimReferencesEqual :: "NVMeDeviceClaimReference option \<Rightarrow> NVMeDeviceClaimReference option \<Rightarrow> bool" where
  "claimReferencesEqual a b =
     (case (a, b) of
        (Some x, Some y) \<Rightarrow> ref_Namespace x = ref_Namespace y \<and> ref_Name x = ref_Name y \<and> ref_UID x = ref_UID y
      | _ \<Rightarrow> False)"

definition recovering :: "NVMePartition \<Rightarrow> bool" where
  "recovering p \<longleftrightarrow> pst_ExternalID (p_status p) \<noteq> [] \<or> pst_BackendVolumeID (p_status p) \<noteq> []"

text \<open>The checks of the claim and of the device, once they were read.\<close>

definition check_claim :: "NVMePartition \<Rightarrow> NVMeDeviceClaimReference \<Rightarrow> NVMeDeviceClaim \<Rightarrow> error option" where
  "check_claim p ref claim =
     (let key = S (key_String (ref_Namespace ref, ref_Name ref)) in
      if om_UID (c_meta claim) \<noteq> ref_UID ref
      then Some (Errorf ''NVMeDeviceClaim %s UID does not match the allocation'' [key])
      else if \<not> not_deleting (c_meta claim) then Some (Errorf ''NVMeDeviceClaim %s is being deleted'' [key])
      else if cst_MatchedDevice (c_status claim) = [] \<or> cst_NodeName (c_status claim) \<noteq> p_NodeName p \<or>
              \<not> EqualFold (cs_SerialNumber (c_spec claim)) (p_Serial p)
      then Some (Errorf ''NVMeDeviceClaim %s does not match the assigned device identity'' [key])
      else if \<not> cst_Active (c_status claim) \<and> \<not> recovering p
      then Some (Errorf ''NVMeDeviceClaim %s is not actively bound to NVMeDevice %s''
                   [key, S (cst_MatchedDevice (c_status claim))])
      else None)"

definition check_device :: "NVMePartition \<Rightarrow> NVMeDeviceClaimReference \<Rightarrow> NVMeDevice \<Rightarrow> error option" where
  "check_device p ref device =
     (if d_NodeName device \<noteq> p_NodeName p \<or> \<not> EqualFold (d_Serial device) (p_Serial p)
      then Some (Errorf ''NVMeDevice %s does not match the assigned node and serial'' [S (d_Name device)])
      else if dst_State (d_status device) \<noteq> DeviceClaimed \<and> \<not> recovering p
      then Some (Errorf ''NVMeDevice %s is not claimed'' [S (d_Name device)])
      else if \<not> claimReferencesEqual (dst_ClaimRef (d_status device)) (Some ref)
      then Some (Errorf ''NVMeDevice %s is owned by a different claim'' [S (d_Name device)])
      else None)"

definition verifyProvisioningAuthorization :: "'w agent \<Rightarrow> NVMePartition \<Rightarrow> 'w \<Rightarrow> (error + NVMeDevice) \<times> 'w" where
  "verifyProvisioningAuthorization A p w =
     (let K = ag_kube A; incomplete = Inl (Errorf ''NVMePartition %s has no complete owning claim reference'' [S (p_Name p)]) in
      if \<not> recovering p \<and> \<not> IsAuthorized K p
      then (Inl (Errorf ''NVMePartition %s placement was not authorized by the management controller'' [S (p_Name p)]), w)
      else (case ps_ClaimRef (p_spec p) of
        None \<Rightarrow> (incomplete, w)
      | Some ref \<Rightarrow>
          if ref_Namespace ref = [] \<or> ref_Name ref = [] \<or> ref_UID ref = [] then (incomplete, w)
          else if p_Serial p = []
          then (Inl (Errorf ''NVMePartition %s is missing ParentDeviceSerialNumber'' [S (p_Name p)]), w)
          else (case Get (claims K) (ref_Namespace ref, ref_Name ref) w of (r, w) \<Rightarrow>
               (case r of
                  Inl err \<Rightarrow> (Inl (Wrapf ''resolve owning NVMeDeviceClaim %s: %w''
                                 [S (key_String (ref_Namespace ref, ref_Name ref))] err), w)
                | Inr claim \<Rightarrow>
               (case check_claim p ref claim of
                  Some err \<Rightarrow> (Inl err, w)
                | None \<Rightarrow>
               (case Get (devices K) ([], cst_MatchedDevice (c_status claim)) w of (r, w) \<Rightarrow>
               (case r of
                  Inl err \<Rightarrow> (Inl (Wrapf ''resolve parent NVMeDevice %s: %w''
                                 [S (cst_MatchedDevice (c_status claim))] err), w)
                | Inr device \<Rightarrow>
               (case check_device p ref device of
                  Some err \<Rightarrow> (Inl err, w)
                | None \<Rightarrow> (Inr device, w)))))))))"

definition setClaimAuthorizationCondition ::
  "'w agent \<Rightarrow> NVMePartition \<Rightarrow> ConditionStatus \<Rightarrow> string \<Rightarrow> message \<Rightarrow> 'w \<Rightarrow> error option \<times> 'w" where
  "setClaimAuthorizationCondition A p conditionStatus reason msg w =
     updatePartitionStatus A (object_key (p_meta p))
       (with_condition A (mk_Condition claimAuthorizationCondition conditionStatus (om_Generation (p_meta p)) reason msg)) w"

definition rejectUnauthorizedProvisioning :: "'w agent \<Rightarrow> NVMePartition \<Rightarrow> error \<Rightarrow> 'w \<Rightarrow> result \<times> 'w" where
  "rejectUnauthorizedProvisioning A p err w =
     (let reason = (if pst_ExternalID (p_status p) = [] \<and> pst_BackendVolumeID (p_status p) = [] \<and>
                       \<not> IsAuthorized (ag_kube A) p
                    then placementNotAuthorizedReason else ''ClaimOwnershipInvalid'')
      in case setClaimAuthorizationCondition A p ConditionFalse reason (ErrorText err) w of (statusErr, w) \<Rightarrow>
         (case statusErr of Some e \<Rightarrow> (Inl e, w) | None \<Rightarrow> (Inr partitionRetryInterval, w)))"

section \<open>Failures\<close>

definition recordProvisioningFailure ::
  "'w agent \<Rightarrow> NVMePartition \<Rightarrow> string \<Rightarrow> error \<Rightarrow> bool \<Rightarrow> 'w \<Rightarrow> result \<times> 'w" where
  "recordProvisioningFailure A p reason err terminal w =
     (let reason = (if terminal then ''Terminal'' @ reason else ''Retryable'' @ reason) in
      case updatePartitionStatus A (object_key (p_meta p))
             (\<lambda>status. with_condition A (mk_Condition partitionProvisioningCondition ConditionFalse
                (om_Generation (p_meta p)) reason (ErrorText err)) (status\<lparr>pst_State := PartitionFailed\<rparr>)) w of
        (statusErr, w) \<Rightarrow>
          (case statusErr of
             Some e \<Rightarrow> (Inl e, w)
           | None \<Rightarrow> if terminal then (Inr 0, w) else (Inl err, w)))"

definition terminalProvisioningFailure :: "'w agent \<Rightarrow> NVMePartition \<Rightarrow> string \<Rightarrow> error \<Rightarrow> 'w \<Rightarrow> result \<times> 'w" where
  "terminalProvisioningFailure A p reason err = recordProvisioningFailure A p reason err True"

definition retryableProvisioningFailure :: "'w agent \<Rightarrow> NVMePartition \<Rightarrow> string \<Rightarrow> error \<Rightarrow> 'w \<Rightarrow> result \<times> 'w" where
  "retryableProvisioningFailure A p reason err = recordProvisioningFailure A p reason err False"

section \<open>Plugins and devices of a partition\<close>

record 'w resolvedPartitionPlugins =
  rp_targetBackendName :: string
  rp_volumeManagerName :: string
  rp_targetBackend :: "'w TargetBackend"
  rp_volumeManager :: "'w VolumeManager"

definition target_backend_name :: "NVMePartition \<Rightarrow> string" where
  "target_backend_name p = (if ps_TargetBackend (p_spec p) = [] then spdkTargetBackend else ps_TargetBackend (p_spec p))"

definition volume_manager_name :: "NVMePartition \<Rightarrow> string" where
  "volume_manager_name p =
     (if ps_VolumeManager (p_spec p) = [] \<or> ps_VolumeManager (p_spec p) = ''partition''
      then (if target_backend_name p = spdkTargetBackend then ''spdk-lvol'' else ''parted'')
      else ps_VolumeManager (p_spec p))"

text \<open>\<open>Inl\<close> carries the reason with the error.\<close>

definition resolvePartitionPlugins :: "'w registry \<Rightarrow> NVMePartition \<Rightarrow> (string \<times> error) + 'w resolvedPartitionPlugins" where
  "resolvePartitionPlugins rg p =
     (case GetTargetBackend rg (target_backend_name p) of
        Inl err \<Rightarrow> Inl (''InvalidBackend'', err)
      | Inr backend \<Rightarrow>
     (case GetVolumeManager rg (volume_manager_name p) of
        Inl err \<Rightarrow> Inl (''InvalidVolumeManager'', err)
      | Inr manager \<Rightarrow> Inr \<lparr>rp_targetBackendName = target_backend_name p, rp_volumeManagerName = volume_manager_name p,
          rp_targetBackend = backend, rp_volumeManager = manager\<rparr>))"

definition is_parent :: "NVMePartition \<Rightarrow> NVMeDevice \<Rightarrow> bool" where
  "is_parent p d \<longleftrightarrow> d_NodeName d = p_NodeName p \<and> EqualFold (d_Serial d) (p_Serial p)"

definition device_by_serial :: "'w agent \<Rightarrow> NVMePartition \<Rightarrow> 'w \<Rightarrow> (error + string) \<times> 'w" where
  "device_by_serial A p w =
     (case ListAll (devices (ag_kube A)) w of (r, w) \<Rightarrow>
      (case r of
         Inl err \<Rightarrow> (Inl (Wrapf ''list NVMeDevices during cleanup: %w'' [] err), w)
       | Inr ds \<Rightarrow>
           (case map d_Name (filter (is_parent p) ds) of
              [] \<Rightarrow> (Inr (ag_NodeName A @ ''-'' @ ToLower (p_Serial p)), w)
            | [m] \<Rightarrow> (Inr m, w)
            | matches \<Rightarrow> (Inl (Errorf ''found %d NVMeDevices for node %s and serial %s during cleanup, want exactly one''
                             [D (int (length matches)), S (p_NodeName p), S (p_Serial p)]), w))))"

definition assignedDeviceName :: "'w agent \<Rightarrow> NVMePartition \<Rightarrow> 'w \<Rightarrow> (error + string) \<times> 'w" where
  "assignedDeviceName A p w =
     (let complete = (case ps_ClaimRef (p_spec p) of
            None \<Rightarrow> None
          | Some ref \<Rightarrow> if ref_Namespace ref \<noteq> [] \<and> ref_Name ref \<noteq> [] \<and> ref_UID ref \<noteq> [] then Some ref else None) in
      case complete of
        None \<Rightarrow> device_by_serial A p w
      | Some ref \<Rightarrow>
          (case Get (claims (ag_kube A)) (ref_Namespace ref, ref_Name ref) w of (r, w) \<Rightarrow>
          (case r of
             Inr claim \<Rightarrow>
               if om_UID (c_meta claim) \<noteq> ref_UID ref
               then (Inl (Errorf ''NVMeDeviceClaim %s UID does not match the allocation''
                            [S (key_String (ref_Namespace ref, ref_Name ref))]), w)
               else if cst_MatchedDevice (c_status claim) \<noteq> [] \<and> cst_NodeName (c_status claim) = p_NodeName p \<and>
                       EqualFold (cs_SerialNumber (c_spec claim)) (p_Serial p)
               then (Inr (cst_MatchedDevice (c_status claim)), w)
               else device_by_serial A p w
           | Inl err \<Rightarrow>
               if \<not> IsNotFound err
               then (Inl (Wrapf ''resolve owning NVMeDeviceClaim %s during cleanup: %w''
                            [S (key_String (ref_Namespace ref, ref_Name ref))] err), w)
               else device_by_serial A p w)))"

definition same_serial :: "NVMePartition \<Rightarrow> HardwareNVMe \<Rightarrow> bool" where
  "same_serial p d \<longleftrightarrow> EqualFold (hw_SerialNumber d) (p_Serial p)"

definition block_path :: "HardwareNVMe \<Rightarrow> string" where
  "block_path d = ''/dev/'' @ hw_Name d @ ''n1''"

definition resolveDeletionDevice :: "'w agent \<Rightarrow> NVMePartition \<Rightarrow> string \<Rightarrow> 'w \<Rightarrow> (error + string \<times> string) \<times> 'w" where
  "resolveDeletionDevice A p targetBackendName w =
     (if targetBackendName = spdkTargetBackend then
        (if pst_SPDKBaseBdev (p_status p) \<noteq> []
         then (Inr (pst_SPDKBaseBdev (p_status p), pst_SPDKBaseBdev (p_status p)), w)
         else (case assignedDeviceName A p w of (r, w) \<Rightarrow>
               (case r of Inl err \<Rightarrow> (Inl err, w) | Inr name \<Rightarrow> (Inr (name, name), w))))
      else case ag_DiscoverNVMe A w of ((ds, err), w) \<Rightarrow>
        (case err of
           Some e \<Rightarrow> (Inl (Wrapf ''discover NVMe devices during teardown: %w'' [] e), w)
         | None \<Rightarrow>
             (case List.find (same_serial p) ds of
                Some d \<Rightarrow> (Inr (block_path d, hw_Name d), w)
              | None \<Rightarrow> (Inl (Errorf ''NVMe device with serial %s was not found during teardown'' [S (p_Serial p)]), w))))"

definition other_live_partition :: "NVMePartition \<Rightarrow> NVMePartition \<Rightarrow> bool" where
  "other_live_partition p candidate \<longleftrightarrow> p_Serial candidate = p_Serial p \<and>
     (p_Namespace candidate \<noteq> p_Namespace p \<or> p_Name candidate \<noteq> p_Name p) \<and> not_deleting (p_meta candidate)"

definition clearInactiveBackend :: "'w agent \<Rightarrow> NVMePartition \<Rightarrow> string \<Rightarrow> 'w \<Rightarrow> error option \<times> 'w" where
  "clearInactiveBackend A p targetBackendName w =
     (if targetBackendName = spdkTargetBackend then (None, w)
      else case ListAll (partitions (ag_kube A)) w of (r, w) \<Rightarrow>
        (case r of
           Inl err \<Rightarrow> (Some (Wrapf ''list NVMePartitions during teardown: %w'' [] err), w)
         | Inr ps \<Rightarrow>
             if list_ex (other_live_partition p) ps then (None, w)
             else (case assignedDeviceName A p w of (r, w) \<Rightarrow>
                   (case r of
                      Inl err \<Rightarrow> (Some err, w)
                    | Inr deviceName \<Rightarrow> updateDeviceStatus A ([], deviceName) (\<lambda>st. st\<lparr>dst_ActiveBackend := []\<rparr>) w))))"

section \<open>Deletion\<close>

text \<open>Deleting the volume itself, for a partition that was placed on a device.\<close>

definition delete_volume ::
  "'w agent \<Rightarrow> NVMePartition \<Rightarrow> 'w resolvedPartitionPlugins \<Rightarrow> string \<Rightarrow> 'w \<Rightarrow> error option \<times> 'w" where
  "delete_volume A p plug externalID w =
     (if p_Serial p = [] then (None, w)
      else case resolveDeletionDevice A p (rp_targetBackendName plug) w of (r, w) \<Rightarrow>
        (case r of
           Inl err \<Rightarrow> (Some err, w)
         | Inr device \<Rightarrow>
             (case vm_DeleteVolume (rp_volumeManager plug) (fst device) (snd device) externalID
                     (backendVolumeIdentity (p_status p)) w of (err, w) \<Rightarrow>
             (case err of
                Some e \<Rightarrow> (Some e, w)
              | None \<Rightarrow> clearInactiveBackend A p (rp_targetBackendName plug) w))))"

definition deletion_nqn :: "NVMePartition \<Rightarrow> string \<Rightarrow> string" where
  "deletion_nqn p externalID = (if pst_NQN (p_status p) = [] then NQN externalID else pst_NQN (p_status p))"

definition reconcilePartitionDeletion ::
  "'w agent \<Rightarrow> nname \<Rightarrow> NVMePartition \<Rightarrow> 'w resolvedPartitionPlugins \<Rightarrow> string \<Rightarrow> 'w \<Rightarrow> result \<times> 'w" where
  "reconcilePartitionDeletion A key p plug externalID w =
     (let K = ag_kube A in
      if \<not> ContainsFinalizer K (p_meta p) partitionFinalizer then (Inr 0, w)
      else case tb_UnexportVolume (rp_targetBackend plug) (deletion_nqn p externalID) w of (err, w) \<Rightarrow>
     (case err of
        Some e \<Rightarrow> (Inl e, w)
      | None \<Rightarrow>
     (case releaseAttachmentAfterUnexport A p w of (err, w) \<Rightarrow>
     (case err of
        Some e \<Rightarrow> (Inl e, w)
      | None \<Rightarrow>
     (case delete_volume A p plug externalID w of (err, w) \<Rightarrow>
     (case err of
        Some e \<Rightarrow> (Inl e, w)
      | None \<Rightarrow>
     (case Get (partitions K) key w of (r, w) \<Rightarrow>
     (case r of
        Inl err \<Rightarrow> (result_of (IgnoreNotFound err), w)
      | Inr latest \<Rightarrow>
          (case Patch (partitions K) latest (latest\<lparr>p_meta := RemoveFinalizer K (p_meta latest) partitionFinalizer\<rparr>) w of
             (r, w) \<Rightarrow> (result_of (err_of r), w))))))))))"

section \<open>Provisioning\<close>

definition ensurePartitionIdentityAndFinalizer ::
  "'w agent \<Rightarrow> nname \<Rightarrow> NVMePartition \<Rightarrow> string \<Rightarrow> string \<Rightarrow> 'w \<Rightarrow> (error + NVMePartition) \<times> 'w" where
  "ensurePartitionIdentityAndFinalizer A key p externalID volumeID w =
     (let K = ag_kube A;
          ids = (\<lambda>st. st\<lparr>pst_ExternalID := externalID, pst_VolumeID := volumeID\<rparr>);
          finish = (\<lambda>p w. if ContainsFinalizer K (p_meta p) partitionFinalizer then (Inr p, w)
                          else Patch (partitions K) p (p\<lparr>p_meta := AddFinalizer K (p_meta p) partitionFinalizer\<rparr>) w)
      in if pst_ExternalID (p_status p) \<noteq> externalID \<or> pst_VolumeID (p_status p) \<noteq> volumeID
         then (case updatePartitionStatus A key (\<lambda>st w. (ids st, w)) w of (err, w) \<Rightarrow>
               (case err of Some e \<Rightarrow> (Inl e, w) | None \<Rightarrow> finish (p\<lparr>p_status := ids (p_status p)\<rparr>) w))
         else finish p w)"

text \<open>\<open>None\<close> is an export that has to be made, \<open>Some\<close> the result of one that was looked after.\<close>

definition keep_access :: "'w agent \<Rightarrow> NVMePartition \<Rightarrow> 'w TargetBackend \<Rightarrow> 'w \<Rightarrow> result option \<times> 'w" where
  "keep_access A p backend w =
     (case reconcileAttachmentAccess A p backend w of (err, w) \<Rightarrow>
      (case err of Some e \<Rightarrow> (Some (Inl e), w) | None \<Rightarrow> (Some (Inr exportedHealthInterval), w)))"

definition reconcileExportedPartition :: "'w agent \<Rightarrow> NVMePartition \<Rightarrow> 'w TargetBackend \<Rightarrow> 'w \<Rightarrow> result option \<times> 'w" where
  "reconcileExportedPartition A p backend w =
     (if pst_State (p_status p) \<noteq> PartitionExported then (None, w)
      else case rdmaEndpoint A w of (r, w) \<Rightarrow>
     (case r of
        Inl err \<Rightarrow> (Some (Inl err), w)
      | Inr portalIP \<Rightarrow>
     (case tb_CheckExport backend of
        None \<Rightarrow> keep_access A p backend w
      | Some check \<Rightarrow>
          (case check (pst_NQN (p_status p)) (pst_BackendVolumeID (p_status p)) portalIP (pst_PortalPort (p_status p))
                  (ps_TargetOptions (p_spec p)) w of (err, w) \<Rightarrow>
          (case err of
             Some e \<Rightarrow> if IsExportObservationError e then (Some (Inr partitionRetryInterval), w) else (None, w)
           | None \<Rightarrow> keep_access A p backend w)))))"

definition findProvisioningDevice ::
  "'w agent \<Rightarrow> NVMePartition \<Rightarrow> string \<Rightarrow> 'w \<Rightarrow> ((string \<times> error) + string \<times> string) \<times> 'w" where
  "findProvisioningDevice A p targetBackendName w =
     (case ag_DiscoverNVMe A w of ((ds, err), w) \<Rightarrow>
      (case err of
         Some e \<Rightarrow> (Inl (''DiscoveryFailed'', Wrapf ''discover NVMe devices: %w'' [] e), w)
       | None \<Rightarrow>
           (case List.find (same_serial p) ds of
              Some d \<Rightarrow> (Inr (if targetBackendName = spdkTargetBackend then hw_Name d else block_path d, hw_Name d), w)
            | None \<Rightarrow> (Inl (''DeviceNotFound'',
                          Errorf ''NVMe device with serial %s not found on host'' [S (p_Serial p)]), w))))"

definition with_identity :: "VolumeIdentity \<Rightarrow> NVMePartitionStatus \<Rightarrow> NVMePartitionStatus" where
  "with_identity created st = st\<lparr>pst_BackendVolumeID := vi_BackendVolumeID created,
     pst_AllocatedCapacity := vi_CapacityBytes created, pst_SPDKBaseBdev := vi_BaseBdev created,
     pst_SPDKLvstoreName := vi_VolumeStoreName created, pst_SPDKLvstoreUUID := vi_VolumeStoreUUID created,
     pst_SPDKLvolName := vi_VolumeName created, pst_SPDKLvolUUID := vi_VolumeUUID created\<rparr>"

definition persistBackendVolumeIdentity ::
  "'w agent \<Rightarrow> nname \<Rightarrow> NVMePartition \<Rightarrow> VolumeIdentity \<Rightarrow> 'w \<Rightarrow> (error + NVMePartition) \<times> 'w" where
  "persistBackendVolumeIdentity A key p created w =
     (if backendVolumeIdentity (p_status p) = created then (Inr p, w)
      else case updatePartitionStatus A key (\<lambda>st w. (with_identity created st, w)) w of (err, w) \<Rightarrow>
        (case err of
           Some e \<Rightarrow> (Inl e, w)
         | None \<Rightarrow> (Inr (p\<lparr>p_status := with_identity created (p_status p)\<rparr>), w)))"

text \<open>What is wrong with a volume that was reported, with the reason of the terminal failure.\<close>

definition reject_created :: "string \<Rightarrow> int \<Rightarrow> VolumeIdentity \<Rightarrow> (string \<times> error) option" where
  "reject_created managerName requestedAllocation created =
     (if vi_BackendVolumeID created = []
      then Some (''InvalidVolumeIdentity'', Errorf ''volume manager %s returned an empty backend volume ID'' [S managerName])
      else if vi_CapacityBytes created < requestedAllocation
      then Some (''InsufficientAllocation'', Errorf ''volume manager %s allocated %d bytes, below required %d''
                   [S managerName, D (vi_CapacityBytes created), D requestedAllocation])
      else None)"

definition exported_status :: "'w agent \<Rightarrow> NVMePartition \<Rightarrow> string \<Rightarrow> string \<Rightarrow> NVMePartitionStatus \<Rightarrow> 'w \<Rightarrow> NVMePartitionStatus \<times> 'w" where
  "exported_status A p nqn portalIP status =
     with_condition A (mk_Condition partitionProvisioningCondition ConditionTrue (om_Generation (p_meta p)) ''Provisioned''
         (Text ''The NVMe partition is provisioned and exported''))
       (status\<lparr>pst_State := PartitionExported, pst_NQN := nqn, pst_PortalIP := portalIP, pst_PortalPort := 4420\<rparr>)"

definition export_volume ::
  "'w agent \<Rightarrow> nname \<Rightarrow> NVMePartition \<Rightarrow> 'w resolvedPartitionPlugins \<Rightarrow> string \<Rightarrow> VolumeIdentity \<Rightarrow> 'w \<Rightarrow> result \<times> 'w" where
  "export_volume A key p plug externalID created w =
     (case rdmaEndpoint A w of (r, w) \<Rightarrow>
     (case r of
        Inl err \<Rightarrow> retryableProvisioningFailure A p ''RDMAEndpointUnavailable'' err w
      | Inr portalIP \<Rightarrow>
     (case verifyProvisioningAuthorization A p w of (r, w) \<Rightarrow>
     (case r of
        Inl err \<Rightarrow> rejectUnauthorizedProvisioning A p err w
      | Inr _ \<Rightarrow>
     (case tb_ExportVolume (rp_targetBackend plug) externalID (vi_BackendVolumeID created) portalIP 4420
             (ps_TargetOptions (p_spec p)) w of (r, w) \<Rightarrow>
     (case r of
        Inl err \<Rightarrow> retryableProvisioningFailure A p ''ExportFailed'' err w
      | Inr nqn \<Rightarrow>
     (case updatePartitionStatus A key (exported_status A p nqn portalIP) w of (err, w) \<Rightarrow>
     (case err of Some e \<Rightarrow> (Inl e, w) | None \<Rightarrow> (Inr exportedHealthInterval, w)))))))))"

definition carve_volume ::
  "'w agent \<Rightarrow> nname \<Rightarrow> NVMePartition \<Rightarrow> 'w resolvedPartitionPlugins \<Rightarrow> string \<Rightarrow> int \<Rightarrow> string \<Rightarrow> string \<Rightarrow> 'w \<Rightarrow> result \<times> 'w" where
  "carve_volume A key p plug externalID requestedAllocation devicePath deviceName w =
     (case vm_SetupStorage (rp_volumeManager plug) devicePath deviceName w of (err, w) \<Rightarrow>
     (case err of
        Some e \<Rightarrow> retryableProvisioningFailure A p ''StorageSetupFailed'' e w
      | None \<Rightarrow>
     (case verifyProvisioningAuthorization A p w of (r, w) \<Rightarrow>
     (case r of
        Inl err \<Rightarrow> rejectUnauthorizedProvisioning A p err w
      | Inr _ \<Rightarrow>
     (case vm_CreateVolume (rp_volumeManager plug) devicePath deviceName externalID (ps_Size (p_spec p)) w of (r, w) \<Rightarrow>
     (case r of
        Inl err \<Rightarrow> retryableProvisioningFailure A p ''VolumeCreationFailed'' err w
      | Inr created \<Rightarrow>
     (case reject_created (rp_volumeManagerName plug) requestedAllocation created of
        Some failure \<Rightarrow> terminalProvisioningFailure A p (fst failure) (snd failure) w
      | None \<Rightarrow>
     (case persistBackendVolumeIdentity A key p created w of (r, w) \<Rightarrow>
     (case r of
        Inl err \<Rightarrow> (Inl err, w)
      | Inr p \<Rightarrow> export_volume A key p plug externalID created w)))))))))"

definition activate_backend :: "'w agent \<Rightarrow> NVMeDevice \<Rightarrow> string \<Rightarrow> 'w \<Rightarrow> error option \<times> 'w" where
  "activate_backend A device targetBackendName w =
     (if dst_ActiveBackend (d_status device) = []
      then updateDeviceStatus A ([], d_Name device) (\<lambda>st. st\<lparr>dst_ActiveBackend := targetBackendName\<rparr>) w
      else (None, w))"

definition provisionPartition ::
  "'w agent \<Rightarrow> nname \<Rightarrow> NVMePartition \<Rightarrow> 'w resolvedPartitionPlugins \<Rightarrow> string \<Rightarrow> int \<Rightarrow> 'w \<Rightarrow> result \<times> 'w" where
  "provisionPartition A key p plug externalID requestedAllocation w =
     (case verifyProvisioningAuthorization A p w of (r, w) \<Rightarrow>
     (case r of
        Inl err \<Rightarrow> rejectUnauthorizedProvisioning A p err w
      | Inr device \<Rightarrow>
     (case rdmaEndpoint A w of (r, w) \<Rightarrow>
     (case r of
        Inl err \<Rightarrow> retryableProvisioningFailure A p ''RDMAEndpointUnavailable'' err w
      | Inr _ \<Rightarrow>
          if dst_ActiveBackend (d_status device) \<noteq> [] \<and> dst_ActiveBackend (d_status device) \<noteq> rp_targetBackendName plug
          then retryableProvisioningFailure A p ''BackendBusy''
                 (Errorf ''device is currently locked to backend %s, requested %s''
                    [S (dst_ActiveBackend (d_status device)), S (rp_targetBackendName plug)]) w
          else
     (case tb_SetupDevice (rp_targetBackend plug) (ds_PCIAddress (d_spec device)) (d_Name device)
             (ps_TargetOptions (p_spec p)) w of (err, w) \<Rightarrow>
     (case err of
        Some e \<Rightarrow> retryableProvisioningFailure A p ''DeviceSetupFailed'' e w
      | None \<Rightarrow>
     (case findProvisioningDevice A p (rp_targetBackendName plug) w of (r, w) \<Rightarrow>
     (case r of
        Inl failure \<Rightarrow> retryableProvisioningFailure A p (fst failure) (snd failure) w
      | Inr found \<Rightarrow>
     (case verifyProvisioningAuthorization A p w of (r, w) \<Rightarrow>
     (case r of
        Inl err \<Rightarrow> rejectUnauthorizedProvisioning A p err w
      | Inr _ \<Rightarrow>
     (case activate_backend A device (rp_targetBackendName plug) w of (err, w) \<Rightarrow>
     (case err of
        Some e \<Rightarrow> retryableProvisioningFailure A p ''DeviceStatusUpdateFailed'' e w
      | None \<Rightarrow> carve_volume A key p plug externalID requestedAllocation (fst found) (snd found) w))))))))))))"

section \<open>Reconcile\<close>

text \<open>A partition that is to exist, once its plugins are known.\<close>

definition reconcile_live ::
  "'w agent \<Rightarrow> nname \<Rightarrow> NVMePartition \<Rightarrow> 'w resolvedPartitionPlugins \<Rightarrow> 'w \<Rightarrow> result \<times> 'w" where
  "reconcile_live A key p plug w =
     (case identitiesForPartition p of (externalID, volumeID) \<Rightarrow>
     (case storageoptions_Validate (rp_targetBackendName plug) (ps_TargetOptions (p_spec p)) of
        Some err \<Rightarrow> terminalProvisioningFailure A p ''InvalidOptions'' err w
      | None \<Rightarrow>
     (case RoundUp (ps_Size (p_spec p)) of
        Inl err \<Rightarrow> terminalProvisioningFailure A p ''InvalidCapacity''
                     (Wrapf ''invalid partition capacity %q: %w'' [D (ps_Size (p_spec p))] err) w
      | Inr requestedAllocation \<Rightarrow>
     (case verifyProvisioningAuthorization A p w of (r, w) \<Rightarrow>
     (case r of
        Inl err \<Rightarrow> rejectUnauthorizedProvisioning A p err w
      | Inr _ \<Rightarrow>
     (case setClaimAuthorizationCondition A p ConditionTrue ''ClaimOwnershipVerified''
             (Text ''The live owning claim authorizes this allocation'') w of (err, w) \<Rightarrow>
     (case err of
        Some e \<Rightarrow> (Inl e, w)
      | None \<Rightarrow>
     (case ensurePartitionIdentityAndFinalizer A key p externalID volumeID w of (r, w) \<Rightarrow>
     (case r of
        Inl err \<Rightarrow> (Inl err, w)
      | Inr p \<Rightarrow>
     (case reconcileExportedPartition A p (rp_targetBackend plug) w of (handled, w) \<Rightarrow>
     (case handled of
        Some r \<Rightarrow> (r, w)
      | None \<Rightarrow> provisionPartition A key p plug externalID requestedAllocation w)))))))))))"

definition agent_Reconcile :: "'w agent \<Rightarrow> nname \<Rightarrow> 'w \<Rightarrow> result \<times> 'w" where
  "agent_Reconcile A key w =
     (let K = ag_kube A in
      case Get (partitions K) key w of (r, w) \<Rightarrow>
     (case r of
        Inl err \<Rightarrow> (result_of (IgnoreNotFound err), w)
      | Inr p \<Rightarrow>
          if p_NodeName p \<noteq> ag_NodeName A then (Inr 0, w)
          else let deleting = om_DeletionTimestamp (p_meta p) \<noteq> None in
          if \<not> deleting \<and> partitionHasTerminalFailure K p then (Inr 0, w)
          else case resolvePartitionPlugins (ag_plugins A) p of
            Inl failure \<Rightarrow>
              if \<not> deleting then terminalProvisioningFailure A p (fst failure) (snd failure) w else (Inl (snd failure), w)
          | Inr plug \<Rightarrow>
              if deleting then reconcilePartitionDeletion A key p plug (fst (identitiesForPartition p)) w
              else reconcile_live A key p plug w))"

text \<open>The watch mapping: an attachment enqueues the partition it refers to.\<close>

definition attachment_requests :: "NVMeVolumeAttachment \<Rightarrow> nname list" where
  "attachment_requests a =
     (if vr_Name (as_VolumeRef (a_spec a)) = [] then []
      else [(om_Namespace (a_meta a), vr_Name (as_VolumeRef (a_spec a)))])"

end
