(* ===== verification/Agent_Calls.thy ===== *)
theory Agent_Calls
  imports Agent_Partitions
begin

text \<open>
  What the agent of a storage node does, call by call (\<^verbatim>\<open>internal/agent/partition_manager.go\<close>).

  Every call of a reconciliation is justified by the calls before it: volumes are carved and exported only
  for an admitted partition whose owner was checked since the last call of a plugin, on the sizes and identities that
  were reported; a host is let in only for a live attachment of this very partition, read right before; the
  finalizers go only when the target and the volume are gone; and nothing else is written.
\<close>

section \<open>Following the calls\<close>

definition recording_agent :: "'w agent \<Rightarrow> ('w, agent_event) traced agent" where
  "recording_agent A = \<lparr>ag_kube = recording (ag_kube A), ag_plugins = recording_registry (ag_plugins A),
     ag_DiscoverNVMe = record_call (\<lambda>r. Other (DiscoverEv (fst r) (snd r))) (ag_DiscoverNVMe A),
     ag_NodeName = ag_NodeName A\<rparr>"

lemma recording_agent_sel [simp]:
  "ag_kube (recording_agent A) = recording (ag_kube A)"
  "ag_plugins (recording_agent A) = recording_registry (ag_plugins A)"
  "ag_NodeName (recording_agent A) = ag_NodeName A"
  by (simp_all add: recording_agent_def)

lemma discover_call [vcg]:
  "(\<And>ds e w. post (g ds e (w, t @ [Other (DiscoverEv ds e)])) Q) \<Longrightarrow>
   post (case ag_DiscoverNVMe (recording_agent A) (w, t) of ((ds, e), s) \<Rightarrow> g ds e s) Q"
  by (auto simp: recording_agent_def record_call_def split: prod.splits)

text \<open>The run began with reading the partition \<open>q\<close>; \<open>p\<close> is it, or the answer to a write, up to its identities.\<close>

definition opened :: "nname \<Rightarrow> NVMePartition \<Rightarrow> agent_event list \<Rightarrow> bool" where
  "opened key q t \<longleftrightarrow> (\<exists>v. t = Partitions (GetCall key (Inr q)) # v)"

definition same_object :: "NVMePartition \<Rightarrow> NVMePartition \<Rightarrow> bool" where
  "same_object p q \<longleftrightarrow> p_meta p = p_meta q \<and> p_spec p = p_spec q \<and>
     pst_NQN (p_status p) = pst_NQN (p_status q) \<and> pst_State (p_status p) = pst_State (p_status q)"

definition answered :: "nname \<Rightarrow> NVMePartition \<Rightarrow> agent_event list \<Rightarrow> bool" where
  "answered key q t \<longleftrightarrow> opened key q t \<or>
     (\<exists>q0 b x. opened key q0 t \<and> same_object b q0 \<and> Partitions (PatchCall b x (Inr q)) \<in> set t)"

definition known :: "nname \<Rightarrow> NVMePartition \<Rightarrow> agent_event list \<Rightarrow> bool" where
  "known key p t \<longleftrightarrow> (\<exists>q. answered key q t \<and> same_object p q)"

text \<open>The volume that the status records, or that the partition came with.\<close>

definition recorded :: "nname \<Rightarrow> VolumeIdentity \<Rightarrow> agent_event list \<Rightarrow> bool" where
  "recorded key i t \<longleftrightarrow> (\<exists>q. answered key q t \<and> backendVolumeIdentity (p_status q) = i) \<or>
     (\<exists>b x q. Partitions (StatusPatchCall b x (Inr q)) \<in> set t \<and> backendVolumeIdentity (p_status x) = i)"

text \<open>The claim owns the device for the partition: both are on its node and have its serial number, the claim is the very
  one of the reference, complete and not being deleted, and the device is bound to it.\<close>

definition owns :: "NVMePartition \<Rightarrow> NVMeDeviceClaimReference \<Rightarrow> NVMeDeviceClaim \<Rightarrow> NVMeDevice \<Rightarrow> bool" where
  "owns p ref claim d \<longleftrightarrow> ref_Namespace ref \<noteq> [] \<and> ref_Name ref \<noteq> [] \<and> ref_UID ref \<noteq> [] \<and> p_Serial p \<noteq> [] \<and>
     om_UID (c_meta claim) = ref_UID ref \<and> not_deleting (c_meta claim) \<and> cst_MatchedDevice (c_status claim) \<noteq> [] \<and>
     cst_NodeName (c_status claim) = p_NodeName p \<and> d_NodeName d = p_NodeName p \<and>
     EqualFold (cs_SerialNumber (c_spec claim)) (p_Serial p) \<and> EqualFold (d_Serial d) (p_Serial p) \<and>
     dst_ClaimRef (d_status d) = Some ref"

definition is_plugin :: "agent_event \<Rightarrow> bool" where
  "is_plugin ev = (case ev of Other _ \<Rightarrow> True | _ \<Rightarrow> False)"

definition calm :: "agent_event list \<Rightarrow> agent_event list \<Rightarrow> bool" where
  "calm t t' \<longleftrightarrow> (\<exists>u. t' = t @ u \<and> list_all (\<lambda>ev. \<not> is_plugin ev) u)"

definition checks_read :: "NVMeDeviceClaimReference \<Rightarrow> NVMeDeviceClaim \<Rightarrow> NVMeDevice \<Rightarrow> agent_event list" where
  "checks_read ref claim d = [Claims (GetCall (ref_Namespace ref, ref_Name ref) (Inr claim)),
     Devices (GetCall ([], cst_MatchedDevice (c_status claim)) (Inr d))]"

text \<open>Before any plugin was called, the claim and the device of \<open>q\<close> were read and found in order, and \<open>q\<close> itself was
  admitted: it had been provisioned before, or its placement was authorized by the controller, the claim was active
  and the device claimed. Once its identities are recorded, a partition counts as provisioned before, so that the
  later checks of the same run look at the claim and the device only.\<close>

definition vetted :: "'w kube \<Rightarrow> NVMePartition \<Rightarrow> agent_event list \<Rightarrow> bool" where
  "vetted K q t \<longleftrightarrow> (\<exists>u ref claim d. prefix (u @ checks_read ref claim d) t \<and> list_all (\<lambda>ev. \<not> is_plugin ev) u \<and>
     ps_ClaimRef (p_spec q) = Some ref \<and> owns q ref claim d \<and>
     (recovering q \<or> IsAuthorized K q \<and> cst_Active (c_status claim) \<and> dst_State (d_status d) = DeviceClaimed))"

definition admitted :: "'w agent \<Rightarrow> nname \<Rightarrow> NVMePartition \<Rightarrow> agent_event list \<Rightarrow> bool" where
  "admitted A key q t \<longleftrightarrow> opened key q t \<and> vetted (ag_kube A) q t"

text \<open>The claim and the device were read and found in order, and no plugin was called since.\<close>

definition still_owned :: "NVMePartition \<Rightarrow> NVMeDevice \<Rightarrow> agent_event list \<Rightarrow> bool" where
  "still_owned p d t \<longleftrightarrow> (\<exists>u ref claim. calm (u @ checks_read ref claim d) t \<and>
     ps_ClaimRef (p_spec p) = Some ref \<and> owns p ref claim d)"

text \<open>The partition \<open>p\<close> is fit for a call of a plugin that works on the device \<open>d\<close>.\<close>

definition authorized :: "'w agent \<Rightarrow> nname \<Rightarrow> NVMePartition \<Rightarrow> NVMeDevice \<Rightarrow> agent_event list \<Rightarrow> bool" where
  "authorized A key p d t \<longleftrightarrow> (\<exists>q. admitted A key q t) \<and> known key p t \<and> still_owned p d t"

definition endpoint_read :: "'w agent \<Rightarrow> string \<Rightarrow> agent_event list \<Rightarrow> bool" where
  "endpoint_read A ip t \<longleftrightarrow> (\<exists>node now. RdmaNodes (GetCall ([], ag_NodeName A) (Inr node)) \<in> set t \<and>
     rdmahealth_Validate (ag_kube A) node now = None \<and> ip = ns_RDMAIP (n_spec node))"

text \<open>A volume was carved for the partition read first, large enough for it.\<close>

definition carved_for :: "nname \<Rightarrow> string \<Rightarrow> VolumeIdentity \<Rightarrow> agent_event list \<Rightarrow> bool" where
  "carved_for key vol i t \<longleftrightarrow> (\<exists>q m path dev bytes req. opened key q t \<and> vol = fst (identitiesForPartition q) \<and>
     Other (CreateVolumeEv m path dev vol bytes (Inr i)) \<in> set t \<and> vi_BackendVolumeID i \<noteq> [] \<and>
     RoundUp (ps_Size (p_spec q)) = Inr req \<and> req \<le> vi_CapacityBytes i)"

definition export_due ::
  "'w agent \<Rightarrow> nname \<Rightarrow> string \<Rightarrow> string \<Rightarrow> string \<Rightarrow> int \<Rightarrow> strmap \<Rightarrow> agent_event list \<Rightarrow> bool" where
  "export_due A key vol path ip port opts t \<longleftrightarrow> (\<exists>p d i. authorized A key p d t \<and>
     opts = ps_TargetOptions (p_spec p) \<and> port = 4420 \<and> endpoint_read A ip t \<and>
     carved_for key vol i t \<and> path = vi_BackendVolumeID i \<and> recorded key i t)"

definition device_due :: "'w agent \<Rightarrow> nname \<Rightarrow> string \<Rightarrow> string \<Rightarrow> strmap \<Rightarrow> agent_event list \<Rightarrow> bool" where
  "device_due A key pci dev opts t \<longleftrightarrow> (\<exists>p d. authorized A key p d t \<and>
     pci = ds_PCIAddress (d_spec d) \<and> dev = d_Name d \<and> opts = ps_TargetOptions (p_spec p))"

text \<open>The device was discovered on this machine, by the serial number of the partition.\<close>

definition on_device :: "NVMePartition \<Rightarrow> string \<Rightarrow> string \<Rightarrow> agent_event list \<Rightarrow> bool" where
  "on_device p path dev t \<longleftrightarrow> (\<exists>ds h. Other (DiscoverEv ds None) \<in> set t \<and> List.find (same_serial p) ds = Some h \<and>
     dev = hw_Name h \<and> (path = hw_Name h \<or> path = block_path h))"

definition storage_due :: "'w agent \<Rightarrow> nname \<Rightarrow> string \<Rightarrow> string \<Rightarrow> agent_event list \<Rightarrow> bool" where
  "storage_due A key path dev t \<longleftrightarrow> (\<exists>p d. authorized A key p d t \<and> on_device p path dev t)"

definition volume_due :: "'w agent \<Rightarrow> nname \<Rightarrow> string \<Rightarrow> string \<Rightarrow> string \<Rightarrow> int \<Rightarrow> agent_event list \<Rightarrow> bool" where
  "volume_due A key path dev vol bytes t \<longleftrightarrow> (\<exists>p d q. authorized A key p d t \<and> on_device p path dev t \<and>
     bytes = ps_Size (p_spec p) \<and> opened key q t \<and> vol = fst (identitiesForPartition q))"

text \<open>A status says that the partition is exported only if it did before or the export was just made.\<close>

definition exported_due :: "NVMePartition \<Rightarrow> NVMePartition \<Rightarrow> agent_event list \<Rightarrow> bool" where
  "exported_due b x t \<longleftrightarrow> pst_State (p_status x) = PartitionExported \<longrightarrow>
     pst_State (p_status b) = PartitionExported \<and> pst_NQN (p_status x) = pst_NQN (p_status b) \<or>
     (\<exists>n vol path opts. Other (ExportEv n vol path (pst_PortalIP (p_status x)) (pst_PortalPort (p_status x)) opts
        (Inr (pst_NQN (p_status x)))) \<in> set t)"

definition provision_call_ok :: "'w agent \<Rightarrow> nname \<Rightarrow> agent_event list \<Rightarrow> agent_event \<Rightarrow> bool" where
  "provision_call_ok A key t ev \<longleftrightarrow>
     (case ev of
        Other e \<Rightarrow>
          (case e of
             SetupDeviceEv n pci dev opts r \<Rightarrow> device_due A key pci dev opts t
           | SetupStorageEv m path dev r \<Rightarrow> storage_due A key path dev t
           | CreateVolumeEv m path dev vol bytes r \<Rightarrow> volume_due A key path dev vol bytes t
           | ExportEv n vol path ip port opts r \<Rightarrow> export_due A key vol path ip port opts t
           | _ \<Rightarrow> True)
      | Partitions (StatusPatchCall b x r) \<Rightarrow> exported_due b x t
      | _ \<Rightarrow> True)"

text \<open>Taking down: the partition read first is being deleted and carries the finalizer.\<close>

definition deleting :: "'w agent \<Rightarrow> nname \<Rightarrow> NVMePartition \<Rightarrow> agent_event list \<Rightarrow> bool" where
  "deleting A key q t \<longleftrightarrow> opened key q t \<and> om_DeletionTimestamp (p_meta q) \<noteq> None \<and>
     ContainsFinalizer (ag_kube A) (p_meta q) partitionFinalizer"

definition unexported :: "NVMePartition \<Rightarrow> agent_event list \<Rightarrow> bool" where
  "unexported q t \<longleftrightarrow> (\<exists>n. Other (UnexportEv n (deletion_nqn q (fst (identitiesForPartition q))) None) \<in> set t)"

definition volume_deleted :: "NVMePartition \<Rightarrow> agent_event list \<Rightarrow> bool" where
  "volume_deleted q t \<longleftrightarrow> p_Serial q = [] \<or> (\<exists>m path dev.
     Other (DeleteVolumeEv m path dev (fst (identitiesForPartition q)) (backendVolumeIdentity (p_status q)) None) \<in> set t)"

definition takedown_call_ok :: "'w agent \<Rightarrow> nname \<Rightarrow> agent_event list \<Rightarrow> agent_event \<Rightarrow> bool" where
  "takedown_call_ok A key t ev \<longleftrightarrow>
     (case ev of
        Other e \<Rightarrow>
          (case e of
             UnexportEv n nqn r \<Rightarrow> (\<exists>q. deleting A key q t \<and> nqn = deletion_nqn q (fst (identitiesForPartition q)))
           | DeleteVolumeEv m path dev vol i r \<Rightarrow> (\<exists>q. deleting A key q t \<and> unexported q t \<and>
               vol = fst (identitiesForPartition q) \<and> i = backendVolumeIdentity (p_status q))
           | _ \<Rightarrow> True)
      | Attachments (DeleteCall a r) \<Rightarrow> (\<exists>q. deleting A key q t \<and> unexported q t)
      | Partitions (PatchCall b x r) \<Rightarrow>
          x = b\<lparr>p_meta := AddFinalizer (ag_kube A) (p_meta b) partitionFinalizer\<rparr> \<or>
          x = b\<lparr>p_meta := RemoveFinalizer (ag_kube A) (p_meta b) partitionFinalizer\<rparr> \<and>
          (\<exists>q. deleting A key q t \<and> unexported q t \<and> volume_deleted q t)
      | _ \<Rightarrow> True)"

text \<open>Letting hosts in: the attachment was read right before, and is reported ready only afterwards.\<close>

definition attached :: "'w agent \<Rightarrow> NVMePartition \<Rightarrow> NVMeVolumeAttachment \<Rightarrow> bool" where
  "attached A p a \<longleftrightarrow> not_deleting (a_meta a) \<and> ContainsFinalizer (ag_kube A) (a_meta a) attachment_Finalizer \<and>
     as_VolumeRef (a_spec a) = \<lparr>vr_Name = p_Name p, vr_UID = p_UID p\<rparr> \<and> as_HostNQN (a_spec a) = HostNQN (as_NodeID (a_spec a))"

definition host_due :: "'w agent \<Rightarrow> NVMePartition \<Rightarrow> string \<Rightarrow> agent_event list \<Rightarrow> bool" where
  "host_due A p h t \<longleftrightarrow> h = [] \<or> (\<exists>u a. t = u @ [Attachments (GetCall (p_Namespace p, attachment_Name (p_UID p)) (Inr a))] \<and>
     attached A p a \<and> h = as_HostNQN (a_spec a))"

text \<open>The attachment \<open>aid\<close>, an object named \<open>k\<close>, was read, and right after it the target let its host in.\<close>

definition let_in :: "'w agent \<Rightarrow> nname \<Rightarrow> nname \<Rightarrow> string \<Rightarrow> agent_event list \<Rightarrow> bool" where
  "let_in A key k aid t \<longleftrightarrow> (\<exists>u p a n.
     prefix (u @ [Attachments (GetCall (p_Namespace p, attachment_Name (p_UID p)) (Inr a)),
                  Other (AccessEv n (pst_NQN (p_status p)) (as_HostNQN (a_spec a)) None)]) t \<and>
     known key p u \<and> attached A p a \<and> k = object_key (a_meta a) \<and> aid = as_AttachmentID (a_spec a))"

text \<open>The status of an attachment that was just read says that it is ready, by its condition and the observed
  identifier, only when the target let it in.\<close>

definition ready_due :: "'w agent \<Rightarrow> nname \<Rightarrow> NVMeVolumeAttachment \<Rightarrow> NVMeVolumeAttachment \<Rightarrow> agent_event list \<Rightarrow> bool" where
  "ready_due A key b x t \<longleftrightarrow> (\<exists>u k now st reason msg aid. t = u @ [Attachments (GetCall k (Inr b))] \<and>
     x = b\<lparr>a_status := \<lparr>ast_ObservedAttachmentID = (if st = ConditionTrue then aid else []),
       ast_Conditions = SetStatusCondition (ag_kube A) now (ast_Conditions (a_status b))
         (mk_Condition AccessReadyCondition st (om_Generation (a_meta b)) reason msg)\<rparr>\<rparr> \<and>
     (st = ConditionTrue \<longrightarrow> let_in A key k aid u))"

text \<open>No host may reach the partition: access was revoked, or the export is gone.\<close>

definition revoked :: "'w agent \<Rightarrow> nname \<Rightarrow> agent_event list \<Rightarrow> bool" where
  "revoked A key t \<longleftrightarrow> (\<exists>p n. known key p t \<and> Other (AccessEv n (pst_NQN (p_status p)) [] None) \<in> set t) \<or>
     (\<exists>q. deleting A key q t \<and> unexported q t)"

definition access_call_ok :: "'w agent \<Rightarrow> nname \<Rightarrow> agent_event list \<Rightarrow> agent_event \<Rightarrow> bool" where
  "access_call_ok A key t ev \<longleftrightarrow>
     (case ev of
        Other (AccessEv n nqn h r) \<Rightarrow> (\<exists>p. known key p t \<and> nqn = pst_NQN (p_status p) \<and> host_due A p h t)
      | Attachments (StatusPatchCall b x r) \<Rightarrow> ready_due A key b x t
      | Attachments (PatchCall b x r) \<Rightarrow> x = b\<lparr>a_meta := RemoveFinalizer (ag_kube A) (a_meta b) attachment_Finalizer\<rparr> \<and>
          revoked A key t
      | _ \<Rightarrow> True)"

text \<open>Nothing else is written: no claim, no node, no object is created or updated, and of a device only the
  active backend changes. After an export could not be observed, nothing happens at all.\<close>

definition unobserved :: "agent_event list \<Rightarrow> bool" where
  "unobserved t \<longleftrightarrow> (\<exists>n nqn path ip port opts e. Other (CheckEv n nqn path ip port opts (Some e)) \<in> set t \<and>
     IsExportObservationError e)"

fun reads_only :: "'o call \<Rightarrow> bool" where
  "reads_only (GetCall _ _) = True"
| "reads_only (ListCall _) = True"
| "reads_only _ = False"

fun patches :: "'o call \<Rightarrow> bool" where
  "patches (PatchCall _ _ _) = True"
| "patches (StatusPatchCall _ _ _) = True"
| "patches _ = False"

definition frame_call_ok :: "agent_event list \<Rightarrow> agent_event \<Rightarrow> bool" where
  "frame_call_ok t ev \<longleftrightarrow> \<not> unobserved t \<and>
     (case ev of
        Claims c \<Rightarrow> reads_only c
      | RdmaNodes c \<Rightarrow> reads_only c
      | Devices c \<Rightarrow> reads_only c \<or> (\<exists>b n r. c = StatusPatchCall b (b\<lparr>d_status := (d_status b)\<lparr>dst_ActiveBackend := n\<rparr>\<rparr>) r)
      | Partitions c \<Rightarrow> reads_only c \<or> patches c
      | Attachments c \<Rightarrow> reads_only c \<or> patches c \<or> (\<exists>a r. c = DeleteCall a r)
      | Other e \<Rightarrow> True)"

definition agent_call_ok :: "'w agent \<Rightarrow> nname \<Rightarrow> agent_event list \<Rightarrow> agent_event \<Rightarrow> bool" where
  "agent_call_ok A key t ev \<longleftrightarrow> provision_call_ok A key t ev \<and> takedown_call_ok A key t ev \<and>
     access_call_ok A key t ev \<and> frame_call_ok t ev"

lemmas agent_call_defs =
  agent_call_ok_def provision_call_ok_def takedown_call_ok_def access_call_ok_def frame_call_ok_def

section \<open>Evidence persists\<close>

lemma is_plugin_simps [simp]:
  "is_plugin (Other e)" "\<not> is_plugin (Partitions pc)" "\<not> is_plugin (Devices dc)" "\<not> is_plugin (Claims cc)"
  "\<not> is_plugin (RdmaNodes rc)" "\<not> is_plugin (Attachments ac)"
  by (simp_all add: is_plugin_def)

lemma calm_refl [simp]: "calm t t"
  by (simp add: calm_def)

lemma calm_snoc [simp]: "calm t t' \<Longrightarrow> \<not> is_plugin ev \<Longrightarrow> calm t (t' @ [ev])"
  by (auto simp: calm_def)

lemma calm_trans: "calm t t' \<Longrightarrow> calm t' t'' \<Longrightarrow> calm t t''"
  by (auto simp: calm_def)

lemma calm_prefix: "calm t t' \<Longrightarrow> prefix t t'"
  by (auto simp: calm_def)

lemma opened_mono [evidence]: "opened key q t \<Longrightarrow> prefix t t' \<Longrightarrow> opened key q t'"
  by (auto simp: opened_def elim!: prefixE)

lemma answered_mono [evidence]: "answered key q t \<Longrightarrow> prefix t t' \<Longrightarrow> answered key q t'"
  unfolding answered_def using opened_mono set_mono_prefix by blast

lemma known_mono [evidence]: "known key p t \<Longrightarrow> prefix t t' \<Longrightarrow> known key p t'"
  unfolding known_def using answered_mono by blast

lemma recorded_mono [evidence]: "recorded key i t \<Longrightarrow> prefix t t' \<Longrightarrow> recorded key i t'"
  unfolding recorded_def using answered_mono set_mono_prefix by blast

lemma vetted_mono [evidence]: "vetted K q t \<Longrightarrow> prefix t t' \<Longrightarrow> vetted K q t'"
  unfolding vetted_def using prefix_order.trans by blast

lemma admitted_mono [evidence]: "admitted A key q t \<Longrightarrow> prefix t t' \<Longrightarrow> admitted A key q t'"
  unfolding admitted_def using opened_mono vetted_mono by blast

lemma still_owned_mono [evidence]: "still_owned p d t \<Longrightarrow> calm t t' \<Longrightarrow> still_owned p d t'"
  unfolding still_owned_def using calm_trans by blast

lemma authorized_mono [evidence]: "authorized A key p d t \<Longrightarrow> calm t t' \<Longrightarrow> authorized A key p d t'"
  unfolding authorized_def using admitted_mono known_mono still_owned_mono calm_prefix by blast

lemma endpoint_read_mono [evidence]: "endpoint_read A ip t \<Longrightarrow> prefix t t' \<Longrightarrow> endpoint_read A ip t'"
  unfolding endpoint_read_def using set_mono_prefix by blast

lemma carved_for_mono [evidence]: "carved_for key vol i t \<Longrightarrow> prefix t t' \<Longrightarrow> carved_for key vol i t'"
  unfolding carved_for_def using set_mono_prefix opened_mono by blast

lemma on_device_mono [evidence]: "on_device p path dev t \<Longrightarrow> prefix t t' \<Longrightarrow> on_device p path dev t'"
  unfolding on_device_def using set_mono_prefix by blast

lemma exported_due_mono [evidence]: "exported_due b x t \<Longrightarrow> prefix t t' \<Longrightarrow> exported_due b x t'"
  unfolding exported_due_def using set_mono_prefix by blast

lemma deleting_mono [evidence]: "deleting A key q t \<Longrightarrow> prefix t t' \<Longrightarrow> deleting A key q t'"
  unfolding deleting_def using opened_mono by blast

lemma unexported_mono [evidence]: "unexported q t \<Longrightarrow> prefix t t' \<Longrightarrow> unexported q t'"
  unfolding unexported_def using set_mono_prefix by blast

lemma volume_deleted_mono [evidence]: "volume_deleted q t \<Longrightarrow> prefix t t' \<Longrightarrow> volume_deleted q t'"
  unfolding volume_deleted_def using set_mono_prefix by blast

lemma let_in_mono [evidence]: "let_in A key k aid t \<Longrightarrow> prefix t t' \<Longrightarrow> let_in A key k aid t'"
  unfolding let_in_def using prefix_order.trans by blast

lemma unobserved_append [simp]: "unobserved (t @ u) \<longleftrightarrow> unobserved t \<or> unobserved u"
  unfolding unobserved_def by fastforce

lemma unobserved_simps [simp]:
  "\<not> unobserved []" "\<not> is_plugin ev \<Longrightarrow> \<not> unobserved [ev]"
  "unobserved [Other (CheckEv n nqn path ip port opts r)] \<longleftrightarrow> (\<exists>e. r = Some e \<and> IsExportObservationError e)"
  "\<not> unobserved [Other (SetupDeviceEv n pci dev opts r)]" "\<not> unobserved [Other (ExportEv n vol path ip port opts re)]"
  "\<not> unobserved [Other (UnexportEv n nqn r)]" "\<not> unobserved [Other (AccessEv n nqn h r)]"
  "\<not> unobserved [Other (SetupStorageEv n path dev r)]" "\<not> unobserved [Other (CreateVolumeEv n path dev vol bytes rc)]"
  "\<not> unobserved [Other (DeleteVolumeEv n path dev vol i r)]" "\<not> unobserved [Other (DiscoverEv ds r)]"
  by (auto simp: unobserved_def)

text \<open>A run that is in order so far.\<close>

definition ready :: "'w agent \<Rightarrow> nname \<Rightarrow> NVMePartition \<Rightarrow> agent_event list \<Rightarrow> bool" where
  "ready A key q t \<longleftrightarrow> justified (agent_call_ok A key) t \<and> opened key q t \<and> \<not> unobserved t"

lemma ready_step: "ready A key q t \<Longrightarrow> agent_call_ok A key t ev \<Longrightarrow> \<not> unobserved [ev] \<Longrightarrow> ready A key q (t @ [ev])"
  by (auto simp: ready_def intro: opened_mono)

lemma readyD: "ready A key q t \<Longrightarrow> justified (agent_call_ok A key) t" "ready A key q t \<Longrightarrow> opened key q t"
  "ready A key q t \<Longrightarrow> \<not> unobserved t"
  by (simp_all add: ready_def)

lemma agent_reads [simp]:
  "agent_call_ok A key t (Partitions (GetCall k rp)) \<longleftrightarrow> \<not> unobserved t"
  "agent_call_ok A key t (Partitions (ListCall rps)) \<longleftrightarrow> \<not> unobserved t"
  "agent_call_ok A key t (Devices (GetCall k rd)) \<longleftrightarrow> \<not> unobserved t"
  "agent_call_ok A key t (Devices (ListCall rds)) \<longleftrightarrow> \<not> unobserved t"
  "agent_call_ok A key t (Claims (GetCall k rc)) \<longleftrightarrow> \<not> unobserved t"
  "agent_call_ok A key t (RdmaNodes (GetCall k rn)) \<longleftrightarrow> \<not> unobserved t"
  "agent_call_ok A key t (Attachments (GetCall k ra)) \<longleftrightarrow> \<not> unobserved t"
  "agent_call_ok A key t (Other (DiscoverEv ds e)) \<longleftrightarrow> \<not> unobserved t"
  "agent_call_ok A key t (Other (CheckEv n nqn path ip port opts r)) \<longleftrightarrow> \<not> unobserved t"
  by (simp_all add: agent_call_defs)

lemma agent_writes [simp]:
  "agent_call_ok A key t (Partitions (StatusPatchCall b x r)) \<longleftrightarrow> \<not> unobserved t \<and> exported_due b x t"
  "agent_call_ok A key t (Devices (StatusPatchCall d (d\<lparr>d_status := (d_status d)\<lparr>dst_ActiveBackend := n\<rparr>\<rparr>) r')) \<longleftrightarrow> \<not> unobserved t"
  "agent_call_ok A key t (Attachments (StatusPatchCall ab ax ra)) \<longleftrightarrow> \<not> unobserved t \<and>
     ready_due A key ab ax t"
  by (auto simp: agent_call_defs)

lemma ready_read [simp]:
  "ready A key q t \<Longrightarrow> ready A key q (t @ [Partitions (GetCall k rp)])"
  "ready A key q t \<Longrightarrow> ready A key q (t @ [Partitions (ListCall rps)])"
  "ready A key q t \<Longrightarrow> ready A key q (t @ [Devices (GetCall k rd)])"
  "ready A key q t \<Longrightarrow> ready A key q (t @ [Devices (ListCall rds)])"
  "ready A key q t \<Longrightarrow> ready A key q (t @ [Claims (GetCall k rc)])"
  "ready A key q t \<Longrightarrow> ready A key q (t @ [RdmaNodes (GetCall k rn)])"
  "ready A key q t \<Longrightarrow> ready A key q (t @ [Attachments (GetCall k ra)])"
  "ready A key q t \<Longrightarrow> ready A key q (t @ [Other (DiscoverEv ds e)])"
  by (simp_all add: ready_step readyD)

lemma recording_pure [simp]:
  "IsAuthorized (recording K) = IsAuthorized K" "rdmahealth_Validate (recording K) = rdmahealth_Validate K"
  "attachment_valid (recording K) = attachment_valid K"
  by (simp_all add: fun_eq_iff IsAuthorized_def rdmahealth_Validate_def attachment_valid_def)

section \<open>Attachments\<close>

lemma setAttachmentCondition_post:
  assumes "ready A key q t" and "st = ConditionTrue \<longrightarrow> let_in A key k aid t"
  shows "post (setAttachmentCondition (recording_agent A) k aid st reason msg (w, t)) (\<lambda>r t'. ready A key q t')"
proof -
  let ?x = "\<lambda>a now. a\<lparr>a_status := \<lparr>ast_ObservedAttachmentID = (if st = ConditionTrue then aid else []),
    ast_Conditions = SetStatusCondition (ag_kube A) now (ast_Conditions (a_status a))
      (mk_Condition AccessReadyCondition st (om_Generation (a_meta a)) reason msg)\<rparr>\<rparr>"
  have "ready A key q (t @ [Attachments (GetCall k (Inr a)), Attachments (StatusPatchCall a (?x a now) r)])" for a now r
  proof -
    have "ready_due A key a (?x a now) (t @ [Attachments (GetCall k (Inr a))])"
      using assms(2) unfolding ready_due_def by blast
    with ready_step [OF ready_read(7) [OF assms(1), of k "Inr a"], of "Attachments (StatusPatchCall a (?x a now) r)"]
    show ?thesis using assms(1) by (simp add: readyD)
  qed
  then show ?thesis
    unfolding setAttachmentCondition_def Let_def recording_agent_sel recording_sel
    by (intro vcg) (use assms(1) in \<open>auto simp: Let_def\<close>)
qed

lemma remove_attachment_finalizer_post:
  assumes "ready A key q t"
    and "revoked A key t"
  shows "post (remove_attachment_finalizer (recording_agent A) a (w, t)) (\<lambda>r t'. ready A key q t' \<and> prefix t t')"
  unfolding remove_attachment_finalizer_def Let_def recording_agent_sel recording_sel
  by (intro vcg) (use assms in \<open>auto intro!: ready_step simp: agent_call_defs readyD\<close>)

lemma attachmentForPartition_post:
  "post (attachmentForPartition (recording_agent A) p (w, t))
     (\<lambda>r t'. \<exists>x. t' = t @ [Attachments (GetCall (p_Namespace p, attachment_Name (p_UID p)) x)] \<and>
        (\<forall>a. r = Inr (Some a) \<longrightarrow> x = Inr a))"
  unfolding attachmentForPartition_def recording_agent_sel recording_sel by (intro vcg) auto

lemma attachment_valid_attached: "attachment_valid (ag_kube A) p a \<Longrightarrow> attached A p a"
  by (simp add: attachment_valid_def attached_def)

lemma reconcileAttachmentAccess_post:
  assumes "ready A key q t" and "known key p t"
  shows "post (reconcileAttachmentAccess (recording_agent A) p (recording_backend b) (w, t)) (\<lambda>r t'. ready A key q t')"
proof -
  let ?get = "\<lambda>a. Attachments (GetCall (p_Namespace p, attachment_Name (p_UID p)) a)"
  let ?acc = "\<lambda>h e. Other (AccessEv (tb_Name b) (pst_NQN (p_status p)) h e)"
  have got: "ready A key q (t @ [?get a])" for a by (rule ready_read(7) [OF assms(1)])
  have known: "known key p (t @ u)" for u by (rule known_mono [OF assms(2)]) simp
  have acc: "ready A key q ((t @ [?get a]) @ [?acc h e])" if "host_due A p h (t @ [?get a])" for a h e
    by (rule ready_step [OF got]) (use that known readyD(3) [OF got] in \<open>auto simp: agent_call_defs\<close>)
  have none: "ready A key q ((t @ [?get a]) @ [?acc [] e])" for a e by (rule acc) (simp add: host_due_def)
  have some: "ready A key q ((t @ [?get (Inr a)]) @ [?acc (as_HostNQN (a_spec a)) e])" if "attachment_valid (ag_kube A) p a" for a e
    by (rule acc) (use that attachment_valid_attached in \<open>auto simp: host_due_def\<close>)
  have due: "let_in A key (object_key (a_meta a)) (as_AttachmentID (a_spec a))
      ((t @ [?get (Inr a)]) @ [?acc (as_HostNQN (a_spec a)) None])" if "attachment_valid (ag_kube A) p a" for a
    unfolding let_in_def using attachment_valid_attached [OF that] assms(2)
    by (intro exI [of _ t] exI [of _ p] exI [of _ a] exI [of _ "tb_Name b"]) simp
  have gone: "revoked A key (t @ [?get r, ?acc [] None])" for r
    unfolding revoked_def using known [of "[?get r, ?acc [] None]"] by force
  have dead: "\<not> attachment_valid (ag_kube A) p a" if "\<not> not_deleting (a_meta a)" for a
    using that by (simp add: attachment_valid_def)
  show ?thesis
    unfolding reconcileAttachmentAccess_def Let_def recording_agent_sel recording_sel
    by (intro vcg post_bindI [OF attachmentForPartition_post] setAttachmentCondition_post
          post_bindI [OF setAttachmentCondition_post [where key = key and q = q]]
          post_weaken [OF remove_attachment_finalizer_post [where key = key and q = q]])
       (auto simp: dead got gone none [simplified] some [simplified] due [simplified])
qed

lemma revokedI: "deleting A key q t \<Longrightarrow> unexported q t \<Longrightarrow> revoked A key t"
  unfolding revoked_def by blast

lemma releaseAttachmentAfterUnexport_post:
  assumes "ready A key q t" and "deleting A key q t" and "unexported q t"
  shows "post (releaseAttachmentAfterUnexport (recording_agent A) p (w, t)) (\<lambda>r t'. ready A key q t' \<and> prefix t t')"
proof -
  have ev: "deleting A key q (t @ u)" "unexported q (t @ u)" for u
    by (auto intro: deleting_mono [OF assms(2)] unexported_mono [OF assms(3)])
  have del: "ready A key q (t @ [Attachments (GetCall k x), Attachments (DeleteCall a r)])" for k x a r
    using ready_step [OF ready_read(7) [OF assms(1), of k x], of "Attachments (DeleteCall a r)"]
      ev [of "[Attachments (GetCall k x)]"] readyD(3) [OF assms(1)]
    by (auto simp: agent_call_defs)
  have "ready A key q (t @ [Attachments (GetCall k x), Attachments (DeleteCall a r), Attachments (GetCall k' y)])" for k x a r k' y
    using ready_read(7) [OF del [of k x a r], of k' y] by simp
  moreover have "revoked A key (t @ u)" for u by (rule revokedI) (rule ev)+
  ultimately show ?thesis
    unfolding releaseAttachmentAfterUnexport_def Let_def recording_agent_sel recording_sel
    by (intro vcg post_bindI [OF attachmentForPartition_post]
          post_weaken [OF remove_attachment_finalizer_post [where key = key and q = q]])
       (auto simp: assms(1) del dest: append_prefixD)
qed

section \<open>Status updates\<close>

text \<open>What the two kinds of update functions do to a status, whatever the clock says.\<close>

lemma updatePartitionStatus_condition_post:
  assumes "ready A key q t"
    and "\<And>b cs. exported_due b (b\<lparr>p_status := (f (p_status b))\<lparr>pst_Conditions := cs\<rparr>\<rparr>) t"
  shows "post (updatePartitionStatus (recording_agent A) k (\<lambda>st. with_condition (recording_agent A) c (f st)) (w, t))
    (\<lambda>r t'. ready A key q t' \<and> calm t t')"
proof -
  have "ready A key q (t @ [Partitions (GetCall k g), Partitions (StatusPatchCall b (b\<lparr>p_status := (f (p_status b))\<lparr>pst_Conditions := cs\<rparr>\<rparr>) r)])"
    for g b cs r
    using ready_step [OF ready_read(1) [OF assms(1), of k g],
        of "Partitions (StatusPatchCall b (b\<lparr>p_status := (f (p_status b))\<lparr>pst_Conditions := cs\<rparr>\<rparr>) r)"]
      readyD(3) [OF assms(1)] exported_due_mono [OF assms(2)]
    by simp
  moreover have "calm t (t @ [Partitions x, Partitions y])" for x y by (simp add: calm_def)
  ultimately show ?thesis
    unfolding updatePartitionStatus_def with_condition_def Let_def recording_agent_sel recording_sel
    apply (intro vcg)
    subgoal using assms(1) by simp
    subgoal for r w latest
      by (simp add: set_condition_def trace_simps split: prod.split) (auto simp: post_def calls_def trace_simps split: prod.split)
    done
qed

lemma updatePartitionStatus_post:
  assumes "ready A key q t" and "\<And>b. exported_due b (b\<lparr>p_status := f (p_status b)\<rparr>) t"
  shows "post (updatePartitionStatus (recording_agent A) k (\<lambda>st w. (f st, w)) (w, t))
    (\<lambda>r t'. ready A key q t' \<and> calm t t' \<and>
       (r = None \<longrightarrow> (\<exists>b q'. Partitions (StatusPatchCall b (b\<lparr>p_status := f (p_status b)\<rparr>) (Inr q')) \<in> set t')))"
proof -
  have "ready A key q (t @ [Partitions (GetCall k g), Partitions (StatusPatchCall b (b\<lparr>p_status := f (p_status b)\<rparr>) r)])" for g b r
    using ready_step [OF ready_read(1) [OF assms(1), of k g],
        of "Partitions (StatusPatchCall b (b\<lparr>p_status := f (p_status b)\<rparr>) r)"]
      readyD(3) [OF assms(1)] exported_due_mono [OF assms(2)]
    by simp
  moreover have "calm t (t @ [Partitions x, Partitions y])" for x y by (simp add: calm_def)
  ultimately show ?thesis
    unfolding updatePartitionStatus_def Let_def recording_agent_sel recording_sel
    by (intro vcg) (use assms(1) in \<open>auto simp: err_of_def split: sum.splits\<close>)
qed

lemma updateDeviceStatus_post:
  assumes "ready A key q t"
  shows "post (updateDeviceStatus (recording_agent A) k (\<lambda>st. st\<lparr>dst_ActiveBackend := n\<rparr>) (w, t))
    (\<lambda>r t'. ready A key q t' \<and> calm t t')"
proof -
  have "ready A key q (t @ [Devices (GetCall k g), Devices (StatusPatchCall d (d\<lparr>d_status := (d_status d)\<lparr>dst_ActiveBackend := n\<rparr>\<rparr>) r)])" for g d r
    using ready_step [OF ready_read(3) [OF assms(1), of k g],
        of "Devices (StatusPatchCall d (d\<lparr>d_status := (d_status d)\<lparr>dst_ActiveBackend := n\<rparr>\<rparr>) r)"] readyD(3) [OF assms(1)]
    by simp
  moreover have "calm t (t @ [Devices x, Devices y])" for x y by (simp add: calm_def)
  ultimately show ?thesis
    unfolding updateDeviceStatus_def Let_def recording_agent_sel recording_sel
    by (intro vcg) (use assms(1) in auto)
qed

text \<open>The updates that do not say that the partition is exported.\<close>

lemma exported_due_same:
  "pst_State (p_status x) = pst_State (p_status b) \<Longrightarrow> pst_NQN (p_status x) = pst_NQN (p_status b) \<Longrightarrow> exported_due b x t"
  "pst_State (p_status x) \<noteq> PartitionExported \<Longrightarrow> exported_due b x t"
  by (auto simp: exported_due_def)

lemma setClaimAuthorizationCondition_post:
  assumes "ready A key q t"
  shows "post (setClaimAuthorizationCondition (recording_agent A) p st reason msg (w, t)) (\<lambda>r t'. ready A key q t' \<and> calm t t')"
  unfolding setClaimAuthorizationCondition_def
  using updatePartitionStatus_condition_post [OF assms, where f = "\<lambda>st. st"] by (simp add: exported_due_same)

lemma rejectUnauthorizedProvisioning_post:
  assumes "ready A key q t"
  shows "post (rejectUnauthorizedProvisioning (recording_agent A) p err (w, t)) (\<lambda>r t'. ready A key q t')"
  unfolding rejectUnauthorizedProvisioning_def Let_def
  by (intro vcg post_bindI [OF setClaimAuthorizationCondition_post [OF assms]]) auto

lemma recordProvisioningFailure_post:
  assumes "ready A key q t"
  shows "post (recordProvisioningFailure (recording_agent A) p reason err terminal (w, t)) (\<lambda>r t'. ready A key q t')"
  unfolding recordProvisioningFailure_def Let_def
  by (intro vcg post_bindI [OF updatePartitionStatus_condition_post [OF assms,
        where f = "\<lambda>st. st\<lparr>pst_State := PartitionFailed\<rparr>"]])
     (auto simp: exported_due_same)

lemmas provisioning_failure_posts =
  recordProvisioningFailure_post [where terminal = True, folded terminalProvisioningFailure_def]
  recordProvisioningFailure_post [where terminal = False, folded retryableProvisioningFailure_def]
  rejectUnauthorizedProvisioning_post

section \<open>Authorization\<close>

lemma rdmaEndpoint_post:
  assumes "ready A key q t"
  shows "post (rdmaEndpoint (recording_agent A) (w, t))
    (\<lambda>r t'. ready A key q t' \<and> calm t t' \<and> (\<forall>ip. r = Inr ip \<longrightarrow> endpoint_read A ip t'))"
  unfolding rdmaEndpoint_def Let_def recording_agent_sel recording_sel
  by (intro vcg) (use assms in \<open>auto simp: endpoint_read_def\<close>)

lemma checks_own:
  assumes "check_claim p ref claim = None" and "check_device p ref d = None"
    and "ref_Namespace ref \<noteq> []" and "ref_Name ref \<noteq> []" and "ref_UID ref \<noteq> []" and "p_Serial p \<noteq> []"
  shows "owns p ref claim d" and "recovering p \<or> cst_Active (c_status claim) \<and> dst_State (d_status d) = DeviceClaimed"
  using assms
  by (auto simp: check_claim_def check_device_def owns_def claimReferencesEqual_def Let_def split: if_splits option.splits)

lemma verifyProvisioningAuthorization_post:
  assumes "ready A key q t"
  shows "post (verifyProvisioningAuthorization (recording_agent A) p (w, t))
    (\<lambda>r t'. ready A key q t' \<and> calm t t' \<and> (\<forall>d. r = Inr d \<longrightarrow> still_owned p d t' \<and>
       (list_all (\<lambda>ev. \<not> is_plugin ev) t \<longrightarrow> vetted (ag_kube A) p t')))"
proof -
  let ?c = "\<lambda>ref r. Claims (GetCall (ref_Namespace ref, ref_Name ref) r)"
  let ?d = "\<lambda>claim r. Devices (GetCall ([], cst_MatchedDevice (c_status claim)) r)"
  have r: "ready A key q (t @ [?c ref x, ?d claim y])" for ref x claim y
    using ready_read(3) [OF ready_read(5) [OF assms]] by simp
  have c: "calm t (t @ [Claims x, Devices y])" for x y by (simp add: calm_def)
  have a: "still_owned p d (t @ [?c ref (Inr claim), ?d claim (Inr d)])"
    "list_all (\<lambda>ev. \<not> is_plugin ev) t \<Longrightarrow> vetted (ag_kube A) p (t @ [?c ref (Inr claim), ?d claim (Inr d)])"
    if "recovering p \<or> IsAuthorized (ag_kube A) p" "ps_ClaimRef (p_spec p) = Some ref"
      "check_claim p ref claim = None" "check_device p ref d = None"
      "ref_Namespace ref \<noteq> []" "ref_Name ref \<noteq> []" "ref_UID ref \<noteq> []" "p_Serial p \<noteq> []" for ref claim d
  proof -
    note own = checks_own [OF that(3-8)]
    show "still_owned p d (t @ [?c ref (Inr claim), ?d claim (Inr d)])"
      unfolding still_owned_def checks_read_def using that(2) own(1) calm_refl by blast
    show "vetted (ag_kube A) p (t @ [?c ref (Inr claim), ?d claim (Inr d)])"
      if "list_all (\<lambda>ev. \<not> is_plugin ev) t"
      unfolding vetted_def checks_read_def using own that \<open>ps_ClaimRef (p_spec p) = Some ref\<close>
        \<open>recovering p \<or> IsAuthorized (ag_kube A) p\<close> by blast
  qed
  show ?thesis
    unfolding verifyProvisioningAuthorization_def Let_def recording_agent_sel recording_sel
    by (intro vcg) (use assms in \<open>auto simp: r c a\<close>)
qed

section \<open>Taking down\<close>

lemma assignedDeviceName_post:
  assumes "ready A key q t"
  shows "post (assignedDeviceName (recording_agent A) p (w, t)) (\<lambda>r t'. ready A key q t' \<and> prefix t t')"
proof -
  have d: "post (device_by_serial (recording_agent A) p (w, u)) (\<lambda>r t'. ready A key q t' \<and> prefix t t')"
    if "ready A key q u" "prefix t u" for w u
    unfolding device_by_serial_def recording_agent_sel recording_sel
    by (intro vcg) (use that in auto)
  show ?thesis
    unfolding assignedDeviceName_def Let_def recording_agent_sel recording_sel
    by (intro vcg d) (use assms in auto)
qed

lemma resolveDeletionDevice_post:
  assumes "ready A key q t"
  shows "post (resolveDeletionDevice (recording_agent A) p n (w, t)) (\<lambda>r t'. ready A key q t' \<and> prefix t t')"
  unfolding resolveDeletionDevice_def
  by (intro vcg post_bindI [OF assignedDeviceName_post [OF assms]]) (use assms in auto)

lemma clearInactiveBackend_post:
  assumes "ready A key q t"
  shows "post (clearInactiveBackend (recording_agent A) p n (w, t)) (\<lambda>r t'. ready A key q t' \<and> prefix t t')"
  unfolding clearInactiveBackend_def recording_agent_sel recording_sel
  by (intro vcg post_bindI [OF assignedDeviceName_post [where key = key and q = q]]
        post_weaken [OF updateDeviceStatus_post [where key = key and q = q]])
     (use assms in \<open>auto dest: calm_prefix append_prefixD intro: prefix_order.trans\<close>)

definition recording_plugins :: "'w resolvedPartitionPlugins \<Rightarrow> ('w, agent_event) traced resolvedPartitionPlugins" where
  "recording_plugins g = \<lparr>rp_targetBackendName = rp_targetBackendName g, rp_volumeManagerName = rp_volumeManagerName g,
     rp_targetBackend = recording_backend (rp_targetBackend g), rp_volumeManager = recording_manager (rp_volumeManager g)\<rparr>"

lemma recording_plugins_sel [simp]:
  "rp_targetBackendName (recording_plugins g) = rp_targetBackendName g"
  "rp_volumeManagerName (recording_plugins g) = rp_volumeManagerName g"
  "rp_targetBackend (recording_plugins g) = recording_backend (rp_targetBackend g)"
  "rp_volumeManager (recording_plugins g) = recording_manager (rp_volumeManager g)"
  by (simp_all add: recording_plugins_def)

lemma delete_volume_post:
  assumes "ready A key q t" and "deleting A key q t" and "unexported q t"
  shows "post (delete_volume (recording_agent A) q (recording_plugins g) (fst (identitiesForPartition q)) (w, t))
    (\<lambda>r t'. ready A key q t' \<and> prefix t t' \<and> (r = None \<longrightarrow> volume_deleted q t'))"
proof -
  let ?del = "\<lambda>path dev r. Other (DeleteVolumeEv (vm_Name (rp_volumeManager g)) path dev (fst (identitiesForPartition q))
    (backendVolumeIdentity (p_status q)) r)"
  have del: "ready A key q (u @ [?del path dev r])" if "ready A key q u" "prefix t u" for u path dev r
    using that deleting_mono [OF assms(2) that(2)] unexported_mono [OF assms(3) that(2)]
    by (intro ready_step) (auto simp: agent_call_defs readyD)
  have gone: "volume_deleted q t'" if "prefix (u @ [?del path dev None]) t'" for u path dev t'
    using set_mono_prefix [OF that] unfolding volume_deleted_def by auto
  show ?thesis
    unfolding delete_volume_def recording_plugins_sel
    by (intro vcg post_bindI [OF resolveDeletionDevice_post [OF assms(1)]]
          post_weaken [OF clearInactiveBackend_post [where key = key and q = q]])
       (use assms(1) in \<open>auto simp: volume_deleted_def [of q t] intro: del gone dest: append_prefixD intro: prefix_order.trans\<close>)
qed

lemma reconcilePartitionDeletion_post:
  assumes "ready A key q t" and "om_DeletionTimestamp (p_meta q) \<noteq> None"
  shows "post (reconcilePartitionDeletion (recording_agent A) key q (recording_plugins g) (fst (identitiesForPartition q)) (w, t))
    (\<lambda>r t'. ready A key q t')"
proof (cases "ContainsFinalizer (ag_kube A) (p_meta q) partitionFinalizer")
  case True
  let ?un = "\<lambda>r. Other (UnexportEv (tb_Name (rp_targetBackend g)) (deletion_nqn q (fst (identitiesForPartition q))) r)"
  have del: "deleting A key q (t @ [?un r])" for r
    using readyD(2) [OF assms(1)] assms(2) True by (auto simp: deleting_def intro: opened_mono)
  have un: "ready A key q (t @ [?un r])" for r
    using assms True readyD [OF assms(1)] by (intro ready_step) (auto simp: agent_call_defs deleting_def)
  have gone: "unexported q (t @ [?un None])" by (auto simp: unexported_def)
  have patch: "ready A key q (u @ [Partitions (GetCall key (Inr l)),
      Partitions (PatchCall l (l\<lparr>p_meta := RemoveFinalizer (ag_kube A) (p_meta l) partitionFinalizer\<rparr>) r)])"
    if "ready A key q u" "prefix (t @ [?un None]) u" "volume_deleted q u" for u l r
  proof -
    let ?u = "u @ [Partitions (GetCall key (Inr l))]"
    have "prefix u ?u" by simp
    then have "deleting A key q ?u" "unexported q ?u" "volume_deleted q ?u"
      using deleting_mono [OF deleting_mono [OF del that(2)]] unexported_mono [OF unexported_mono [OF gone that(2)]]
        volume_deleted_mono [OF that(3)] by blast+
    then have "agent_call_ok A key ?u
        (Partitions (PatchCall l (l\<lparr>p_meta := RemoveFinalizer (ag_kube A) (p_meta l) partitionFinalizer\<rparr>) r))"
      using readyD(3) [OF that(1)] by (auto simp: agent_call_defs)
    from ready_step [OF ready_read(1) [OF that(1)] this] show ?thesis by simp
  qed
  show ?thesis
    unfolding reconcilePartitionDeletion_def Let_def recording_agent_sel recording_sel recording_plugins_sel
    by (intro vcg post_bindI [OF releaseAttachmentAfterUnexport_post [where key = key and q = q]]
          post_bindI [OF delete_volume_post [where key = key and q = q]])
       (auto simp: un del gone assms(1) intro: patch deleting_mono [OF del] unexported_mono [OF gone] prefix_order.trans)
next
  case False
  then show ?thesis
    unfolding reconcilePartitionDeletion_def by (simp add: assms(1) post_def calls_def)
qed

section \<open>Provisioning\<close>

text \<open>A partition as it was last answered, up to the identities that are set in it.\<close>

definition current :: "nname \<Rightarrow> NVMePartition \<Rightarrow> agent_event list \<Rightarrow> bool" where
  "current key p t \<longleftrightarrow> (\<exists>q. answered key q t \<and> same_object p q \<and>
     backendVolumeIdentity (p_status p) = backendVolumeIdentity (p_status q))"

lemma current_mono [evidence]: "current key p t \<Longrightarrow> prefix t t' \<Longrightarrow> current key p t'"
  unfolding current_def using answered_mono by blast

lemma currentD:
  assumes "current key p t"
  shows "known key p t" and "recorded key (backendVolumeIdentity (p_status p)) t"
  using assms unfolding current_def known_def recorded_def by (blast, metis)

lemma authorizedI:
  "admitted A key q t \<Longrightarrow> known key p t \<Longrightarrow> prefix t t' \<Longrightarrow> still_owned p d t' \<Longrightarrow> authorized A key p d t'"
  unfolding authorized_def using admitted_mono known_mono by blast

lemma patch_ret [vcg]:
  "(\<And>r. Q r (t @ [Partitions (PatchCall b x r)])) \<Longrightarrow> post (Patch (recording_api Partitions P) b x (w, t)) Q"
  by (simp add: post_def calls_def trace_simps split: prod.split)

lemma ensurePartitionIdentityAndFinalizer_post:
  assumes "ready A key q t"
  shows "post (ensurePartitionIdentityAndFinalizer (recording_agent A) key q ext vid (w, t))
    (\<lambda>r t'. ready A key q t' \<and> prefix t t' \<and> (\<forall>p. r = Inr p \<longrightarrow> current key p t'))"
proof -
  let ?ids = "\<lambda>st. st\<lparr>pst_ExternalID := ext, pst_VolumeID := vid\<rparr>"
  have cur: "current key q t'" "current key (q\<lparr>p_status := ?ids (p_status q)\<rparr>) t'" if "ready A key q t'" for t'
    using readyD(2) [OF that] by (auto simp: current_def answered_def same_object_def backendVolumeIdentity_def intro!: exI [of _ q])
  have patched: "current key p (t' @ [Partitions (PatchCall b x (Inr p))])" if "ready A key q t'" "same_object b q" for p t' b x
  proof -
    have "opened key q (t' @ [Partitions (PatchCall b x (Inr p))])" by (rule opened_mono [OF readyD(2) [OF that(1)]]) simp
    then have "answered key p (t' @ [Partitions (PatchCall b x (Inr p))])" unfolding answered_def using that(2) by auto
    then show ?thesis unfolding current_def by (auto simp: same_object_def)
  qed
  have add: "ready A key q (t' @ [Partitions (PatchCall b (b\<lparr>p_meta := AddFinalizer (ag_kube A) (p_meta b) partitionFinalizer\<rparr>) r)])"
    if "ready A key q t'" for t' b r
    using that by (intro ready_step) (auto simp: agent_call_defs readyD)
  note add' = add [of _ "q\<lparr>p_status := ?ids (p_status q)\<rparr>", simplified]
  show ?thesis
    unfolding ensurePartitionIdentityAndFinalizer_def Let_def recording_agent_sel recording_sel
    by (intro vcg post_bindI [OF updatePartitionStatus_post [where key = key and q = q and f = ?ids]])
       (use assms in \<open>auto simp: exported_due_same cur same_object_def calm_prefix prefix_snoc intro: add add' patched\<close>)
qed

lemma keep_access_post:
  assumes "ready A key q t" and "known key p t"
  shows "post (keep_access (recording_agent A) p (recording_backend b) (w, t)) (\<lambda>r t'. justified (agent_call_ok A key) t' \<and> r \<noteq> None)"
  unfolding keep_access_def
  by (intro vcg post_bindI [OF reconcileAttachmentAccess_post [OF assms]]) (auto simp: readyD)

lemma reconcileExportedPartition_post:
  assumes "ready A key q t" and "known key p t"
  shows "post (reconcileExportedPartition (recording_agent A) p (recording_backend b) (w, t))
    (\<lambda>r t'. justified (agent_call_ok A key) t' \<and> (r = None \<longrightarrow> ready A key q t' \<and> prefix t t'))"
proof -
  have keep: "post (keep_access (recording_agent A) p (recording_backend b) (w', u))
      (\<lambda>r t'. justified (agent_call_ok A key) t' \<and> (r = None \<longrightarrow> ready A key q t' \<and> prefix t t'))"
    if "ready A key q u" "prefix t u" for w' u
    by (rule post_weaken [OF keep_access_post [OF that(1) known_mono [OF assms(2) that(2)]]]) auto
  let ?ck = "\<lambda>n nqn path ip port opts r. Other (CheckEv n nqn path ip port opts r)"
  have ck: "justified (agent_call_ok A key) (u @ [?ck n nqn path ip port opts r])"
    "\<not> (\<exists>e. r = Some e \<and> IsExportObservationError e) \<Longrightarrow> ready A key q (u @ [?ck n nqn path ip port opts r])"
    if "ready A key q u" for u n nqn path ip port opts r
    using readyD [OF that] by (auto simp: ready_def intro: opened_mono)
  show ?thesis
  proof (cases "tb_CheckExport b")
    case None
    then show ?thesis
      unfolding reconcileExportedPartition_def recording_check None option.map option.case
      by (intro vcg post_bindI [OF rdmaEndpoint_post [OF assms(1)]] keep) (use assms in \<open>auto simp: readyD calm_prefix\<close>)
  next
    case (Some check)
    then show ?thesis
      unfolding reconcileExportedPartition_def recording_check Some option.map option.case
      by (intro vcg post_bindI [OF rdmaEndpoint_post [OF assms(1)]] keep)
         (use assms in \<open>auto simp: readyD ck dest: calm_prefix intro: prefix_order.trans\<close>)
  qed
qed

lemma backendVolumeIdentity_with_identity [simp]: "backendVolumeIdentity (with_identity i st) = i"
  by (simp add: backendVolumeIdentity_def with_identity_def)

lemma persistBackendVolumeIdentity_post:
  assumes "ready A key q t" and "current key p t"
  shows "post (persistBackendVolumeIdentity (recording_agent A) key p created (w, t))
    (\<lambda>r t'. ready A key q t' \<and> calm t t' \<and> (\<forall>p'. r = Inr p' \<longrightarrow> known key p' t' \<and> recorded key created t'))"
proof -
  have "known key (p\<lparr>p_status := with_identity created (p_status p)\<rparr>) t'" if "calm t t'" for t'
    using known_mono [OF currentD(1) [OF assms(2)] calm_prefix [OF that]]
    by (auto simp: known_def same_object_def with_identity_def)
  moreover have "recorded key created t'"
    if "Partitions (StatusPatchCall b (b\<lparr>p_status := with_identity created (p_status b)\<rparr>) (Inr x)) \<in> set t'" for b x t'
    using that backendVolumeIdentity_with_identity unfolding recorded_def by fastforce
  moreover have "exported_due b (b\<lparr>p_status := with_identity created (p_status b)\<rparr>) t" for b
    by (rule exported_due_same) (simp_all add: with_identity_def)
  ultimately show ?thesis
    unfolding persistBackendVolumeIdentity_def
    by (intro vcg post_bindI [OF updatePartitionStatus_post [where key = key and q = q and f = "with_identity created"]])
       (use assms currentD [OF assms(2)] in auto)
qed

lemma export_volume_post:
  assumes "ready A key q t" and "known key p t" and "carved_for key ext created t" and "recorded key created t"
    and "admitted A key q t"
  shows "post (export_volume (recording_agent A) key p (recording_plugins g) ext created (w, t)) (\<lambda>r t'. ready A key q t')"
proof -
  let ?ex = "\<lambda>ip r. Other (ExportEv (tb_Name (rp_targetBackend g)) ext (vi_BackendVolumeID created) ip 4420 (ps_TargetOptions (p_spec p)) r)"
  have ex: "ready A key q (u @ [?ex ip r])"
    if "ready A key q u" "endpoint_read A ip v" "prefix t v" "calm v u" "still_owned p d u" for u v ip d r
  proof -
    have "prefix v u" "prefix t u" using that(3,4) calm_prefix prefix_order.trans by blast+
    then have "authorized A key p d u" "endpoint_read A ip u" "carved_for key ext created u" "recorded key created u"
      using assms(2-5) that(2,5) by (blast intro: authorizedI endpoint_read_mono carved_for_mono recorded_mono)+
    then have "export_due A key ext (vi_BackendVolumeID created) ip 4420 (ps_TargetOptions (p_spec p)) u"
      unfolding export_due_def by blast
    with that(1) show ?thesis by (intro ready_step) (auto simp: agent_call_defs readyD)
  qed
  have due: "exported_due b (b\<lparr>p_status := ((p_status b)\<lparr>pst_State := PartitionExported, pst_NQN := nqn, pst_PortalIP := ip,
      pst_PortalPort := 4420\<rparr>)\<lparr>pst_Conditions := cs\<rparr>\<rparr>) u" if "?ex ip (Inr nqn) \<in> set u" for b nqn ip cs u
    using that by (auto simp: exported_due_def)
  have status: "post (updatePartitionStatus (recording_agent A) key (exported_status (recording_agent A) p nqn ip) (w', u))
      (\<lambda>r t'. ready A key q t')" if "ready A key q u" "?ex ip (Inr nqn) \<in> set u" for w' u ip nqn
  proof -
    let ?c = "mk_Condition partitionProvisioningCondition ConditionTrue (om_Generation (p_meta p)) ''Provisioned''
      (Text ''The NVMe partition is provisioned and exported'')"
    have "exported_status (recording_agent A) p nqn ip = (\<lambda>st. with_condition (recording_agent A) ?c
        (st\<lparr>pst_State := PartitionExported, pst_NQN := nqn, pst_PortalIP := ip, pst_PortalPort := 4420\<rparr>))"
      by (rule ext) (simp add: exported_status_def)
    then show ?thesis using post_weaken [OF updatePartitionStatus_condition_post [OF that(1) due [OF that(2)], where c = ?c]] by simp
  qed
  show ?thesis
    unfolding export_volume_def recording_plugins_sel
    by (intro vcg post_bindI [OF rdmaEndpoint_post [OF assms(1)]] provisioning_failure_posts
          post_bindI [OF verifyProvisioningAuthorization_post [where key = key and q = q]] post_bindI [OF status])
       (auto intro: ex calm_prefix)
qed

lemma carve_volume_post:
  assumes "ready A key q t" and "current key p t" and "still_owned p d t" and "admitted A key q t"
    and "ext = fst (identitiesForPartition q)" and "RoundUp (ps_Size (p_spec q)) = Inr req" and "on_device p path dev t"
  shows "post (carve_volume (recording_agent A) key p (recording_plugins g) ext req path dev (w, t)) (\<lambda>r t'. ready A key q t')"
proof -
  let ?m = "vm_Name (rp_volumeManager g)"
  let ?st = "\<lambda>r. Other (SetupStorageEv ?m path dev r)"
  let ?cr = "\<lambda>r. Other (CreateVolumeEv ?m path dev ext (ps_Size (p_spec p)) r)"
  have st: "ready A key q (t @ [?st r])" for r
  proof -
    have "storage_due A key path dev t"
      using authorizedI [OF assms(4) currentD(1) [OF assms(2)] _ assms(3)] assms(7) unfolding storage_due_def by blast
    with assms(1) show ?thesis by (intro ready_step) (auto simp: agent_call_defs readyD)
  qed
  have cur: "current key p u" if "prefix (t @ [?st None]) u" for u
    using assms(2) that by (auto intro: current_mono dest: append_prefixD)
  have cur': "current key p (u @ [ev])" if "calm (t @ [?st None]) u" for u ev
    by (rule current_mono [OF cur [OF calm_prefix [OF that]]]) simp
  have cr: "ready A key q (u @ [?cr r])"
    if "ready A key q u" "prefix (t @ [?st None]) u" "still_owned p d' u" for u d' r
  proof -
    have "prefix t u" using that(2) by (rule append_prefixD)
    then have "volume_due A key path dev ext (ps_Size (p_spec p)) u"
      using authorizedI [OF assms(4) currentD(1) [OF assms(2)] _ that(3)] on_device_mono [OF assms(7)] readyD(2) [OF that(1)] assms(5)
      unfolding volume_due_def by blast
    with that(1) show ?thesis by (intro ready_step) (auto simp: agent_call_defs readyD)
  qed
  have adm: "admitted A key q v" if "prefix (t @ [?st None]) u" "prefix (u @ [ev]) v" for u v ev
    using assms(4) that by (meson admitted_mono append_prefixD prefix_order.trans)
  have carved: "carved_for key ext i v"
    if "ready A key q u" "reject_created n req i = None" "prefix (u @ [?cr (Inr i)]) v" for u i n v
  proof -
    have "opened key q v" "Other (CreateVolumeEv ?m path dev ext (ps_Size (p_spec p)) (Inr i)) \<in> set v"
      using opened_mono [OF readyD(2) [OF that(1)]] that(3) set_mono_prefix [OF that(3)] by (auto dest: append_prefixD)
    then show ?thesis
      using that(2) assms(5,6) unfolding carved_for_def by (fastforce simp: reject_created_def split: if_splits)
  qed
  show ?thesis
    unfolding carve_volume_def recording_plugins_sel
    by (intro vcg provisioning_failure_posts post_bindI [OF verifyProvisioningAuthorization_post [where key = key and q = q]]
          post_bindI [OF persistBackendVolumeIdentity_post [where key = key and q = q]] export_volume_post)
       (auto simp: st intro: cr carved cur' adm calm_prefix dest: calm_prefix)
qed

lemma findProvisioningDevice_post:
  assumes "ready A key q t"
  shows "post (findProvisioningDevice (recording_agent A) p n (w, t)) 
    (\<lambda>r t'. ready A key q t' \<and> prefix t t' \<and> (\<forall>f. r = Inr f \<longrightarrow> on_device p (fst f) (snd f) t'))"
  unfolding findProvisioningDevice_def by (intro vcg) (use assms in \<open>auto simp: on_device_def\<close>)

lemma activate_backend_post:
  assumes "ready A key q t"
  shows "post (activate_backend (recording_agent A) d n (w, t)) (\<lambda>r t'. ready A key q t' \<and> calm t t')"
  unfolding activate_backend_def by (intro vcg updateDeviceStatus_post [OF assms]) (use assms in auto)

lemma provisionPartition_post:
  assumes "ready A key q t" and "current key p t"
    and "ext = fst (identitiesForPartition q)" and "RoundUp (ps_Size (p_spec q)) = Inr req" and "admitted A key q t"
  shows "post (provisionPartition (recording_agent A) key p (recording_plugins g) ext req (w, t)) (\<lambda>r t'. ready A key q t')"
proof -
  let ?sd = "\<lambda>d r. Other (SetupDeviceEv (tb_Name (rp_targetBackend g)) (ds_PCIAddress (d_spec d)) (d_Name d) (ps_TargetOptions (p_spec p)) r)"
  have sd: "ready A key q (u @ [?sd d r])" if "ready A key q u" "prefix t u" "still_owned p d u" for u d r
  proof -
    have "device_due A key (ds_PCIAddress (d_spec d)) (d_Name d) (ps_TargetOptions (p_spec p)) u"
      using authorizedI [OF assms(5) currentD(1) [OF assms(2)] that(2,3)] unfolding device_due_def by blast
    with that(1) show ?thesis by (intro ready_step) (auto simp: agent_call_defs readyD)
  qed
  show ?thesis
    unfolding provisionPartition_def recording_plugins_sel
    by (intro vcg provisioning_failure_posts post_bindI [OF verifyProvisioningAuthorization_post [where key = key and q = q]]
          post_bindI [OF rdmaEndpoint_post [where key = key and q = q]] post_bindI [OF findProvisioningDevice_post [where key = key and q = q]]
          post_bindI [OF activate_backend_post [where key = key and q = q]] carve_volume_post [OF _ _ _ _ assms(3,4)])
       (use assms(1,2) in \<open>auto intro: sd still_owned_mono prefix_order.trans dest: calm_prefix append_prefixD\<close>,
         (meson assms(5) admitted_mono current_mono on_device_mono calm_prefix append_prefixD prefix_order.trans)+)
qed

section \<open>Reconcile\<close>

lemma post_ready: "post x (\<lambda>r t'. ready A key q t') \<Longrightarrow> post x (\<lambda>r t'. justified (agent_call_ok A key) t')"
  by (simp add: post_def ready_def)

lemma reconcile_live_post:
  assumes "ready A key q t" and "list_all (\<lambda>ev. \<not> is_plugin ev) t"
  shows "post (reconcile_live (recording_agent A) key q (recording_plugins g) (w, t)) (\<lambda>r t'. justified (agent_call_ok A key) t')"
proof -
  obtain ext vid where ids: "identitiesForPartition q = (ext, vid)" by (cases "identitiesForPartition q")
  have adm: "admitted A key q v" if "vetted (ag_kube A) q u" "ready A key q v" "prefix u v" for u v
    using that vetted_mono readyD(2) unfolding admitted_def by blast
  show ?thesis
    unfolding reconcile_live_def ids prod.case recording_plugins_sel
    by (intro vcg post_ready [OF provisioning_failure_posts(1)] post_ready [OF provisioning_failure_posts(3)] post_ready [OF provisionPartition_post]
          post_bindI [OF verifyProvisioningAuthorization_post [OF assms(1)]]
          post_bindI [OF setClaimAuthorizationCondition_post [where key = key and q = q]]
          post_bindI [OF ensurePartitionIdentityAndFinalizer_post [where key = key and q = q]]
          post_bindI [OF reconcileExportedPartition_post [where key = key and q = q]])
       (use assms in \<open>auto simp: readyD ids intro: currentD current_mono adm dest: calm_prefix intro: prefix_order.trans\<close>)
qed

lemma resolvePartitionPlugins_recording:
  "resolvePartitionPlugins (recording_registry rg) p = map_sum id recording_plugins (resolvePartitionPlugins rg p)"
  by (auto simp: resolvePartitionPlugins_def recording_registry_find recording_plugins_def split: sum.split)

lemma agent_Reconcile_post:
  "post (agent_Reconcile (recording_agent A) key (w, [])) (\<lambda>r t. justified (agent_call_ok A key) t)"
proof -
  have start: "ready A key q [Partitions (GetCall key (Inr q))]" for q
    by (simp add: ready_def opened_def)
  show ?thesis
    unfolding agent_Reconcile_def Let_def recording_agent_sel recording_sel resolvePartitionPlugins_recording
    apply (intro vcg)
    subgoal by simp
    subgoal by simp
    subgoal by simp
    subgoal for r w q failure
      by (rule post_ready [OF provisioning_failure_posts(1)]) (use start in simp)
    subgoal by simp
    subgoal for r w q g
      by (cases "resolvePartitionPlugins (ag_plugins A) q") (auto intro!: post_ready [OF reconcilePartitionDeletion_post] start)
    subgoal for r w q g
      by (cases "resolvePartitionPlugins (ag_plugins A) q") (auto intro!: reconcile_live_post start)
    done
qed

text \<open>What a volume manager reported is no reason to fail for good.\<close>

definition never_rejected :: "string \<Rightarrow> int \<Rightarrow> error + VolumeIdentity \<Rightarrow> bool" where
  "never_rejected managerName bytes r \<longleftrightarrow> (\<forall>created. r = Inr created \<longrightarrow>
     (\<exists>req. RoundUp bytes = Inr req \<and> reject_created managerName req created = None))"

section \<open>Properties\<close>

text \<open>C1: the agent prepares a device, carves a volume and exports it only for a partition that was admitted and is still
  owned. Admitted: before any plugin was called, the partition as it was read had been provisioned before, or its
  placement was authorized by the controller, its claim active and its device claimed. Still owned: since the last
  call of a plugin the claim of the partition was read again, live and the very one referred to, with a device of the
  node and serial number of the partition that is bound to it. Storage is prepared and carved only on the device that
  was discovered under that serial number. The volume is named and sized as the partition asks; only a volume that
  was reported, large enough and recorded in the status is exported, at the endpoint of the healthy node; and the
  status says exported only with the address and the NQN of an export that was made.\<close>

theorem agent_provisions_authorized:
  "post (agent_Reconcile (recording_agent A) key (w, [])) (\<lambda>r t. justified (provision_call_ok A key) t)"
  by (rule post_weaken [OF agent_Reconcile_post], erule justified_mono) (simp add: agent_call_ok_def)

text \<open>C4: the agent takes a partition down in order: the target is removed only for a partition that is being deleted and
  carries the finalizer, the volume is deleted only after the target was, and by the identity the
  status recorded, and the finalizer is removed only after both are gone.\<close>

theorem agent_takedown_order:
  "post (agent_Reconcile (recording_agent A) key (w, [])) (\<lambda>r t. justified (takedown_call_ok A key) t)"
  by (rule post_weaken [OF agent_Reconcile_post], erule justified_mono) (simp add: agent_call_ok_def)

text \<open>C7: the agent lets a host in only for an attachment it read right before, that is live, protected by its finalizer and
  refers to this very partition by name and UID. It sets the condition of an attachment to true, with its identifier,
  only when it had read that attachment and the target let its host in right after; and it releases an attachment only
  after the target revoked all access or was removed.\<close>

theorem agent_access_attached:
  "post (agent_Reconcile (recording_agent A) key (w, [])) (\<lambda>r t. justified (access_call_ok A key) t)"
  by (rule post_weaken [OF agent_Reconcile_post], erule justified_mono) (simp add: agent_call_ok_def)

text \<open>C34: once the state of an export could not be observed, the agent makes no further call: nothing is changed on
  uncertain information. In any case it writes no claims and no nodes, and of a device only the active backend.\<close>

theorem agent_observation_error_stops:
  "post (agent_Reconcile (recording_agent A) key (w, [])) (\<lambda>r t. justified frame_call_ok t)"
  by (rule post_weaken [OF agent_Reconcile_post], erule justified_mono) (simp add: agent_call_ok_def)

text \<open>C35: neither volume manager of the agent can make it give a partition up: what they report for a volume
  always has an identifier and the rounded size, which the agent accepts.\<close>

theorem reported_volumes_accepted:
  "never_rejected parted_Name bytes (fst (vm_CreateVolume (PartedVolumeManager H) path dev vol bytes w)) \<and>
   never_rejected lvol_Name bytes (fst (vm_CreateVolume (SPDKLvolManager H) path dev vol bytes w))"
proof -
  have host: "fst (on_host f s) = fst (f (fst s))" for f :: "'a \<Rightarrow> 'r \<times> 'a" and s
    by (simp add: on_host_def split: prod.split)
  have ok: "never_rejected n bytes r" if "carved_exactly vol bytes r" for n r
    using that by (auto simp: never_rejected_def reject_created_def carved_exactly_def)
  show ?thesis
    using ok [OF parted.carves [of vol bytes H path dev "fst w"]] ok [OF lvol.carves [of vol bytes H path dev "fst w"]]
    by (simp add: PartedVolumeManager_def SPDKLvolManager_def host)
qed

end
