(* ===== verification/Agent_Progress.thy ===== *)
theory Agent_Progress
  imports Agent_Calls Sample_Objects
begin

text \<open>
  The agent makes progress (\<^verbatim>\<open>internal/agent/partition_manager.go\<close>): one reconciliation of a placed partition
  exports it and records the export, when the cluster serves the objects of its placement, accepts the writes of the
  agent, and the plugins do their work one after another. What the cluster and the machine promise is stated about
  the worlds a run goes through: \<open>reached s w\<close> says that \<open>w\<close> has come to the stage \<open>s\<close>. Objects may change between two
  reads, and what a plugin answers may depend on what it was asked and on what happened before.
\<close>

section \<open>What the cluster and the machine promise\<close>

text \<open>The stages of a run: the partition was read, its identities are recorded, the device and the storage on it are
  prepared, and the volume is carved.\<close>

datatype stage = Fresh | Identified | DeviceReady | StorageReady | Carved VolumeIdentity

text \<open>Where a partition is placed: its claim, the device object with its PCI address, the device as it is discovered,
  the address of the node, and the plugins.\<close>

record 'w site =
  si_ref :: NVMeDeviceClaimReference
  si_device :: string
  si_pci :: string
  si_hw :: HardwareNVMe
  si_ip :: string
  si_plugins :: "'w resolvedPartitionPlugins"

definition claim_fits :: "NVMePartition \<Rightarrow> ('w, 'z) site_scheme \<Rightarrow> NVMeDeviceClaim \<Rightarrow> bool" where
  "claim_fits p si c \<longleftrightarrow> check_claim p (si_ref si) c = None \<and> cst_MatchedDevice (c_status c) = si_device si"

definition device_fits :: "NVMePartition \<Rightarrow> ('w, 'z) site_scheme \<Rightarrow> NVMeDevice \<Rightarrow> bool" where
  "device_fits p si d \<longleftrightarrow> check_device p (si_ref si) d = None \<and> object_key (d_meta d) = ([], si_device si) \<and> ds_PCIAddress (d_spec d) = si_pci si \<and>
     (dst_ActiveBackend (d_status d) = [] \<or> dst_ActiveBackend (d_status d) = rp_targetBackendName (si_plugins si))"

text \<open>The partition is to be provisioned on this node: it is placed and admitted.\<close>

definition placed :: "'w agent \<Rightarrow> NVMePartition \<Rightarrow> 'w site \<Rightarrow> int \<Rightarrow> bool" where
  "placed A p si req \<longleftrightarrow> p_NodeName p = ag_NodeName A \<and> om_DeletionTimestamp (p_meta p) = None \<and>
     \<not> partitionHasTerminalFailure (ag_kube A) p \<and> pst_State (p_status p) \<noteq> PartitionExported \<and>
     fst (identitiesForPartition p) \<noteq> [] \<and> (recovering p \<or> IsAuthorized (ag_kube A) p) \<and> p_Serial p \<noteq> [] \<and>
     ps_ClaimRef (p_spec p) = Some (si_ref si) \<and> ref_Namespace (si_ref si) \<noteq> [] \<and> ref_Name (si_ref si) \<noteq> [] \<and>
     ref_UID (si_ref si) \<noteq> [] \<and> resolvePartitionPlugins (ag_plugins A) p = Inr (si_plugins si) \<and>
     storageoptions_Validate (rp_targetBackendName (si_plugins si)) (ps_TargetOptions (p_spec p)) = None \<and>
     RoundUp (ps_Size (p_spec p)) = Inr req"

text \<open>The partition as it is stored: until its identities are recorded, nobody else changes its spec or state.\<close>

definition stands :: "NVMePartition \<Rightarrow> stage \<Rightarrow> NVMePartition \<Rightarrow> bool" where
  "stands p s b \<longleftrightarrow> object_key (p_meta b) = object_key (p_meta p) \<and>
     (s = Fresh \<longrightarrow> p_spec b = p_spec p \<and> pst_State (p_status b) = pst_State (p_status p))"

text \<open>Reading: at every stage the objects are there, the claim and the device still pass the checks, and the node is
  healthy by the clock that is read next.\<close>

definition serves :: "'w agent \<Rightarrow> NVMePartition \<Rightarrow> 'w site \<Rightarrow> (stage \<Rightarrow> 'w \<Rightarrow> bool) \<Rightarrow> bool" where
  "serves A p si reached \<longleftrightarrow> (\<forall>s w. reached s w \<longrightarrow>
     after (Get (partitions (ag_kube A)) (object_key (p_meta p)) w)
       (\<lambda>r w'. \<exists>b. r = Inr b \<and> stands p s b \<and> reached s w') \<and>
     after (Get (claims (ag_kube A)) (ref_Namespace (si_ref si), ref_Name (si_ref si)) w)
       (\<lambda>r w'. \<exists>c. r = Inr c \<and> claim_fits p si c \<and> reached s w') \<and>
     after (Get (devices (ag_kube A)) ([], si_device si) w) (\<lambda>r w'. \<exists>d. r = Inr d \<and> device_fits p si d \<and> reached s w') \<and>
     after (Get (rdmanodes (ag_kube A)) ([], ag_NodeName A) w) (\<lambda>r w'. \<exists>n. r = Inr n \<and> ns_RDMAIP (n_spec n) = si_ip si \<and>
       rdmahealth_Validate (ag_kube A) n (fst (Now (ag_kube A) w')) = None \<and> reached s w') \<and>
     after (Now (ag_kube A) w) (\<lambda>_ w'. reached s w'))"

text \<open>Writing: conditions and the identities first, then the finalizer, the active backend of the device, and the status
  once the volume is carved. A partition whose identities are recorded already starts identified.\<close>

definition identified :: "NVMePartition \<Rightarrow> NVMePartition \<Rightarrow> bool" where
  "identified p b \<longleftrightarrow> p_spec b = p_spec p \<and> recovering b \<and> pst_State (p_status b) = pst_State (p_status p)"

definition with_ids :: "NVMePartition \<Rightarrow> NVMePartitionStatus \<Rightarrow> NVMePartitionStatus" where
  "with_ids p st = st\<lparr>pst_ExternalID := fst (identitiesForPartition p), pst_VolumeID := snd (identitiesForPartition p)\<rparr>"

definition accepts_writes :: "'w agent \<Rightarrow> NVMePartition \<Rightarrow> 'w site \<Rightarrow> (stage \<Rightarrow> 'w \<Rightarrow> bool) \<Rightarrow> bool" where
  "accepts_writes A p si reached \<longleftrightarrow> (let K = ag_kube A in
     (\<forall>b cs w. stands p Fresh b \<and> reached Fresh w \<longrightarrow>
        after (StatusPatch (partitions K) b (b\<lparr>p_status := (p_status b)\<lparr>pst_Conditions := cs\<rparr>\<rparr>) w)
          (\<lambda>r w'. err_of r = None \<and> reached Fresh w')) \<and>
     (\<forall>b w. stands p Fresh b \<and> reached Fresh w \<longrightarrow>
        after (StatusPatch (partitions K) b (b\<lparr>p_status := with_ids p (p_status b)\<rparr>) w)
          (\<lambda>r w'. err_of r = None \<and> reached Identified w')) \<and>
     (\<forall>w. with_ids p (p_status p) = p_status p \<and> reached Fresh w \<longrightarrow> reached Identified w) \<and>
     (\<forall>b w. object_key (p_meta b) = object_key (p_meta p) \<and> identified p b \<and> reached Identified w \<longrightarrow>
        after (Patch (partitions K) b (b\<lparr>p_meta := AddFinalizer K (p_meta b) partitionFinalizer\<rparr>) w)
          (\<lambda>r w'. \<exists>y. r = Inr y \<and> identified p y \<and> reached Identified w')) \<and>
     (\<forall>d w. device_fits p si d \<and> reached DeviceReady w \<longrightarrow>
        after (StatusPatch (devices K) d (d\<lparr>d_status := (d_status d)\<lparr>dst_ActiveBackend := rp_targetBackendName (si_plugins si)\<rparr>\<rparr>) w)
          (\<lambda>r w'. err_of r = None \<and> reached DeviceReady w')) \<and>
     (\<forall>i b st w. stands p (Carved i) b \<and> reached (Carved i) w \<longrightarrow>
        after (StatusPatch (partitions K) b (b\<lparr>p_status := st\<rparr>) w) (\<lambda>r w'. err_of r = None \<and> reached (Carved i) w')))"

text \<open>The plugins: each succeeds on what the ones before it left, and is asked only for this partition.\<close>

definition site_path :: "('w, 'z) site_scheme \<Rightarrow> string" where
  "site_path si = (if rp_targetBackendName (si_plugins si) = spdkTargetBackend then hw_Name (si_hw si) else block_path (si_hw si))"

definition plugins_work :: "'w agent \<Rightarrow> NVMePartition \<Rightarrow> 'w site \<Rightarrow> int \<Rightarrow> (stage \<Rightarrow> 'w \<Rightarrow> bool) \<Rightarrow> bool" where
  "plugins_work A p si req reached \<longleftrightarrow>
     (let target = rp_targetBackend (si_plugins si); manager = rp_volumeManager (si_plugins si); opts = ps_TargetOptions (p_spec p);
          vol = fst (identitiesForPartition p); path = site_path si; dev = hw_Name (si_hw si) in
     (\<forall>w. reached Identified w \<longrightarrow>
        after (tb_SetupDevice target (si_pci si) (si_device si) opts w) (\<lambda>r w'. r = None \<and> reached DeviceReady w')) \<and>
     (\<forall>w. reached DeviceReady w \<longrightarrow>
        after (ag_DiscoverNVMe A w) (\<lambda>r w'. snd r = None \<and> List.find (same_serial p) (fst r) = Some (si_hw si) \<and> reached DeviceReady w')) \<and>
     (\<forall>w. reached DeviceReady w \<longrightarrow> after (vm_SetupStorage manager path dev w) (\<lambda>r w'. r = None \<and> reached StorageReady w')) \<and>
     (\<forall>w. reached StorageReady w \<longrightarrow> after (vm_CreateVolume manager path dev vol (ps_Size (p_spec p)) w)
        (\<lambda>r w'. \<exists>i. r = Inr i \<and> reject_created (rp_volumeManagerName (si_plugins si)) req i = None \<and> reached (Carved i) w')) \<and>
     (\<forall>i w. reached (Carved i) w \<longrightarrow> after (tb_ExportVolume target vol (vi_BackendVolumeID i) (si_ip si) 4420 opts w)
        (\<lambda>r w'. (\<exists>nqn. r = Inr nqn) \<and> reached (Carved i) w')))"

section \<open>The operations succeed\<close>

lemma afterE: "after x Q \<Longrightarrow> (\<And>r w. x = (r, w) \<Longrightarrow> Q r w \<Longrightarrow> P) \<Longrightarrow> P"
  by (cases x) (simp add: after_def)

lemma after_pair: "after (r, w) Q \<longleftrightarrow> Q r w"
  by (simp add: after_def)

text \<open>A partition that the checks pass, whatever became of its status.\<close>

definition passes :: "NVMePartition \<Rightarrow> NVMePartition \<Rightarrow> bool" where
  "passes p p' \<longleftrightarrow> p_spec p' = p_spec p \<and> (p' = p \<or> recovering p')"

lemma identified_passes: "identified p p' \<Longrightarrow> passes p p'"
  by (simp add: identified_def passes_def)

lemma claim_fits_passes: "claim_fits p si c \<Longrightarrow> passes p p' \<Longrightarrow> check_claim p' (si_ref si) c = None"
  by (auto simp: claim_fits_def passes_def check_claim_def Let_def split: if_splits)

lemma device_fits_passes: "device_fits p si d \<Longrightarrow> passes p p' \<Longrightarrow> check_device p' (si_ref si) d = None"
  by (auto simp: device_fits_def passes_def check_device_def split: if_splits)

lemma servesD:
  assumes "serves A p si reached" and "reached s w"
  shows "after (Get (partitions (ag_kube A)) (object_key (p_meta p)) w)
       (\<lambda>r w'. \<exists>b. r = Inr b \<and> stands p s b \<and> reached s w')"
    "after (Get (claims (ag_kube A)) (ref_Namespace (si_ref si), ref_Name (si_ref si)) w)
       (\<lambda>r w'. \<exists>c. r = Inr c \<and> claim_fits p si c \<and> reached s w')"
    "after (Get (devices (ag_kube A)) ([], si_device si) w) (\<lambda>r w'. \<exists>d. r = Inr d \<and> device_fits p si d \<and> reached s w')"
    "after (Get (rdmanodes (ag_kube A)) ([], ag_NodeName A) w) (\<lambda>r w'. \<exists>n. r = Inr n \<and> ns_RDMAIP (n_spec n) = si_ip si \<and>
       rdmahealth_Validate (ag_kube A) n (fst (Now (ag_kube A) w')) = None \<and> reached s w')"
    "after (Now (ag_kube A) w) (\<lambda>_ w'. reached s w')"
  using assms unfolding serves_def by blast+

lemma verify_runs:
  assumes "serves A p si reached" and "placed A p si req" and "passes p p'" and "reached s w"
  shows "after (verifyProvisioningAuthorization A p' w) (\<lambda>r w'. \<exists>d. r = Inr d \<and> device_fits p si d \<and> reached s w')"
proof -
  obtain c w1 where c: "Get (claims (ag_kube A)) (ref_Namespace (si_ref si), ref_Name (si_ref si)) w = (Inr c, w1)" "claim_fits p si c" "reached s w1"
    using servesD(2) [OF assms(1,4)] by (auto elim: afterE)
  obtain d w2 where d: "Get (devices (ag_kube A)) ([], si_device si) w1 = (Inr d, w2)" "device_fits p si d" "reached s w2"
    using servesD(3) [OF assms(1) c(3)] by (auto elim: afterE)
  have "recovering p' \<or> IsAuthorized (ag_kube A) p'" "ps_ClaimRef (p_spec p') = Some (si_ref si)" "p_Serial p' \<noteq> []"
    "ref_Namespace (si_ref si) \<noteq> []" "ref_Name (si_ref si) \<noteq> []" "ref_UID (si_ref si) \<noteq> []"
    using assms(2,3) by (auto simp: placed_def passes_def)
  moreover have "cst_MatchedDevice (c_status c) = si_device si" using c(2) by (simp add: claim_fits_def)
  ultimately show ?thesis
    using c d claim_fits_passes [OF c(2) assms(3)] device_fits_passes [OF d(2) assms(3)]
    by (simp add: verifyProvisioningAuthorization_def Let_def after_pair)
qed

lemma rdmaEndpoint_runs:
  assumes "serves A p si reached" and "reached s w"
  shows "after (rdmaEndpoint A w) (\<lambda>r w'. r = Inr (si_ip si) \<and> reached s w')"
proof -
  obtain n w1 where n: "Get (rdmanodes (ag_kube A)) ([], ag_NodeName A) w = (Inr n, w1)" "ns_RDMAIP (n_spec n) = si_ip si"
    "rdmahealth_Validate (ag_kube A) n (fst (Now (ag_kube A) w1)) = None" "reached s w1"
    using servesD(4) [OF assms] by (auto elim: afterE)
  obtain now w2 where "Now (ag_kube A) w1 = (now, w2)" "reached s w2"
    using servesD(5) [OF assms(1) n(4)] by (auto elim: afterE)
  with n show ?thesis by (simp add: rdmaEndpoint_def after_pair)
qed

lemma with_condition_runs:
  assumes "serves A p si reached" and "reached s w"
  shows "after (with_condition A c st w) (\<lambda>st' w'. (\<exists>cs. st' = st\<lparr>pst_Conditions := cs\<rparr>) \<and> reached s w')"
proof -
  obtain now w1 where "Now (ag_kube A) w = (now, w1)" "reached s w1"
    using servesD(5) [OF assms] by (auto elim: afterE)
  then show ?thesis by (auto simp: with_condition_def set_condition_def after_pair)
qed

lemma updatePartitionStatus_runs:
  assumes "serves A p si reached" and "reached s w" and "\<And>st w. reached s w \<Longrightarrow> after (f st w) (\<lambda>st' w'. R st st' \<and> reached s w')"
    and "\<And>b st w. stands p s b \<Longrightarrow> R (p_status b) st \<Longrightarrow> reached s w \<Longrightarrow>
      after (StatusPatch (partitions (ag_kube A)) b (b\<lparr>p_status := st\<rparr>) w) (\<lambda>r w'. err_of r = None \<and> reached s' w')"
  shows "after (updatePartitionStatus A (object_key (p_meta p)) f w) (\<lambda>r w'. r = None \<and> reached s' w')"
proof -
  obtain b w1 where b: "Get (partitions (ag_kube A)) (object_key (p_meta p)) w = (Inr b, w1)"
    "stands p s b" "reached s w1"
    using servesD(1) [OF assms(1,2)] by (auto elim: afterE)
  obtain st w2 where st: "f (p_status b) w1 = (st, w2)" "R (p_status b) st" "reached s w2"
    using assms(3) [OF b(3), of "p_status b"] by (auto elim: afterE)
  obtain r w3 where "StatusPatch (partitions (ag_kube A)) b (b\<lparr>p_status := st\<rparr>) w2 = (r, w3)" "err_of r = None" "reached s' w3"
    using assms(4) [OF b(2) st(2,3)] by (auto elim: afterE)
  with b st show ?thesis by (simp add: updatePartitionStatus_def after_pair)
qed

lemma accepts_writesD:
  assumes "accepts_writes A p si reached"
  shows "stands p Fresh b \<Longrightarrow> reached Fresh w \<Longrightarrow> after (StatusPatch (partitions (ag_kube A)) b (b\<lparr>p_status := (p_status b)\<lparr>pst_Conditions := cs\<rparr>\<rparr>) w)
      (\<lambda>r w'. err_of r = None \<and> reached Fresh w')"
    "stands p Fresh b \<Longrightarrow> reached Fresh w \<Longrightarrow> after (StatusPatch (partitions (ag_kube A)) b (b\<lparr>p_status := with_ids p (p_status b)\<rparr>) w)
      (\<lambda>r w'. err_of r = None \<and> reached Identified w')"
    "object_key (p_meta b) = object_key (p_meta p) \<Longrightarrow> identified p b \<Longrightarrow> reached Identified w \<Longrightarrow>
      after (Patch (partitions (ag_kube A)) b (b\<lparr>p_meta := AddFinalizer (ag_kube A) (p_meta b) partitionFinalizer\<rparr>) w)
      (\<lambda>r w'. \<exists>y. r = Inr y \<and> identified p y \<and> reached Identified w')"
    "stands p (Carved i) b \<Longrightarrow> reached (Carved i) w \<Longrightarrow> after (StatusPatch (partitions (ag_kube A)) b (b\<lparr>p_status := st\<rparr>) w)
      (\<lambda>r w'. err_of r = None \<and> reached (Carved i) w')"
  using assms unfolding accepts_writes_def Let_def by blast+

lemma setClaimAuthorizationCondition_runs:
  assumes "serves A p si reached" and "accepts_writes A p si reached" and "reached Fresh w"
  shows "after (setClaimAuthorizationCondition A p st reason msg w) (\<lambda>r w'. r = None \<and> reached Fresh w')"
  unfolding setClaimAuthorizationCondition_def
  by (rule updatePartitionStatus_runs [OF assms(1,3) with_condition_runs [OF assms(1)]])
     (use accepts_writesD(1) [OF assms(2)] in auto)

lemma carved_status_runs:
  assumes "serves A p si reached" and "accepts_writes A p si reached" and "reached (Carved i) w"
    and "\<And>st w. reached (Carved i) w \<Longrightarrow> after (f st w) (\<lambda>st' w'. reached (Carved i) w')"
  shows "after (updatePartitionStatus A (object_key (p_meta p)) f w) (\<lambda>r w'. r = None \<and> reached (Carved i) w')"
  by (rule updatePartitionStatus_runs [OF assms(1,3), where R = "\<lambda>_ _. True"])
     (use assms(4) accepts_writesD(4) [OF assms(2)] in auto)

lemma ensure_runs:
  assumes "serves A p si reached" and "accepts_writes A p si reached" and "fst (identitiesForPartition p) \<noteq> []" and "reached Fresh w"
  shows "after (ensurePartitionIdentityAndFinalizer A (object_key (p_meta p)) p (fst (identitiesForPartition p)) (snd (identitiesForPartition p)) w)
    (\<lambda>r w'. \<exists>p'. r = Inr p' \<and> identified p p' \<and> reached Identified w')"
proof -
  let ?finish = "\<lambda>b w. if ContainsFinalizer (ag_kube A) (p_meta b) partitionFinalizer then (Inr b, w)
    else Patch (partitions (ag_kube A)) b (b\<lparr>p_meta := AddFinalizer (ag_kube A) (p_meta b) partitionFinalizer\<rparr>) w"
  have finish: "after (?finish b w) (\<lambda>r w'. \<exists>p'. r = Inr p' \<and> identified p p' \<and> reached Identified w')"
    if "object_key (p_meta b) = object_key (p_meta p)" "identified p b" "reached Identified w" for b w
    using that accepts_writesD(3) [OF assms(2) that] by (simp add: after_pair)
  have ids: "identified p (p\<lparr>p_status := with_ids p (p_status p)\<rparr>)"
    using assms(3) by (simp add: identified_def with_ids_def recovering_def)
  show ?thesis
  proof (cases "with_ids p (p_status p) = p_status p")
    case True
    then have "identified p p" using ids by simp
    moreover have "pst_ExternalID (p_status p) = fst (identitiesForPartition p)" "pst_VolumeID (p_status p) = snd (identitiesForPartition p)"
      using arg_cong [OF True, of pst_ExternalID] arg_cong [OF True, of pst_VolumeID] by (simp_all add: with_ids_def)
    moreover have "reached Identified w" using True assms(2,4) by (simp add: accepts_writes_def Let_def)
    ultimately show ?thesis
      using finish [of p w] by (simp add: ensurePartitionIdentityAndFinalizer_def Let_def)
  next
    case False
    then have ne: "pst_ExternalID (p_status p) \<noteq> fst (identitiesForPartition p) \<or> pst_VolumeID (p_status p) \<noteq> snd (identitiesForPartition p)"
      by (auto simp: with_ids_def)
    have "after (updatePartitionStatus A (object_key (p_meta p)) (\<lambda>st w. (with_ids p st, w)) w) (\<lambda>r w'. r = None \<and> reached Identified w')"
      by (rule updatePartitionStatus_runs [OF assms(1,4), where R = "\<lambda>st st'. st' = with_ids p st"])
         (use accepts_writesD(2) [OF assms(2)] in \<open>auto simp: after_pair\<close>)
    then obtain w1 where "updatePartitionStatus A (object_key (p_meta p)) (\<lambda>st w. (with_ids p st, w)) w = (None, w1)" "reached Identified w1"
      by (auto elim: afterE)
    with ne finish [OF _ ids, of w1] show ?thesis
      by (simp add: ensurePartitionIdentityAndFinalizer_def Let_def with_ids_def [symmetric])
  qed
qed

lemma activate_backend_runs:
  assumes "serves A p si reached" and "accepts_writes A p si reached" and "device_fits p si d" and "reached DeviceReady w"
  shows "after (activate_backend A d (rp_targetBackendName (si_plugins si)) w) (\<lambda>r w'. r = None \<and> reached DeviceReady w')"
proof -
  obtain l w1 where l: "Get (devices (ag_kube A)) ([], si_device si) w = (Inr l, w1)" "device_fits p si l" "reached DeviceReady w1"
    using servesD(3) [OF assms(1,4)] by (auto elim: afterE)
  have "after (StatusPatch (devices (ag_kube A)) l (l\<lparr>d_status := (d_status l)\<lparr>dst_ActiveBackend := rp_targetBackendName (si_plugins si)\<rparr>\<rparr>) w1)
      (\<lambda>r w'. err_of r = None \<and> reached DeviceReady w')"
    using assms(2) l(2,3) by (simp add: accepts_writes_def Let_def)
  then obtain r w2 where "StatusPatch (devices (ag_kube A)) l (l\<lparr>d_status := (d_status l)\<lparr>dst_ActiveBackend := rp_targetBackendName (si_plugins si)\<rparr>\<rparr>) w1 = (r, w2)"
    "err_of r = None" "reached DeviceReady w2" by (auto elim: afterE)
  with l assms(3,4) show ?thesis
    by (simp add: activate_backend_def updateDeviceStatus_def device_fits_def object_key_def after_pair)
qed

lemma plugins_workD:
  assumes "plugins_work A p si req reached"
  shows "reached Identified w \<Longrightarrow> after (tb_SetupDevice (rp_targetBackend (si_plugins si)) (si_pci si) (si_device si) (ps_TargetOptions (p_spec p)) w)
      (\<lambda>r w'. r = None \<and> reached DeviceReady w')"
    "reached DeviceReady w \<Longrightarrow>
      after (ag_DiscoverNVMe A w) (\<lambda>r w'. snd r = None \<and> List.find (same_serial p) (fst r) = Some (si_hw si) \<and> reached DeviceReady w')"
    "reached DeviceReady w \<Longrightarrow>
      after (vm_SetupStorage (rp_volumeManager (si_plugins si)) (site_path si) (hw_Name (si_hw si)) w) (\<lambda>r w'. r = None \<and> reached StorageReady w')"
    "reached StorageReady w \<Longrightarrow>
      after (vm_CreateVolume (rp_volumeManager (si_plugins si)) (site_path si) (hw_Name (si_hw si)) (fst (identitiesForPartition p)) (ps_Size (p_spec p)) w)
        (\<lambda>r w'. \<exists>i. r = Inr i \<and> reject_created (rp_volumeManagerName (si_plugins si)) req i = None \<and> reached (Carved i) w')"
    "reached (Carved i) w \<Longrightarrow>
      after (tb_ExportVolume (rp_targetBackend (si_plugins si)) (fst (identitiesForPartition p)) (vi_BackendVolumeID i) (si_ip si) 4420
          (ps_TargetOptions (p_spec p)) w) (\<lambda>r w'. (\<exists>nqn. r = Inr nqn) \<and> reached (Carved i) w')"
  using assms unfolding plugins_work_def Let_def by blast+

lemma findProvisioningDevice_runs:
  assumes "plugins_work A p si req reached" and "p_spec p' = p_spec p" and "reached DeviceReady w"
  shows "after (findProvisioningDevice A p' (rp_targetBackendName (si_plugins si)) w)
    (\<lambda>r w'. r = Inr (site_path si, hw_Name (si_hw si)) \<and> reached DeviceReady w')"
proof -
  obtain ds w1 where "ag_DiscoverNVMe A w = ((ds, None), w1)" "List.find (same_serial p) ds = Some (si_hw si)" "reached DeviceReady w1"
    using plugins_workD(2) [OF assms(1,3)] by (auto elim!: afterE)
  moreover have "same_serial p' = same_serial p" using assms(2) by (simp add: same_serial_def fun_eq_iff)
  ultimately show ?thesis by (simp add: findProvisioningDevice_def site_path_def after_pair)
qed

lemma persist_runs:
  assumes "serves A p si reached" and "accepts_writes A p si reached" and "passes p p'" and "vi_BackendVolumeID i \<noteq> []"
    and "reached (Carved i) w"
  shows "after (persistBackendVolumeIdentity A (object_key (p_meta p)) p' i w)
    (\<lambda>r w'. \<exists>p''. r = Inr p'' \<and> passes p p'' \<and> reached (Carved i) w')"
proof -
  have "after (updatePartitionStatus A (object_key (p_meta p)) (\<lambda>st w. (with_identity i st, w)) w) (\<lambda>r w'. r = None \<and> reached (Carved i) w')"
    by (rule carved_status_runs [OF assms(1,2,5)]) (simp add: after_pair)
  then obtain w1 where "updatePartitionStatus A (object_key (p_meta p)) (\<lambda>st w. (with_identity i st, w)) w = (None, w1)" "reached (Carved i) w1"
    by (auto elim: afterE)
  moreover have "passes p (p'\<lparr>p_status := with_identity i (p_status p')\<rparr>)"
    using assms(3,4) by (simp add: passes_def recovering_def with_identity_def)
  ultimately show ?thesis using assms(3,5) by (simp add: persistBackendVolumeIdentity_def after_pair)
qed

lemma export_volume_runs:
  assumes "serves A p si reached" and "accepts_writes A p si reached" and "plugins_work A p si req reached" and "placed A p si req"
    and "passes p p'" and "reached (Carved i) w"
  shows "after (export_volume A (object_key (p_meta p)) p' (si_plugins si) (fst (identitiesForPartition p)) i w)
    (\<lambda>r w'. r = Inr exportedHealthInterval)"
proof -
  obtain w1 where e: "rdmaEndpoint A w = (Inr (si_ip si), w1)" "reached (Carved i) w1"
    using rdmaEndpoint_runs [OF assms(1,6)] by (auto elim: afterE)
  obtain d w2 where v: "verifyProvisioningAuthorization A p' w1 = (Inr d, w2)" "reached (Carved i) w2"
    using verify_runs [OF assms(1,4,5) e(2)] by (auto elim: afterE)
  obtain nqn w3 where x: "tb_ExportVolume (rp_targetBackend (si_plugins si)) (fst (identitiesForPartition p)) (vi_BackendVolumeID i) (si_ip si) 4420
      (ps_TargetOptions (p_spec p)) w2 = (Inr nqn, w3)" "reached (Carved i) w3"
    using plugins_workD(5) [OF assms(3) v(2)] by (auto elim: afterE)
  have status: "after (exported_status A p' nqn (si_ip si) st w) (\<lambda>st' w'. reached (Carved i) w')" if "reached (Carved i) w" for st w
    unfolding exported_status_def by (rule after_weaken [OF with_condition_runs [OF assms(1) that]]) simp
  obtain w4 where "updatePartitionStatus A (object_key (p_meta p)) (exported_status A p' nqn (si_ip si)) w3 = (None, w4)"
    by (rule afterE [OF carved_status_runs [OF assms(1,2) x(2) status]]) auto
  moreover have "p_spec p' = p_spec p" using assms(5) by (simp add: passes_def)
  ultimately show ?thesis using e v x by (simp add: export_volume_def after_pair)
qed

lemma carve_volume_runs:
  assumes "serves A p si reached" and "accepts_writes A p si reached" and "plugins_work A p si req reached" and "placed A p si req"
    and "passes p p'" and "reached DeviceReady w"
  shows "after (carve_volume A (object_key (p_meta p)) p' (si_plugins si) (fst (identitiesForPartition p)) req (site_path si) (hw_Name (si_hw si)) w)
    (\<lambda>r w'. r = Inr exportedHealthInterval)"
proof -
  obtain w1 where s: "vm_SetupStorage (rp_volumeManager (si_plugins si)) (site_path si) (hw_Name (si_hw si)) w = (None, w1)" "reached StorageReady w1"
    using plugins_workD(3) [OF assms(3,6)] by (auto elim: afterE)
  obtain d w2 where v: "verifyProvisioningAuthorization A p' w1 = (Inr d, w2)" "reached StorageReady w2"
    using verify_runs [OF assms(1,4,5) s(2)] by (auto elim: afterE)
  obtain i w3 where c: "vm_CreateVolume (rp_volumeManager (si_plugins si)) (site_path si) (hw_Name (si_hw si)) (fst (identitiesForPartition p)) (ps_Size (p_spec p)) w2
      = (Inr i, w3)" "reject_created (rp_volumeManagerName (si_plugins si)) req i = None" "reached (Carved i) w3"
    using plugins_workD(4) [OF assms(3) v(2)] by (auto elim: afterE)
  have "vi_BackendVolumeID i \<noteq> []" using c(2) by (auto simp: reject_created_def split: if_splits)
  then obtain p'' w4 where q: "persistBackendVolumeIdentity A (object_key (p_meta p)) p' i w3 = (Inr p'', w4)" "passes p p''" "reached (Carved i) w4"
    using persist_runs [OF assms(1,2,5) _ c(3)] by (auto elim: afterE)
  have "p_spec p' = p_spec p" using assms(5) by (simp add: passes_def)
  with s v c q export_volume_runs [OF assms(1-4) q(2,3)] show ?thesis by (simp add: carve_volume_def)
qed

lemma provisionPartition_runs:
  assumes "serves A p si reached" and "accepts_writes A p si reached" and "plugins_work A p si req reached" and "placed A p si req"
    and "passes p p'" and "reached Identified w"
  shows "after (provisionPartition A (object_key (p_meta p)) p' (si_plugins si) (fst (identitiesForPartition p)) req w)
    (\<lambda>r w'. r = Inr exportedHealthInterval)"
proof -
  obtain d w1 where v: "verifyProvisioningAuthorization A p' w = (Inr d, w1)" "device_fits p si d" "reached Identified w1"
    using verify_runs [OF assms(1,4,5,6)] by (auto elim: afterE)
  obtain w2 where e: "rdmaEndpoint A w1 = (Inr (si_ip si), w2)" "reached Identified w2"
    using rdmaEndpoint_runs [OF assms(1) v(3)] by (auto elim: afterE)
  obtain w3 where s: "tb_SetupDevice (rp_targetBackend (si_plugins si)) (si_pci si) (si_device si) (ps_TargetOptions (p_spec p)) w2 = (None, w3)"
    "reached DeviceReady w3" using plugins_workD(1) [OF assms(3) e(2)] by (auto elim: afterE)
  have spec: "p_spec p' = p_spec p" using assms(5) by (simp add: passes_def)
  obtain w4 where f: "findProvisioningDevice A p' (rp_targetBackendName (si_plugins si)) w3 = (Inr (site_path si, hw_Name (si_hw si)), w4)"
    "reached DeviceReady w4" using findProvisioningDevice_runs [OF assms(3) spec s(2)] by (auto elim: afterE)
  obtain d' w5 where v': "verifyProvisioningAuthorization A p' w4 = (Inr d', w5)" "reached DeviceReady w5"
    using verify_runs [OF assms(1,4,5) f(2)] by (auto elim: afterE)
  obtain w6 where a: "activate_backend A d (rp_targetBackendName (si_plugins si)) w5 = (None, w6)" "reached DeviceReady w6"
    using activate_backend_runs [OF assms(1,2) v(2) v'(2)] by (auto elim: afterE)
  show ?thesis
    using v e s f v' a spec carve_volume_runs [OF assms(1-5) a(2)]
    by (auto simp: provisionPartition_def device_fits_def object_key_def)
qed

text \<open>The reconciliation comes to provisioning.\<close>

lemma reconcile_live_provisions:
  assumes "serves A p si reached" and "accepts_writes A p si reached" and "placed A p si req" and "reached Fresh w"
  shows "\<exists>p' w'. passes p p' \<and> reached Identified w' \<and> reconcile_live A (object_key (p_meta p)) p (si_plugins si) w =
    provisionPartition A (object_key (p_meta p)) p' (si_plugins si) (fst (identitiesForPartition p)) req w'"
proof -
  have self: "passes p p" by (simp add: passes_def)
  obtain d w1 where v: "verifyProvisioningAuthorization A p w = (Inr d, w1)" "reached Fresh w1"
    using verify_runs [OF assms(1,3) self assms(4)] by (auto elim: afterE)
  obtain w2 where c: "setClaimAuthorizationCondition A p ConditionTrue ''ClaimOwnershipVerified''
      (Text ''The live owning claim authorizes this allocation'') w1 = (None, w2)" "reached Fresh w2"
    by (rule afterE [OF setClaimAuthorizationCondition_runs [OF assms(1,2) v(2)]]) auto
  have "fst (identitiesForPartition p) \<noteq> []" using assms(3) by (simp add: placed_def)
  then obtain p' w3 where e: "ensurePartitionIdentityAndFinalizer A (object_key (p_meta p)) p (fst (identitiesForPartition p))
      (snd (identitiesForPartition p)) w2 = (Inr p', w3)" "identified p p'" "reached Identified w3"
    using ensure_runs [OF assms(1,2) _ c(2)] by (auto elim: afterE)
  have "reconcileExportedPartition A p' b w3 = (None, w3)" for b
    using assms(3) e(2) by (simp add: reconcileExportedPartition_def placed_def identified_def)
  with v c e assms(3) identified_passes [OF e(2)] show ?thesis
    by (auto simp: reconcile_live_def case_prod_beta placed_def)
qed

lemma agent_Reconcile_provisions:
  assumes "serves A p si reached" and "accepts_writes A p si reached" and "placed A p si req"
    and "after (Get (partitions (ag_kube A)) (object_key (p_meta p)) w) (\<lambda>r w'. r = Inr p \<and> reached Fresh w')"
  shows "\<exists>p' w'. passes p p' \<and> reached Identified w' \<and> agent_Reconcile A (object_key (p_meta p)) w =
    provisionPartition A (object_key (p_meta p)) p' (si_plugins si) (fst (identitiesForPartition p)) req w'"
proof -
  obtain w1 where "Get (partitions (ag_kube A)) (object_key (p_meta p)) w = (Inr p, w1)" "reached Fresh w1"
    using assms(4) by (auto elim: afterE)
  with assms(3) reconcile_live_provisions [OF assms(1-3), of w1] show ?thesis
    by (simp add: agent_Reconcile_def placed_def)
qed

text \<open>Recording the calls changes no answer and no world.\<close>

lemma recorded_run:
  "fst (Get (recording_api ev P) k x) = fst (Get P k (fst x))" "fst (snd (Get (recording_api ev P) k x)) = snd (Get P k (fst x))"
  "fst (Patch (recording_api ev P) b o' x) = fst (Patch P b o' (fst x))"
  "fst (snd (Patch (recording_api ev P) b o' x)) = snd (Patch P b o' (fst x))"
  "fst (StatusPatch (recording_api ev P) b o' x) = fst (StatusPatch P b o' (fst x))"
  "fst (snd (StatusPatch (recording_api ev P) b o' x)) = snd (StatusPatch P b o' (fst x))"
  "fst (silent_call f x) = fst (f (fst x))" "fst (snd (silent_call f x)) = snd (f (fst x))"
  "fst (record_call ev' f x) = fst (f (fst x))" "fst (snd (record_call ev' f x)) = snd (f (fst x))"
  by (simp_all add: recording_api_def record_call_def silent_call_def split: prod.split)

definition recording_site :: "'w site \<Rightarrow> ('w, agent_event) traced site" where
  "recording_site si = \<lparr>si_ref = si_ref si, si_device = si_device si, si_pci = si_pci si, si_hw = si_hw si, si_ip = si_ip si,
     si_plugins = recording_plugins (si_plugins si)\<rparr>"

lemma recording_site_sel [simp]:
  "si_ref (recording_site si) = si_ref si" "si_device (recording_site si) = si_device si" "si_pci (recording_site si) = si_pci si"
  "si_hw (recording_site si) = si_hw si" "si_ip (recording_site si) = si_ip si"
  "si_plugins (recording_site si) = recording_plugins (si_plugins si)"
  "claim_fits p (recording_site si) = claim_fits p si" "device_fits p (recording_site si) = device_fits p si"
  "site_path (recording_site si) = site_path si"
  by (simp_all add: recording_site_def claim_fits_def device_fits_def site_path_def fun_eq_iff)

lemma placed_recorded: "placed A p si req \<Longrightarrow> placed (recording_agent A) p (recording_site si) req"
  by (simp add: placed_def partitionHasTerminalFailure_def resolvePartitionPlugins_recording)

lemma serves_recorded: "serves A p si reached \<Longrightarrow> serves (recording_agent A) p (recording_site si) (\<lambda>s x. reached s (fst x))"
  by (simp add: serves_def after_def recorded_run)

lemma accepts_writes_recorded:
  "accepts_writes A p si reached \<Longrightarrow> accepts_writes (recording_agent A) p (recording_site si) (\<lambda>s x. reached s (fst x))"
  by (simp add: accepts_writes_def Let_def after_def recorded_run)

lemma plugins_work_recorded:
  "plugins_work A p si req reached \<Longrightarrow> plugins_work (recording_agent A) p (recording_site si) req (\<lambda>s x. reached s (fst x))"
  by (simp add: plugins_work_def Let_def after_def recorded_run recording_agent_def recording_backend_def recording_manager_def)

section \<open>What success means\<close>

text \<open>The volume was exported, and a status with the address and the NQN of that export was written.\<close>

definition export_recorded :: "string \<Rightarrow> agent_event list \<Rightarrow> bool" where
  "export_recorded vol t \<longleftrightarrow> (\<exists>b x y n path opts. Partitions (StatusPatchCall b x (Inr y)) \<in> set t \<and>
     pst_State (p_status x) = PartitionExported \<and>
     Other (ExportEv n vol path (pst_PortalIP (p_status x)) (pst_PortalPort (p_status x)) opts (Inr (pst_NQN (p_status x)))) \<in> set t)"

text \<open>The interval of a healthy export is returned only for one that was recorded.\<close>

definition exports :: "string \<Rightarrow> result \<Rightarrow> agent_event list \<Rightarrow> bool" where
  "exports vol r t \<longleftrightarrow> r = Inr exportedHealthInterval \<longrightarrow> export_recorded vol t"

lemma intervals: "exportedHealthInterval \<noteq> 0" "exportedHealthInterval \<noteq> partitionRetryInterval"
  by (simp_all add: exportedHealthInterval_def partitionRetryInterval_def second_ns_def)

lemma post_any: "post p (\<lambda>r t. True)"
  by (simp add: post_def)

lemma failures_export_nothing:
  "post (rejectUnauthorizedProvisioning B p err s) (exports vol)"
  "post (terminalProvisioningFailure B p reason err s) (exports vol)"
  "post (retryableProvisioningFailure B p reason err s) (exports vol)"
  using intervals
  by (auto simp: rejectUnauthorizedProvisioning_def terminalProvisioningFailure_def retryableProvisioningFailure_def
      recordProvisioningFailure_def Let_def post_def exports_def split: prod.split option.split)

lemma exported_status_recorded:
  assumes "Other (ExportEv n vol path ip 4420 opts (Inr nqn)) \<in> set t"
  shows "post (updatePartitionStatus (recording_agent A) key (exported_status (recording_agent A) p nqn ip) (w, t))
    (\<lambda>r t'. r = None \<longrightarrow> export_recorded vol t')"
proof -
  have "export_recorded vol (t @ [g, Partitions (StatusPatchCall b x (Inr y))])"
    if "pst_State (p_status x) = PartitionExported" "pst_NQN (p_status x) = nqn" "pst_PortalIP (p_status x) = ip"
      "pst_PortalPort (p_status x) = 4420" for g b x y
    using that assms unfolding export_recorded_def by fastforce
  then show ?thesis
    unfolding updatePartitionStatus_def exported_status_def with_condition_def Let_def recording_agent_sel recording_sel
    apply (intro vcg)
    subgoal by simp
    subgoal for r w latest
      by (auto simp: set_condition_def trace_simps post_def calls_def err_of_def split: prod.split sum.split)
    done
qed

lemma export_volume_exports:
  "post (export_volume (recording_agent A) key p (recording_plugins g) ext created (w, t)) (exports ext)"
  unfolding export_volume_def recording_plugins_sel
  by (intro vcg post_bindI [OF post_any] failures_export_nothing post_bindI [OF exported_status_recorded])
     (auto simp: exports_def)

lemma carve_volume_exports:
  "post (carve_volume (recording_agent A) key p (recording_plugins g) ext req path dev (w, t)) (exports ext)"
  unfolding carve_volume_def recording_plugins_sel
  by (intro vcg post_bindI [OF post_any] failures_export_nothing export_volume_exports) (auto simp: exports_def)

lemma provisionPartition_exports:
  "post (provisionPartition (recording_agent A) key p (recording_plugins g) ext req (w, t)) (exports ext)"
  unfolding provisionPartition_def recording_plugins_sel
  by (intro vcg post_bindI [OF post_any] failures_export_nothing carve_volume_exports)

section \<open>A machine on which this holds\<close>

text \<open>The server in memory beside a machine that keeps which devices are bound, which have a store, and which volumes are
  carved and exported. Every plugin does its work only on what was prepared before, and answers what it was asked.\<close>

record machine =
  mc_bound :: "string list"
  mc_stores :: "string list"
  mc_volumes :: "string list"
  mc_exports :: "(string \<times> string) list"

type_synonym bench = "mem \<times> machine"

definition on_cluster :: "(mem \<Rightarrow> 'r \<times> mem) \<Rightarrow> bench \<Rightarrow> 'r \<times> bench" where
  "on_cluster f w = (case f (fst w) of (r, m) \<Rightarrow> (r, (m, snd w)))"

definition on_machine :: "('r \<times> machine) \<Rightarrow> bench \<Rightarrow> 'r \<times> bench" where
  "on_machine x w = (fst x, (fst w, snd x))"

definition bench_api :: "(mem, 'o) api \<Rightarrow> (bench, 'o) api" where
  "bench_api P = \<lparr>Get = (\<lambda>k. on_cluster (Get P k)), ListAll = on_cluster (ListAll P), Create = (\<lambda>x. on_cluster (Create P x)),
     Update = (\<lambda>x. on_cluster (Update P x)), Patch = (\<lambda>b x. on_cluster (Patch P b x)),
     StatusPatch = (\<lambda>b x. on_cluster (StatusPatch P b x)), Delete = (\<lambda>x. on_cluster (Delete P x))\<rparr>"

definition bench_kube :: "bench kube" where
  "bench_kube = std_kube (bench_api (partitions mem_kube)) (bench_api (devices mem_kube)) (bench_api (claims mem_kube))
     (bench_api (rdmanodes mem_kube)) (bench_api (attachments mem_kube)) (on_cluster (Now mem_kube))"

definition bench_backend :: "bench TargetBackend" where
  "bench_backend = \<lparr>tb_Name = ''spdk'',
     tb_SetupDevice = (\<lambda>pci dev opts w. on_machine (None, (snd w)\<lparr>mc_bound := pci # mc_bound (snd w)\<rparr>) w),
     tb_ExportVolume = (\<lambda>vol path ip port opts w.
       if path \<in> set (mc_volumes (snd w))
       then on_machine (Inr (NQN vol), (snd w)\<lparr>mc_exports := (NQN vol, path) # mc_exports (snd w)\<rparr>) w
       else (Inl (ExternalError ''no such volume''), w)),
     tb_UnexportVolume = (\<lambda>nqn w. on_machine (None, (snd w)\<lparr>mc_exports := filter (\<lambda>e. fst e \<noteq> nqn) (mc_exports (snd w))\<rparr>) w),
     tb_ReconcileHostAccess = (\<lambda>nqn host w. (None, w)), tb_CheckExport = None\<rparr>"

definition bench_manager :: "bench VolumeManager" where
  "bench_manager = \<lparr>vm_Name = ''spdk-lvol'',
     vm_SetupStorage = (\<lambda>path dev w.
       if mc_bound (snd w) = [] then (Some (ExternalError ''no device''), w)
       else on_machine (None, (snd w)\<lparr>mc_stores := dev # mc_stores (snd w)\<rparr>) w),
     vm_CreateVolume = (\<lambda>path dev vol bytes w.
       if dev \<notin> set (mc_stores (snd w)) then (Inl (ExternalError ''no store''), w)
       else case RoundUp bytes of
         Inl e \<Rightarrow> (Inl e, w)
       | Inr n \<Rightarrow> on_machine (Inr \<lparr>vi_BackendVolumeID = dev @ ''/'' @ vol, vi_CapacityBytes = n, vi_BaseBdev = dev,
           vi_VolumeStoreName = [], vi_VolumeStoreUUID = [], vi_VolumeName = vol, vi_VolumeUUID = []\<rparr>,
           (snd w)\<lparr>mc_volumes := (dev @ ''/'' @ vol) # mc_volumes (snd w)\<rparr>) w),
     vm_DeleteVolume = (\<lambda>path dev vol v w.
       on_machine (None, (snd w)\<lparr>mc_volumes := removeAll (vi_BackendVolumeID v) (mc_volumes (snd w))\<rparr>) w)\<rparr>"

definition bench_hw :: HardwareNVMe where
  "bench_hw = \<lparr>hw_Name = ''nvme0'', hw_PCIAddress = ''0000:01:00.0'', hw_SerialNumber = ''SN1'', hw_Model = [],
     hw_TotalBytes = 1073741824, hw_NUMANode = 0\<rparr>"

definition bench_agent :: "bench agent" where
  "bench_agent = \<lparr>ag_kube = bench_kube,
     ag_plugins = \<lparr>rg_backends = [(''spdk'', bench_backend)], rg_volumeManagers = [(''spdk-lvol'', bench_manager)]\<rparr>,
     ag_DiscoverNVMe = (\<lambda>w. ((if hw_PCIAddress bench_hw \<in> set (mc_bound (snd w)) then [bench_hw] else [], None), w)),
     ag_NodeName = ''node1''\<rparr>"

definition bench_site :: "bench site" where
  "bench_site = \<lparr>si_ref = sample_ref, si_device = ''dev1'', si_pci = ''0000:01:00.0'', si_hw = bench_hw, si_ip = ''192.0.2.10'',
     si_plugins = \<lparr>rp_targetBackendName = ''spdk'', rp_volumeManagerName = ''spdk-lvol'', rp_targetBackend = bench_backend,
       rp_volumeManager = bench_manager\<rparr>\<rparr>"

definition bench_start :: bench where
  "bench_start = (sample_mem\<lparr>m_partitions := [authorized_sample]\<rparr>,
     \<lparr>mc_bound = [], mc_stores = [], mc_volumes = [], mc_exports = []\<rparr>)"

text \<open>The worlds of a run: the partition and the device are stored, in the state of the stage, beside the claim and the
  node.\<close>

definition bench_stored :: "stage \<Rightarrow> NVMePartition \<Rightarrow> machine \<Rightarrow> bool" where
  "bench_stored s b x \<longleftrightarrow>
     (case s of
        Fresh \<Rightarrow> p_spec b = p_spec authorized_sample \<and> pst_State (p_status b) = pst_State (p_status authorized_sample)
      | Identified \<Rightarrow> identified authorized_sample b
      | DeviceReady \<Rightarrow> hw_PCIAddress bench_hw \<in> set (mc_bound x)
      | StorageReady \<Rightarrow> ''nvme0'' \<in> set (mc_stores x)
      | Carved i \<Rightarrow> vi_BackendVolumeID i \<in> set (mc_volumes x))"

definition bench_reached :: "stage \<Rightarrow> bench \<Rightarrow> bool" where
  "bench_reached s w \<longleftrightarrow> (\<exists>b d. fst w = \<lparr>m_partitions = [b], m_devices = [d], m_claims = [sample_claim], m_nodes = [sample_node],
       m_attachments = []\<rparr> \<and> object_key (p_meta b) = object_key (p_meta authorized_sample) \<and>
     d_meta d = d_meta sample_device \<and> device_fits authorized_sample bench_site d \<and> bench_stored s b (snd w))"

lemmas bench_defs = bench_kube_def bench_api_def on_cluster_def mem_kube_def mem_api_def mem_put_def std_kube_def apimachinery.defs Let_def

lemma bench_agent_sel [simp]: "ag_kube bench_agent = bench_kube" "ag_NodeName bench_agent = ''node1''"
  by (simp_all add: bench_agent_def)

lemma bench_pure [simp]: "IsAuthorized bench_kube = IsAuthorized std_apimachinery"
  "rdmahealth_Validate bench_kube = rdmahealth_Validate std_apimachinery"
  by (simp_all add: fun_eq_iff IsAuthorized_def rdmahealth_Validate_def bench_defs)

lemma bench_claim_fits: "claim_fits authorized_sample bench_site sample_claim"
proof -
  have "EqualFold ''SN1'' ''SN1''" by code_simp
  then show ?thesis
    by (simp add: claim_fits_def check_claim_def authorized_sample_def bench_site_def sample_defs not_deleting_def Let_def)
qed

lemma bench_device_fits: "device_fits authorized_sample bench_site sample_device"
proof -
  have "EqualFold ''SN1'' ''SN1''" by code_simp
  then show ?thesis
    by (simp add: device_fits_def check_device_def authorized_sample_def bench_site_def sample_defs claimReferencesEqual_def object_key_def)
qed

lemma bench_placed: "placed bench_agent authorized_sample bench_site 8388608"
proof -
  have "RoundUp 8388608 = Inr 8388608" "storageoptions_Validate ''spdk'' [] = None" by code_simp+
  moreover have "fst (identitiesForPartition authorized_sample) \<noteq> []"
    by (auto simp: identitiesForPartition_def volumeidentity_New_def ExternalIDFromNQN_def authorized_sample_def sample_defs Let_def
        split: prod.splits)
  ultimately show ?thesis
    using authorized_sample_ok
    by (simp add: placed_def) (simp add: authorized_sample_def sample_defs bench_agent_def bench_site_def partitionHasTerminalFailure_def
        resolvePartitionPlugins_def GetTargetBackend_def GetVolumeManager_def target_backend_name_def volume_manager_name_def
        bench_defs std_apimachinery_def std_find_def)
qed

lemma bench_clock [simp]: "Now bench_kube w = (0, w)"
  by (simp add: bench_defs)

lemma bench_node_healthy: "rdmahealth_Validate std_apimachinery sample_node 0 = None"
  by code_simp

lemma bench_reachedE:
  assumes "bench_reached s w"
  obtains b d x where "w = (\<lparr>m_partitions = [b], m_devices = [d], m_claims = [sample_claim], m_nodes = [sample_node], m_attachments = []\<rparr>, x)"
    "object_key (p_meta b) = object_key (p_meta authorized_sample)" "d_meta d = d_meta sample_device"
    "device_fits authorized_sample bench_site d" "bench_stored s b x"
  using assms unfolding bench_reached_def by (cases w) auto

lemma bench_reachedI:
  "object_key (p_meta b) = object_key (p_meta authorized_sample) \<Longrightarrow> d_meta d = d_meta sample_device \<Longrightarrow>
   device_fits authorized_sample bench_site d \<Longrightarrow> bench_stored s b x \<Longrightarrow>
   bench_reached s (\<lparr>m_partitions = [b], m_devices = [d], m_claims = [sample_claim], m_nodes = [sample_node], m_attachments = []\<rparr>, x)"
  by (simp add: bench_reached_def)

lemma bench_serves: "serves bench_agent authorized_sample bench_site bench_reached"
proof -
  have claim: "object_key (c_meta sample_claim) = (ref_Namespace (si_ref bench_site), ref_Name (si_ref bench_site))"
    and dev: "object_key (d_meta sample_device) = ([], si_device bench_site)"
    and node: "object_key (n_meta sample_node) = ([], ''node1'')" "ns_RDMAIP (n_spec sample_node) = si_ip bench_site"
    by (simp_all add: object_key_def sample_defs bench_site_def)
  show ?thesis
    unfolding serves_def
    using bench_claim_fits claim dev node bench_node_healthy
    by (auto elim!: bench_reachedE simp: after_def bench_reachedI stands_def)
       (auto simp: bench_defs bench_reachedI bench_stored_def)
qed

lemma bench_status_patch:
  assumes "object_key (p_meta b) = object_key (p_meta authorized_sample)" and "bench_reached s w"
    and "\<And>c x. bench_stored s c x \<Longrightarrow> bench_stored s' (c\<lparr>p_status := st\<rparr>) x"
  shows "after (StatusPatch (partitions bench_kube) b (b\<lparr>p_status := st\<rparr>) w) (\<lambda>r w'. err_of r = None \<and> bench_reached s' w')"
  using assms(2)
proof (cases rule: bench_reachedE)
  case (1 c d x)
  with assms(1) have "StatusPatch (partitions bench_kube) b (b\<lparr>p_status := st\<rparr>) w = (Inr (c\<lparr>p_status := st\<rparr>),
      (\<lparr>m_partitions = [c\<lparr>p_status := st\<rparr>], m_devices = [d], m_claims = [sample_claim], m_nodes = [sample_node], m_attachments = []\<rparr>, x))"
    by (simp add: bench_defs)
  with 1 assms(3) show ?thesis by (simp add: after_pair bench_reachedI)
qed

lemma bench_finalizer_patch:
  assumes "object_key (p_meta b) = object_key (p_meta authorized_sample)" and "identified authorized_sample b"
    and "bench_reached Identified w"
  shows "after (Patch (partitions bench_kube) b (b\<lparr>p_meta := AddFinalizer bench_kube (p_meta b) partitionFinalizer\<rparr>) w)
    (\<lambda>r w'. \<exists>y. r = Inr y \<and> identified authorized_sample y \<and> bench_reached Identified w')"
  using assms(3)
proof (cases rule: bench_reachedE)
  case (1 c d x)
  let ?m = "AddFinalizer bench_kube (p_meta b) partitionFinalizer"
  have key: "object_key ?m = object_key (p_meta b)" by (simp add: bench_defs std_apimachinery_def object_key_def)
  let ?y = "b\<lparr>p_meta := ?m, p_status := p_status c\<rparr>"
  have y: "identified authorized_sample ?y" using 1(5) assms(2) by (simp add: bench_stored_def identified_def recovering_def)
  have "Patch (partitions bench_kube) b (b\<lparr>p_meta := ?m\<rparr>) w = (Inr ?y,
      (\<lparr>m_partitions = [?y], m_devices = [d], m_claims = [sample_claim], m_nodes = [sample_node], m_attachments = []\<rparr>, x))"
    using 1(1,2) assms(1) key by (simp add: bench_defs)
  with 1 assms(1) key y show ?thesis by (simp add: after_pair bench_reachedI bench_stored_def)
qed

lemma bench_device_patch:
  assumes "device_fits authorized_sample bench_site e" and "bench_reached DeviceReady w"
  shows "after (StatusPatch (devices bench_kube) e (e\<lparr>d_status := (d_status e)\<lparr>dst_ActiveBackend := ''spdk''\<rparr>\<rparr>) w)
    (\<lambda>r w'. err_of r = None \<and> bench_reached DeviceReady w')"
  using assms(2)
proof (cases rule: bench_reachedE)
  case (1 c d x)
  let ?y = "d\<lparr>d_status := (d_status e)\<lparr>dst_ActiveBackend := ''spdk''\<rparr>\<rparr>"
  have key: "object_key (d_meta e) = object_key (d_meta d)" using assms(1) 1(4) by (simp add: device_fits_def)
  have y: "device_fits authorized_sample bench_site ?y"
    using assms(1) 1(4) by (auto simp: device_fits_def check_device_def bench_site_def split: if_splits)
  have "StatusPatch (devices bench_kube) e (e\<lparr>d_status := (d_status e)\<lparr>dst_ActiveBackend := ''spdk''\<rparr>\<rparr>) w = (Inr ?y,
      (\<lparr>m_partitions = [c], m_devices = [?y], m_claims = [sample_claim], m_nodes = [sample_node], m_attachments = []\<rparr>, x))"
    using 1(1) key by (simp add: bench_defs)
  with 1 y show ?thesis by (simp add: after_pair bench_reachedI bench_stored_def)
qed

lemma bench_accepts: "accepts_writes bench_agent authorized_sample bench_site bench_reached"
proof -
  have fresh: "with_ids authorized_sample (p_status authorized_sample) \<noteq> p_status authorized_sample"
  proof
    assume "with_ids authorized_sample (p_status authorized_sample) = p_status authorized_sample"
    from arg_cong [OF this, of pst_ExternalID]
    have "pst_ExternalID (p_status authorized_sample) = fst (identitiesForPartition authorized_sample)" by (simp add: with_ids_def)
    moreover have "pst_ExternalID (p_status authorized_sample) = []" by (simp add: authorized_sample_def sample_defs)
    ultimately show False using bench_placed by (simp add: placed_def)
  qed
  have name: "rp_targetBackendName (si_plugins bench_site) = ''spdk''" by (simp add: bench_site_def)
  have ids: "recovering (c\<lparr>p_status := with_ids authorized_sample st\<rparr>)" for c st
    using bench_placed by (simp add: placed_def recovering_def with_ids_def)
  have state: "pst_State (with_ids p st) = pst_State st" for p st by (simp add: with_ids_def)
  show ?thesis
    unfolding accepts_writes_def Let_def bench_agent_sel name
    apply (intro conjI allI impI; elim conjE)
    subgoal by (rule bench_status_patch) (auto simp: stands_def bench_stored_def)
    subgoal by (rule bench_status_patch) (auto simp: stands_def bench_stored_def identified_def ids state)
    subgoal using fresh by simp
    subgoal by (rule bench_finalizer_patch)
    subgoal by (rule bench_device_patch)
    subgoal by (rule bench_status_patch) (auto simp: stands_def bench_stored_def)
    done
qed

lemma bench_plugins_work: "plugins_work bench_agent authorized_sample bench_site 8388608 bench_reached"
proof -
  have "EqualFold ''SN1'' ''SN1''" "RoundUp 8388608 = Inr 8388608" by code_simp+
  then have hw: "same_serial authorized_sample bench_hw" "ps_Size (p_spec authorized_sample) = 8388608"
    by (simp_all add: same_serial_def authorized_sample_def sample_defs bench_hw_def)
  have plug: "rp_targetBackend (si_plugins bench_site) = bench_backend" "rp_volumeManager (si_plugins bench_site) = bench_manager"
    "si_hw bench_site = bench_hw" "si_pci bench_site = hw_PCIAddress bench_hw" "hw_Name bench_hw = ''nvme0''"
    by (simp_all add: bench_site_def bench_hw_def)
  show ?thesis
    unfolding plugins_work_def Let_def plug
    using hw \<open>RoundUp 8388608 = Inr 8388608\<close>
    by (auto elim!: bench_reachedE simp: after_def bench_backend_def bench_manager_def bench_agent_def on_machine_def bench_reachedI
        bench_stored_def reject_created_def)
qed

section \<open>Properties\<close>

text \<open>C9: one reconciliation exports a partition that is placed on this node and not exported yet, when at every stage of
  the run the cluster serves its objects and accepts the writes of that stage, and each plugin does its work on what the
  ones before it left: it returns the interval of the health check, and the status that was written says exported with the
  address and the NQN of an export of the volume of this partition.\<close>

theorem agent_Reconcile_exports:
  assumes "placed A p si req" and "serves A p si reached" and "accepts_writes A p si reached"
    and "plugins_work A p si req reached"
    and "after (Get (partitions (ag_kube A)) (object_key (p_meta p)) w) (\<lambda>r w'. r = Inr p \<and> reached Fresh w')"
  shows "post (agent_Reconcile (recording_agent A) (object_key (p_meta p)) (w, []))
    (\<lambda>r t. r = Inr exportedHealthInterval \<and> export_recorded (fst (identitiesForPartition p)) t)"
proof -
  let ?R = "\<lambda>s x. reached s (fst x)" and ?A = "recording_agent A" and ?si = "recording_site si"
  note laws = serves_recorded [OF assms(2)] accepts_writes_recorded [OF assms(3)] plugins_work_recorded [OF assms(4)] placed_recorded [OF assms(1)]
  have "after (Get (partitions (ag_kube ?A)) (object_key (p_meta p)) (w, [])) (\<lambda>r x. r = Inr p \<and> ?R Fresh x)"
    using assms(5) by (simp add: after_def recorded_run)
  then obtain p' x where run: "passes p p'" "?R Identified x" "agent_Reconcile ?A (object_key (p_meta p)) (w, []) =
      provisionPartition ?A (object_key (p_meta p)) p' (si_plugins ?si) (fst (identitiesForPartition p)) req x"
    using agent_Reconcile_provisions [OF laws(1,2,4), of "(w, [])"] by blast
  have "post (provisionPartition ?A (object_key (p_meta p)) p' (recording_plugins (si_plugins si)) (fst (identitiesForPartition p)) req x)
      (exports (fst (identitiesForPartition p)))"
    by (cases x) (simp add: provisionPartition_exports)
  with provisionPartition_runs [OF laws run(1,2)] show ?thesis
    unfolding run(3) by (simp add: post_def after_def exports_def)
qed

theorem agent_Reconcile_exports_witness:
  "bench_reached Fresh bench_start \<and>
   post (agent_Reconcile (recording_agent bench_agent) (''apps'', ''pvc1'') (bench_start, []))
     (\<lambda>r t. r = Inr exportedHealthInterval \<and> export_recorded (fst (identitiesForPartition authorized_sample)) t)"
proof
  show start: "bench_reached Fresh bench_start"
    using bench_device_fits by (simp add: bench_reached_def bench_start_def sample_mem_def bench_stored_def)
  have key: "object_key (p_meta authorized_sample) = (''apps'', ''pvc1'')" by (simp add: object_key_def authorized_sample_def sample_defs)
  have "after (Get (partitions (ag_kube bench_agent)) (object_key (p_meta authorized_sample)) bench_start)
      (\<lambda>r w'. r = Inr authorized_sample \<and> bench_reached Fresh w')"
    using start by (simp add: after_def bench_defs bench_start_def)
  from agent_Reconcile_exports [OF bench_placed bench_serves bench_accepts bench_plugins_work this]
  show "post (agent_Reconcile (recording_agent bench_agent) (''apps'', ''pvc1'') (bench_start, []))
     (\<lambda>r t. r = Inr exportedHealthInterval \<and> export_recorded (fst (identitiesForPartition authorized_sample)) t)"
    unfolding key .
qed

end
