(* ===== verification/Rdma_Discovery.thy ===== *)
theory Rdma_Discovery
  imports Nvme_Discovery Rdma_Health
begin

text \<open>
  The RDMA endpoint of a storage node: \<^verbatim>\<open>internal/agent/rdma_discovery.go\<close>.

  The endpoint is the first address, in the order of devices, ports and interfaces, of an interface that
  belongs to an active RDMA port. The definitions come with the parts of \<^verbatim>\<open>net\<close> and \<^verbatim>\<open>strconv\<close> they
  use: \<^verbatim>\<open>net.ParseCIDR\<close>, \<^verbatim>\<open>IP.String\<close> and \<^verbatim>\<open>strconv.ParseUint\<close> with base 0. A failure that the source keeps
  as a text is the error it is the text of. Directory entries are ordered by their bytes.
\<close>

section \<open>Packages net and strconv\<close>

fun hex_nat :: "nat \<Rightarrow> string" where
  "hex_nat n = (if n < 16 then [hex_digit n] else hex_nat (n div 16) @ [hex_digit (n mod 16)])"

declare hex_nat.simps [simp del]

definition v6_groups :: "ip \<Rightarrow> nat list" where
  "v6_groups ip = map (\<lambda>i. ip ! (2 * i) * 256 + ip ! (2 * i + 1)) [0..<8]"

text \<open>The first of the longest runs of at least two zero groups: its start and its length.\<close>

definition zero_run :: "nat list \<Rightarrow> nat \<times> nat" where
  "zero_run gs = foldl (\<lambda>best i. let l = length (takeWhile (\<lambda>g. g = 0) (drop i gs))
      in if 2 \<le> l \<and> snd best < l then (i, l) else best) (0, 0) [0..<length gs]"

definition v6_String :: "ip \<Rightarrow> string" where
  "v6_String ip =
     (let gs = v6_groups ip; text = (\<lambda>gs. Join (map hex_nat gs) '':'')
      in case zero_run gs of (start, l) \<Rightarrow>
           if l = 0 then text gs else text (take start gs) @ ''::'' @ text (drop (start + l) gs))"

definition IP_String :: "ip \<Rightarrow> string" where
  "IP_String ip = (case To4 ip of Some b \<Rightarrow> Join (map nat_decimal b) ''.'' | None \<Rightarrow> v6_String ip)"

text \<open>\<^verbatim>\<open>net.ParseCIDR\<close>: the address; the length of the prefix is checked against the syntax.\<close>

definition ParseCIDR :: "string \<Rightarrow> ip option" where
  "ParseCIDR s =
     (case Cut_char s CHR ''/'' of (addr, bits, found) \<Rightarrow>
        if \<not> found then None
        else Option.bind (ParseIP addr) (\<lambda>ip.
             Option.bind (parse_decimal bits) (\<lambda>n.
               if n \<le> (if CHR '':'' \<in> set addr then 128 else 32) then Some ip else None)))"

text \<open>\<^verbatim>\<open>strconv.ParseUint(s, 0, bits)\<close>: the prefix chooses the base, and underscores may separate digits.\<close>

definition any_digit :: "char \<Rightarrow> nat option" where
  "any_digit c =
     (let n = of_char (to_lower c) :: nat
      in if is_digit c then Some (digit_val c) else if 97 \<le> n \<and> n \<le> 122 then Some (n - 87) else None)"

definition base_prefix :: "string \<Rightarrow> nat \<times> string" where
  "base_prefix s =
     (if s = [] \<or> hd s \<noteq> CHR ''0'' then (10, s)
      else let c = (if length s \<ge> 3 then to_lower (s ! 1) else CHR ''0'')
           in if c = CHR ''b'' then (2, drop 2 s) else if c = CHR ''o'' then (8, drop 2 s)
              else if c = CHR ''x'' then (16, drop 2 s) else (8, drop 1 s))"

text \<open>The class of the previous character: at the start, a digit, an underscore, or another one.\<close>

datatype num_class = AtStart | AfterDigit | AfterUnderscore | AfterOther

fun underscores_ok :: "bool \<Rightarrow> num_class \<Rightarrow> string \<Rightarrow> bool" where
  "underscores_ok hex i [] \<longleftrightarrow> i \<noteq> AfterUnderscore"
| "underscores_ok hex i (c # s) \<longleftrightarrow>
     (if is_digit c \<or> (hex \<and> is_hex_lower (to_lower c)) then underscores_ok hex AfterDigit s
      else if c = CHR ''_'' then i = AfterDigit \<and> underscores_ok hex AfterUnderscore s
      else i \<noteq> AfterUnderscore \<and> underscores_ok hex AfterOther s)"

definition underscoreOK :: "string \<Rightarrow> bool" where
  "underscoreOK s =
     (let s = (if s \<noteq> [] \<and> (hd s = CHR ''-'' \<or> hd s = CHR ''+'') then tl s else s)
      in if length s \<ge> 2 \<and> hd s = CHR ''0'' \<and> to_lower (s ! 1) \<in> {CHR ''b'', CHR ''o'', CHR ''x''}
         then underscores_ok (to_lower (s ! 1) = CHR ''x'') AfterDigit (drop 2 s)
         else underscores_ok False AtStart s)"

definition ParseUint0 :: "string \<Rightarrow> nat \<Rightarrow> nat option" where
  "ParseUint0 s bits =
     (case base_prefix s of (base, ds) \<Rightarrow>
        let vs = map any_digit (filter (\<lambda>c. c \<noteq> CHR ''_'') ds);
            n = foldl (\<lambda>n v. base * n + the v) 0 vs
        in if s = [] \<or> \<not> list_all (\<lambda>v. case v of None \<Rightarrow> False | Some d \<Rightarrow> d < base) vs \<or> n \<ge> 2 ^ bits \<or>
              (CHR ''_'' \<in> set ds \<and> \<not> underscoreOK s)
           then None else Some n)"

section \<open>Ports\<close>

definition sysClassInfiniBand :: string where
  "sysClassInfiniBand = ''/sys/class/infiniband''"

definition sysClassNet :: string where
  "sysClassNet = ''/sys/class/net''"

record RDMAEndpoint =
  ep_Interface :: string
  ep_IP :: string
  ep_Transport :: RDMATransportType
  ep_LinkSpeed :: string

definition rdmaPortIsActive :: "string \<Rightarrow> bool" where
  "rdmaPortIsActive state =
     (let state = TrimSpace state;
          state = (case Cut_char state CHR '':'' of (_, value, found) \<Rightarrow> if found then TrimSpace value else state)
      in EqualFold state ''ACTIVE'')"

fun appendUniqueStrings :: "string list \<Rightarrow> string list \<Rightarrow> string list" where
  "appendUniqueStrings vs [] = vs"
| "appendUniqueStrings vs (addition # additions) =
     appendUniqueStrings (if addition \<in> set vs then vs else vs @ [addition]) additions"

section \<open>Interfaces of a port\<close>

text \<open>The loop over the mapping entries: the interfaces, the number of unreadable entries and their first error.\<close>

fun gid_entries ::
  "'w host \<Rightarrow> string \<Rightarrow> string list \<Rightarrow> string list \<Rightarrow> nat \<Rightarrow> error option \<Rightarrow> 'w \<Rightarrow>
   (string list \<times> nat \<times> error option) \<times> 'w" where
  "gid_entries H portRoot [] interfaces unreadable firstReadErr w = ((interfaces, unreadable, firstReadErr), w)"
| "gid_entries H portRoot (entry # entries) interfaces unreadable firstReadErr w =
     (case h_ReadFile H (filepath_Join [portRoot, ''gid_attrs'', ''ndevs'', entry]) w of (r, w) \<Rightarrow>
      (case r of
         Inl err \<Rightarrow> gid_entries H portRoot entries interfaces (unreadable + 1)
                      (if firstReadErr = None then Some err else firstReadErr) w
       | Inr value \<Rightarrow>
           gid_entries H portRoot entries
             (if TrimSpace value \<noteq> [] then appendUniqueStrings interfaces [TrimSpace value] else interfaces)
             unreadable firstReadErr w))"

definition rdmaGIDNetDevices :: "'w host \<Rightarrow> string \<Rightarrow> 'w \<Rightarrow> (error + string list) \<times> 'w" where
  "rdmaGIDNetDevices H portRoot w =
     (case h_ReadDir H (filepath_Join [portRoot, ''gid_attrs'', ''ndevs'']) w of (r, w) \<Rightarrow>
      (case r of
         Inl err \<Rightarrow> (Inl err, w)
       | Inr entries \<Rightarrow>
           (case gid_entries H portRoot (sort entries) [] 0 None w of (acc, w) \<Rightarrow>
              if fst acc \<noteq> [] then (Inr (fst acc), w)
              else (case snd (snd acc) of
                      Some firstReadErr \<Rightarrow>
                        (Inl (Wrapf ''%d mapping entries unreadable: %w'' [D (int (fst (snd acc)))] firstReadErr), w)
                    | None \<Rightarrow> (Inl (Errorf ''mapping entries are empty'' []), w)))))"

fun port_property :: "'w host \<Rightarrow> string \<Rightarrow> string list \<Rightarrow> 'w \<Rightarrow> (error + nat) \<times> 'w" where
  "port_property H interfaceRoot [] w = (Inl (Errorf ''network interface has no valid dev_port or dev_id'' []), w)"
| "port_property H interfaceRoot (property # properties) w =
     (case h_ReadFile H (filepath_Join [interfaceRoot, property]) w of (r, w) \<Rightarrow>
      (case r of
         Inl err \<Rightarrow> port_property H interfaceRoot properties w
       | Inr value \<Rightarrow>
           (case ParseUint0 (TrimSpace value) 32 of
              None \<Rightarrow> port_property H interfaceRoot properties w
            | Some port \<Rightarrow> (Inr port, w))))"

definition port_properties :: "string list" where
  "port_properties = [''dev_port'', ''dev_id'']"

definition networkDevicePort :: "'w host \<Rightarrow> string \<Rightarrow> 'w \<Rightarrow> (error + nat) \<times> 'w" where
  "networkDevicePort H interfaceRoot = port_property H interfaceRoot port_properties"

text \<open>Whether an entry of \<^verbatim>\<open>/sys/class/net\<close> is the IPoIB interface of the port.\<close>

definition ipoib_matches :: "'w host \<Rightarrow> string \<Rightarrow> nat \<Rightarrow> string \<Rightarrow> 'w \<Rightarrow> bool \<times> 'w" where
  "ipoib_matches H rdmaDevicePath portNumber entry w =
     (let interfaceRoot = filepath_Join [sysClassNet, entry] in
      case h_ReadFile H (filepath_Join [interfaceRoot, ''type'']) w of (r, w) \<Rightarrow>
      (case r of
         Inl err \<Rightarrow> (False, w)
       | Inr networkType \<Rightarrow>
           if TrimSpace networkType \<noteq> ''32'' then (False, w)
           else case h_EvalSymlinks H (filepath_Join [interfaceRoot, ''device'']) w of (r, w) \<Rightarrow>
             (case r of
                Inl err \<Rightarrow> (False, w)
              | Inr interfaceDevicePath \<Rightarrow>
                  if interfaceDevicePath \<noteq> rdmaDevicePath then (False, w)
                  else case networkDevicePort H interfaceRoot w of (r, w) \<Rightarrow>
                    (case r of Inl err \<Rightarrow> (False, w) | Inr devPort \<Rightarrow> (devPort + 1 = portNumber, w)))))"

fun ipoib_entries ::
  "'w host \<Rightarrow> string \<Rightarrow> nat \<Rightarrow> string list \<Rightarrow> string list \<Rightarrow> 'w \<Rightarrow> string list \<times> 'w" where
  "ipoib_entries H rdmaDevicePath portNumber [] interfaces w = (interfaces, w)"
| "ipoib_entries H rdmaDevicePath portNumber (entry # entries) interfaces w =
     (case ipoib_matches H rdmaDevicePath portNumber entry w of (matches, w) \<Rightarrow>
        ipoib_entries H rdmaDevicePath portNumber entries
          (if matches then appendUniqueStrings interfaces [entry] else interfaces) w)"

definition ipoibPortInterfaces :: "'w host \<Rightarrow> string \<Rightarrow> string \<Rightarrow> 'w \<Rightarrow> (error + string list) \<times> 'w" where
  "ipoibPortInterfaces H deviceName portName w =
     (case h_EvalSymlinks H (filepath_Join [sysClassInfiniBand, deviceName, ''device'']) w of (r, w) \<Rightarrow>
      (case r of
         Inl err \<Rightarrow> (Inl (Wrapf ''resolve RDMA device: %w'' [] err), w)
       | Inr rdmaDevicePath \<Rightarrow>
      (case ParseUint portName 32 of
         None \<Rightarrow> (Inl (Errorf ''invalid RDMA port number %q'' [S portName]), w)
       | Some portNumber \<Rightarrow>
          if portNumber = 0 then (Inl (Errorf ''invalid RDMA port number %q'' [S portName]), w)
          else case h_ReadDir H sysClassNet w of (r, w) \<Rightarrow>
      (case r of
         Inl err \<Rightarrow> (Inl (Wrapf ''read network interfaces: %w'' [] err), w)
       | Inr entries \<Rightarrow>
      (case ipoib_entries H rdmaDevicePath portNumber (sort entries) [] w of (interfaces, w) \<Rightarrow>
         if interfaces = []
         then (Inl (Errorf ''no IPoIB interface matches RDMA device %s port %s'' [S deviceName, S portName]), w)
         else (Inr interfaces, w))))))"

text \<open>An error that may be nil, printed with \<^verbatim>\<open>%v\<close>.\<close>

definition V :: "error + 'a \<Rightarrow> arg" where
  "V r = (case r of Inl e \<Rightarrow> E e | Inr _ \<Rightarrow> S ''<nil>'')"

definition names_of :: "error + string list \<Rightarrow> string list" where
  "names_of r = (case r of Inl _ \<Rightarrow> [] | Inr names \<Rightarrow> names)"

definition rdmaPortInterfaces ::
  "'w host \<Rightarrow> string \<Rightarrow> string \<Rightarrow> string \<Rightarrow> RDMATransportType \<Rightarrow> 'w \<Rightarrow> (error + string list) \<times> 'w" where
  "rdmaPortInterfaces H deviceName portName portRoot transport w =
     (case rdmaGIDNetDevices H portRoot w of (gid, w) \<Rightarrow>
        if transport = RDMATransportInfiniBand
        then (case ipoibPortInterfaces H deviceName portName w of (ipoib, w) \<Rightarrow>
                let interfaces = appendUniqueStrings (names_of gid) (names_of ipoib)
                in if interfaces = []
                   then (Inl (Errorf ''no associated network interface found (GID mapping: %v; IPoIB mapping: %v)''
                           [V gid, V ipoib]), w)
                   else (Inr interfaces, w))
        else if names_of gid = []
        then (Inl (Errorf ''no associated network interface found through GID mapping: %v'' [V gid]), w)
        else (Inr (names_of gid), w))"

section \<open>Addresses of an interface\<close>

fun routable_address :: "string list \<Rightarrow> string \<Rightarrow> error + string" where
  "routable_address [] ipv6 =
     (if ipv6 \<noteq> [] then Inr ipv6 else Inl (Errorf ''no routable unicast IP address'' []))"
| "routable_address (address # addresses) ipv6 =
     (case ParseCIDR address of
        None \<Rightarrow> routable_address addresses ipv6
      | Some ip \<Rightarrow>
          (case ParseUsableIP (IP_String ip) of
             Inl err \<Rightarrow> routable_address addresses ipv6
           | Inr _ \<Rightarrow>
               if To4 ip \<noteq> None then Inr (IP_String ip)
               else routable_address addresses (if ipv6 = [] then IP_String ip else ipv6)))"

definition selectRoutableAddress :: "string list \<Rightarrow> error + string" where
  "selectRoutableAddress addresses = routable_address addresses []"

definition interfaceAddress :: "'w host \<Rightarrow> string \<Rightarrow> 'w \<Rightarrow> (error + string) \<times> 'w" where
  "interfaceAddress H name w =
     (case h_Interface H name w of (r, w) \<Rightarrow>
      (case r of
         Inl err \<Rightarrow> (Inl (Wrapf ''resolve RDMA interface %s: %w'' [S name] err), w)
       | Inr iface \<Rightarrow>
           if \<not> fst iface then (Inl (Errorf ''RDMA interface %s is down'' [S name]), w)
           else (case snd iface of
                   Inl err \<Rightarrow> (Inl (Wrapf ''list RDMA interface %s addresses: %w'' [S name] err), w)
                 | Inr addresses \<Rightarrow>
                     (case selectRoutableAddress addresses of
                        Inr ip \<Rightarrow> (Inr ip, w)
                      | Inl _ \<Rightarrow> (Inl (Errorf ''RDMA interface %s has no usable IP address'' [S name]), w)))))"

section \<open>The search\<close>

text \<open>The loops over interfaces, ports and devices: an endpoint, or the failures so far.\<close>

fun try_interfaces ::
  "'w host \<Rightarrow> string \<Rightarrow> RDMATransportType \<Rightarrow> string list \<Rightarrow> error list \<Rightarrow> 'w \<Rightarrow> (error list + RDMAEndpoint) \<times> 'w" where
  "try_interfaces H portRoot transport [] failures w = (Inl failures, w)"
| "try_interfaces H portRoot transport (interfaceName # names) failures w =
     (case interfaceAddress H interfaceName w of (r, w) \<Rightarrow>
      (case r of
         Inl err \<Rightarrow> try_interfaces H portRoot transport names (failures @ [err]) w
       | Inr ip \<Rightarrow>
           (case h_ReadFile H (filepath_Join [portRoot, ''rate'']) w of (rate, w) \<Rightarrow>
              (Inr \<lparr>ep_Interface = interfaceName, ep_IP = ip, ep_Transport = transport,
                    ep_LinkSpeed = (case rate of Inl _ \<Rightarrow> [] | Inr b \<Rightarrow> TrimSpace b)\<rparr>, w))))"

definition port_transport :: "string \<Rightarrow> RDMATransportType option" where
  "port_transport linkLayer =
     (if EqualFold (TrimSpace linkLayer) ''Ethernet'' then Some RDMATransportRoCEv2
      else if EqualFold (TrimSpace linkLayer) ''InfiniBand'' then Some RDMATransportInfiniBand else None)"

definition try_port ::
  "'w host \<Rightarrow> string \<Rightarrow> string \<Rightarrow> string \<Rightarrow> error list \<Rightarrow> 'w \<Rightarrow> (error list + RDMAEndpoint) \<times> 'w" where
  "try_port H device portsRoot port failures w =
     (let portRoot = filepath_Join [portsRoot, port] in
      case h_ReadFile H (filepath_Join [portRoot, ''state'']) w of (r, w) \<Rightarrow>
      (case r of
         Inl err \<Rightarrow> (Inl (failures @ [Errorf ''%s port %s: read state: %v'' [S device, S port, E err]]), w)
       | Inr state \<Rightarrow>
           if \<not> rdmaPortIsActive state then (Inl failures, w)
           else case h_ReadFile H (filepath_Join [portRoot, ''link_layer'']) w of (r, w) \<Rightarrow>
      (case r of
         Inl err \<Rightarrow> (Inl (failures @ [Errorf ''%s port %s: read link layer: %v'' [S device, S port, E err]]), w)
       | Inr linkLayer \<Rightarrow>
      (case port_transport linkLayer of
         None \<Rightarrow> (Inl (failures @ [Errorf ''%s port %s: unsupported link layer %q''
                    [S device, S port, S (TrimSpace linkLayer)]]), w)
       | Some transport \<Rightarrow>
      (case rdmaPortInterfaces H device port portRoot transport w of (r, w) \<Rightarrow>
      (case r of
         Inl err \<Rightarrow> (Inl (failures @ [Errorf ''%s port %s: %v'' [S device, S port, E err]]), w)
       | Inr interfaceNames \<Rightarrow> try_interfaces H portRoot transport interfaceNames failures w))))))"

fun try_ports ::
  "'w host \<Rightarrow> string \<Rightarrow> string \<Rightarrow> string list \<Rightarrow> error list \<Rightarrow> 'w \<Rightarrow> (error list + RDMAEndpoint) \<times> 'w" where
  "try_ports H device portsRoot [] failures w = (Inl failures, w)"
| "try_ports H device portsRoot (port # ports) failures w =
     (case try_port H device portsRoot port failures w of (r, w) \<Rightarrow>
      (case r of Inr endpoint \<Rightarrow> (Inr endpoint, w) | Inl failures \<Rightarrow> try_ports H device portsRoot ports failures w))"

fun try_devices :: "'w host \<Rightarrow> string list \<Rightarrow> error list \<Rightarrow> 'w \<Rightarrow> (error list + RDMAEndpoint) \<times> 'w" where
  "try_devices H [] failures w = (Inl failures, w)"
| "try_devices H (device # more_devices) failures w =
     (let portsRoot = filepath_Join [sysClassInfiniBand, device, ''ports''] in
      case h_ReadDir H portsRoot w of (r, w) \<Rightarrow>
      (case r of
         Inl err \<Rightarrow> try_devices H more_devices (failures @ [Errorf ''%s: %v'' [S device, E err]]) w
       | Inr ports \<Rightarrow>
           (case try_ports H device portsRoot ports failures w of (r, w) \<Rightarrow>
            (case r of Inr endpoint \<Rightarrow> (Inr endpoint, w) | Inl failures \<Rightarrow> try_devices H more_devices failures w))))"

definition DiscoverRDMAEndpoint :: "'w host \<Rightarrow> 'w \<Rightarrow> (error + RDMAEndpoint) \<times> 'w" where
  "DiscoverRDMAEndpoint H w =
     (case h_ReadDir H sysClassInfiniBand w of (r, w) \<Rightarrow>
      (case r of
         Inl err \<Rightarrow> (Inl (Wrapf ''read RDMA devices: %w'' [] err), w)
       | Inr entries \<Rightarrow>
           (case try_devices H (sort entries) [] w of (r, w) \<Rightarrow>
            (case r of
               Inr endpoint \<Rightarrow> (Inr endpoint, w)
             | Inl failures \<Rightarrow>
                 if failures \<noteq> []
                 then (Inl (Errorf ''no usable active RDMA endpoint: %s'' (map E failures)), w)
                 else (Inl (Errorf ''no active RDMA port with a non-loopback IP address'' []), w)))))"

section \<open>What was seen of an endpoint\<close>

text \<open>The interface is named by an entry of the mapping of the port.\<close>

definition gid_named :: "string \<Rightarrow> host_event list \<Rightarrow> string \<Rightarrow> bool" where
  "gid_named portRoot t n \<longleftrightarrow> (\<exists>entry v. ReadFileEv (filepath_Join [portRoot, ''gid_attrs'', ''ndevs'', entry]) (Inr v) \<in> set t \<and>
     n = TrimSpace v)"

text \<open>The interface is an IPoIB interface on the device at \<open>path\<close>, and of the port with this number.\<close>

definition port_number_seen :: "string \<Rightarrow> nat \<Rightarrow> host_event list \<Rightarrow> bool" where
  "port_number_seen root devPort t \<longleftrightarrow> (\<exists>property v. property \<in> set port_properties \<and>
     ReadFileEv (filepath_Join [root, property]) (Inr v) \<in> set t \<and> ParseUint0 (TrimSpace v) 32 = Some devPort)"

definition ipoib_seen :: "string \<Rightarrow> nat \<Rightarrow> host_event list \<Rightarrow> string \<Rightarrow> bool" where
  "ipoib_seen path portNumber t n \<longleftrightarrow> (let root = filepath_Join [sysClassNet, n] in
     (\<exists>v. ReadFileEv (filepath_Join [root, ''type'']) (Inr v) \<in> set t \<and> TrimSpace v = ''32'') \<and>
     EvalSymlinksEv (filepath_Join [root, ''device'']) (Inr path) \<in> set t \<and>
     (\<exists>devPort. devPort + 1 = portNumber \<and> port_number_seen root devPort t))"

definition ipoib_of_port :: "string \<Rightarrow> string \<Rightarrow> host_event list \<Rightarrow> string \<Rightarrow> bool" where
  "ipoib_of_port device port t n \<longleftrightarrow> (\<exists>path portNumber. ParseUint port 32 = Some portNumber \<and>
     EvalSymlinksEv (filepath_Join [sysClassInfiniBand, device, ''device'']) (Inr path) \<in> set t \<and>
     ipoib_seen path portNumber t n)"

definition on_port :: "string \<Rightarrow> string \<Rightarrow> string \<Rightarrow> RDMATransportType \<Rightarrow> host_event list \<Rightarrow> string \<Rightarrow> bool" where
  "on_port device port portRoot transport t n \<longleftrightarrow>
     gid_named portRoot t n \<or> transport = RDMATransportInfiniBand \<and> ipoib_of_port device port t n"

text \<open>The interface was up and had the address, which is usable.\<close>

definition address_seen :: "string \<Rightarrow> string \<Rightarrow> host_event list \<Rightarrow> bool" where
  "address_seen n ip t \<longleftrightarrow> (\<exists>usable. ParseUsableIP ip = Inr usable) \<and> (\<exists>addresses address parsed.
     InterfaceEv n (Inr (True, Inr addresses)) \<in> set t \<and> address \<in> set addresses \<and>
     ParseCIDR address = Some parsed \<and> ip = IP_String parsed)"

text \<open>The port was active, its link layer is that of the transport, and the interface is one of the port.\<close>

definition endpoint_at :: "string \<Rightarrow> string \<Rightarrow> string \<Rightarrow> RDMAEndpoint \<Rightarrow> host_event list \<Rightarrow> bool" where
  "endpoint_at device port portRoot ep t \<longleftrightarrow>
     (\<exists>state. ReadFileEv (filepath_Join [portRoot, ''state'']) (Inr state) \<in> set t \<and> rdmaPortIsActive state) \<and>
     (\<exists>layer. ReadFileEv (filepath_Join [portRoot, ''link_layer'']) (Inr layer) \<in> set t \<and>
        port_transport layer = Some (ep_Transport ep)) \<and>
     on_port device port portRoot (ep_Transport ep) t (ep_Interface ep) \<and>
     address_seen (ep_Interface ep) (ep_IP ep) t"

definition endpoint_seen :: "RDMAEndpoint \<Rightarrow> host_event list \<Rightarrow> bool" where
  "endpoint_seen ep t \<longleftrightarrow>
     (\<exists>device port. endpoint_at device port (filepath_Join [filepath_Join [sysClassInfiniBand, device, ''ports''], port]) ep t)"

lemma rdma_seen_mono [evidence]:
  "gid_named r t n \<Longrightarrow> set t \<subseteq> set t' \<Longrightarrow> gid_named r t' n"
  "port_number_seen r d t \<Longrightarrow> set t \<subseteq> set t' \<Longrightarrow> port_number_seen r d t'"
  "address_seen n ip t \<Longrightarrow> set t \<subseteq> set t' \<Longrightarrow> address_seen n ip t'"
  unfolding gid_named_def port_number_seen_def address_seen_def by blast+

lemma ipoib_seen_mono [evidence]: "ipoib_seen path k t n \<Longrightarrow> set t \<subseteq> set t' \<Longrightarrow> ipoib_seen path k t' n"
  unfolding ipoib_seen_def Let_def using rdma_seen_mono(2) by blast

lemma on_port_mono [evidence]: "on_port d p r tr t n \<Longrightarrow> set t \<subseteq> set t' \<Longrightarrow> on_port d p r tr t' n"
  unfolding on_port_def ipoib_of_port_def using rdma_seen_mono(1) ipoib_seen_mono by blast

lemma endpoint_seen_mono [evidence]: "endpoint_seen ep t \<Longrightarrow> set t \<subseteq> set t' \<Longrightarrow> endpoint_seen ep t'"
  unfolding endpoint_seen_def endpoint_at_def using on_port_mono rdma_seen_mono(3) by blast

lemma set_appendUniqueStrings [simp]: "set (appendUniqueStrings vs additions) = set vs \<union> set additions"
  by (induction additions arbitrary: vs) auto

lemma looked_append [simp]: "looked t (t @ u) \<longleftrightarrow> list_all looks u"
  by (simp add: looked_def)

section \<open>Operations\<close>

lemma gid_entries_post:
  assumes "\<forall>n \<in> set interfaces. gid_named portRoot t n"
  shows "post (gid_entries (recording_host H) portRoot entries interfaces u e (w, t))
    (\<lambda>r t'. looked t t' \<and> (\<forall>n \<in> set (fst r). gid_named portRoot t' n))"
  using assms
proof (induction entries arbitrary: interfaces u e w t)
  case (Cons entry entries)
  let ?ev = "\<lambda>r. ReadFileEv (filepath_Join [portRoot, ''gid_attrs'', ''ndevs'', entry]) r"
  have kept: "gid_named portRoot (t @ [?ev r]) n" if "n \<in> set interfaces" for r n
    using Cons.prems that by (auto intro: rdma_seen_mono(1))
  have new: "gid_named portRoot (t @ [?ev (Inr v)]) (TrimSpace v)" for v
    unfolding gid_named_def by auto
  show ?case
    unfolding gid_entries.simps
    by (intro vcg post_weaken [OF Cons.IH]) (auto intro: kept new dest: looked_from)
qed (auto intro!: vcg)

lemma rdmaGIDNetDevices_post:
  "post (rdmaGIDNetDevices (recording_host H) portRoot (w, t))
     (\<lambda>r t'. looked t t' \<and> (\<forall>n \<in> set (names_of r). gid_named portRoot t' n))"
  unfolding rdmaGIDNetDevices_def
  by (intro vcg post_bindI [OF gid_entries_post]) (auto simp: names_of_def dest: looked_from)

lemma port_property_post:
  "set properties \<subseteq> set port_properties \<Longrightarrow>
   post (port_property (recording_host H) root properties (w, t))
     (\<lambda>r t'. looked t t' \<and> (\<forall>p. r = Inr p \<longrightarrow> port_number_seen root p t'))"
proof (induction properties arbitrary: w t)
  case (Cons property properties)
  have seen: "port_number_seen root p (t @ [ReadFileEv (filepath_Join [root, property]) (Inr v)])"
    if "ParseUint0 (TrimSpace v) 32 = Some p" for p v
    unfolding port_number_seen_def using that Cons.prems by auto
  show ?case
    unfolding port_property.simps using Cons.prems
    by (intro vcg post_weaken [OF Cons.IH]) (auto intro: seen dest: looked_from)
qed (auto intro!: vcg)

lemma ipoib_matches_post:
  "post (ipoib_matches (recording_host H) path portNumber entry (w, t))
     (\<lambda>r t'. looked t t' \<and> (r \<longrightarrow> ipoib_seen path portNumber t' entry))"
proof -
  let ?root = "filepath_Join [sysClassNet, entry]"
  let ?t = "\<lambda>v. t @ [ReadFileEv (filepath_Join [?root, ''type'']) (Inr v), EvalSymlinksEv (filepath_Join [?root, ''device'']) (Inr path)]"
  have port: "post (networkDevicePort (recording_host H) ?root (w, u))
      (\<lambda>r t'. looked u t' \<and> (\<forall>p. r = Inr p \<longrightarrow> port_number_seen ?root p t'))" for w u
    unfolding networkDevicePort_def by (rule port_property_post) simp
  have seen: "ipoib_seen path (Suc p) t' entry"
    if "looked (?t v) t'" "TrimSpace v = ''32''" "port_number_seen ?root p t'" for v p t'
    using looked_set [OF that(1)] that(2,3) unfolding ipoib_seen_def Let_def by auto
  have grown: "looked t t'" if "looked (?t v) t'" for v t'
    using that by (auto simp: looked_def)
  show ?thesis
    unfolding ipoib_matches_def Let_def
    by (intro vcg post_bindI [OF port]) (auto intro: seen dest: grown)
qed

lemma ipoib_entries_post:
  assumes "\<forall>n \<in> set interfaces. ipoib_seen path k t n"
  shows "post (ipoib_entries (recording_host H) path k entries interfaces (w, t))
    (\<lambda>r t'. looked t t' \<and> (\<forall>n \<in> set r. ipoib_seen path k t' n))"
  using assms
proof (induction entries arbitrary: interfaces w t)
  case (Cons entry entries)
  have kept: "ipoib_seen path k t' n" if "n \<in> set interfaces" "looked t t'" for n t'
    using Cons.prems that looked_set ipoib_seen_mono by blast
  show ?case
    unfolding ipoib_entries.simps
    by (intro vcg post_bindI [OF ipoib_matches_post] post_weaken [OF Cons.IH]) (auto intro: kept looked_trans)
qed (auto intro!: vcg)

lemma ipoibPortInterfaces_post:
  "post (ipoibPortInterfaces (recording_host H) device port (w, t))
     (\<lambda>r t'. looked t t' \<and> (\<forall>n \<in> set (names_of r). ipoib_of_port device port t' n))"
proof -
  let ?ev = "\<lambda>path. EvalSymlinksEv (filepath_Join [sysClassInfiniBand, device, ''device'']) (Inr path)"
  have owned: "ipoib_of_port device port t' n"
    if "looked (t @ [?ev path, ReadDirEv sysClassNet r]) t'" "ParseUint port 32 = Some k" "ipoib_seen path k t' n" for path r k t' n
    using looked_set [OF that(1)] that(2,3) unfolding ipoib_of_port_def by auto
  have grown: "looked t t'" if "looked (t @ [?ev path, ReadDirEv sysClassNet r]) t'" for path r t'
    using that by (auto simp: looked_def)
  show ?thesis
    unfolding ipoibPortInterfaces_def
    by (intro vcg post_bindI [OF ipoib_entries_post]) (auto simp: names_of_def intro: owned dest: grown)
qed

lemma rdmaPortInterfaces_post:
  "post (rdmaPortInterfaces (recording_host H) device port portRoot transport (w, t))
     (\<lambda>r t'. looked t t' \<and> (\<forall>names. r = Inr names \<longrightarrow> (\<forall>n \<in> set names. on_port device port portRoot transport t' n)))"
  unfolding rdmaPortInterfaces_def
  by (intro vcg post_bindI [OF rdmaGIDNetDevices_post] post_bindI [OF ipoibPortInterfaces_post])
     (auto simp: on_port_def intro: looked_trans rdma_seen_mono(1) dest: looked_set)

section \<open>The address\<close>

lemma routable_address_Inr:
  assumes "routable_address addresses v6 = Inr ip"
  shows "ip = v6 \<and> v6 \<noteq> [] \<or> (\<exists>address parsed usable. address \<in> set addresses \<and> ParseCIDR address = Some parsed \<and>
    ip = IP_String parsed \<and> ParseUsableIP ip = Inr usable)"
  using assms
proof (induction addresses arbitrary: v6)
  case (Cons a addresses)
  show ?case
  proof (cases "\<exists>ip usable. ParseCIDR a = Some ip \<and> ParseUsableIP (IP_String ip) = Inr usable")
    case True
    then obtain ip' usable where a: "ParseCIDR a = Some ip'" "ParseUsableIP (IP_String ip') = Inr usable" by blast
    have "ip = IP_String ip' \<or> routable_address addresses (if v6 = [] then IP_String ip' else v6) = Inr ip"
      using Cons.prems a by (auto split: if_splits)
    then show ?thesis
    proof
      assume "ip = IP_String ip'"
      then show ?thesis using a by (metis list.set_intros(1))
    next
      assume "routable_address addresses (if v6 = [] then IP_String ip' else v6) = Inr ip"
      from Cons.IH [OF this] show ?thesis using a by (metis list.set_intros)
    qed
  next
    case False
    then have "routable_address addresses v6 = Inr ip" using Cons.prems by (auto split: option.splits sum.splits)
    from Cons.IH [OF this] show ?thesis by auto
  qed
qed (simp split: if_splits)

lemma interfaceAddress_post:
  "post (interfaceAddress (recording_host H) n (w, t)) (\<lambda>r t'. looked t t' \<and> (\<forall>ip. r = Inr ip \<longrightarrow> address_seen n ip t'))"
proof -
  have seen: "address_seen n ip (t @ [InterfaceEv n (Inr (True, Inr addresses))])"
    if "selectRoutableAddress addresses = Inr ip" for ip addresses
    using routable_address_Inr [of addresses "[]" ip] that unfolding address_seen_def selectRoutableAddress_def by auto
  have pair: "fst x \<Longrightarrow> snd x = Inr a \<Longrightarrow> x = (True, Inr a)" for x :: "bool \<times> (error + string list)" and a
    by (cases x) simp
  show ?thesis
    unfolding interfaceAddress_def by (intro vcg) (auto dest: pair intro: seen)
qed

section \<open>The search finds what was seen\<close>

lemma try_interfaces_post:
  "post (try_interfaces (recording_host H) portRoot transport names failures (w, t))
     (\<lambda>r t'. looked t t' \<and> (\<forall>ep. r = Inr ep \<longrightarrow> ep_Transport ep = transport \<and> ep_Interface ep \<in> set names \<and>
        address_seen (ep_Interface ep) (ep_IP ep) t'))"
proof (induction names arbitrary: failures w t)
  case (Cons n names)
  have kept: "address_seen n ip (u @ [ev])" if "address_seen n ip u" for ip u ev
    using that by (auto intro: rdma_seen_mono(3))
  show ?case
    unfolding try_interfaces.simps
    by (intro vcg post_bindI [OF interfaceAddress_post] post_weaken [OF Cons.IH]) (auto intro: kept looked_trans)
qed (auto intro!: vcg)

lemma try_port_post:
  "post (try_port (recording_host H) device portsRoot port failures (w, t))
     (\<lambda>r t'. looked t t' \<and> (\<forall>ep. r = Inr ep \<longrightarrow> endpoint_at device port (filepath_Join [portsRoot, port]) ep t'))"
proof -
  let ?root = "filepath_Join [portsRoot, port]"
  let ?t = "\<lambda>state layer. t @ [ReadFileEv (filepath_Join [?root, ''state'']) (Inr state), ReadFileEv (filepath_Join [?root, ''link_layer'']) (Inr layer)]"
  have at: "endpoint_at device port ?root ep t''"
    if "looked (?t state layer) t'" "looked t' t''" "rdmaPortIsActive state" "port_transport layer = Some (ep_Transport ep)"
      "\<forall>n \<in> set names. on_port device port ?root (ep_Transport ep) t' n" "ep_Interface ep \<in> set names"
      "address_seen (ep_Interface ep) (ep_IP ep) t''" for state layer t' t'' names ep
  proof -
    have "set (?t state layer) \<subseteq> set t''" "set t' \<subseteq> set t''" using looked_set [OF that(1)] looked_set [OF that(2)] by auto
    then show ?thesis using that(3-7) on_port_mono unfolding endpoint_at_def by fastforce
  qed
  have grown: "looked t t'" if "looked (?t state layer) t'" for state layer t'
    using that by (auto simp: looked_def)
  show ?thesis
    unfolding try_port_def Let_def
    by (intro vcg post_bindI [OF rdmaPortInterfaces_post] post_weaken [OF try_interfaces_post])
       (auto dest: grown looked_trans, blast intro: at)
qed

lemma try_ports_post:
  "post (try_ports (recording_host H) device (filepath_Join [sysClassInfiniBand, device, ''ports'']) ports failures (w, t))
     (\<lambda>r t'. looked t t' \<and> (\<forall>ep. r = Inr ep \<longrightarrow> endpoint_seen ep t'))"
proof (induction ports arbitrary: failures w t)
  case (Cons port ports)
  show ?case
    unfolding try_ports.simps
    by (intro vcg post_bindI [OF try_port_post] post_weaken [OF Cons.IH])
       (auto simp: endpoint_seen_def intro: looked_trans)
qed (auto intro!: vcg)

lemma try_devices_post:
  "post (try_devices (recording_host H) names failures (w, t))
     (\<lambda>r t'. looked t t' \<and> (\<forall>ep. r = Inr ep \<longrightarrow> endpoint_seen ep t'))"
proof (induction names arbitrary: failures w t)
  case (Cons device names)
  show ?case
    unfolding try_devices.simps Let_def
    by (intro vcg post_bindI [OF try_ports_post] post_weaken [OF Cons.IH])
       (auto intro: looked_trans dest: looked_from)
qed (auto intro!: vcg)

section \<open>Properties\<close>

definition endpoint_ok :: "error + RDMAEndpoint \<Rightarrow> host_event list \<Rightarrow> bool" where
  "endpoint_ok r t \<longleftrightarrow> list_all looks t \<and> (case r of Inl _ \<Rightarrow> True | Inr ep \<Rightarrow> endpoint_seen ep t)"

text \<open>C38: an endpoint that is discovered was seen: its port was active, its link layer is that of the transport, its
  interface belongs to that very port and was up, and its address is one of the interface that every other
  component accepts. The discovery changes nothing on the machine.\<close>

theorem DiscoverRDMAEndpoint_seen:
  "post (DiscoverRDMAEndpoint (recording_host H) (w, [])) endpoint_ok"
  unfolding DiscoverRDMAEndpoint_def
  by (intro vcg post_bindI [OF try_devices_post]) (auto simp: endpoint_ok_def looked_def)

end
