(* ===== verification/Agent_Reporter.thy ===== *)
theory Agent_Reporter
  imports Nvme_Discovery Rdma_Discovery
begin

text \<open>
  The reporter of the agent: \<^verbatim>\<open>internal/agent/reporter.go\<close>. It publishes the devices of the node as
  \<^verbatim>\<open>NVMeDevice\<close> objects and the node itself as an \<^verbatim>\<open>RDMAStorageNode\<close> with a heartbeat.

  The two discoveries are optional functions of the struct, over the world of the client; the defaults are those of
  this package on the machine \<open>rr_host\<close>. Errors of writes are logged only. The select of \<^verbatim>\<open>Start\<close> is
  a list of the cases it takes. Non-ASCII characters of a node name are sequences of bytes outside
  \<^verbatim>\<open>a-z\<close> and \<^verbatim>\<open>0-9\<close>, which become one separator as the single character does.
\<close>

section \<open>The code\<close>

record 'w Reporter =
  rr_kube :: "'w kube"
  rr_NodeName :: string
  rr_discoverDevices :: "('w \<Rightarrow> (HardwareNVMe list \<times> error option) \<times> 'w) option"
  rr_discoverRDMA :: "('w \<Rightarrow> (error + RDMAEndpoint) \<times> 'w) option"
  rr_host :: "'w host"

definition hardwareAvailableCondition :: string where
  "hardwareAvailableCondition = ''HardwareAvailable''"

definition kernelDiscoveryReadyCondition :: string where
  "kernelDiscoveryReadyCondition = ''KernelNVMeDiscoveryReady''"

definition spdkDiscoveryReadyCondition :: string where
  "spdkDiscoveryReadyCondition = ''SPDKNVMeDiscoveryReady''"

definition name_char :: "char \<Rightarrow> bool" where
  "name_char c \<longleftrightarrow> is_digit c \<or> 97 \<le> (of_char c :: nat) \<and> (of_char c :: nat) \<le> 122"

fun object_prefix :: "string \<Rightarrow> bool \<Rightarrow> string \<Rightarrow> string" where
  "object_prefix written lastSeparator [] = written"
| "object_prefix written lastSeparator (c # cs) =
     (let written = (if name_char c then written @ [c] else if \<not> lastSeparator then written @ ''-'' else written)
      in if length written \<ge> 40 then written else object_prefix written (\<not> name_char c) cs)"

definition readable_name :: "string \<Rightarrow> string" where
  "readable_name nodeName =
     (let readable = Trim_char CHR ''-'' (object_prefix [] False (ToLower nodeName))
      in if readable = [] then ''nvme'' else readable)"

definition device_digest :: "string \<Rightarrow> string \<Rightarrow> string" where
  "device_digest nodeName serialNumber = take 16 (Sum256 (nodeName @ [char_of (0 :: nat)] @ serialNumber))"

definition deviceObjectName :: "string \<Rightarrow> string \<Rightarrow> error + string" where
  "deviceObjectName nodeName serialNumber =
     (if TrimSpace nodeName = [] then Inl (Errorf ''node name is empty'' [])
      else if TrimSpace serialNumber = [] then Inl (Errorf ''serial number is empty'' [])
      else Inr (readable_name nodeName @ ''-'' @ hex_EncodeToString (device_digest nodeName serialNumber)))"

definition discoverNVMe :: "'w Reporter \<Rightarrow> 'w \<Rightarrow> (HardwareNVMe list \<times> error option) \<times> 'w" where
  "discoverNVMe R = (case rr_discoverDevices R of Some f \<Rightarrow> f | None \<Rightarrow> DiscoverNVMe (rr_host R))"

definition discoverRDMAEndpoint :: "'w Reporter \<Rightarrow> 'w \<Rightarrow> (error + RDMAEndpoint) \<times> 'w" where
  "discoverRDMAEndpoint R = (case rr_discoverRDMA R of Some f \<Rightarrow> f | None \<Rightarrow> DiscoverRDMAEndpoint (rr_host R))"

subsection \<open>The node\<close>

definition endpoint_spec :: "'w Reporter \<Rightarrow> RDMAEndpoint \<Rightarrow> RDMAStorageNodeSpec" where
  "endpoint_spec R ep = \<lparr>ns_NodeName = rr_NodeName R, ns_RDMAIP = ep_IP ep, ns_Transport = ep_Transport ep,
     ns_LinkSpeed = ep_LinkSpeed ep\<rparr>"

definition ready_condition :: "RDMAStorageNode \<Rightarrow> error + RDMAEndpoint \<Rightarrow> Condition" where
  "ready_condition node ep =
     (case ep of
        Inr _ \<Rightarrow> mk_Condition ReadyCondition ConditionTrue (om_Generation (n_meta node)) ''RDMAEndpointReady''
                    (Text ''An active RDMA interface has a usable non-loopback IP address'')
      | Inl err \<Rightarrow> mk_Condition ReadyCondition ConditionFalse (om_Generation (n_meta node)) ''RDMAEndpointUnavailable''
                    (ErrorText err))"

text \<open>\<^verbatim>\<open>errors.As\<close> for a discovery error: the errors of the two sources.\<close>

definition source_errors :: "error \<Rightarrow> (error option \<times> error option) option" where
  "source_errors e =
     (case List.find (\<lambda>e. case e of NVMeDiscoveryError _ _ \<Rightarrow> True | _ \<Rightarrow> False) (error_chain e) of
        Some (NVMeDiscoveryError k s) \<Rightarrow> Some (k, s)
      | _ \<Rightarrow> None)"

text \<open>The condition of one source: \<open>inventoryErr\<close> is the error of the whole inventory.\<close>

definition source_condition ::
  "string \<Rightarrow> string \<Rightarrow> int \<Rightarrow> error option \<Rightarrow> (error option \<times> error option \<Rightarrow> error option) \<Rightarrow> Condition" where
  "source_condition ty source gen inventoryErr side =
     (let ok = mk_Condition ty ConditionTrue gen (source @ ''DiscoverySucceeded'')
                 (Text (source @ '' NVMe discovery completed successfully''))
      in case inventoryErr of
           None \<Rightarrow> ok
         | Some err \<Rightarrow>
             (case source_errors err of
                None \<Rightarrow> mk_Condition ty ConditionUnknown gen ''DiscoveryHealthUnknown'' (ErrorText err)
              | Some sides \<Rightarrow>
                  (case side sides of
                     None \<Rightarrow> ok
                   | Some e \<Rightarrow> mk_Condition ty ConditionFalse gen (source @ ''DiscoveryFailed'') (ErrorText e))))"

definition aggregate_condition :: "int \<Rightarrow> error option \<Rightarrow> Condition" where
  "aggregate_condition gen inventoryErr =
     (case inventoryErr of
        None \<Rightarrow> mk_Condition NVMeInventoryReadyCondition ConditionTrue gen ''NVMeDiscoverySucceeded''
                  (Text ''Kernel and SPDK NVMe inventory sources completed successfully'')
      | Some err \<Rightarrow> mk_Condition NVMeInventoryReadyCondition ConditionFalse gen ''NVMeDiscoveryDegraded'' (ErrorText err))"

definition setInventoryConditions ::
  "'w Reporter \<Rightarrow> int \<Rightarrow> Condition list \<Rightarrow> error option \<Rightarrow> 'w \<Rightarrow> Condition list \<times> 'w" where
  "setInventoryConditions R gen conditions discoveryErr w =
     (let K = rr_kube R in
      case set_condition K conditions (aggregate_condition gen discoveryErr) w of (conditions, w) \<Rightarrow>
     (case set_condition K conditions (source_condition kernelDiscoveryReadyCondition ''Kernel'' gen discoveryErr fst) w of (conditions, w) \<Rightarrow>
      set_condition K conditions (source_condition spdkDiscoveryReadyCondition ''SPDK'' gen discoveryErr snd) w))"

definition active_export :: "'w Reporter \<Rightarrow> NVMePartition \<Rightarrow> bool" where
  "active_export R p \<longleftrightarrow> p_NodeName p = rr_NodeName R \<and> pst_State (p_status p) = PartitionExported \<and> not_deleting (p_meta p)"

text \<open>From the object as created, patched or read: its status.\<close>

definition report_status ::
  "'w Reporter \<Rightarrow> RDMAStorageNode \<Rightarrow> int \<Rightarrow> int \<Rightarrow> error + RDMAEndpoint \<Rightarrow> error option \<Rightarrow> 'w \<Rightarrow> unit \<times> 'w" where
  "report_status R node totalCapacity freeCapacity ep inventoryErr w =
     (let K = rr_kube R in
      case ListAll (partitions K) w of (r, w) \<Rightarrow>
      (case r of
         Inl err \<Rightarrow> ((), w)
       | Inr ps \<Rightarrow>
      (case Now K w of (now, w) \<Rightarrow>
      (case set_condition K (nst_Conditions (n_status node)) (ready_condition node ep) w of (conditions, w) \<Rightarrow>
      (case setInventoryConditions R (om_Generation (n_meta node)) conditions inventoryErr w of (conditions, w) \<Rightarrow>
         (case StatusPatch (rdmanodes K) node (node\<lparr>n_status :=
           \<lparr>nst_LastHeartbeatTime = now, nst_TotalCapacity = totalCapacity, nst_FreeCapacity = freeCapacity,
            nst_ActiveExports = int (length (filter (active_export R) ps)), nst_Conditions = conditions\<rparr>\<rparr>) w of (_, w) \<Rightarrow> ((), w)))))))"

definition reportNode :: "'w Reporter \<Rightarrow> int \<Rightarrow> int \<Rightarrow> error option \<Rightarrow> 'w \<Rightarrow> unit \<times> 'w" where
  "reportNode R totalCapacity freeCapacity inventoryErr w =
     (let K = rr_kube R; status = (\<lambda>node ep. report_status R node totalCapacity freeCapacity ep inventoryErr) in
      case discoverRDMAEndpoint R w of (ep, w) \<Rightarrow>
      (case Get (rdmanodes K) ([], rr_NodeName R) w of (r, w) \<Rightarrow>
      (case r of
         Inl err \<Rightarrow>
           if \<not> IsNotFound err then ((), w)
           else (case ep of
                   Inl _ \<Rightarrow> ((), w)
                 | Inr endpoint \<Rightarrow>
                     (case Create (rdmanodes K) \<lparr>n_meta = new_meta [] (rr_NodeName R), n_spec = endpoint_spec R endpoint,
                             n_status = zero_node_status\<rparr> w of (r, w) \<Rightarrow>
                      (case r of Inl _ \<Rightarrow> ((), w) | Inr node \<Rightarrow> status node ep w)))
       | Inr node \<Rightarrow>
           (case ep of
              Inl _ \<Rightarrow> status node ep w
            | Inr endpoint \<Rightarrow>
                if n_spec node \<noteq> endpoint_spec R endpoint
                then (case Patch (rdmanodes K) node (node\<lparr>n_spec := endpoint_spec R endpoint\<rparr>) w of (r, w) \<Rightarrow>
                      (case r of Inl _ \<Rightarrow> ((), w) | Inr node \<Rightarrow> status node ep w))
                else status node ep w))))"

subsection \<open>The devices\<close>

text \<open>What the loop over the devices has so far.\<close>

record inventory =
  iv_seen :: "string list"
  iv_total :: int
  iv_free :: int
  iv_err :: "error option"

definition join_error :: "error option \<Rightarrow> error \<Rightarrow> error option" where
  "join_error e e' = errors_Join ((case e of None \<Rightarrow> [] | Some e \<Rightarrow> [e]) @ [e'])"

definition hardware_spec :: "'w Reporter \<Rightarrow> HardwareNVMe \<Rightarrow> NVMeDeviceSpec" where
  "hardware_spec R d = \<lparr>ds_NodeName = rr_NodeName R, ds_PCIAddress = ToLower (TrimSpace (hw_PCIAddress d)),
     ds_SerialNumber = hw_SerialNumber d, ds_Model = hw_Model d, ds_TotalCapacity = hw_TotalBytes d, ds_NUMANode = hw_NUMANode d\<rparr>"

definition discovered_condition :: "NVMeDevice \<Rightarrow> Condition" where
  "discovered_condition dev = mk_Condition hardwareAvailableCondition ConditionTrue (om_Generation (d_meta dev))
     ''DeviceDiscovered'' (Text ''The reporting agent discovered the NVMe device'')"

definition missing_condition :: "NVMeDevice \<Rightarrow> Condition" where
  "missing_condition dev = mk_Condition hardwareAvailableCondition ConditionFalse (om_Generation (d_meta dev))
     ''DeviceNotDiscovered'' (Text ''The reporting agent no longer discovers the NVMe device'')"

definition add_claimed :: "NVMeDevice \<Rightarrow> int \<Rightarrow> int \<Rightarrow> inventory \<Rightarrow> inventory" where
  "add_claimed dev devTotal devFree iv =
     (if dst_State (d_status dev) = DeviceClaimed
      then iv\<lparr>iv_total := add64 (iv_total iv) devTotal, iv_free := add64 (iv_free iv) devFree\<rparr> else iv)"

text \<open>The status of a device that was just created; an error is only logged.\<close>

definition initialize_status :: "'w Reporter \<Rightarrow> string \<Rightarrow> 'w \<Rightarrow> unit \<times> 'w" where
  "initialize_status R deviceName w =
     (let K = rr_kube R in
      case Get (devices K) ([], deviceName) w of (r, w) \<Rightarrow>
      (case r of
         Inl err \<Rightarrow> ((), w)
       | Inr latest \<Rightarrow>
           (case set_condition K (dst_Conditions (d_status latest)) (discovered_condition latest) w of (conditions, w) \<Rightarrow>
              (case StatusPatch (devices K) latest (latest\<lparr>d_status := (d_status latest)
                \<lparr>dst_State := DeviceAvailable, dst_FreeCapacity := ds_TotalCapacity (d_spec latest), dst_Conditions := conditions\<rparr>\<rparr>) w of (_, w) \<Rightarrow> ((), w)))))"

definition create_device :: "'w Reporter \<Rightarrow> HardwareNVMe \<Rightarrow> string \<Rightarrow> inventory \<Rightarrow> 'w \<Rightarrow> inventory \<times> 'w" where
  "create_device R d deviceName iv w =
     (case Create (devices (rr_kube R)) \<lparr>d_meta = new_meta [] deviceName, d_spec = hardware_spec R d, d_status = zero_device_status\<rparr> w of (r, w) \<Rightarrow>
      (case r of
         Inl err \<Rightarrow> (iv, w)
       | Inr dev \<Rightarrow>
           (case initialize_status R deviceName w of (_, w) \<Rightarrow> (add_claimed dev (hw_TotalBytes d) (hw_TotalBytes d) iv, w))))"

definition found_state :: "NVMeDeviceStatus \<Rightarrow> NVMeDeviceState" where
  "found_state st =
     (if dst_State st = DeviceUnavailable then (if dst_ClaimRef st = None then DeviceAvailable else DeviceClaimed)
      else dst_State st)"

definition refresh_device :: "'w Reporter \<Rightarrow> HardwareNVMe \<Rightarrow> NVMeDevice \<Rightarrow> inventory \<Rightarrow> 'w \<Rightarrow> inventory \<times> 'w" where
  "refresh_device R d dev iv w =
     (let K = rr_kube R in
      case Patch (devices K) dev (dev\<lparr>d_spec := hardware_spec R d\<rparr>) w of (r, w) \<Rightarrow>
      (case r of
         Inl err \<Rightarrow> (iv, w)
       | Inr dev \<Rightarrow>
      (case set_condition K (dst_Conditions (d_status dev)) (discovered_condition dev) w of (conditions, w) \<Rightarrow>
      (case StatusPatch (devices K) dev
              (dev\<lparr>d_status := (d_status dev)\<lparr>dst_State := found_state (d_status dev), dst_Conditions := conditions\<rparr>\<rparr>) w of (r, w) \<Rightarrow>
      (case r of
         Inl err \<Rightarrow> (iv, w)
       | Inr dev \<Rightarrow> (add_claimed dev (hw_TotalBytes d) (dst_FreeCapacity (d_status dev)) iv, w))))))"

definition report_device :: "'w Reporter \<Rightarrow> HardwareNVMe \<Rightarrow> inventory \<Rightarrow> 'w \<Rightarrow> inventory \<times> 'w" where
  "report_device R d iv w =
     (case validateHardwareNVMe d of
        Some err \<Rightarrow>
          (iv\<lparr>iv_err := join_error (iv_err iv) (Wrapf ''validate discovered NVMe device %q: %w'' [S (hw_Name d)] err)\<rparr>, w)
      | None \<Rightarrow>
     (case deviceObjectName (rr_NodeName R) (hw_SerialNumber d) of
        Inl err \<Rightarrow> (iv\<lparr>iv_err := join_error (iv_err iv) err\<rparr>, w)
      | Inr deviceName \<Rightarrow>
          (let iv = iv\<lparr>iv_seen := deviceName # iv_seen iv\<rparr> in
           case Get (devices (rr_kube R)) ([], deviceName) w of (r, w) \<Rightarrow>
           (case r of
              Inl err \<Rightarrow> if IsNotFound err then create_device R d deviceName iv w else (iv, w)
            | Inr dev \<Rightarrow> refresh_device R d dev iv w))))"

fun report_each :: "'w Reporter \<Rightarrow> HardwareNVMe list \<Rightarrow> inventory \<Rightarrow> 'w \<Rightarrow> inventory \<times> 'w" where
  "report_each R [] iv w = (iv, w)"
| "report_each R (d # ds) iv w = (case report_device R d iv w of (iv, w) \<Rightarrow> report_each R ds iv w)"

fun mark_missing :: "'w Reporter \<Rightarrow> string list \<Rightarrow> NVMeDevice list \<Rightarrow> 'w \<Rightarrow> unit \<times> 'w" where
  "mark_missing R seen [] w = ((), w)"
| "mark_missing R seen (dev # devs) w =
     (if d_NodeName dev \<noteq> rr_NodeName R \<or> d_Name dev \<in> set seen then mark_missing R seen devs w
      else case set_condition (rr_kube R) (dst_Conditions (d_status dev)) (missing_condition dev) w of (conditions, w) \<Rightarrow>
       (case StatusPatch (devices (rr_kube R)) dev
          (dev\<lparr>d_status := (d_status dev)\<lparr>dst_State := DeviceUnavailable, dst_Conditions := conditions\<rparr>\<rparr>) w of (_, w) \<Rightarrow>
          mark_missing R seen devs w))"

definition reportDevices :: "'w Reporter \<Rightarrow> 'w \<Rightarrow> (int \<times> int \<times> error option) \<times> 'w" where
  "reportDevices R w =
     (case discoverNVMe R w of ((ds, discoveryErr), w) \<Rightarrow>
     (case report_each R ds \<lparr>iv_seen = [], iv_total = 0, iv_free = 0, iv_err = discoveryErr\<rparr> w of (iv, w) \<Rightarrow>
     (case ListAll (devices (rr_kube R)) w of (r, w) \<Rightarrow>
     (case r of
        Inl err \<Rightarrow> ((iv_total iv, iv_free iv, join_error (iv_err iv) err), w)
      | Inr reported \<Rightarrow>
          if iv_err iv \<noteq> None then ((iv_total iv, iv_free iv, iv_err iv), w)
          else (case mark_missing R (iv_seen iv) reported w of (_, w) \<Rightarrow> ((iv_total iv, iv_free iv, None), w))))))"

definition report :: "'w Reporter \<Rightarrow> 'w \<Rightarrow> unit \<times> 'w" where
  "report R w = (case reportDevices R w of ((totalCap, freeCap, inventoryErr), w) \<Rightarrow>
     reportNode R totalCap freeCap inventoryErr w)"

text \<open>The cases that the select takes: a tick, or the end of the context.\<close>

datatype reporter_wake = TickerC | CtxDone

fun report_loop :: "'w Reporter \<Rightarrow> reporter_wake list \<Rightarrow> 'w \<Rightarrow> unit \<times> 'w" where
  "report_loop R [] w = ((), w)"
| "report_loop R (TickerC # wakes) w = (case report R w of (_, w) \<Rightarrow> report_loop R wakes w)"
| "report_loop R (CtxDone # wakes) w = ((), w)"

definition reporter_Start :: "'w Reporter \<Rightarrow> reporter_wake list \<Rightarrow> 'w \<Rightarrow> unit \<times> 'w" where
  "reporter_Start R wakes w = (case report R w of (_, w) \<Rightarrow> report_loop R wakes w)"

section \<open>Names of devices\<close>

lemma object_prefix_chars:
  "list_all (\<lambda>c. name_char c \<or> c = CHR ''-'') written \<Longrightarrow>
   list_all (\<lambda>c. name_char c \<or> c = CHR ''-'') (object_prefix written sep cs)"
  by (induction written sep cs rule: object_prefix.induct) (auto simp: Let_def)

lemma object_prefix_length: "length written < 40 \<Longrightarrow> length (object_prefix written sep cs) \<le> 40"
  by (induction written sep cs rule: object_prefix.induct) (auto simp: Let_def)

lemma dropWhile_hd: "dropWhile P xs \<noteq> [] \<Longrightarrow> \<not> P (hd (dropWhile P xs))"
  by (induction xs) auto

lemma Trim_char_parts:
  "set (Trim_char c s) \<subseteq> set s" "length (Trim_char c s) \<le> length s" "Trim_char c s \<noteq> [] \<Longrightarrow> hd (Trim_char c s) \<noteq> c"
proof -
  let ?d = "dropWhile (\<lambda>x. x = c) s"
  have t: "Trim_char c s = rev (dropWhile (\<lambda>x. x = c) (rev ?d))" by (simp add: Trim_char_def)
  have sub: "set (Trim_char c s) \<subseteq> set ?d" unfolding t by (metis set_dropWhileD set_rev subsetI)
  show "set (Trim_char c s) \<subseteq> set s" using sub by (meson set_dropWhileD subset_iff)
  show "length (Trim_char c s) \<le> length s" unfolding t
    by (metis length_dropWhile_le length_rev order_trans)
  assume ne: "Trim_char c s \<noteq> []"
  obtain u where u: "?d = Trim_char c s @ u"
    unfolding t by (metis rev_append rev_rev_ident takeWhile_dropWhile_id)
  with ne have "?d \<noteq> []" "hd ?d = hd (Trim_char c s)" by auto
  then show "hd (Trim_char c s) \<noteq> c" using dropWhile_hd [of "\<lambda>x. x = c" s] by simp
qed

text \<open>A name that the API server accepts: lower-case letters, digits and inner separators, at most 73 bytes.\<close>

definition object_name_ok :: "string \<Rightarrow> bool" where
  "object_name_ok n \<longleftrightarrow> n \<noteq> [] \<and> length n \<le> 73 \<and> list_all (\<lambda>c. name_char c \<or> c = CHR ''-'') n \<and>
     name_char (hd n) \<and> name_char (last n)"

lemma hex_name_char: "is_hex_lower c \<Longrightarrow> name_char c"
  by (auto simp: is_hex_lower_def name_char_def is_digit_def Let_def)

lemma readable_name_ok:
  "readable_name n \<noteq> []" "length (readable_name n) \<le> 40" "list_all (\<lambda>c. name_char c \<or> c = CHR ''-'') (readable_name n)"
  "name_char (hd (readable_name n))"
proof -
  define p where "p = object_prefix [] False (ToLower n)"
  define r where "r = Trim_char CHR ''-'' p"
  have n: "readable_name n = (if r = [] then ''nvme'' else r)" by (simp add: readable_name_def r_def p_def Let_def)
  have p: "list_all (\<lambda>c. name_char c \<or> c = CHR ''-'') p" "length p \<le> 40"
    by (simp_all add: p_def object_prefix_chars object_prefix_length)
  have r: "\<forall>c \<in> set r. name_char c \<or> c = CHR ''-''" "length r \<le> 40"
    using p Trim_char_parts(1,2) [of "CHR ''-''" p] unfolding r_def list_all_iff by auto
  have hd: "name_char (hd r)" if "r \<noteq> []"
  proof -
    have "hd r \<in> set r" "hd r \<noteq> CHR ''-''" using that Trim_char_parts(3) [of "CHR ''-''" p] unfolding r_def by auto
    then show ?thesis using r(1) by blast
  qed
  have nvme: "list_all name_char ''nvme''" by (simp add: name_char_def)
  show "readable_name n \<noteq> []" "length (readable_name n) \<le> 40" unfolding n using r(2) by simp_all
  show "list_all (\<lambda>c. name_char c \<or> c = CHR ''-'') (readable_name n)" "name_char (hd (readable_name n))"
    unfolding n using r(1) hd nvme by (simp_all add: list_all_iff)
qed

lemma length_device_digest [simp]: "length (device_digest n s) = 16"
  by (simp add: device_digest_def)

lemma deviceObjectName_ok:
  assumes "deviceObjectName n s = Inr x"
  shows "object_name_ok x"
proof -
  let ?h = "hex_EncodeToString (device_digest n s)"
  have x: "x = readable_name n @ ''-'' @ ?h" using assms by (auto simp: deviceObjectName_def split: if_splits)
  have len: "length ?h = 32" by simp
  then have ne: "?h \<noteq> []" by (metis list.size(3) zero_neq_numeral)
  have h: "list_all name_char ?h" using hex_chars hex_name_char by (auto simp: list_all_iff)
  then have "name_char (last ?h)" using ne by (simp add: list_all_iff)
  then show ?thesis
    using readable_name_ok [of n] ne h len unfolding x object_name_ok_def by (auto simp: list_all_iff)
qed

definition digest_collision :: "string \<Rightarrow> string \<Rightarrow> bool" where
  "digest_collision a b \<longleftrightarrow> a \<noteq> b \<and> take 16 (Sum256 a) = take 16 (Sum256 b)"

lemma deviceObjectName_digest:
  assumes "deviceObjectName n s = Inr x" and "deviceObjectName n' s' = Inr x"
  shows "device_digest n s = device_digest n' s'"
proof -
  have "readable_name n @ ''-'' @ hex_EncodeToString (device_digest n s) =
      readable_name n' @ ''-'' @ hex_EncodeToString (device_digest n' s')"
    using assms by (auto simp: deviceObjectName_def split: if_splits)
  then have "hex_EncodeToString (device_digest n s) = hex_EncodeToString (device_digest n' s')"
    by (metis append.assoc append_eq_append_conv length_hex length_device_digest)
  then show ?thesis by (rule hex_inj)
qed

lemma nul_separated:
  assumes "n @ [c] @ s = n' @ [c] @ s'" and "c \<notin> set n" and "c \<notin> set n'"
  shows "n = n' \<and> s = s'"
  using assms by (induction n arbitrary: n') (auto simp: Cons_eq_append_conv append_eq_Cons_conv)

text \<open>C40: a device object gets a name that the API server accepts, and the name identifies the device: two devices that would share
  it have the same node and serial number, unless the texts that are hashed are a collision of the truncated SHA-256.\<close>

theorem deviceObjectName_identifies:
  assumes "deviceObjectName n s = Inr x" and "deviceObjectName n' s' = Inr x"
    and "char_of (0 :: nat) \<notin> set n" and "char_of (0 :: nat) \<notin> set n'"
  shows "object_name_ok x \<and>
    (n = n' \<and> s = s' \<or> digest_collision (n @ [char_of (0 :: nat)] @ s) (n' @ [char_of (0 :: nat)] @ s'))"
  using deviceObjectName_ok [OF assms(1)] deviceObjectName_digest [OF assms(1,2)] nul_separated [OF _ assms(3,4)]
  unfolding digest_collision_def device_digest_def by blast

theorem deviceObjectName_identifies_witness:
  "\<exists>x. deviceObjectName ''node1'' ''SN1'' = Inr x \<and> object_name_ok x"
proof -
  have "TrimSpace ''node1'' \<noteq> []" "TrimSpace ''SN1'' \<noteq> []" "char_of (0 :: nat) \<notin> set ''node1''" by code_simp+
  then show ?thesis
    using deviceObjectName_identifies [of "''node1''" "''SN1''" _ "''node1''" "''SN1''"] by (simp add: deviceObjectName_def)
qed

section \<open>A reporter whose calls are recorded\<close>

datatype reporter_event = InventoryEv "HardwareNVMe list" "error option" | EndpointEv "error + RDMAEndpoint"

type_synonym report_event = "reporter_event event"

definition recording_reporter :: "'w Reporter \<Rightarrow> ('w, report_event) traced Reporter" where
  "recording_reporter R = \<lparr>rr_kube = recording (rr_kube R), rr_NodeName = rr_NodeName R,
     rr_discoverDevices = Some (record_call (\<lambda>r. Other (InventoryEv (fst r) (snd r))) (discoverNVMe R)),
     rr_discoverRDMA = Some (record_call (\<lambda>r. Other (EndpointEv r)) (discoverRDMAEndpoint R)),
     rr_host = refusing_host\<rparr>"

lemma recording_reporter_sel [simp]:
  "rr_kube (recording_reporter R) = recording (rr_kube R)" "rr_NodeName (recording_reporter R) = rr_NodeName R"
  "endpoint_spec (recording_reporter R) = endpoint_spec R" "hardware_spec (recording_reporter R) = hardware_spec R"
  by (simp_all add: recording_reporter_def endpoint_spec_def hardware_spec_def fun_eq_iff)

lemma reporter_discover_calls [vcg]:
  "(\<And>ds e w. post (g ds e (w, t @ [Other (InventoryEv ds e)])) Q) \<Longrightarrow>
   post (case discoverNVMe (recording_reporter R) (w, t) of ((ds, e), s) \<Rightarrow> g ds e s) Q"
  "(\<And>r w. post (h r (w, t @ [Other (EndpointEv r)])) Q) \<Longrightarrow>
   post (case discoverRDMAEndpoint (recording_reporter R) (w, t) of (r, s) \<Rightarrow> h r s) Q"
  by (auto simp: recording_reporter_def discoverNVMe_def [of "Reporter_ext _ _ _ _ _ _"]
      discoverRDMAEndpoint_def [of "Reporter_ext _ _ _ _ _ _"] record_call_def split: prod.splits)

section \<open>What justifies a write\<close>

text \<open>The device was discovered with valid metadata, and \<open>n\<close> is the name of its object.\<close>

definition discovered :: "'w Reporter \<Rightarrow> HardwareNVMe \<Rightarrow> string \<Rightarrow> report_event list \<Rightarrow> bool" where
  "discovered R d n t \<longleftrightarrow> (\<exists>ds e. Other (InventoryEv ds e) \<in> set t \<and> d \<in> set ds) \<and>
     validateHardwareNVMe d = None \<and> deviceObjectName (rr_NodeName R) (hw_SerialNumber d) = Inr n"

definition new_device :: "'w Reporter \<Rightarrow> HardwareNVMe \<Rightarrow> string \<Rightarrow> NVMeDevice" where
  "new_device R d n = \<lparr>d_meta = new_meta [] n, d_spec = hardware_spec R d, d_status = zero_device_status\<rparr>"

definition create_due :: "'w Reporter \<Rightarrow> NVMeDevice \<Rightarrow> report_event list \<Rightarrow> bool" where
  "create_due R x t \<longleftrightarrow> (\<exists>d n e. discovered R d n t \<and> x = new_device R d n \<and>
     Devices (GetCall ([], n) (Inl e)) \<in> set t \<and> IsNotFound e)"

definition refresh_due :: "'w Reporter \<Rightarrow> NVMeDevice \<Rightarrow> NVMeDevice \<Rightarrow> report_event list \<Rightarrow> bool" where
  "refresh_due R b x t \<longleftrightarrow> (\<exists>d n. discovered R d n t \<and> Devices (GetCall ([], n) (Inr b)) \<in> set t \<and>
     x = b\<lparr>d_spec := hardware_spec R d\<rparr>)"

text \<open>A status keeps what belongs to others: the claim and the active backend.\<close>

definition status_kept :: "NVMeDevice \<Rightarrow> NVMeDevice \<Rightarrow> bool" where
  "status_kept b x \<longleftrightarrow> d_meta x = d_meta b \<and> d_spec x = d_spec b \<and> dst_ClaimRef (d_status x) = dst_ClaimRef (d_status b) \<and>
     dst_ActiveBackend (d_status x) = dst_ActiveBackend (d_status b)"

definition initial_due :: "'w Reporter \<Rightarrow> NVMeDevice \<Rightarrow> NVMeDevice \<Rightarrow> report_event list \<Rightarrow> bool" where
  "initial_due R b x t \<longleftrightarrow> (\<exists>d n y. Devices (CreateCall (new_device R d n) (Inr y)) \<in> set t \<and>
     Devices (GetCall ([], n) (Inr b)) \<in> set t) \<and>
     dst_State (d_status x) = DeviceAvailable \<and> dst_FreeCapacity (d_status x) = ds_TotalCapacity (d_spec b)"

definition found_due :: "NVMeDevice \<Rightarrow> NVMeDevice \<Rightarrow> report_event list \<Rightarrow> bool" where
  "found_due b x t \<longleftrightarrow> (\<exists>b' x'. Devices (PatchCall b' x' (Inr b)) \<in> set t) \<and>
     dst_State (d_status x) = found_state (d_status b) \<and> dst_FreeCapacity (d_status x) = dst_FreeCapacity (d_status b)"

text \<open>The inventory was complete and does not have the device.\<close>

definition absent :: "'w Reporter \<Rightarrow> NVMeDevice \<Rightarrow> HardwareNVMe list \<Rightarrow> bool" where
  "absent R b ds \<longleftrightarrow> list_all (\<lambda>d. validateHardwareNVMe d = None \<and>
     (\<exists>n. deviceObjectName (rr_NodeName R) (hw_SerialNumber d) = Inr n \<and> n \<noteq> d_Name b)) ds"

definition missing_due :: "'w Reporter \<Rightarrow> NVMeDevice \<Rightarrow> NVMeDevice \<Rightarrow> report_event list \<Rightarrow> bool" where
  "missing_due R b x t \<longleftrightarrow> d_NodeName b = rr_NodeName R \<and> (\<exists>ds. Other (InventoryEv ds None) \<in> set t \<and> absent R b ds) \<and>
     (\<exists>listed. Devices (ListCall (Inr listed)) \<in> set t \<and> b \<in> set listed) \<and>
     dst_State (d_status x) = DeviceUnavailable \<and> dst_FreeCapacity (d_status x) = dst_FreeCapacity (d_status b)"

definition condition_is :: "'w Reporter \<Rightarrow> RDMAStorageNode \<Rightarrow> string \<Rightarrow> bool \<Rightarrow> bool" where
  "condition_is R x ty b \<longleftrightarrow> (\<exists>c. FindStatusCondition (rr_kube R) (nst_Conditions (n_status x)) ty = Some c \<and>
     (cond_Status c = ConditionTrue \<longleftrightarrow> b))"

definition has_endpoint :: "error + RDMAEndpoint \<Rightarrow> bool" where
  "has_endpoint r = (case r of Inl _ \<Rightarrow> False | Inr _ \<Rightarrow> True)"

text \<open>The conditions of a node say what the discoveries found, and no more.\<close>

definition conditions_due :: "'w Reporter \<Rightarrow> RDMAStorageNode \<Rightarrow> report_event list \<Rightarrow> bool" where
  "conditions_due R x t \<longleftrightarrow> (\<exists>ep ds e complete. Other (EndpointEv ep) \<in> set t \<and> Other (InventoryEv ds e) \<in> set t \<and>
     condition_is R x ReadyCondition (has_endpoint ep) \<and> condition_is R x NVMeInventoryReadyCondition complete \<and>
     (complete \<longrightarrow> e = None \<and> list_all (\<lambda>d. validateHardwareNVMe d = None) ds))"

definition endpoint_due :: "'w Reporter \<Rightarrow> RDMAStorageNodeSpec \<Rightarrow> report_event list \<Rightarrow> bool" where
  "endpoint_due R spec t \<longleftrightarrow> (\<exists>ep. Other (EndpointEv (Inr ep)) \<in> set t \<and> spec = endpoint_spec R ep)"

definition report_call_ok :: "'w Reporter \<Rightarrow> report_event list \<Rightarrow> report_event \<Rightarrow> bool" where
  "report_call_ok R t ev \<longleftrightarrow>
     (case ev of
        Devices c \<Rightarrow>
          (case c of
             CreateCall x r \<Rightarrow> create_due R x t
           | PatchCall b x r \<Rightarrow> refresh_due R b x t
           | StatusPatchCall b x r \<Rightarrow> status_kept b x \<and> (initial_due R b x t \<or> found_due b x t \<or> missing_due R b x t)
           | GetCall k r \<Rightarrow> True | ListCall r \<Rightarrow> True | _ \<Rightarrow> False)
      | RdmaNodes c \<Rightarrow>
          (case c of
             CreateCall x r \<Rightarrow> n_meta x = new_meta [] (rr_NodeName R) \<and> endpoint_due R (n_spec x) t
           | PatchCall b x r \<Rightarrow> x = b\<lparr>n_spec := n_spec x\<rparr> \<and> endpoint_due R (n_spec x) t
           | StatusPatchCall b x r \<Rightarrow> x = b\<lparr>n_status := n_status x\<rparr> \<and> conditions_due R x t
           | GetCall k r \<Rightarrow> k = ([], rr_NodeName R) | _ \<Rightarrow> False)
      | Partitions c \<Rightarrow> (\<exists>r. c = ListCall r)
      | Other e \<Rightarrow> True
      | _ \<Rightarrow> False)"

section \<open>Every call is justified\<close>

definition running :: "'w Reporter \<Rightarrow> HardwareNVMe list \<Rightarrow> error option \<Rightarrow> report_event list \<Rightarrow> bool" where
  "running R ds e t \<longleftrightarrow> justified (report_call_ok R) t \<and> Other (InventoryEv ds e) \<in> set t"

lemma running_step: "running R ds e t \<Longrightarrow> report_call_ok R t ev \<Longrightarrow> running R ds e (t @ [ev])"
  by (simp add: running_def)

lemma running_read:
  assumes "running R ds e t"
  shows "running R ds e (t @ [Devices (GetCall k r)])" "running R ds e (t @ [Devices (ListCall rl)])"
    "running R ds e (t @ [Partitions (ListCall rp)])" "running R ds e (t @ [Other o'])"
    "running R ds e (t @ [RdmaNodes (GetCall ([], rr_NodeName R) rn)])"
  using assms by (simp_all add: running_step report_call_ok_def)

lemma initialize_status_post:
  assumes "running R ds e t" and "Devices (CreateCall (new_device R d n) (Inr y)) \<in> set t"
  shows "post (initialize_status (recording_reporter R) n (w, t)) (\<lambda>_ t'. running R ds e t')"
proof -
  let ?get = "\<lambda>r. Devices (GetCall ([], n) r)"
  have step: "running R ds e ((t @ [?get (Inr b)]) @ [Devices (StatusPatchCall b (b\<lparr>d_status := (d_status b)
      \<lparr>dst_State := DeviceAvailable, dst_FreeCapacity := ds_TotalCapacity (d_spec b), dst_Conditions := cs\<rparr>\<rparr>) r)])" for b cs r
  proof (rule running_step [OF running_read(1) [OF assms(1)]])
    have "initial_due R b (b\<lparr>d_status := (d_status b) \<lparr>dst_State := DeviceAvailable,
        dst_FreeCapacity := ds_TotalCapacity (d_spec b), dst_Conditions := cs\<rparr>\<rparr>) (t @ [?get (Inr b)])"
      unfolding initial_due_def using assms(2) by auto
    then show "report_call_ok R (t @ [?get (Inr b)]) (Devices (StatusPatchCall b (b\<lparr>d_status := (d_status b)
      \<lparr>dst_State := DeviceAvailable, dst_FreeCapacity := ds_TotalCapacity (d_spec b), dst_Conditions := cs\<rparr>\<rparr>) r))"
      by (simp add: report_call_ok_def status_kept_def)
  qed
  show ?thesis
    unfolding initialize_status_def Let_def recording_reporter_sel recording_sel
    by (intro vcg) (use running_read(1) [OF assms(1)] step in simp_all)
qed

lemma create_device_post:
  assumes "running R ds e t" and "discovered R d n t" and "Devices (GetCall ([], n) (Inl err)) \<in> set t" and "IsNotFound err"
  shows "post (create_device (recording_reporter R) d n iv (w, t))
    (\<lambda>iv' t'. running R ds e t' \<and> iv_seen iv' = iv_seen iv \<and> iv_err iv' = iv_err iv)"
proof -
  have "create_due R (new_device R d n) t" unfolding create_due_def using assms(2-4) by blast
  then have step: "running R ds e (t @ [Devices (CreateCall (new_device R d n) r)])" for r
    by (intro running_step [OF assms(1)]) (simp add: report_call_ok_def)
  have kept: "iv_seen (add_claimed dev a b iv) = iv_seen iv" "iv_err (add_claimed dev a b iv) = iv_err iv" for dev a b
    by (simp_all add: add_claimed_def)
  show ?thesis
    unfolding create_device_def recording_reporter_sel recording_sel new_device_def [symmetric]
    by (intro vcg post_bindI [OF initialize_status_post [where R = R and d = d]]) (auto simp: step kept)
qed

lemma refresh_device_post:
  assumes "running R ds e t" and "discovered R d n t" and "Devices (GetCall ([], n) (Inr dev)) \<in> set t"
  shows "post (refresh_device (recording_reporter R) d dev iv (w, t))
    (\<lambda>iv' t'. running R ds e t' \<and> iv_seen iv' = iv_seen iv \<and> iv_err iv' = iv_err iv)"
proof -
  let ?p = "\<lambda>r. Devices (PatchCall dev (dev\<lparr>d_spec := hardware_spec R d\<rparr>) r)"
  let ?x = "\<lambda>b cs. b\<lparr>d_status := (d_status b)\<lparr>dst_State := found_state (d_status b), dst_Conditions := cs\<rparr>\<rparr>"
  have "refresh_due R dev (dev\<lparr>d_spec := hardware_spec R d\<rparr>) t" unfolding refresh_due_def using assms(2,3) by blast
  then have step: "running R ds e (t @ [?p r])" for r
    by (intro running_step [OF assms(1)]) (simp add: report_call_ok_def)
  have step2: "running R ds e ((t @ [?p (Inr b)]) @ [Devices (StatusPatchCall b (?x b cs) r)])" for b cs r
  proof (rule running_step [OF step])
    have "found_due b (?x b cs) (t @ [?p (Inr b)])" unfolding found_due_def by auto
    then show "report_call_ok R (t @ [?p (Inr b)]) (Devices (StatusPatchCall b (?x b cs) r))"
      by (simp add: report_call_ok_def status_kept_def)
  qed
  show ?thesis
    unfolding refresh_device_def Let_def recording_reporter_sel recording_sel
    by (intro vcg) (use step step2 in \<open>simp_all add: add_claimed_def\<close>)
qed

text \<open>The devices reported so far are valid and their names seen, unless an error was noted.\<close>

definition seen_all :: "'w Reporter \<Rightarrow> error option \<Rightarrow> HardwareNVMe list \<Rightarrow> inventory \<Rightarrow> bool" where
  "seen_all R e ds iv \<longleftrightarrow> (iv_err iv = None \<longrightarrow> e = None \<and> list_all (\<lambda>d. validateHardwareNVMe d = None \<and>
     (\<exists>n. deviceObjectName (rr_NodeName R) (hw_SerialNumber d) = Inr n \<and> n \<in> set (iv_seen iv))) ds)"

lemma join_error_Some [simp]: "join_error e e' \<noteq> None"
  by (simp add: join_error_def errors_Join_def)

lemma seen_all_next:
  assumes "seen_all R e seen iv" and "validateHardwareNVMe d = None"
    and "deviceObjectName (rr_NodeName R) (hw_SerialNumber d) = Inr n"
    and "iv_seen iv' = n # iv_seen iv" and "iv_err iv' = iv_err iv"
  shows "seen_all R e (seen @ [d]) iv'"
  using assms by (auto simp: seen_all_def list_all_iff)

lemma report_device_post:
  assumes "running R ds e t" and "d \<in> set ds" and "seen_all R e seen iv"
  shows "post (report_device (recording_reporter R) d iv (w, t)) (\<lambda>iv' t'. running R ds e t' \<and> seen_all R e (seen @ [d]) iv')"
proof (cases "validateHardwareNVMe d = None \<and> (\<exists>n. deviceObjectName (rr_NodeName R) (hw_SerialNumber d) = Inr n)")
  case True
  then obtain n where ok: "validateHardwareNVMe d = None" "deviceObjectName (rr_NodeName R) (hw_SerialNumber d) = Inr n" by blast
  let ?get = "\<lambda>r. Devices (GetCall ([], n) r)"
  have disc: "discovered R d n (t @ [?get r])" for r
    using assms(1,2) ok unfolding discovered_def running_def by auto
  have nxt: "seen_all R e (seen @ [d]) iv'" if "iv_seen iv' = n # iv_seen iv" "iv_err iv' = iv_err iv" for iv'
    by (rule seen_all_next [OF assms(3) ok that])
  note r = running_read(1) [OF assms(1), of "([], n)"]
  show ?thesis
    unfolding report_device_def Let_def recording_reporter_sel recording_sel ok option.case sum.case
    by (intro vcg post_weaken [OF create_device_post [OF r disc]] post_weaken [OF refresh_device_post [OF r disc]])
       (auto simp: r nxt)
next
  case False
  have err: "seen_all R e (seen @ [d]) (iv\<lparr>iv_err := join_error x y\<rparr>)" for x y
    by (simp add: seen_all_def)
  show ?thesis
    unfolding report_device_def Let_def recording_reporter_sel recording_sel
    by (intro vcg) (use False assms(1) err in auto)
qed

lemma report_each_post:
  assumes "running R ds e t" and "set todo \<subseteq> set ds" and "seen_all R e seen iv"
  shows "post (report_each (recording_reporter R) todo iv (w, t)) (\<lambda>iv' t'. running R ds e t' \<and> seen_all R e (seen @ todo) iv')"
  using assms
proof (induction todo arbitrary: seen iv w t)
  case (Cons d todo)
  have ih: "post (report_each (recording_reporter R) todo iv' (w', t')) (\<lambda>iv'' t''. running R ds e t'' \<and> seen_all R e (seen @ d # todo) iv'')"
    if "running R ds e t' \<and> seen_all R e (seen @ [d]) iv'" for iv' w' t'
    using Cons.IH [of t' "seen @ [d]" iv' w'] that Cons.prems(2) by simp
  show ?case
    unfolding report_each.simps using Cons.prems
    by (intro vcg post_bindI [OF report_device_post [where R = R and ds = ds and e = e and seen = seen]] ih) simp_all
qed (auto intro!: vcg)

lemma mark_missing_post:
  assumes "running R ds e t" and "seen_all R e ds iv" and "iv_err iv = None"
    and "Devices (ListCall (Inr listed)) \<in> set t" and "set devs \<subseteq> set listed"
  shows "post (mark_missing (recording_reporter R) (iv_seen iv) devs (w, t)) (\<lambda>_ t'. running R ds e t')"
  using assms(1,4,5)
proof (induction devs arbitrary: w t)
  case (Cons b devs)
  let ?x = "\<lambda>cs. b\<lparr>d_status := (d_status b)\<lparr>dst_State := DeviceUnavailable, dst_Conditions := cs\<rparr>\<rparr>"
  have step: "running R ds e (t @ [Devices (StatusPatchCall b (?x cs) r)])"
    if "d_NodeName b = rr_NodeName R" "d_Name b \<notin> set (iv_seen iv)" for cs r
  proof (rule running_step [OF Cons.prems(1)])
    have "absent R b ds" "e = None" using assms(2,3) that(2) by (auto simp: seen_all_def absent_def list_all_iff)
    then have "missing_due R b (?x cs) t"
      using that(1) Cons.prems unfolding missing_due_def running_def by auto
    then show "report_call_ok R t (Devices (StatusPatchCall b (?x cs) r))"
      by (simp add: report_call_ok_def status_kept_def)
  qed
  show ?case
    unfolding mark_missing.simps recording_reporter_sel recording_sel using Cons.prems
    by (intro vcg Cons.IH) (auto simp: step)
qed (auto intro!: vcg)

definition complete_if :: "error option \<Rightarrow> HardwareNVMe list \<Rightarrow> error option \<Rightarrow> bool" where
  "complete_if inventoryErr ds e \<longleftrightarrow> (inventoryErr = None \<longrightarrow> e = None \<and> list_all (\<lambda>d. validateHardwareNVMe d = None) ds)"

lemma seen_all_complete: "seen_all R e ds iv \<Longrightarrow> complete_if (iv_err iv) ds e"
  by (auto simp: seen_all_def complete_if_def list_all_iff)

lemma post_nestI:
  "post (case p of (a, b) \<Rightarrow> case f a b of (r, s) \<Rightarrow> g r s) Q \<Longrightarrow> post (case (case p of (a, b) \<Rightarrow> f a b) of (r, s) \<Rightarrow> g r s) Q"
  by (simp add: case_prod_beta)

lemma reportDevices_post:
  "post (reportDevices (recording_reporter R) (w, []))
     (\<lambda>r t'. \<exists>ds e. running R ds e t' \<and> complete_if (snd (snd r)) ds e)"
proof -
  have start: "running R ds e [Other (InventoryEv ds e)]" for ds e
    by (simp add: running_def report_call_ok_def)
  have init: "seen_all R e [] \<lparr>iv_seen = [], iv_total = 0, iv_free = 0, iv_err = e\<rparr>" for e
    by (simp add: seen_all_def)
  have each: "post (report_each (recording_reporter R) ds \<lparr>iv_seen = [], iv_total = 0, iv_free = 0, iv_err = e\<rparr>
      (w, [Other (InventoryEv ds e)])) (\<lambda>iv t'. running R ds e t' \<and> seen_all R e ds iv)" for ds e w
    using report_each_post [OF start subset_refl init] by simp
  have missing: "post (mark_missing (recording_reporter R) (iv_seen iv) listed (w, t @ [Devices (ListCall r)]))
      (\<lambda>_ t'. running R ds e t' \<and> complete_if None ds e)"
    if "running R ds e t \<and> seen_all R e ds iv" "r = Inr listed" "\<not> iv_err iv \<noteq> None" for ds e iv listed w t r
    by (rule post_weaken [OF mark_missing_post [where ds = ds and e = e and listed = listed]])
       (use that seen_all_complete [of R e ds iv] in \<open>auto simp: running_read(2)\<close>)
  have joined: "complete_if (join_error x y) ds e" for x y ds e
    by (simp add: complete_if_def)
  have fin: "\<exists>ds e. running R ds e t \<and> complete_if x ds e" if "running R ds e t" "complete_if x ds e" for ds e t x
    using that by blast
  show ?thesis
    unfolding reportDevices_def recording_reporter_sel recording_sel
    apply (intro vcg)
    subgoal for ds e w
      unfolding append_Nil
      apply (intro post_bindI [OF each] vcg)
      subgoal by (rule fin [of ds e]) (simp_all add: joined running_read(2))
      subgoal by (rule fin [of ds e]) (auto simp: complete_if_def running_read(2))
      subgoal by (rule post_bindI [OF missing [where ds = ds and e = e]], assumption+) (auto intro!: vcg intro: fin)
      done
    done
qed

lemma report_conditions:
  assumes "conditions_ok (rr_kube R)"
    and "nst_Conditions (n_status x) = SetStatusCondition (rr_kube R) n3 (SetStatusCondition (rr_kube R) n2
      (SetStatusCondition (rr_kube R) n1 (SetStatusCondition (rr_kube R) n0 cs (ready_condition node ep))
        (aggregate_condition gen inventoryErr))
      (source_condition kernelDiscoveryReadyCondition ''Kernel'' gen inventoryErr fst))
      (source_condition spdkDiscoveryReadyCondition ''SPDK'' gen inventoryErr snd)"
  shows "condition_is R x ReadyCondition (has_endpoint ep)"
    and "condition_is R x NVMeInventoryReadyCondition (inventoryErr = None)"
proof -
  let ?K = "rr_kube R"
  have ty: "cond_Type (ready_condition node ep) = ReadyCondition" "cond_Status (ready_condition node ep) = ConditionTrue \<longleftrightarrow> has_endpoint ep"
    "cond_Type (aggregate_condition gen inventoryErr) = NVMeInventoryReadyCondition"
    "cond_Status (aggregate_condition gen inventoryErr) = ConditionTrue \<longleftrightarrow> inventoryErr = None"
    by (auto simp: ready_condition_def aggregate_condition_def has_endpoint_def mk_Condition_def split: sum.split option.split)
  have src: "cond_Type (source_condition t s gen inventoryErr f) = t" for t s and f :: "error option \<times> error option \<Rightarrow> error option"
    by (simp add: source_condition_def mk_Condition_def Let_def split: option.split)
  have ne: "ReadyCondition \<noteq> NVMeInventoryReadyCondition" "ReadyCondition \<noteq> kernelDiscoveryReadyCondition"
    "ReadyCondition \<noteq> spdkDiscoveryReadyCondition" "NVMeInventoryReadyCondition \<noteq> kernelDiscoveryReadyCondition"
    "NVMeInventoryReadyCondition \<noteq> spdkDiscoveryReadyCondition"
    by (simp_all add: ReadyCondition_def NVMeInventoryReadyCondition_def kernelDiscoveryReadyCondition_def spdkDiscoveryReadyCondition_def)
  note other = find_set_condition_other [OF assms(1)]
  obtain c where "FindStatusCondition ?K (SetStatusCondition ?K n0 cs (ready_condition node ep)) ReadyCondition = Some c"
    "cond_Status c = cond_Status (ready_condition node ep)"
    using find_set_condition [OF assms(1), of n0 cs "ready_condition node ep"] unfolding ty same_condition_def by auto
  then show "condition_is R x ReadyCondition (has_endpoint ep)"
    unfolding condition_is_def assms(2) using ty ne src by (simp add: other)
  obtain c' where "FindStatusCondition ?K (SetStatusCondition ?K n1 (SetStatusCondition ?K n0 cs (ready_condition node ep))
      (aggregate_condition gen inventoryErr)) NVMeInventoryReadyCondition = Some c'"
    "cond_Status c' = cond_Status (aggregate_condition gen inventoryErr)"
    using find_set_condition [OF assms(1), of n1 _ "aggregate_condition gen inventoryErr"] unfolding ty same_condition_def by metis
  then show "condition_is R x NVMeInventoryReadyCondition (inventoryErr = None)"
    unfolding condition_is_def assms(2) using ty ne src by (simp add: other)
qed

lemma report_status_post:
  assumes "running R ds e t" and "complete_if inventoryErr ds e" and "Other (EndpointEv ep) \<in> set t" and "conditions_ok (rr_kube R)"
  shows "post (report_status (recording_reporter R) node tot free ep inventoryErr (w, t)) (\<lambda>_ t'. running R ds e t')"
proof -
  have step: "running R ds e ((t @ [Partitions (ListCall r)]) @ [RdmaNodes (StatusPatchCall node x r')])"
    if "x = node\<lparr>n_status := n_status x\<rparr>" "condition_is R x ReadyCondition (has_endpoint ep)"
      "condition_is R x NVMeInventoryReadyCondition (inventoryErr = None)" for x r r'
  proof (rule running_step [OF running_read(3) [OF assms(1)]])
    have "conditions_due R x (t @ [Partitions (ListCall r)])"
      using assms(1-3) that(2,3) unfolding conditions_due_def complete_if_def running_def by auto
    then show "report_call_ok R (t @ [Partitions (ListCall r)]) (RdmaNodes (StatusPatchCall node x r'))"
      using that(1) by (simp add: report_call_ok_def)
  qed
  show ?thesis
    unfolding report_status_def setInventoryConditions_def Let_def recording_reporter_sel recording_sel
    apply (intro vcg post_nestI)
    subgoal using running_read(3) [OF assms(1)] by simp
    subgoal by (rule step) (simp_all add: report_conditions [OF assms(4)])
    done
qed

lemma reportNode_post:
  assumes "running R ds e t" and "complete_if inventoryErr ds e" and "conditions_ok (rr_kube R)"
  shows "post (reportNode (recording_reporter R) tot free inventoryErr (w, t)) (\<lambda>_ t'. running R ds e t')"
proof -
  let ?ep = "\<lambda>ep. Other (EndpointEv ep)" and ?get = "\<lambda>r. RdmaNodes (GetCall ([], rr_NodeName R) r)"
  have read: "running R ds e ((t @ [?ep ep]) @ [?get r])" for ep r
    by (intro running_read assms(1))
  have due: "endpoint_due R (endpoint_spec R ep) ((t @ [?ep (Inr ep)]) @ [?get r])" for ep r
    unfolding endpoint_due_def by auto
  have create: "running R ds e (((t @ [?ep (Inr ep)]) @ [?get r]) @ [RdmaNodes (CreateCall
      \<lparr>n_meta = new_meta [] (rr_NodeName R), n_spec = endpoint_spec R ep, n_status = zero_node_status\<rparr> r')])" for ep r r'
    by (rule running_step [OF read]) (simp add: report_call_ok_def due [simplified])
  have patch: "running R ds e (((t @ [?ep (Inr ep)]) @ [?get r]) @ [RdmaNodes (PatchCall b (b\<lparr>n_spec := endpoint_spec R ep\<rparr>) r')])" for ep r r' b
    by (rule running_step [OF read]) (simp add: report_call_ok_def due [simplified])
  show ?thesis
    unfolding reportNode_def Let_def recording_reporter_sel recording_sel
    by (intro vcg report_status_post [OF _ assms(2) _ assms(3)]) (use read create patch in simp_all)
qed

section \<open>Properties\<close>

text \<open>C39: the reporter writes only what its discoveries showed. A device object is created or refreshed only for a discovered device
  with valid metadata, under its own name; a device is made unavailable only when a complete inventory of its own
  node does not have it; the claim and the active backend of a device are never touched. The node is called ready
  exactly when an endpoint was found, and its inventory ready only when it is complete. Nothing else is written.\<close>

theorem report_calls:
  assumes "conditions_ok (rr_kube R)"
  shows "post (report (recording_reporter R) (w, [])) (\<lambda>_ t. justified (report_call_ok R) t)"
proof -
  have node: "post (reportNode (recording_reporter R) tot free inventoryErr (w, t)) (\<lambda>_ t'. justified (report_call_ok R) t')"
    if "running R ds e t" "complete_if inventoryErr ds e" for ds e tot free inventoryErr w t
    by (rule post_weaken [OF reportNode_post [OF that assms]]) (simp add: running_def)
  have "post (case p of (r, s) \<Rightarrow> reportNode (recording_reporter R) (fst r) (fst (snd r)) (snd (snd r)) s) (\<lambda>_ t. justified (report_call_ok R) t)"
    if "post p (\<lambda>r t'. \<exists>ds e. running R ds e t' \<and> complete_if (snd (snd r)) ds e)" for p
    by (rule post_bindI [OF that]) (auto intro: node)
  from this [OF reportDevices_post [of R w]] show ?thesis
    by (simp add: report_def case_prod_beta)
qed

definition sample_reporter :: "mem Reporter" where
  "sample_reporter = \<lparr>rr_kube = mem_kube, rr_NodeName = ''node1'',
     rr_discoverDevices = Some (\<lambda>w. (([\<lparr>hw_Name = ''nvme0'', hw_PCIAddress = ''0000:01:00.0'', hw_SerialNumber = ''SN1'',
       hw_Model = ''model'', hw_TotalBytes = 1073741824, hw_NUMANode = 0\<rparr>], None), w)),
     rr_discoverRDMA = Some (\<lambda>w. (Inr \<lparr>ep_Interface = ''eth0'', ep_IP = ''192.0.2.10'', ep_Transport = RDMATransportRoCEv2,
       ep_LinkSpeed = ''100''\<rparr>, w)), rr_host = refusing_host\<rparr>"

theorem report_calls_witness:
  "conditions_ok (rr_kube sample_reporter) \<and>
   post (report (recording_reporter sample_reporter) (sample_mem, [])) (\<lambda>_ t. justified (report_call_ok sample_reporter) t)"
proof
  show ok: "conditions_ok (rr_kube sample_reporter)" by (simp add: sample_reporter_def mem_kube_def)
  show "post (report (recording_reporter sample_reporter) (sample_mem, [])) (\<lambda>_ t. justified (report_call_ok sample_reporter) t)"
    by (rule report_calls [OF ok])
qed

end
