(* ===== verification/Spec2Isabelle.thy ===== *)
theory Spec2Isabelle
  imports Capacity Storage_Options Volume_Identity Placement_Auth Rdma_Health
    Device_Controller Claim_Controller Partition_Controller Rdma_Controller Csi_Driver Vol_Lvol
    Backend_Spdk Backend_Kernel Agent_Progress Agent_Reporter
begin

text \<open>
  DISTORT is a Kubernetes operator that serves local NVMe devices over RDMA. This library models its
  programs and proves what keeps volumes apart, placed where they fit, and reachable only by the node they
  are attached to.

  \<^bold>\<open>The program and how its parts interact.\<close>
  The management controllers (\<^verbatim>\<open>src/internal/controller\<close>) bind claims to devices, publish the free capacity of a device, place a
  partition on a device and authorize the placement, and withdraw the readiness of silent nodes. The agent
  of a storage node (\<^verbatim>\<open>src/internal/agent\<close>) reports devices and the RDMA endpoint, and turns a placed partition
  into a volume and an NVMe-oF export through a volume manager and a target backend
  (\<^verbatim>\<open>src/internal/agent/plugins\<close>). The CSI driver (\<^verbatim>\<open>src/internal/csi\<close>) creates partitions for volumes, hands attachments
  to nodes, and connects, formats and mounts on the node. They share the custom resources
  (\<^verbatim>\<open>src/api/v1alpha1\<close>) and the small packages for capacity, identities, authorization, options and RDMA health.

  \<^bold>\<open>How code becomes definitions.\<close>
  A Go function is a HOL function of the same name; loops and blocks of a long function are
  definitions of their own, with a name of the model. A method that has effects takes the world and returns
  it, so that servers, kernels and tools are arbitrary: the cluster is the record \<open>kube\<close> of API calls per kind of object (\<open>Kube\<close>),
  the machine the record \<open>host\<close> of the calls to the operating system (\<open>Host\<close>), a plugin the record of its
  methods (\<open>Plugins\<close>). Errors are values that keep format and arguments (\<open>Go_Errors\<close>); \<^verbatim>\<open>int64\<close> is an integer
  with the wrap-around written out (\<open>Go_Prelude\<close>). Log messages, metrics and the texts of errors are left out.

  \<^bold>\<open>Theories.\<close>
  \<^item> \<open>Go_Prelude\<close>, \<open>Go_Strings\<close>, \<open>Go_Paths\<close>, \<open>Go_Encoding\<close>, \<open>Go_Errors\<close>, \<open>Go_Json\<close>, \<open>Go_Json_Decode\<close>: the parts
    of the Go language and library that the program uses, with SHA-256, base64, JSON and path handling written out and
    executable. The locale \<open>codec\<close> is the contract of an encoding.
  \<^item> \<open>Api_Types\<close>, \<open>Kube\<close>, \<open>Sample_Objects\<close>: the custom resources, the API client and the helpers of the API
    machinery as parameters, concrete objects and servers for the witnesses.
  \<^item> \<open>Trace_Logic\<close>: every handler run on a recording client leaves the list of its calls. \<open>justified\<close>
    says that each call is justified by the calls before it, \<open>post\<close> states what a run leaves, the collection
    \<open>vcg\<close> takes handlers apart.
  \<^item> \<open>Capacity\<close> (\<^verbatim>\<open>internal/capacity\<close>), \<open>Storage_Options\<close> (\<^verbatim>\<open>internal/storageoptions\<close>), \<open>Volume_Identity\<close>
    (\<^verbatim>\<open>internal/volumeidentity\<close>, \<^verbatim>\<open>internal/attachment\<close>), \<open>Placement_Auth\<close> (\<^verbatim>\<open>internal/placementauth\<close>), \<open>Rdma_Health\<close>
    (\<^verbatim>\<open>internal/rdmahealth\<close>): rounding is exact and least, handles parse back, a fingerprint fixes a placement up
    to a hash collision. The locale \<open>allocator\<close> is the contract of rounding.
  \<^item> \<open>Device_Controller\<close>, \<open>Claim_Controller\<close>, \<open>Partition_Controller\<close>, \<open>Rdma_Controller\<close>: the four reconcilers of
    \<^verbatim>\<open>internal/controller\<close>. No device is overcommitted; a placement is written only on fresh evidence; a
    claim takes a device only while it lives and gives one up only when it is deleted or the device was replaced; the free capacity published is the capacity less the demand.
  \<^item> \<open>Csi_Volumes\<close>, \<open>Csi_Controller\<close>, \<open>Csi_Mount\<close>, \<open>Csi_Node\<close>, \<open>Csi_Publishing\<close>, \<open>Csi_Driver\<close>: the services of \<^verbatim>\<open>internal/csi\<close>
    and the driver. Volumes are deleted only unattached, an attachment moves only after fencing, only a blank device is
    formatted, the mount table is read as its format is documented, waiting and unmounting end.
  \<^item> \<open>Vol_Partition\<close>, \<open>Spdk_Rpc\<close>, \<open>Vol_Lvol\<close>: the volume managers. Carving keeps the partition table
    free of overlaps, only the volume that is named is deleted.
  \<^item> \<open>Spdk_Process\<close>, \<open>Host_Access\<close>, \<open>Backend_Spdk\<close>, \<open>Backend_Kernel\<close>: the SPDK process and the two target
    backends. The locale \<open>access_control\<close> is the contract of host access, interpreted on both: after every call
    only hosts that were read or the requested one may connect, and after success exactly the requested one.
  \<^item> \<open>Plugins\<close>: the interfaces, the registry (locale \<open>name_registry\<close>) and the registrations; the locale
    \<open>volume_carver\<close> is what the agent relies on, interpreted on both managers.
  \<^item> \<open>Nvme_Discovery\<close>, \<open>Rdma_Discovery\<close>, \<open>Agent_Reporter\<close>: what the agent discovers and reports. Mounted devices are not
    offered, the advertised capacity is exact, an endpoint was seen active and usable, and the reporter writes
    only what was discovered.
  \<^item> \<open>Agent_Partitions\<close>, \<open>Agent_Calls\<close>, \<open>Agent_Progress\<close>: the partition manager, what justifies each of its calls
    (admission of the partition and a fresh check of its owner before every step, the order of taking down, access for
    live attachments only), and that a reconciliation exports a partition.

  \<^bold>\<open>Properties across components.\<close>
  The authorization that the controller writes is the one that the agent accepts; the volumes that the managers report are the
  ones the agent accepts; both backends implement the contract of host access; the address that discovery reports
  is one that the health check accepts; options and sizes are validated by the same functions everywhere.

  \<^bold>\<open>Bounds and fuel.\<close>
  Two loops have no bound in the code: the rounds of \<^verbatim>\<open>ControllerPublishVolume\<close> and the loop of \<^verbatim>\<open>unmount\<close>. They take fuel, their safety
  holds for every amount, and it is proved that enough fuel gives a result once the context ends, and when
  every unmount takes a mount away. The JSON parser recurses over the length of the text, which bounds
  its depth. Waits are recursions over the ticks that the runtime delivers.

  \<^bold>\<open>Assumptions.\<close>
  The API machinery sets and finds conditions and finalizers as documented (\<open>conditions_ok\<close>, \<open>finalizers_ok\<close>, with an
  executable instance). Names, serial numbers and addresses are ASCII, so that case folding is that of ASCII. A
  lock is held by one process. That a reconciliation exports assumes what the cluster and the plugins do at each stage of
  it (\<open>serves\<close>, \<open>accepts_writes\<close>, \<open>plugins_work\<close>), with a server and a machine that keep state as an instance. Elsewhere other clients of the cluster may act between any two calls.

  \<^bold>\<open>Not modelled.\<close>
  The main programs under \<^verbatim>\<open>src/cmd\<close> (flags, clients and registration: wiring without logic), the watches that
  the controllers register except the mappings from objects to requests, the generated deep copies and
  the scheme registration (objects are immutable values here), the gRPC server and the sockets of the driver (a parameter of \<open>Csi_Driver\<close>),
  the texts of log messages, and the utilities of the tests under \<^verbatim>\<open>src/test\<close>.
\<close>

end
